(* ===== verification/Prelude.thy ===== *)
theory Prelude
  imports Main "HOL-Library.Word"
begin

text \<open>
  Shared vocabulary of the development: machine integer types, the failures the three programs
  can end with, the result-and-state monad in which the code that talks to Redis, MQTT and the
  clock is written, the string functions of the Rust standard library that the sources call,
  and the lemma collections used by the component theories.
\<close>

unbundle bit_operations_syntax

section \<open>Lemma collections and types\<close>

named_theorems io_defs \<open>definitions of the monad's primitives\<close>
named_theorems io_ok \<open>what a successful run of a composed action says about its parts\<close>

type_synonym u8 = "8 word"
type_synonym u16 = "16 word"
type_synonym u32 = "32 word"
type_synonym u64 = "64 word"
type_synonym bytes = "8 word list"

text \<open>
  Every way in which an operation of the sources stops early: a panic (an \<open>unwrap\<close> of an error,
  an index out of range, \<open>unreachable!\<close>), or an error value of the library named by the
  constructor, with its message.
\<close>

datatype failure =
    Panic string
  | InvalidData
  | RedisError string
  | MqttError string
  | MultiaddrError string
  | ParseIntError string

section \<open>Results and state\<close>

text \<open>
  A call of an outside service takes the state of the world and returns its answer together with
  the new state. An action may also stop with a failure, which is what \<open>?\<close> and a panic do.
\<close>

type_synonym ('s, 'a) call = "'s \<Rightarrow> 'a \<times> 's"
type_synonym ('s, 'a) io = "'s \<Rightarrow> (failure + 'a) \<times> 's"

definition io_return :: "'a \<Rightarrow> ('s, 'a) io" where
  [io_defs]: "io_return x = (\<lambda>s. (Inr x, s))"

definition io_fail :: "failure \<Rightarrow> ('s, 'a) io" where
  [io_defs]: "io_fail e = (\<lambda>s. (Inl e, s))"

definition io_lift :: "failure + 'a \<Rightarrow> ('s, 'a) io" where
  [io_defs]: "io_lift r = (\<lambda>s. (r, s))"

definition io_bind :: "('s, 'a) io \<Rightarrow> ('a \<Rightarrow> ('s, 'b) io) \<Rightarrow> ('s, 'b) io" where
  [io_defs]: "io_bind m f = (\<lambda>s. case m s of (Inl e, s') \<Rightarrow> (Inl e, s') | (Inr x, s') \<Rightarrow> f x s')"

text \<open>A call whose answer is inspected: \<open>if let Ok(_) = call.await\<close>, \<open>unwrap_or_default\<close>.\<close>

definition io_await :: "('s, 'a) call \<Rightarrow> ('s, 'a) io" where
  [io_defs]: "io_await c = (\<lambda>s. case c s of (x, s') \<Rightarrow> (Inr x, s'))"

text \<open>A call followed by \<open>?\<close>: the error is converted and ends the enclosing function.\<close>

definition io_question :: "('e \<Rightarrow> failure) \<Rightarrow> ('s, 'e + 'a) call \<Rightarrow> ('s, 'a) io" where
  [io_defs]: "io_question conv c =
     (\<lambda>s. case c s of (Inl e, s') \<Rightarrow> (Inl (conv e), s') | (Inr x, s') \<Rightarrow> (Inr x, s'))"

text \<open>Statements one after another, and a \<open>for\<close> loop over a list.\<close>

fun io_seq :: "('s, unit) io list \<Rightarrow> ('s, unit) io" where
  "io_seq [] = io_return ()"
| "io_seq (m # ms) = io_bind m (\<lambda>_. io_seq ms)"

fun io_for :: "'a list \<Rightarrow> ('a \<Rightarrow> ('s, unit) io) \<Rightarrow> ('s, unit) io" where
  "io_for [] f = io_return ()"
| "io_for (x # xs) f = io_bind (f x) (\<lambda>_. io_for xs f)"

text \<open>\<open>Result::unwrap_or\<close>; with the type's default value it is \<open>unwrap_or_default\<close>.\<close>

definition unwrap_or :: "'a \<Rightarrow> 'e + 'a \<Rightarrow> 'a" where
  "unwrap_or d r = (case r of Inl _ \<Rightarrow> d | Inr x \<Rightarrow> x)"

text \<open>
  \<open>Result::unwrap\<close> panics on an error; a \<open>collect\<close> of unwrapped results panics at the first one.
\<close>

definition unwrap :: "'e + 'a \<Rightarrow> failure + 'a" where
  "unwrap r = (case r of Inl _ \<Rightarrow> Inl (Panic ''unwrap on an Err value'') | Inr x \<Rightarrow> Inr x)"

definition res_bind :: "failure + 'a \<Rightarrow> ('a \<Rightarrow> failure + 'b) \<Rightarrow> failure + 'b" where
  "res_bind r f = (case r of Inl e \<Rightarrow> Inl e | Inr x \<Rightarrow> f x)"

fun res_map :: "('a \<Rightarrow> failure + 'b) \<Rightarrow> 'a list \<Rightarrow> failure + 'b list" where
  "res_map f [] = Inr []"
| "res_map f (x # xs) = res_bind (f x) (\<lambda>y. res_bind (res_map f xs) (\<lambda>ys. Inr (y # ys)))"

text \<open>\<open>Iterator::find_map\<close>: the first result.\<close>

fun find_map :: "('a \<Rightarrow> 'b option) \<Rightarrow> 'a list \<Rightarrow> 'b option" where
  "find_map f [] = None"
| "find_map f (x # xs) = (case f x of Some y \<Rightarrow> Some y | None \<Rightarrow> find_map f xs)"

text \<open>
  Two judgements about actions. \<open>io_obeys P m\<close>: whatever the outcome, the states before and
  after are related by \<open>P\<close>. \<open>io_total m\<close>: the action returns from every state.
\<close>

definition io_obeys :: "('s \<Rightarrow> 's \<Rightarrow> bool) \<Rightarrow> ('s, 'a) io \<Rightarrow> bool" where
  "io_obeys P m \<longleftrightarrow> (\<forall>s. P s (snd (m s)))"

definition io_total :: "('s, 'a) io \<Rightarrow> bool" where
  "io_total m \<longleftrightarrow> (\<forall>s. \<exists>x s'. m s = (Inr x, s'))"

section \<open>Strings of the Rust standard library\<close>

text \<open>
  A Rust \<open>String\<close> is its UTF-8 bytes, here a list of \<open>char\<close>. \<open>split_on\<close> is \<open>str::split\<close> with a
  character pattern, \<open>rsplit\<close> the same pieces from the end, \<open>rsplit_once\<close> the split at the last
  occurrence.
\<close>

fun split_on :: "char \<Rightarrow> string \<Rightarrow> string list" where
  "split_on c [] = [[]]"
| "split_on c (x # xs) =
     (if x = c then [] # split_on c xs
      else case split_on c xs of [] \<Rightarrow> [[x]] | p # ps \<Rightarrow> (x # p) # ps)"

definition rsplit :: "char \<Rightarrow> string \<Rightarrow> string list" where
  "rsplit c s = rev (split_on c s)"

definition rsplit_once :: "char \<Rightarrow> string \<Rightarrow> (string \<times> string) option" where
  "rsplit_once c s =
     (if c \<in> set s
      then Some (rev (tl (dropWhile (\<lambda>x. x \<noteq> c) (rev s))), rev (takeWhile (\<lambda>x. x \<noteq> c) (rev s)))
      else None)"

text \<open>\<open>str::to_lowercase\<close> on ASCII text.\<close>

definition to_lowercase :: "string \<Rightarrow> string" where
  "to_lowercase s = map (\<lambda>c. let n = (of_char c :: nat) in if 65 \<le> n \<and> n \<le> 90 then char_of (n + 32) else c) s"

text \<open>The decimal and lower-case hexadecimal \<open>Display\<close> of an unsigned integer.\<close>

definition digit_char :: "nat \<Rightarrow> char" where
  "digit_char d = (if d < 10 then char_of (48 + d) else char_of (87 + d))"

fun show_radix :: "nat \<Rightarrow> nat \<Rightarrow> string" where
  "show_radix b n =
     (if b < 2 \<or> n < b then [digit_char n] else show_radix b (n div b) @ [digit_char (n mod b)])"

declare show_radix.simps [simp del]

definition show_nat :: "nat \<Rightarrow> string" where
  "show_nat = show_radix 10"

definition show_hex :: "nat \<Rightarrow> string" where
  "show_hex = show_radix 16"

text \<open>
  \<open>str::parse::<u64>\<close>: an optional plus sign, then at least one decimal digit, without overflow.
\<close>

fun parse_digits :: "nat \<Rightarrow> string \<Rightarrow> nat option" where
  "parse_digits acc [] = Some acc"
| "parse_digits acc (c # cs) =
     (let n = (of_char c :: nat)
      in if 48 \<le> n \<and> n \<le> 57 then parse_digits (acc * 10 + (n - 48)) cs else None)"

definition parse_u64 :: "string \<Rightarrow> u64 option" where
  "parse_u64 s =
     (let ds = (if s \<noteq> [] \<and> hd s = CHR ''+'' then tl s else s)
      in if ds = [] then None
         else case parse_digits 0 ds of
                None \<Rightarrow> None
              | Some n \<Rightarrow> if n < 2 ^ 64 then Some (of_nat n) else None)"

section \<open>Lemmas on the monad\<close>

lemma io_bind_ok [io_ok]:
  "io_bind m f s = (Inr y, s') \<longleftrightarrow> (\<exists>x t. m s = (Inr x, t) \<and> f x t = (Inr y, s'))"
  by (auto simp: io_bind_def split: prod.splits sum.splits)

lemma io_bind_run: "m s = (Inr x, t) \<Longrightarrow> io_bind m f s = f x t"
  by (simp add: io_bind_def)

lemma io_return_ok [io_ok]: "io_return x s = (Inr y, s') \<longleftrightarrow> y = x \<and> s' = s"
  by (auto simp: io_return_def)

lemma io_fail_ok [io_ok]: "io_fail e s = (Inr y, s') \<longleftrightarrow> False"
  by (simp add: io_fail_def)

lemma io_lift_ok [io_ok]: "io_lift r s = (Inr y, s') \<longleftrightarrow> r = Inr y \<and> s' = s"
  by (auto simp: io_lift_def)

lemma io_await_ok [io_ok]: "io_await c s = (Inr y, s') \<longleftrightarrow> c s = (y, s')"
  by (auto simp: io_await_def split: prod.splits)

lemma io_question_ok [io_ok]: "io_question conv c s = (Inr y, s') \<longleftrightarrow> c s = (Inr y, s')"
  by (auto simp: io_question_def split: prod.splits sum.splits)

lemma io_seq_ok [io_ok]:
  "io_seq [] s = (Inr u, s') \<longleftrightarrow> s' = s"
  "io_seq (m # ms) s = (Inr u, s') \<longleftrightarrow> (\<exists>t. m s = (Inr (), t) \<and> io_seq ms t = (Inr (), s'))"
  by (auto simp: io_bind_ok io_return_ok)

lemma io_for_ok [io_ok]:
  "io_for [] f s = (Inr u, s') \<longleftrightarrow> s' = s"
  "io_for (x # xs) f s = (Inr u, s') \<longleftrightarrow> (\<exists>t. f x s = (Inr (), t) \<and> io_for xs f t = (Inr (), s'))"
  by (auto simp: io_bind_ok io_return_ok)

lemma io_for_append_ok:
  "io_for (xs @ ys) f s = (Inr (), s') \<longleftrightarrow> (\<exists>t. io_for xs f s = (Inr (), t) \<and> io_for ys f t = (Inr (), s'))"
  by (induction xs arbitrary: s) (auto simp: io_bind_ok io_return_ok)

lemma io_for_map: "io_for (map g xs) f = io_for xs (\<lambda>x. f (g x))"
  by (induction xs) auto

lemma io_obeysD: "io_obeys P m \<Longrightarrow> m s = (r, s') \<Longrightarrow> P s s'"
  by (metis io_obeys_def snd_conv)

lemma io_obeys_at: "io_obeys P m \<Longrightarrow> P s (snd (m s))"
  by (simp add: io_obeys_def)

lemma unwrap_or_simps [simp]: "unwrap_or d (Inl e) = d" "unwrap_or d (Inr x) = x"
  by (simp_all add: unwrap_or_def)

lemma unwrap_simps [simp]:
  "unwrap (Inr x) = Inr x" "unwrap (Inl e) = Inl (Panic ''unwrap on an Err value'')"
  by (simp_all add: unwrap_def)

lemma res_bind_simps [simp]: "res_bind (Inl e) f = Inl e" "res_bind (Inr x) f = f x"
  by (simp_all add: res_bind_def)

lemma res_bind_Inr: "res_bind r f = Inr y \<longleftrightarrow> (\<exists>x. r = Inr x \<and> f x = Inr y)"
  by (cases r) auto

lemma res_map_Inr: "res_map f xs = Inr ys \<longleftrightarrow> list_all2 (\<lambda>x y. f x = Inr y) xs ys"
  by (induction xs arbitrary: ys) (auto simp: res_bind_Inr list_all2_Cons1)

lemma res_map_ok: "(\<And>x. x \<in> set xs \<Longrightarrow> f x = Inr (g x)) \<Longrightarrow> res_map f xs = Inr (map g xs)"
  by (induction xs) auto

lemma res_map_Inl: "(\<exists>e. res_map f xs = Inl e) \<longleftrightarrow> (\<exists>x \<in> set xs. \<exists>e. f x = Inl e)"
proof (induction xs)
  case (Cons x xs)
  then show ?case
    by (cases "f x"; cases "res_map f xs") auto
qed simp

text \<open>
  A preorder on states is respected by a composed action as soon as its parts respect it. The
  component theories use it for frame conditions, for invariants and for the growth of caches.
\<close>

locale io_preorder =
  fixes P :: "'s \<Rightarrow> 's \<Rightarrow> bool"
  assumes refl: "P s s"
    and trans: "P s t \<Longrightarrow> P t u \<Longrightarrow> P s u"
begin

lemma obeys_return: "io_obeys P (io_return x)"
  by (simp add: io_obeys_def io_return_def refl)

lemma obeys_fail: "io_obeys P (io_fail e)"
  by (simp add: io_obeys_def io_fail_def refl)

lemma obeys_lift: "io_obeys P (io_lift r)"
  by (simp add: io_obeys_def io_lift_def refl)

lemma obeys_bind:
  assumes "io_obeys P m" and "\<And>x. io_obeys P (f x)"
  shows "io_obeys P (io_bind m f)"
  unfolding io_obeys_def
proof
  fix s
  obtain r t where m: "m s = (r, t)" by force
  with assms(1) have "P s t" by (metis io_obeys_def snd_conv)
  moreover have "P t (snd (f x t))" for x using assms(2) by (simp add: io_obeys_def)
  ultimately show "P s (snd (io_bind m f s))"
    by (auto simp: io_bind_def m split: sum.splits intro: trans)
qed

lemma obeys_seq: "(\<And>m. m \<in> set ms \<Longrightarrow> io_obeys P m) \<Longrightarrow> io_obeys P (io_seq ms)"
  by (induction ms) (auto intro: obeys_return obeys_bind)

lemma obeys_for: "(\<And>x. x \<in> set xs \<Longrightarrow> io_obeys P (f x)) \<Longrightarrow> io_obeys P (io_for xs f)"
  by (induction xs) (auto intro: obeys_return obeys_bind)

lemma obeys_await: "(\<And>s. P s (snd (c s))) \<Longrightarrow> io_obeys P (io_await c)"
  by (simp add: io_obeys_def io_await_def split_beta)

lemma obeys_question: "(\<And>s. P s (snd (c s))) \<Longrightarrow> io_obeys P (io_question conv c)"
  by (auto simp: io_obeys_def io_question_def split_beta split: sum.splits)

lemmas obeys_intros = obeys_return obeys_fail obeys_lift obeys_bind obeys_seq obeys_for

end

lemma io_total_return: "io_total (io_return x)"
  by (simp add: io_total_def io_return_def)

lemma io_total_bind: "io_total m \<Longrightarrow> (\<And>x. io_total (f x)) \<Longrightarrow> io_total (io_bind m f)"
  unfolding io_total_def by (metis (no_types, lifting) io_bind_ok)

lemma io_total_seq: "(\<And>m. m \<in> set ms \<Longrightarrow> io_total m) \<Longrightarrow> io_total (io_seq ms)"
  by (induction ms) (auto intro: io_total_return io_total_bind)

lemma io_total_for: "(\<And>x. x \<in> set xs \<Longrightarrow> io_total (f x)) \<Longrightarrow> io_total (io_for xs f)"
  by (induction xs) (auto intro: io_total_return io_total_bind)

lemma io_total_await: "io_total (io_await c)"
  by (auto simp: io_total_def io_await_def split: prod.splits)

lemma io_total_question: "(\<And>s. \<exists>x s'. c s = (Inr x, s')) \<Longrightarrow> io_total (io_question conv c)"
  by (simp add: io_total_def io_question_ok)

lemmas io_total_intros = io_total_return io_total_bind io_total_seq io_total_for io_total_await

lemma find_map_None: "find_map f xs = None \<longleftrightarrow> (\<forall>x \<in> set xs. f x = None)"
  by (induction xs) (auto split: option.splits)

lemma find_map_first: "f x = Some y \<Longrightarrow> (\<And>z. z \<in> set xs \<Longrightarrow> f z = None) \<Longrightarrow> find_map f (xs @ x # ys) = Some y"
  by (induction xs) auto

section \<open>Lemmas on strings\<close>

lemma split_on_not_Nil [simp]: "split_on c s \<noteq> []"
  by (induction s) (auto split: list.splits)

lemma split_on_no_sep: "c \<notin> set s \<Longrightarrow> split_on c s = [s]"
  by (induction s) auto

lemma split_on_append_sep: "c \<notin> set s \<Longrightarrow> split_on c (s @ c # t) = s # split_on c t"
  by (induction s) auto

lemma split_on_pieces: "p \<in> set (split_on c s) \<Longrightarrow> c \<notin> set p"
  by (induction s arbitrary: p) (auto split: list.splits if_splits)

lemma length_split_on: "length (split_on c s) = Suc (count_list s c)"
  by (induction s) (auto split: list.splits)

lemma rsplit_once_append: "c \<notin> set t \<Longrightarrow> rsplit_once c (s @ c # t) = Some (s, t)"
proof -
  assume c: "c \<notin> set t"
  then have t: "\<forall>x \<in> set (rev t). x \<noteq> c" by auto
  then have "takeWhile (\<lambda>x. x \<noteq> c) (rev t @ c # rev s) = rev t"
    by (simp add: takeWhile_append)
  moreover from t have "dropWhile (\<lambda>x. x \<noteq> c) (rev t @ c # rev s) = c # rev s"
    by (simp add: dropWhile_append)
  ultimately show ?thesis by (simp add: rsplit_once_def)
qed

lemma rsplit_once_SomeD:
  assumes "rsplit_once c s = Some (a, b)"
  shows "s = a @ c # b" and "c \<notin> set b"
proof -
  from assms have c: "c \<in> set s" and a: "a = rev (tl (dropWhile (\<lambda>x. x \<noteq> c) (rev s)))"
    and b: "b = rev (takeWhile (\<lambda>x. x \<noteq> c) (rev s))"
    by (auto simp: rsplit_once_def split: if_splits)
  from b show "c \<notin> set b" by (auto dest: set_takeWhileD)
  from c have "dropWhile (\<lambda>x. x \<noteq> c) (rev s) \<noteq> []" by auto
  then obtain y ys where y: "dropWhile (\<lambda>x. x \<noteq> c) (rev s) = y # ys"
    by (cases "dropWhile (\<lambda>x. x \<noteq> c) (rev s)") auto
  then have "y = c" using hd_dropWhile [of "\<lambda>x. x \<noteq> c" "rev s"] by force
  with y a b takeWhile_dropWhile_id [of "\<lambda>x. x \<noteq> c" "rev s"]
  have "rev s = rev b @ c # rev a" by simp
  then show "s = a @ c # b"
    by (metis append.assoc append_Cons append_Nil rev.simps(2) rev_append rev_rev_ident)
qed

text \<open>Printing a number and parsing it.\<close>

lemma of_char_digit: "d < 10 \<Longrightarrow> (of_char (digit_char d) :: nat) = 48 + d"
  by (simp add: digit_char_def)

lemma parse_digits_append:
  "parse_digits acc (s @ t) = (case parse_digits acc s of None \<Rightarrow> None | Some n \<Rightarrow> parse_digits n t)"
  by (induction s arbitrary: acc) (auto simp: Let_def)

lemma parse_digits_show: "parse_digits 0 (show_radix 10 n) = Some n"
proof (induction n rule: less_induct)
  case (less n)
  show ?case
  proof (cases "n < 10")
    case True
    then show ?thesis by (simp add: show_radix.simps [of 10 n] of_char_digit Let_def)
  next
    case False
    then have "n div 10 < n" by simp
    with less have "parse_digits 0 (show_radix 10 (n div 10)) = Some (n div 10)" by blast
    with False show ?thesis
      by (simp add: show_radix.simps [of 10 n] parse_digits_append of_char_digit Let_def)
  qed
qed

lemma show_radix_head: "show_radix 10 n \<noteq> [] \<and> hd (show_radix 10 n) \<noteq> CHR ''+''"
proof (induction n rule: less_induct)
  case (less n)
  show ?case
  proof (cases "n < 10")
    case True
    then have "(of_char (digit_char n) :: nat) \<noteq> of_char CHR ''+''" by (simp add: of_char_digit)
    with True show ?thesis by (auto simp: show_radix.simps [of 10 n])
  next
    case False
    then have "n div 10 < n" by simp
    with less False show ?thesis by (auto simp: show_radix.simps [of 10 n])
  qed
qed

lemma parse_u64_show [simp]: "parse_u64 (show_nat (unat w)) = Some w"
proof -
  have "unat w < 2 ^ LENGTH(64)" by (rule unsigned_less)
  then have "unat w < 2 ^ 64" by simp
  then show ?thesis
    using show_radix_head [of "unat w"]
    by (simp add: parse_u64_def show_nat_def parse_digits_show Let_def)
qed

section \<open>Lemmas on words\<close>

lemma word_and_eq_mask: "(f AND m) = (m :: 'a::len word) \<longleftrightarrow> (\<forall>n. bit m n \<longrightarrow> bit f n)"
proof
  assume "f AND m = m"
  then show "\<forall>n. bit m n \<longrightarrow> bit f n" by (metis bit_and_iff)
next
  assume "\<forall>n. bit m n \<longrightarrow> bit f n"
  then show "f AND m = m" by (intro bit_word_eqI) (auto simp: bit_and_iff)
qed

lemma word_or_1_eq: "(f OR 1) = (1 :: u64) \<longleftrightarrow> f \<le> 1"
proof
  assume "f OR 1 = 1"
  moreover have "f AND (f OR 1) = f" by (simp add: bit_eq_iff bit_simps)
  ultimately have "f AND 1 = f" by simp
  then show "f \<le> 1" by (metis word_and_le1)
next
  assume "f \<le> 1"
  then have "f = 0 \<or> f = 1"
    by (auto simp: word_le_nat_alt le_Suc_eq word_unat_eq_iff)
  then show "f OR 1 = 1" by auto
qed

lemma bit_30: "bit (30 :: u64) n \<longleftrightarrow> n \<in> {1, 2, 3, 4}"
proof -
  have "(30 :: u64) = push_bit 1 (mask 4)" by (simp add: mask_eq_exp_minus_1 push_bit_eq_mult)
  then have "bit (30 :: u64) n \<longleftrightarrow> 1 \<le> n \<and> n < 5"
    by (subst \<open>30 = _\<close>, subst bit_push_bit_iff, subst bit_mask_iff) auto
  then show ?thesis by auto
qed

lemma bit_2: "bit (2 :: u64) n \<longleftrightarrow> n = 1"
proof -
  have "(2 :: u64) = 2 ^ 1" by simp
  then show ?thesis by (subst \<open>2 = _\<close>, subst bit_exp_iff) auto
qed

lemma word_and_30: "(f AND 30) = (30 :: u64) \<longleftrightarrow> bit f 1 \<and> bit f 2 \<and> bit f 3 \<and> bit f 4"
  unfolding word_and_eq_mask bit_30 by auto

lemma word_and_2: "(f AND 2) = (2 :: u64) \<longleftrightarrow> bit f 1"
  unfolding word_and_eq_mask bit_2 by auto

end
