(* ===== verification/Discovery_Types.thy ===== *)
theory Discovery_Types
  imports Prelude
begin

text \<open>
  The crate \<open>ckb-discovery-types\<close> (\<open>types/src/lib.rs\<close>): the network enumeration with its string
  conversions and the records that travel over MQTT. The IP addresses of \<open>std::net\<close> that the
  records contain are modelled here too, with the methods the sources call.
\<close>

section \<open>IP addresses of the standard library\<close>

datatype IpAddr = V4 u32 | V6 "128 word"

definition octets4 :: "u32 \<Rightarrow> u8 list" where
  "octets4 a = [ucast (drop_bit 24 a), ucast (drop_bit 16 a), ucast (drop_bit 8 a), ucast a]"

definition segments :: "128 word \<Rightarrow> u16 list" where
  "segments a = map (\<lambda>i. ucast (drop_bit (112 - 16 * i) a)) [0, 1, 2, 3, 4, 5, 6, 7]"

text \<open>\<open>127.0.0.0/8\<close> and \<open>::1\<close>.\<close>

fun is_loopback :: "IpAddr \<Rightarrow> bool" where
  "is_loopback (V4 a) = (drop_bit 24 a = 127)"
| "is_loopback (V6 a) = (a = 1)"

text \<open>\<open>Ipv6Addr::to_ipv4\<close>: an IPv4-compatible or IPv4-mapped address.\<close>

definition to_ipv4 :: "128 word \<Rightarrow> u32 option" where
  "to_ipv4 a = (if drop_bit 32 a = 0 \<or> drop_bit 32 a = 0xffff then Some (ucast a) else None)"

fun join_with :: "string \<Rightarrow> string list \<Rightarrow> string" where
  "join_with sep [] = []"
| "join_with sep [x] = x"
| "join_with sep (x # xs) = x @ sep @ join_with sep xs"

definition show_ipv4 :: "u32 \<Rightarrow> string" where
  "show_ipv4 a = join_with ''.'' (map (\<lambda>b. show_nat (unat b)) (octets4 a))"

text \<open>
  \<open>Display\<close> of an IPv6 address: a mapped address in dotted form, otherwise the segments in
  hexadecimal with the first longest run of at least two zero segments written as \<open>::\<close>.
  The scan keeps the current and the longest run, each as its start and its length.
\<close>

fun zero_span :: "nat \<Rightarrow> u16 list \<Rightarrow> nat \<times> nat \<Rightarrow> nat \<times> nat \<Rightarrow> nat \<times> nat" where
  "zero_span i [] cur longest = longest"
| "zero_span i (x # xs) cur longest =
     (if x = 0
      then (let cur' = (if snd cur = 0 then i else fst cur, Suc (snd cur))
            in zero_span (Suc i) xs cur' (if snd cur' > snd longest then cur' else longest))
      else zero_span (Suc i) xs (0, 0) longest)"

definition show_segments :: "u16 list \<Rightarrow> string" where
  "show_segments xs = join_with '':'' (map (\<lambda>x. show_hex (unat x)) xs)"

definition show_ipv6 :: "128 word \<Rightarrow> string" where
  "show_ipv6 a =
     (if drop_bit 32 a = 0xffff then ''::ffff:'' @ show_ipv4 (ucast a)
      else let segs = segments a; (start, len) = zero_span 0 segs (0, 0) (0, 0)
           in if len > 1
              then show_segments (take start segs) @ ''::'' @ show_segments (drop (start + len) segs)
              else show_segments segs)"

fun show_ip :: "IpAddr \<Rightarrow> string" where
  "show_ip (V4 a) = show_ipv4 a"
| "show_ip (V6 a) = show_ipv6 a"

text \<open>The literal \<open>"127.0.0.1"\<close> that the sources parse as a starting value.\<close>

definition localhost :: IpAddr where
  "localhost = V4 0x7f000001"

section \<open>The network enumeration\<close>

datatype CKBNetworkType = Mirana | Pudge | Dev

definition network_from_string :: "string \<Rightarrow> CKBNetworkType" where
  "network_from_string s =
     (if s \<in> {''mirana'', ''ckb'', ''main'', ''mainnet''} then Mirana
      else if s \<in> {''pudge'', ''ckb_testnet'', ''test'', ''testnet''} then Pudge
      else if s \<in> {''dev'', ''ckb_dev''} then Dev
      else Mirana)"

fun into_legacy_str :: "CKBNetworkType \<Rightarrow> string" where
  "into_legacy_str Mirana = ''ckb''"
| "into_legacy_str Pudge = ''ckb_testnet''"
| "into_legacy_str Dev = ''ckb_dev''"

fun into_str :: "CKBNetworkType \<Rightarrow> string" where
  "into_str Mirana = ''mirana''"
| "into_str Pudge = ''pudge''"
| "into_str Dev = ''dev''"

section \<open>The records\<close>

record EndpointInfo =
  address :: IpAddr
  port :: u16

record NodeMetaInfo =
  peer_id :: string
  addresses :: "EndpointInfo list"
  network :: CKBNetworkType

record ReachableInfo =
  peer :: NodeMetaInfo
  "from" :: NodeMetaInfo

definition reachable_info_new :: "NodeMetaInfo \<Rightarrow> NodeMetaInfo \<Rightarrow> ReachableInfo" where
  "reachable_info_new p f = \<lparr>peer = p, from = f\<rparr>"

record PeerInfo =
  info :: NodeMetaInfo
  version :: string
  full :: bool
  is_ex :: bool

text \<open>
  The JSON encodings of these records are derived by \<open>serde\<close>: one encoder and one decoder per
  type, both of which may fail. \<open>PeerInfo::from_json\<close> is the decoder of peer records.
\<close>

record json_codec =
  endpoint_to_json :: "EndpointInfo \<Rightarrow> string option"
  endpoint_from_json :: "string \<Rightarrow> EndpointInfo option"
  node_to_json :: "NodeMetaInfo \<Rightarrow> string option"
  node_from_json :: "string \<Rightarrow> NodeMetaInfo option"
  reachable_to_json :: "ReachableInfo \<Rightarrow> string option"
  reachable_from_json :: "string \<Rightarrow> ReachableInfo option"
  peer_to_json :: "PeerInfo \<Rightarrow> string option"
  peer_from_json :: "string \<Rightarrow> PeerInfo option"

definition from_json :: "json_codec \<Rightarrow> string \<Rightarrow> PeerInfo option" where
  "from_json J s = peer_from_json J s"

text \<open>\<open>serde_json::to_string(..).unwrap_or_default()\<close>.\<close>

definition json_or_default :: "string option \<Rightarrow> string" where
  "json_or_default r = (case r of Some s \<Rightarrow> s | None \<Rightarrow> [])"

text \<open>What \<open>serde_json\<close> promises of derived types: every value is encoded and decodes to itself.\<close>

definition json_roundtrip :: "json_codec \<Rightarrow> bool" where
  "json_roundtrip J \<longleftrightarrow>
     (\<forall>x. \<exists>s. endpoint_to_json J x = Some s \<and> endpoint_from_json J s = Some x)
     \<and> (\<forall>x. \<exists>s. node_to_json J x = Some s \<and> node_from_json J s = Some x)
     \<and> (\<forall>x. \<exists>s. reachable_to_json J x = Some s \<and> reachable_from_json J s = Some x)
     \<and> (\<forall>x. \<exists>s. peer_to_json J x = Some s \<and> peer_from_json J s = Some x)"

section \<open>Properties\<close>

lemma json_roundtripD:
  assumes "json_roundtrip J"
  shows "endpoint_from_json J (json_or_default (endpoint_to_json J e)) = Some e"
    and "node_from_json J (json_or_default (node_to_json J n)) = Some n"
    and "reachable_from_json J (json_or_default (reachable_to_json J r)) = Some r"
    and "peer_from_json J (json_or_default (peer_to_json J p)) = Some p"
  using assms unfolding json_roundtrip_def json_or_default_def by (metis option.simps(5))+

lemma network_from_into_str [simp]: "network_from_string (into_str n) = n"
  by (cases n) (simp_all add: network_from_string_def)

lemma into_str_inject [simp]: "into_str m = into_str n \<longleftrightarrow> m = n"
  by (metis network_from_into_str)

lemma to_lowercase_into_str [simp]: "to_lowercase (into_str n) = into_str n"
  by (cases n) (simp_all add: to_lowercase_def)

lemma into_str_no_dot [simp]: "CHR ''.'' \<notin> set (into_str n)"
  by (cases n) simp_all

lemma localhost_is_loopback [simp]: "is_loopback localhost"
  by (simp add: localhost_def)

text \<open>
  Network names round-trip: both the current and the legacy name of a network are
  read back as that network, lower-casing a name changes nothing, and only the names of the
  test and development networks are read as anything but the main network.
\<close>

lemma network_names_roundtrip:
  "network_from_string (into_str n) = n \<and> network_from_string (into_legacy_str n) = n
   \<and> to_lowercase (into_str n) = into_str n
   \<and> (network_from_string s \<noteq> Mirana
        \<longleftrightarrow> s \<in> {''pudge'', ''ckb_testnet'', ''test'', ''testnet'', ''dev'', ''ckb_dev''})"
proof -
  have "network_from_string (into_legacy_str n) = n"
    by (cases n) (simp_all add: network_from_string_def)
  then show ?thesis by (simp, auto simp: network_from_string_def)
qed

end
