(* ===== verification/Utf8.thy ===== *)
theory Utf8
  imports Prelude
begin

text \<open>
  \<open>String::from_utf8_lossy\<close> of the standard library, which the dialer applies to bytes a remote
  peer sent: valid sequences are kept, each maximal invalid prefix is replaced by U+FFFD.
\<close>

section \<open>Decoding\<close>

definition bytes_to_string :: "bytes \<Rightarrow> string" where
  "bytes_to_string bs = map (\<lambda>b. char_of (unat b)) bs"

definition string_to_bytes :: "string \<Rightarrow> bytes" where
  "string_to_bytes s = map (\<lambda>c. of_nat (of_char c)) s"

text \<open>The byte at an index, 0 past the end, and the test for a continuation byte.\<close>

definition safe_get :: "bytes \<Rightarrow> nat \<Rightarrow> u8" where
  "safe_get bs i = (if i < length bs then bs ! i else 0)"

definition is_cont :: "u8 \<Rightarrow> bool" where
  "is_cont b \<longleftrightarrow> b AND 192 = 128"

definition utf8_char_width :: "u8 \<Rightarrow> nat" where
  "utf8_char_width b =
     (if b < 128 then 1 else if 0xC2 \<le> b \<and> b \<le> 0xDF then 2
      else if 0xE0 \<le> b \<and> b \<le> 0xEF then 3 else if 0xF0 \<le> b \<and> b \<le> 0xF4 then 4 else 0)"

definition second_ok :: "u8 \<Rightarrow> u8 \<Rightarrow> bool" where
  "second_ok b c \<longleftrightarrow>
     (b = 0xE0 \<and> 0xA0 \<le> c \<and> c \<le> 0xBF) \<or> (0xE1 \<le> b \<and> b \<le> 0xEC \<and> 0x80 \<le> c \<and> c \<le> 0xBF)
     \<or> (b = 0xED \<and> 0x80 \<le> c \<and> c \<le> 0x9F) \<or> (0xEE \<le> b \<and> b \<le> 0xEF \<and> 0x80 \<le> c \<and> c \<le> 0xBF)
     \<or> (b = 0xF0 \<and> 0x90 \<le> c \<and> c \<le> 0xBF) \<or> (0xF1 \<le> b \<and> b \<le> 0xF3 \<and> 0x80 \<le> c \<and> c \<le> 0xBF)
     \<or> (b = 0xF4 \<and> 0x80 \<le> c \<and> c \<le> 0x8F)"

text \<open>How many bytes the next chunk takes, and whether they form a character.\<close>

definition utf8_chunk :: "bytes \<Rightarrow> nat \<times> bool" where
  "utf8_chunk bs =
     (let b = safe_get bs 0; w = utf8_char_width b in
      if w = 1 then (1, True)
      else if w = 2 then (if is_cont (safe_get bs 1) then (2, True) else (1, False))
      else if w = 3 then
        (if \<not> second_ok b (safe_get bs 1) then (1, False)
         else if is_cont (safe_get bs 2) then (3, True) else (2, False))
      else if w = 4 then
        (if \<not> second_ok b (safe_get bs 1) then (1, False)
         else if \<not> is_cont (safe_get bs 2) then (2, False)
         else if is_cont (safe_get bs 3) then (4, True) else (3, False))
      else (1, False))"

definition replacement_character :: bytes where
  "replacement_character = [0xEF, 0xBF, 0xBD]"

lemma utf8_chunk_pos: "0 < fst (utf8_chunk bs)"
  by (simp add: utf8_chunk_def Let_def)

function lossy :: "bytes \<Rightarrow> bytes" where
  "lossy bs =
     (if bs = [] then []
      else (if snd (utf8_chunk bs) then take (fst (utf8_chunk bs)) bs else replacement_character)
           @ lossy (drop (fst (utf8_chunk bs)) bs))"
  by pat_completeness auto
termination
  by (relation "measure length") (auto simp: utf8_chunk_pos)

declare lossy.simps [simp del]

definition from_utf8_lossy :: "bytes \<Rightarrow> string" where
  "from_utf8_lossy bs = bytes_to_string (lossy bs)"

section \<open>ASCII text passes unchanged\<close>

lemma lossy_ascii: "(\<And>b. b \<in> set bs \<Longrightarrow> b < 128) \<Longrightarrow> lossy bs = bs"
proof (induction bs)
  case Nil
  then show ?case by (simp add: lossy.simps)
next
  case (Cons b bs)
  then have "utf8_chunk (b # bs) = (1, True)"
    by (simp add: utf8_chunk_def safe_get_def utf8_char_width_def Let_def)
  with Cons show ?case by (simp add: lossy.simps [of "b # bs"])
qed

lemma from_utf8_lossy_ascii:
  "(\<And>b. b \<in> set bs \<Longrightarrow> b < 128) \<Longrightarrow> from_utf8_lossy bs = bytes_to_string bs"
  by (simp add: from_utf8_lossy_def lossy_ascii)

end
