(* ===== verification/Network.thy ===== *)
theory Network
  imports Discovery_Types Utf8
begin

text \<open>
  \<open>src/network.rs\<close>: the bootnode tables and the conversions between multiaddresses and the
  records of \<open>ckb-discovery-types\<close>. A \<open>Multiaddr\<close> (crate \<open>tentacle\<close>) is seen only through the
  protocols its iterator yields; parsing, the socket address fallback and base 58 are library
  code and are fields of \<open>net_lib\<close>.
\<close>

section \<open>The model\<close>

datatype Protocol =
    Ip4 u32
  | Ip6 "128 word"
  | Dns4 string
  | Dns6 string
  | Tcp u16
  | P2P bytes
  | OtherProtocol string

type_synonym Multiaddr = "Protocol list"

record net_lib =
  parse_multiaddr :: "string \<Rightarrow> string + Multiaddr"
  multiaddr_try_from :: "bytes \<Rightarrow> string + Multiaddr"
  multiaddr_to_vec :: "Multiaddr \<Rightarrow> bytes"
  multiaddr_to_socketaddr :: "Multiaddr \<Rightarrow> (IpAddr \<times> u16) option"
  bs58_encode :: "bytes \<Rightarrow> bytes"

definition bootnode_strings :: "CKBNetworkType \<Rightarrow> string list" where
  "bootnode_strings n = (case n of
     Mirana \<Rightarrow>
       [''/ip4/52.33.75.45/tcp/8124/p2p/QmPHzhEzekyjB14eQsnsVRxmymtYmAyntcfJgVYRiUq4Lb'',
        ''/ip4/47.110.15.57/tcp/8114/p2p/QmXS4Kbc9HEeykHUTJCm2tNmqghbvWyYpUp6BtE5b6VrAU'',
        ''/ip4/13.234.144.148/tcp/8114/p2p/QmbT7QimcrcD5k2znoJiWpxoESxang6z1Gy9wof1rT1LKR'',
        ''/ip4/104.208.105.55/tcp/8114/p2p/QmejugEABNzAofqRhci7HAipLFvoyYKRacd272jNtnQBTE'',
        ''/ip4/34.64.120.143/tcp/8114/p2p/QmejEJEbDcGGMp4D6WtftMMVLkR1ZuBfMgyLFDMJymkDt6'',
        ''/ip4/3.218.170.86/tcp/8114/p2p/QmShw2vtVt49wJagc1zGQXGS6LkQTcHxnEV3xs6y8MAmQN'',
        ''/ip4/35.236.107.161/tcp/8114/p2p/QmSRj57aa9sR2AiTvMyrEea8n1sEM1cDTrfb2VHVJxnGuu'',
        ''/ip4/23.101.191.12/tcp/8114/p2p/QmexvXVDiRt2FBGptgK4gBJusWyyTEEaHeuCAa35EPNkZS'',
        ''/ip4/13.37.172.80/tcp/8114/p2p/QmXJg4iKbQzMpLhX75RyDn89Mv7N2H8vLePBR7kgZf6hYk'',
        ''/ip4/34.118.49.255/tcp/8114/p2p/QmeCzzVmSAU5LNYAeXhdJj8TCq335aJMqUxcvZXERBWdgS'',
        ''/ip4/40.115.75.216/tcp/8114/p2p/QmW3P1WYtuz9hitqctKnRZua2deHXhNePNjvtc9Qjnwp4q'']
   | Pudge \<Rightarrow>
       [''/ip4/47.111.169.36/tcp/8111/p2p/QmNQ4jky6uVqLDrPU7snqxARuNGWNLgSrTnssbRuy3ij2W'',
        ''/ip4/35.176.207.239/tcp/8111/p2p/QmSJTsMsMGBjzv1oBNwQU36VhQRxc2WQpFoRu1ZifYKrjZ'',
        ''/ip4/18.136.60.221/tcp/8111/p2p/QmTt6HeNakL8Fpmevrhdna7J4NzEMf9pLchf1CXtmtSrwb'',
        ''/ip4/47.74.66.72/tcp/8111/p2p/QmPhgweKm2ciYq52LjtEDmKFqHxGcg2WQ8RLCayRRycanD'',
        ''/ip4/47.254.175.152/tcp/8111/p2p/QmXw7RsAR9bghvW4LrjrVBEwTMbdnpTEdWEtZSVQFpUgqU'',
        ''/ip4/47.245.29.58/tcp/8111/p2p/QmYWiwxHasuyou5ztw5uQkHbhm6gs6RB84sbgYxZNGHgaW'',
        ''/ip4/47.254.234.14/tcp/8111/p2p/QmfUJGvgXRTM12rSFScXy9GyD3ssuLVSpvscP5nngbhNbU'',
        ''/ip4/47.89.252.15/tcp/8111/p2p/QmRcUV32qumGrhkTXCWXrMhwGZLKZTmuFzLWacMpSZJ3n9'',
        ''/ip4/39.104.177.87/tcp/8111/p2p/QmQ27jbnww6deXQiv7SmYAUBPA1S3vGcqP9aRsXa4VaXEi'',
        ''/ip4/13.228.149.113/tcp/8111/p2p/QmQoTR39rBkpZVgLApDGDoFnJ2YDBS9hYeiib1Z6aoAdEf'']
   | Dev \<Rightarrow> [''/ip4/127.0.0.1/tcp/8114''])"

definition get_bootnodes :: "net_lib \<Rightarrow> CKBNetworkType \<Rightarrow> failure + Multiaddr list" where
  "get_bootnodes L n = res_map (\<lambda>x. unwrap (parse_multiaddr L x)) (bootnode_strings n)"

text \<open>\<open>find_map\<close> over the protocols, then the socket address, which panics when there is none.\<close>

fun protocol_ip :: "Protocol \<Rightarrow> string option" where
  "protocol_ip (Ip4 a) = Some (show_ipv4 a)"
| "protocol_ip (Ip6 a) = (case to_ipv4 a of Some b \<Rightarrow> Some (show_ipv4 b) | None \<Rightarrow> Some (show_ipv6 a))"
| "protocol_ip (Dns4 d) = Some d"
| "protocol_ip (Dns6 d) = Some d"
| "protocol_ip _ = None"

definition addr_to_ip :: "net_lib \<Rightarrow> Multiaddr \<Rightarrow> failure + string" where
  "addr_to_ip L addr =
     (case find_map protocol_ip addr of
        Some s \<Rightarrow> Inr s
      | None \<Rightarrow> (case multiaddr_to_socketaddr L addr of
                  None \<Rightarrow> Inl (Panic ''called Option::unwrap() on a None value'')
                | Some sa \<Rightarrow> Inr (show_ip (fst sa))))"

text \<open>The two scans; the loop variables are the accumulator.\<close>

fun node_meta_loop :: "net_lib \<Rightarrow> Multiaddr \<Rightarrow> string \<times> u16 \<times> IpAddr \<Rightarrow> string \<times> u16 \<times> IpAddr" where
  "node_meta_loop L [] acc = acc"
| "node_meta_loop L (p # ps) (pid, prt, adr) =
     node_meta_loop L ps
       (case p of
          Ip4 a \<Rightarrow> (pid, prt, V4 a)
        | Ip6 a \<Rightarrow> (pid, prt, V6 a)
        | P2P b \<Rightarrow> (from_utf8_lossy (bs58_encode L b), prt, adr)
        | Tcp t \<Rightarrow> (pid, t, adr)
        | _ \<Rightarrow> (pid, prt, adr))"

definition addr_to_node_meta :: "net_lib \<Rightarrow> Multiaddr \<Rightarrow> CKBNetworkType \<Rightarrow> NodeMetaInfo" where
  "addr_to_node_meta L addr n =
     (let (pid, prt, adr) = node_meta_loop L addr ([], 0, localhost)
      in \<lparr>peer_id = pid, addresses = [\<lparr>address = adr, port = prt\<rparr>], network = n\<rparr>)"

fun endpoint_loop :: "Multiaddr \<Rightarrow> u16 \<times> IpAddr \<Rightarrow> u16 \<times> IpAddr" where
  "endpoint_loop [] acc = acc"
| "endpoint_loop (p # ps) (prt, adr) =
     endpoint_loop ps
       (case p of
          Ip4 a \<Rightarrow> (prt, V4 a)
        | Ip6 a \<Rightarrow> (prt, V6 a)
        | Tcp t \<Rightarrow> (t, adr)
        | _ \<Rightarrow> (prt, adr))"

definition addr_to_endpoint :: "Multiaddr \<Rightarrow> EndpointInfo" where
  "addr_to_endpoint addr =
     (let (prt, adr) = endpoint_loop addr (0, localhost) in \<lparr>address = adr, port = prt\<rparr>)"

definition endpoint_multiaddr_string :: "string \<Rightarrow> EndpointInfo \<Rightarrow> string" where
  "endpoint_multiaddr_string pid x =
     (case address x of
        V4 a \<Rightarrow> ''/ip4/'' @ show_ipv4 a @ ''/tcp/'' @ show_nat (unat (port x)) @ ''/p2p/'' @ pid
      | V6 a \<Rightarrow> ''/ip6/'' @ show_ipv6 a @ ''/tcp/'' @ show_nat (unat (port x)) @ ''/p2p/'' @ pid)"

definition meta_info_to_addr :: "net_lib \<Rightarrow> NodeMetaInfo \<Rightarrow> (string + Multiaddr) list" where
  "meta_info_to_addr L m =
     List.map_filter
       (\<lambda>x. if is_loopback (address x) then None
            else Some (parse_multiaddr L (endpoint_multiaddr_string (peer_id m) x)))
       (addresses m)"

section \<open>What the scans compute\<close>

text \<open>The IP addresses, ports and peer identities of a multiaddress, in order.\<close>

definition ips_of :: "Multiaddr \<Rightarrow> IpAddr list" where
  "ips_of = List.map_filter (\<lambda>p. case p of Ip4 a \<Rightarrow> Some (V4 a) | Ip6 a \<Rightarrow> Some (V6 a) | _ \<Rightarrow> None)"

definition ports_of :: "Multiaddr \<Rightarrow> u16 list" where
  "ports_of = List.map_filter (\<lambda>p. case p of Tcp t \<Rightarrow> Some t | _ \<Rightarrow> None)"

definition ids_of :: "net_lib \<Rightarrow> Multiaddr \<Rightarrow> string list" where
  "ids_of L = List.map_filter (\<lambda>p. case p of P2P b \<Rightarrow> Some (from_utf8_lossy (bs58_encode L b)) | _ \<Rightarrow> None)"

lemma node_meta_loop_eq:
  "node_meta_loop L a (pid, prt, adr) =
     (last (pid # ids_of L a), last (prt # ports_of a), last (adr # ips_of a))"
  by (induction a arbitrary: pid prt adr)
     (auto simp: ids_of_def ports_of_def ips_of_def map_filter_simps split: Protocol.splits)

lemma endpoint_loop_eq:
  "endpoint_loop a (prt, adr) = (last (prt # ports_of a), last (adr # ips_of a))"
  by (induction a arbitrary: prt adr)
     (auto simp: ports_of_def ips_of_def map_filter_simps split: Protocol.splits)

lemma addr_to_endpoint_eq:
  "addr_to_endpoint a = \<lparr>address = last (localhost # ips_of a), port = last (0 # ports_of a)\<rparr>"
  by (simp add: addr_to_endpoint_def endpoint_loop_eq)

lemma addr_to_node_meta_eq:
  "addr_to_node_meta L a n =
     \<lparr>peer_id = last ([] # ids_of L a), addresses = [addr_to_endpoint a], network = n\<rparr>"
  by (simp add: addr_to_node_meta_def node_meta_loop_eq addr_to_endpoint_eq)

text \<open>The multiaddress that the format string of \<open>meta_info_to_addr\<close> denotes.\<close>

definition endpoint_protocols :: "EndpointInfo \<Rightarrow> bytes \<Rightarrow> Multiaddr" where
  "endpoint_protocols x key =
     [case address x of V4 a \<Rightarrow> Ip4 a | V6 a \<Rightarrow> Ip6 a, Tcp (port x), P2P key]"

text \<open>
  The textual form of a multiaddress as its specification has it, each protocol by its name and
  its value; only the protocols that are printed here have one. A parser of that form inverts it.
\<close>

fun protocol_text :: "net_lib \<Rightarrow> Protocol \<Rightarrow> string" where
  "protocol_text L (Ip4 a) = ''/ip4/'' @ show_ipv4 a"
| "protocol_text L (Ip6 a) = ''/ip6/'' @ show_ipv6 a"
| "protocol_text L (Tcp t) = ''/tcp/'' @ show_nat (unat t)"
| "protocol_text L (P2P b) = ''/p2p/'' @ from_utf8_lossy (bs58_encode L b)"
| "protocol_text L _ = []"

definition multiaddr_text :: "net_lib \<Rightarrow> Multiaddr \<Rightarrow> string" where
  "multiaddr_text L a = concat (map (protocol_text L) a)"

definition parses_text :: "net_lib \<Rightarrow> Multiaddr \<Rightarrow> bool" where
  "parses_text L a \<longleftrightarrow> parse_multiaddr L (multiaddr_text L a) = Inr a"

lemma endpoint_multiaddr_text:
  "from_utf8_lossy (bs58_encode L key) = pid \<Longrightarrow>
   endpoint_multiaddr_string pid x = multiaddr_text L (endpoint_protocols x key)"
  by (cases "address x") (simp_all add: endpoint_multiaddr_string_def multiaddr_text_def endpoint_protocols_def)

lemma endpoint_protocols_meta:
  "from_utf8_lossy (bs58_encode L key) = pid \<Longrightarrow>
   addr_to_node_meta L (endpoint_protocols x key) n = \<lparr>peer_id = pid, addresses = [x], network = n\<rparr>"
  by (cases x) (auto simp: addr_to_node_meta_def endpoint_protocols_def split: IpAddr.splits)

lemma map_filter_all_Some: "(\<And>x. x \<in> set xs \<Longrightarrow> f x = Some (g x)) \<Longrightarrow> List.map_filter f xs = map g xs"
  by (induction xs) (auto simp: map_filter_simps)

text \<open>
  Property C38. Both scans of a multiaddress agree: the node record carries exactly the endpoint
  that \<open>addr_to_endpoint\<close> computes, which is the last IP address (localhost when there is none)
  and the last TCP port (0 when there is none), under the last peer identity of the address.
\<close>

theorem addr_to_node_meta_spec:
  "addr_to_node_meta L a n =
     \<lparr>peer_id = last ([] # ids_of L a), addresses = [addr_to_endpoint a], network = n\<rparr>
   \<and> addr_to_endpoint a = \<lparr>address = last (localhost # ips_of a), port = last (0 # ports_of a)\<rparr>"
  by (simp add: addr_to_node_meta_eq addr_to_endpoint_eq)

text \<open>
  Property C23. Dialling addresses round-trip: when the peer identity of a node is the base 58 text of
  a key and the library parses the textual form of multiaddresses for the node's endpoints, then
  scanning the multiaddresses that \<open>meta_info_to_addr\<close> makes gives back the node, one record for
  each endpoint that is not a loopback address and in the same order.
\<close>

theorem meta_info_to_addr_roundtrip:
  assumes "from_utf8_lossy (bs58_encode L key) = peer_id m"
    and "\<forall>x \<in> set (addresses m). parses_text L (endpoint_protocols x key)"
  shows "\<exists>as. meta_info_to_addr L m = map Inr as
            \<and> map (\<lambda>a. addr_to_node_meta L a (network m)) as
              = map (\<lambda>x. \<lparr>peer_id = peer_id m, addresses = [x], network = network m\<rparr>)
                  (filter (\<lambda>x. \<not> is_loopback (address x)) (addresses m))"
proof (intro exI conjI)
  let ?xs = "filter (\<lambda>x. \<not> is_loopback (address x)) (addresses m)"
  let ?as = "map (\<lambda>x. endpoint_protocols x key) ?xs"
  have "parse_multiaddr L (endpoint_multiaddr_string (peer_id m) x) = Inr (endpoint_protocols x key)"
    if "x \<in> set (addresses m)" for x
    using that assms by (simp add: endpoint_multiaddr_text parses_text_def)
  then have "List.map_filter
          (\<lambda>x. if is_loopback (address x) then None
               else Some (parse_multiaddr L (endpoint_multiaddr_string (peer_id m) x))) (addresses m)
        = map Inr ?as"
    by (induction "addresses m") (auto simp: List.map_filter_def)
  then show "meta_info_to_addr L m = map Inr ?as"
    by (simp add: meta_info_to_addr_def)
  show "map (\<lambda>a. addr_to_node_meta L a (network m)) ?as
        = map (\<lambda>x. \<lparr>peer_id = peer_id m, addresses = [x], network = network m\<rparr>) ?xs"
    by (auto simp: endpoint_protocols_meta [OF assms(1)])
qed

definition sample_lib :: net_lib where
  "sample_lib =
     \<lparr>parse_multiaddr = (\<lambda>s. if s = ''/ip4/1.2.3.4/tcp/8114/p2p/Qm'' then Inr [Ip4 0x01020304, Tcp 8114, P2P [81, 109]]
                             else if s = ''/ip4/127.0.0.1/tcp/8114/p2p/Qm'' then Inr [Ip4 0x7f000001, Tcp 8114, P2P [81, 109]]
                             else Inl ''invalid multiaddr''),
      multiaddr_try_from = (\<lambda>b. if b = [4, 1, 2, 3, 4] then Inr [Ip4 0x01020304] else Inl ''invalid multiaddr''),
      multiaddr_to_vec = (\<lambda>a. if a = [Ip4 0x01020304] then [4, 1, 2, 3, 4] else []),
      multiaddr_to_socketaddr = (\<lambda>_. None), bs58_encode = (\<lambda>b. b)\<rparr>"

definition sample_node :: NodeMetaInfo where
  "sample_node = \<lparr>peer_id = ''Qm'',
     addresses = [\<lparr>address = V4 0x7f000001, port = 8114\<rparr>, \<lparr>address = V4 0x01020304, port = 8114\<rparr>],
     network = Pudge\<rparr>"

lemma sample_node_key: "from_utf8_lossy (bs58_encode sample_lib [81, 109]) = ''Qm''"
  unfolding sample_lib_def net_lib.simps
  by (subst from_utf8_lossy_ascii) (auto simp: bytes_to_string_def char_of_def bit_0)

lemma sample_node_parses:
  "\<forall>x \<in> set (addresses sample_node). parses_text sample_lib (endpoint_protocols x [81, 109])"
proof -
  have "show_ipv4 0x01020304 = ''1.2.3.4''" "show_ipv4 0x7f000001 = ''127.0.0.1''" and "show_nat 8114 = ''8114''"
    by (simp_all add: show_ipv4_def octets4_def show_nat_def show_radix.simps digit_char_def char_of_def bit_0)
  then show ?thesis
    by (simp add: parses_text_def multiaddr_text_def sample_node_def endpoint_protocols_def sample_node_key)
       (simp add: sample_lib_def)
qed

theorem meta_info_to_addr_roundtrip_witness:
  "\<exists>as. meta_info_to_addr sample_lib sample_node = map Inr as
      \<and> map (\<lambda>a. addr_to_node_meta sample_lib a Pudge) as
        = [\<lparr>peer_id = ''Qm'', addresses = [\<lparr>address = V4 0x01020304, port = 8114\<rparr>], network = Pudge\<rparr>]"
proof -
  have "from_utf8_lossy (bs58_encode sample_lib [81, 109]) = peer_id sample_node"
    by (simp add: sample_node_key sample_node_def)
  from meta_info_to_addr_roundtrip [OF this sample_node_parses]
  show ?thesis by (simp add: sample_node_def)
qed

text \<open>
  \<open>addr_to_ip\<close> panics exactly when the address has no IP or DNS protocol and the
  library cannot derive a socket address from it; otherwise the first such protocol decides.
\<close>

lemma addr_to_ip_panics_iff:
  "(\<exists>e. addr_to_ip L a = Inl e)
     \<longleftrightarrow> (\<forall>p \<in> set a. protocol_ip p = None) \<and> multiaddr_to_socketaddr L a = None"
proof (cases "find_map protocol_ip a")
  case None
  then show ?thesis
    by (auto simp: addr_to_ip_def find_map_None [symmetric] split: option.splits)
next
  case (Some s)
  then have "\<not> (\<forall>p \<in> set a. protocol_ip p = None)"
    by (metis find_map_None option.distinct(1))
  with Some show ?thesis by (auto simp: addr_to_ip_def)
qed

end
