(* ===== verification/Discovery_Message.thy ===== *)
theory Discovery_Message
  imports Network
begin

text \<open>
  \<open>src/message.rs\<close>: the messages of the discovery protocol. The \<open>packed\<close> types of \<open>ckb-types\<close> are
  records of the fields the builders set; their byte encoding is library code and a field of
  \<open>molecule\<close>, as is the check of a fixed-size integer against its slice.
\<close>

section \<open>The model\<close>

record GetNodes =
  listen_port :: "bytes option"
  get_count :: u32
  get_version :: u32

record Node =
  node_addresses :: "bytes list"

record Nodes =
  announce :: bool
  items :: "Node list"

datatype DiscoveryPayload = PayloadGetNodes GetNodes | PayloadNodes Nodes

record DiscoveryMessage =
  payload :: DiscoveryPayload

record Identify =
  client_version :: bytes
  flag :: u64

text \<open>
  \<open>identify_message_from_slice\<close> yields the raw bytes of the inner \<open>Identify\<close> table.
\<close>

record molecule =
  uint16_from_slice :: "bytes \<Rightarrow> string + bytes"
  discovery_as_bytes :: "DiscoveryMessage \<Rightarrow> bytes"
  discovery_from_slice :: "bytes \<Rightarrow> string + DiscoveryMessage"
  identify_message_from_slice :: "bytes \<Rightarrow> string + bytes"
  identify_from_slice :: "bytes \<Rightarrow> string + Identify"

definition to_le_bytes :: "u16 \<Rightarrow> bytes" where
  "to_le_bytes w = [ucast w, ucast (drop_bit 8 w)]"

definition build_discovery_get_nodes ::
  "molecule \<Rightarrow> u16 option \<Rightarrow> u32 \<Rightarrow> u32 \<Rightarrow> failure + DiscoveryMessage" where
  "build_discovery_get_nodes M listening_port max_nodes self_defined_flag =
     res_bind
       (case listening_port of
          None \<Rightarrow> Inr None
        | Some p \<Rightarrow> res_bind (unwrap (uint16_from_slice M (to_le_bytes p))) (\<lambda>u. Inr (Some u)))
       (\<lambda>prt. Inr \<lparr>payload = PayloadGetNodes
          \<lparr>listen_port = prt, get_count = max_nodes, get_version = self_defined_flag\<rparr>\<rparr>)"

definition build_discovery_nodes :: "net_lib \<Rightarrow> bool \<Rightarrow> Multiaddr list \<Rightarrow> DiscoveryMessage" where
  "build_discovery_nodes L active_push addrs =
     \<lparr>payload = PayloadNodes
        \<lparr>announce = active_push,
         items = map (\<lambda>a. \<lparr>node_addresses = [multiaddr_to_vec L a]\<rparr>) addrs\<rparr>\<rparr>"

section \<open>Properties\<close>

definition from_le_bytes :: "bytes \<Rightarrow> u16" where
  "from_le_bytes bs = (case bs of [a, b] \<Rightarrow> ucast a OR push_bit 8 (ucast b) | _ \<Rightarrow> 0)"

lemma from_to_le_bytes: "from_le_bytes (to_le_bytes w) = w"
  unfolding from_le_bytes_def to_le_bytes_def
  by (rule bit_word_eqI) (auto simp: bit_simps)

text \<open>
  A discovery request carries its arguments: when the library accepts the two bytes of
  the port, the built message asks for the given number of nodes with the given version flag, and
  its port field reads back, in little-endian order, as the port that was passed.
\<close>

lemma build_discovery_get_nodes_carries:
  assumes "\<forall>p. listening_port = Some p \<longrightarrow> uint16_from_slice M (to_le_bytes p) = Inr (to_le_bytes p)"
  shows "\<exists>g. build_discovery_get_nodes M listening_port n v = Inr \<lparr>payload = PayloadGetNodes g\<rparr>
           \<and> get_count g = n \<and> get_version g = v
           \<and> map_option from_le_bytes (listen_port g) = listening_port"
  using assms
  by (cases listening_port) (auto simp: build_discovery_get_nodes_def from_to_le_bytes)

definition sample_molecule :: molecule where
  "sample_molecule =
     \<lparr>uint16_from_slice = (\<lambda>b. if length b = 2 then Inr b else Inl ''length''),
      discovery_as_bytes = (\<lambda>_. []),
      discovery_from_slice = (\<lambda>b. Inl ''header''),
      identify_message_from_slice = (\<lambda>b. Inr b),
      identify_from_slice = (\<lambda>b. case b of [f] \<Rightarrow> Inr \<lparr>client_version = [48], flag = ucast f\<rparr> | _ \<Rightarrow> Inl ''header'')\<rparr>"

lemma build_discovery_get_nodes_carries_sample:
  "\<exists>g. build_discovery_get_nodes sample_molecule (Some 8115) 1000 14 = Inr \<lparr>payload = PayloadGetNodes g\<rparr>
      \<and> get_count g = 1000 \<and> get_version g = 14
      \<and> map_option from_le_bytes (listen_port g) = Some 8115"
  by (rule build_discovery_get_nodes_carries) (simp add: sample_molecule_def to_le_bytes_def)

end
