(* ===== verification/Support_Protocols.thy ===== *)
theory Support_Protocols
  imports Prelude
begin

text \<open>
  \<open>src/support_protocols.rs\<close>: the table of the protocols of a CKB node, and the protocol
  description built from an entry. \<open>MetaBuilder\<close> and \<open>ProtocolMeta\<close> belong to \<open>tentacle\<close>; the
  record holds what the sources set on the builder.
\<close>

section \<open>The model\<close>

datatype SupportProtocols =
    Ping | Discovery | Identify | Feeler | DisconnectMessage | Sync | Relay | RelayV2 | Time | Alert

fun protocol_id :: "SupportProtocols \<Rightarrow> nat" where
  "protocol_id Ping = 0"
| "protocol_id Discovery = 1"
| "protocol_id Identify = 2"
| "protocol_id Feeler = 3"
| "protocol_id DisconnectMessage = 4"
| "protocol_id Sync = 100"
| "protocol_id Relay = 101"
| "protocol_id Time = 102"
| "protocol_id RelayV2 = 103"
| "protocol_id Alert = 110"

fun name :: "SupportProtocols \<Rightarrow> string" where
  "name Ping = ''/ckb/ping''"
| "name Discovery = ''/ckb/discovery''"
| "name Identify = ''/ckb/identify''"
| "name Feeler = ''/ckb/flr''"
| "name DisconnectMessage = ''/ckb/disconnectmsg''"
| "name Sync = ''/ckb/syn''"
| "name Relay = ''/ckb/rel''"
| "name RelayV2 = ''/ckb/relay''"
| "name Time = ''/ckb/tim''"
| "name Alert = ''/ckb/alt''"

fun support_versions :: "SupportProtocols \<Rightarrow> string list" where
  "support_versions Ping = [''3'']"
| "support_versions Discovery = [''3'']"
| "support_versions Identify = [''3'']"
| "support_versions Feeler = [''3'']"
| "support_versions DisconnectMessage = [''3'']"
| "support_versions Sync = [''3'']"
| "support_versions Relay = [''3'']"
| "support_versions Time = [''3'']"
| "support_versions Alert = [''3'']"
| "support_versions RelayV2 = [''3'']"

fun max_frame_length :: "SupportProtocols \<Rightarrow> nat" where
  "max_frame_length Ping = 1024"
| "max_frame_length Discovery = 512 * 1024"
| "max_frame_length Identify = 2 * 1024"
| "max_frame_length Feeler = 1024"
| "max_frame_length DisconnectMessage = 1024"
| "max_frame_length Sync = 2 * 1024 * 1024"
| "max_frame_length Relay = 4 * 1024 * 1024"
| "max_frame_length RelayV2 = 4 * 1024 * 1024"
| "max_frame_length Time = 1024"
| "max_frame_length Alert = 128 * 1024"

record 'h MetaBuilder =
  meta_id :: nat
  meta_versions :: "string list"
  meta_name :: "nat \<Rightarrow> string"
  meta_max_frame :: nat
  meta_before_send :: "(bytes \<Rightarrow> failure + bytes) option"
  meta_before_receive :: "(bytes \<Rightarrow> failure + bytes) option"
  meta_handle :: "'h option"

definition meta_builder_from :: "SupportProtocols \<Rightarrow> 'h MetaBuilder" where
  "meta_builder_from p =
     \<lparr>meta_id = protocol_id p, meta_versions = support_versions p, meta_name = (\<lambda>_. name p),
      meta_max_frame = max_frame_length p, meta_before_send = None, meta_before_receive = None,
      meta_handle = None\<rparr>"

definition build_meta_with_service_handle :: "SupportProtocols \<Rightarrow> 'h \<Rightarrow> 'h MetaBuilder" where
  "build_meta_with_service_handle p h = (meta_builder_from p)\<lparr>meta_handle := Some h\<rparr>"

section \<open>Properties\<close>

lemma protocol_id_inject [simp]: "protocol_id p = protocol_id q \<longleftrightarrow> p = q"
  by (cases p; cases q) simp_all

text \<open>
  The protocol table is unambiguous: distinct protocols have distinct identifiers and
  distinct names, every protocol speaks the same single version, and every frame limit lies
  between 1 KiB and 4 MiB, so a peer can be dispatched on the identifier alone.
\<close>

lemma protocol_table_unambiguous:
  "(protocol_id p = protocol_id q \<longleftrightarrow> p = q) \<and> (name p = name q \<longleftrightarrow> p = q)
   \<and> support_versions p = support_versions q
   \<and> 1024 \<le> max_frame_length p \<and> max_frame_length p \<le> 4 * 1024 * 1024"
proof -
  have "name p = name q \<longleftrightarrow> p = q"
    by (cases p; cases q) simp_all
  moreover have "support_versions r = [''3'']" for r by (cases r) simp_all
  moreover have "1024 \<le> max_frame_length p \<and> max_frame_length p \<le> 4 * 1024 * 1024"
    by (cases p) simp_all
  ultimately show ?thesis by simp
qed

end
