(* ===== verification/Compress.thy ===== *)
theory Compress
  imports Prelude
begin

text \<open>
  \<open>src/compress.rs\<close>: the framing the dialer applies to the messages of the \<open>Sync\<close> protocol. One
  flag byte precedes the payload, which is compressed with Snappy above a size threshold. The
  Snappy encoder and decoder (crate \<open>snap\<close>) are fields of \<open>snappy\<close>.
\<close>

section \<open>The model\<close>

definition COMPRESSION_SIZE_THRESHOLD :: nat where
  "COMPRESSION_SIZE_THRESHOLD = 1024"

definition UNCOMPRESS_FLAG :: u8 where
  "UNCOMPRESS_FLAG = 0"

definition COMPRESS_FLAG :: u8 where
  "COMPRESS_FLAG = 128"

definition MAX_UNCOMPRESSED_LEN :: nat where
  "MAX_UNCOMPRESSED_LEN = 2 ^ 23"

text \<open>
  \<open>snap_decompress\<close> gets the input and the output buffer and returns its result together with the
  buffer it wrote into.
\<close>

record snappy =
  compress_vec :: "bytes \<Rightarrow> string + bytes"
  decompress_len :: "bytes \<Rightarrow> string + nat"
  snap_decompress :: "bytes \<Rightarrow> bytes \<Rightarrow> (string + nat) \<times> bytes"

record Message =
  inner :: bytes

definition from_raw :: "bytes \<Rightarrow> Message" where
  "from_raw data = \<lparr>inner = UNCOMPRESS_FLAG # data\<rparr>"

definition from_compressed :: "bytes \<Rightarrow> Message" where
  "from_compressed data = \<lparr>inner = data\<rparr>"

text \<open>Both flag accessors index byte 0 and panic on an empty buffer.\<close>

definition set_compress_flag :: "Message \<Rightarrow> failure + Message" where
  "set_compress_flag m =
     (case inner m of
        [] \<Rightarrow> Inl (Panic ''index out of bounds'')
      | b # bs \<Rightarrow> Inr (m\<lparr>inner := COMPRESS_FLAG # bs\<rparr>))"

definition compress_flag :: "Message \<Rightarrow> failure + bool" where
  "compress_flag m =
     (case inner m of
        [] \<Rightarrow> Inl (Panic ''index out of bounds'')
      | b # bs \<Rightarrow> Inr (b AND COMPRESS_FLAG \<noteq> 0))"

definition message_compress :: "snappy \<Rightarrow> Message \<Rightarrow> failure + bytes" where
  "message_compress S m =
     (if length (inner m) > COMPRESSION_SIZE_THRESHOLD
      then let input = drop 1 (inner m); m1 = m\<lparr>inner := take 1 (inner m)\<rparr> in
           (case compress_vec S input of
              Inr res \<Rightarrow>
                res_bind (set_compress_flag (m1\<lparr>inner := inner m1 @ res\<rparr>)) (\<lambda>m2. Inr (inner m2))
            | Inl e \<Rightarrow> Inr (inner m1 @ input))
      else Inr (inner m))"

definition message_decompress :: "snappy \<Rightarrow> Message \<Rightarrow> failure + bytes" where
  "message_decompress S m =
     (if inner m = [] then Inl InvalidData
      else res_bind (compress_flag m) (\<lambda>flag.
        if flag then
          (case decompress_len S (drop 1 (inner m)) of
             Inr len \<Rightarrow>
               if len > MAX_UNCOMPRESSED_LEN then Inl InvalidData
               else (case snap_decompress S (drop 1 (inner m)) (replicate len 0) of
                       (Inr _, buf) \<Rightarrow> Inr buf
                     | (Inl e, buf) \<Rightarrow> Inl InvalidData)
           | Inl e \<Rightarrow> Inl InvalidData)
        else Inr (drop 1 (inner m))))"

definition compress :: "snappy \<Rightarrow> bytes \<Rightarrow> failure + bytes" where
  "compress S src = message_compress S (from_raw src)"

definition decompress :: "snappy \<Rightarrow> bytes \<Rightarrow> failure + bytes" where
  "decompress S src = message_decompress S (from_compressed src)"

section \<open>What is relied on from Snappy\<close>

text \<open>
  Compressed data carries its length and decodes to what was compressed (format description of
  Snappy), and a decoder writes within the slice it is given, which keeps its length.
\<close>

definition snappy_roundtrip :: "snappy \<Rightarrow> bool" where
  "snappy_roundtrip S \<longleftrightarrow>
     (\<forall>d c. compress_vec S d = Inr c \<longrightarrow>
        decompress_len S c = Inr (length d)
        \<and> (\<forall>buf. length buf = length d \<longrightarrow> snap_decompress S c buf = (Inr (length d), d)))"

definition keeps_slice_length :: "snappy \<Rightarrow> bool" where
  "keeps_slice_length S \<longleftrightarrow> (\<forall>c buf. length (snd (snap_decompress S c buf)) = length buf)"

section \<open>Framing lemmas\<close>

lemmas flag_defs = UNCOMPRESS_FLAG_def COMPRESS_FLAG_def set_compress_flag_def compress_flag_def

lemma compress_cases:
  "compress S d =
     Inr (if length d < 1024 then 0 # d
          else case compress_vec S d of Inr c \<Rightarrow> 128 # c | Inl e \<Rightarrow> 0 # d)"
  by (auto simp: compress_def message_compress_def from_raw_def flag_defs
        COMPRESSION_SIZE_THRESHOLD_def Let_def split: sum.splits)

lemma decompress_Nil: "decompress S [] = Inl InvalidData"
  by (simp add: decompress_def message_decompress_def from_compressed_def)

lemma decompress_Cons:
  "decompress S (f # p) =
     (if f AND 128 = 0 then Inr p
      else case decompress_len S p of
             Inl e \<Rightarrow> Inl InvalidData
           | Inr len \<Rightarrow>
               if len > 2 ^ 23 then Inl InvalidData
               else case snap_decompress S p (replicate len 0) of
                      (Inr _, buf) \<Rightarrow> Inr buf | (Inl e, buf) \<Rightarrow> Inl InvalidData)"
  by (auto simp: decompress_def message_decompress_def from_compressed_def flag_defs
        MAX_UNCOMPRESSED_LEN_def split: sum.splits)

section \<open>Properties\<close>

text \<open>
  Property C5. Compression is transparent: for every payload of at most 8 MiB, compressing yields
  a frame and decompressing that frame yields the payload, whether or not the threshold was
  passed and whether or not the encoder failed.
\<close>

theorem compress_roundtrip:
  assumes "snappy_roundtrip S" and "length d \<le> MAX_UNCOMPRESSED_LEN"
  shows "\<exists>b. compress S d = Inr b \<and> decompress S b = Inr d"
proof (cases "compress_vec S d")
  case (Inl e)
  then show ?thesis by (simp add: compress_cases decompress_Cons)
next
  case (Inr c)
  with assms(1) have "decompress_len S c = Inr (length d)"
    and "snap_decompress S c (replicate (length d) 0) = (Inr (length d), d)"
    by (auto simp: snappy_roundtrip_def)
  with Inr assms(2) show ?thesis
    by (simp add: compress_cases decompress_Cons MAX_UNCOMPRESSED_LEN_def)
qed

definition stored_snappy :: snappy where
  "stored_snappy =
     \<lparr>compress_vec = (\<lambda>d. Inr d), decompress_len = (\<lambda>c. Inr (length c)),
      snap_decompress = (\<lambda>c buf. (Inr (length c), take (length buf) c @ drop (length c) buf))\<rparr>"

lemma stored_snappy_roundtrip: "snappy_roundtrip stored_snappy"
  by (simp add: snappy_roundtrip_def stored_snappy_def)

lemma stored_snappy_slice: "keeps_slice_length stored_snappy"
  by (auto simp: keeps_slice_length_def stored_snappy_def)

theorem compress_roundtrip_witness:
  "\<exists>b. compress stored_snappy (replicate 2000 7) = Inr b
     \<and> decompress stored_snappy b = Inr (replicate 2000 7)"
  using compress_roundtrip [OF stored_snappy_roundtrip, of "replicate 2000 7"]
  by (simp add: MAX_UNCOMPRESSED_LEN_def)

text \<open>
  The frame is exact: payloads below 1024 bytes travel behind a zero flag byte, longer
  ones are replaced by their compressed form behind the flag 0x80, and if the encoder fails the
  payload is restored behind the zero flag. Compression never panics.
\<close>

lemma compress_frame:
  "compress S d =
     Inr (if length d < COMPRESSION_SIZE_THRESHOLD then UNCOMPRESS_FLAG # d
          else case compress_vec S d of Inr c \<Rightarrow> COMPRESS_FLAG # c | Inl e \<Rightarrow> UNCOMPRESS_FLAG # d)"
  by (simp add: compress_cases flag_defs COMPRESSION_SIZE_THRESHOLD_def split: sum.splits)

text \<open>
  Property C12. Decompression of untrusted bytes is safe: it never panics, its only error is
  \<open>InvalidData\<close>, and what it returns is bounded by the larger of 8 MiB and the frame itself, so
  a frame that announces more cannot make the receiver accept it.
\<close>

theorem decompress_safe:
  assumes "keeps_slice_length S"
  shows "case decompress S b of
           Inl e \<Rightarrow> e = InvalidData
         | Inr d \<Rightarrow> length d \<le> max MAX_UNCOMPRESSED_LEN (length b)"
proof (cases b)
  case (Cons f p)
  have "length (snd (snap_decompress S p (replicate n 0))) = n" for n
    using assms by (simp add: keeps_slice_length_def)
  then have "snap_decompress S p (replicate n 0) = (r, buf) \<Longrightarrow> length buf = n" for n r buf
    by (metis snd_conv)
  with Cons show ?thesis
    by (auto simp: decompress_Cons MAX_UNCOMPRESSED_LEN_def split: sum.splits prod.splits)
qed (simp add: decompress_Nil)

theorem decompress_safe_witness:
  "keeps_slice_length stored_snappy
   \<and> (case decompress stored_snappy [129, 5, 6] of
        Inl e \<Rightarrow> e = InvalidData
      | Inr d \<Rightarrow> length d \<le> max MAX_UNCOMPRESSED_LEN (length [129, 5, 6 :: u8]))"
  using decompress_safe [OF stored_snappy_slice, of "[129, 5, 6]"] stored_snappy_slice by blast

text \<open>
  Property C39. The size limit is enforced on the announced length: a payload above 8 MiB that was
  compressed successfully is refused by the receiver with \<open>InvalidData\<close>, without being decoded.
\<close>

theorem decompress_refuses_oversized:
  assumes "snappy_roundtrip S" and "compress_vec S d = Inr c" and "length d > MAX_UNCOMPRESSED_LEN"
  shows "compress S d = Inr (COMPRESS_FLAG # c) \<and> decompress S (COMPRESS_FLAG # c) = Inl InvalidData"
  using assms
  by (simp add: snappy_roundtrip_def compress_cases decompress_Cons COMPRESS_FLAG_def
        MAX_UNCOMPRESSED_LEN_def)

theorem decompress_refuses_oversized_witness:
  "compress stored_snappy (replicate 8388609 1) = Inr (COMPRESS_FLAG # replicate 8388609 1)
   \<and> decompress stored_snappy (COMPRESS_FLAG # replicate 8388609 1) = Inl InvalidData"
  by (rule decompress_refuses_oversized [OF stored_snappy_roundtrip])
     (simp_all add: stored_snappy_def MAX_UNCOMPRESSED_LEN_def)

end
