(* ===== verification/Handler.thy ===== *)
theory Handler
  imports Discovery_Message Support_Protocols Compress "HOL-Library.Sublist"
begin

text \<open>
  \<open>src/handler.rs\<close>: the protocol handler of the dialer. A handler reacts to callbacks of the P2P
  service by asking for effects: sending a message, dialling, disconnecting a session, publishing
  over MQTT. The model runs each callback in the result-and-state monad with the list of the
  effects requested so far as its state, so that their order and a panic in between are visible.
  A publication inside \<open>tokio::spawn\<close> is \<open>SpawnPublish\<close>, an awaited one \<open>Publish\<close>.
\<close>

section \<open>State, effects and libraries\<close>

record Handler =
  network_type :: CKBNetworkType

record ProtocolContext =
  proto_id :: nat
  session_id :: nat
  session_address :: Multiaddr

datatype effect =
    SpawnPublish string string
  | Publish string string
  | SendMessage bytes
  | Dial CKBNetworkType Multiaddr
  | Disconnect nat
  | SetServiceNotify nat nat nat

type_synonym 'a act = "(effect list, 'a) io"

record dialer_libs =
  net :: net_lib
  mol :: molecule
  json :: json_codec
  snap :: snappy

definition emit :: "effect \<Rightarrow> unit act" where
  "emit e = (\<lambda>es. (Inr (), es @ [e]))"

definition handler_new :: "CKBNetworkType \<Rightarrow> Handler" where
  "handler_new n = \<lparr>network_type = n\<rparr>"

definition build_protocol_metas :: "dialer_libs \<Rightarrow> Handler \<Rightarrow> Handler MetaBuilder list" where
  "build_protocol_metas D h =
     [(meta_builder_from Identify)\<lparr>meta_handle := Some h\<rparr>,
      (meta_builder_from Discovery)\<lparr>meta_handle := Some h\<rparr>,
      (meta_builder_from Sync)
        \<lparr>meta_before_send := Some (compress (snap D)),
         meta_before_receive := Some (decompress (snap D)), meta_handle := Some h\<rparr>]"

section \<open>Discovery and identify messages\<close>

definition connected_discovery :: "dialer_libs \<Rightarrow> Handler \<Rightarrow> ProtocolContext \<Rightarrow> unit act" where
  "connected_discovery D h ctx =
     io_bind (io_lift (build_discovery_get_nodes (mol D) None 1000 14))
       (\<lambda>msg. emit (SendMessage (discovery_as_bytes (mol D) msg)))"

definition client_is_full :: "u64 \<Rightarrow> bool" where
  "client_is_full client_flag \<longleftrightarrow> (client_flag OR 1) = 1 \<or> (client_flag AND 30) = 30"

definition received_identify :: "dialer_libs \<Rightarrow> Handler \<Rightarrow> ProtocolContext \<Rightarrow> bytes \<Rightarrow> unit act" where
  "received_identify D h ctx data =
     io_bind
       (case identify_message_from_slice (mol D) data of
          Inl _ \<Rightarrow> io_return True
        | Inr raw \<Rightarrow>
            (case identify_from_slice (mol D) raw of
               Inl _ \<Rightarrow> io_return True
             | Inr identify_payload \<Rightarrow>
                 (let client_flag = flag identify_payload;
                      is_full = client_is_full client_flag;
                      peer_info =
                        \<lparr>info = addr_to_node_meta (net D) (session_address ctx) (network_type h),
                         version = from_utf8_lossy (client_version identify_payload),
                         full = is_full, is_ex = False\<rparr>
                  in io_bind
                       (emit (SpawnPublish ''peer/online''
                                (json_or_default (peer_to_json (json D) peer_info))))
                       (\<lambda>_. io_return (\<not> (is_full \<or> client_flag AND 2 = 2))))))
       (\<lambda>need_disconnect.
          if need_disconnect then emit (Disconnect (session_id ctx)) else io_return ())"

text \<open>
  The record published for one announced node: the first address gives the identity, the others
  further endpoints, loopback endpoints are dropped. An address that does not decode panics.
\<close>

definition decode_endpoint :: "net_lib \<Rightarrow> bytes \<Rightarrow> failure + EndpointInfo" where
  "decode_endpoint L a = res_bind (unwrap (multiaddr_try_from L a)) (\<lambda>m. Inr (addr_to_endpoint m))"

fun announced_meta :: "net_lib \<Rightarrow> CKBNetworkType \<Rightarrow> bytes list \<Rightarrow> failure + NodeMetaInfo" where
  "announced_meta L n [] = Inl (Panic ''called Option::unwrap() on a None value'')"
| "announced_meta L n (a # as) =
     res_bind (unwrap (multiaddr_try_from L a)) (\<lambda>m.
     res_bind (res_map (decode_endpoint L) as) (\<lambda>endpoints.
       let meta = addr_to_node_meta L m n in
       Inr (meta\<lparr>addresses :=
              filter (\<lambda>e. \<not> is_loopback (address e)) (addresses meta @ endpoints)\<rparr>)))"

definition announced_node :: "dialer_libs \<Rightarrow> Handler \<Rightarrow> ProtocolContext \<Rightarrow> NodeMetaInfo \<Rightarrow> Node \<Rightarrow> unit act" where
  "announced_node D h ctx sender node =
     (if node_addresses node = [] then io_return ()
      else io_bind (io_lift (announced_meta (net D) (network_type h) (node_addresses node)))
             (\<lambda>meta. io_seq
                [emit (SpawnPublish ''peer/reachable''
                         (json_or_default
                            (reachable_to_json (json D) (reachable_info_new meta sender)))),
                 emit (Disconnect (session_id ctx))]))"

definition received_discovery :: "dialer_libs \<Rightarrow> Handler \<Rightarrow> ProtocolContext \<Rightarrow> bytes \<Rightarrow> unit act" where
  "received_discovery D h ctx data =
     (case discovery_from_slice (mol D) data of
        Inl _ \<Rightarrow> io_return ()
      | Inr message \<Rightarrow>
          (case payload message of
             PayloadNodes discovery_nodes \<Rightarrow>
               io_for (items discovery_nodes)
                 (announced_node D h ctx
                    (addr_to_node_meta (net D) (session_address ctx) (network_type h)))
           | PayloadGetNodes _ \<Rightarrow> io_return ()))"

section \<open>The service and protocol callbacks\<close>

datatype ServiceError =
    DialerError Multiaddr
  | ProtocolSelectError nat
  | OtherServiceError

fun handle_error :: "dialer_libs \<Rightarrow> Handler \<Rightarrow> ServiceError \<Rightarrow> unit act" where
  "handle_error D h (DialerError addr) =
     emit (Publish ''peer/unknown''
             (json_or_default
                (node_to_json (json D) (addr_to_node_meta (net D) addr (network_type h)))))"
| "handle_error D h (ProtocolSelectError sid) = emit (Disconnect sid)"
| "handle_error D h OtherServiceError = io_return ()"

datatype ServiceEvent = SessionOpen nat | SessionClose nat | OtherServiceEvent

text \<open>Events are only logged.\<close>

definition handle_event :: "Handler \<Rightarrow> ServiceEvent \<Rightarrow> unit act" where
  "handle_event h e = io_return ()"

definition dial_bootnodes :: "dialer_libs \<Rightarrow> Handler \<Rightarrow> unit act" where
  "dial_bootnodes D h =
     io_bind (io_lift (get_bootnodes (net D) (network_type h)))
       (\<lambda>bootnodes. io_for bootnodes (\<lambda>node. emit (Dial (network_type h) node)))"

text \<open>\<open>notify_result\<close> is what the service answers to the request for a timer, which is unwrapped.\<close>

definition init :: "dialer_libs \<Rightarrow> Handler \<Rightarrow> nat \<Rightarrow> string + unit \<Rightarrow> unit act" where
  "init D h pid notify_result =
     (if pid = protocol_id Identify
      then io_seq
             [dial_bootnodes D h,
              emit (SetServiceNotify (protocol_id Identify) (12 * 60 * 60) 1),
              io_lift (unwrap notify_result)]
      else io_return ())"

definition connected :: "dialer_libs \<Rightarrow> Handler \<Rightarrow> ProtocolContext \<Rightarrow> unit act" where
  "connected D h ctx =
     (if proto_id ctx = protocol_id Discovery then connected_discovery D h ctx else io_return ())"

definition disconnected :: "Handler \<Rightarrow> ProtocolContext \<Rightarrow> unit act" where
  "disconnected h ctx = io_return ()"

definition received :: "dialer_libs \<Rightarrow> Handler \<Rightarrow> ProtocolContext \<Rightarrow> bytes \<Rightarrow> unit act" where
  "received D h ctx data =
     (if proto_id ctx = protocol_id Discovery then received_discovery D h ctx data
      else if proto_id ctx = protocol_id Identify then received_identify D h ctx data
      else io_return ())"

definition notify :: "dialer_libs \<Rightarrow> Handler \<Rightarrow> u64 \<Rightarrow> unit act" where
  "notify D h token = (if token = 1 then dial_bootnodes D h else io_return ())"

section \<open>Effects of composed callbacks\<close>

text \<open>
  Effects are only ever appended: prefix order is a preorder, so every callback respects it as
  soon as \<open>emit\<close> does.
\<close>

interpretation effects_grow: io_preorder "prefix :: effect list \<Rightarrow> effect list \<Rightarrow> bool"
  by unfold_locales (auto intro: prefix_order.trans)

lemma emit_ok [io_ok]: "emit e es = (Inr u, es') \<longleftrightarrow> es' = es @ [e]"
  by (auto simp: emit_def)

lemma emit_grows: "io_obeys prefix (emit e)"
  by (simp add: io_obeys_def emit_def)

lemma io_for_emit: "io_for xs (\<lambda>x. emit (f x)) es = (Inr (), es @ map f xs)"
  by (induction xs arbitrary: es) (simp_all add: io_return_def io_bind_def emit_def)

lemma dial_bootnodes_grows: "io_obeys prefix (dial_bootnodes D h)"
  by (auto simp: dial_bootnodes_def intro!: effects_grow.obeys_intros emit_grows)

lemma received_identify_grows: "io_obeys prefix (received_identify D h ctx data)"
  by (auto simp: received_identify_def Let_def split: sum.splits
        intro!: effects_grow.obeys_intros emit_grows)

lemma received_discovery_grows: "io_obeys prefix (received_discovery D h ctx data)"
  by (auto simp: received_discovery_def announced_node_def
        split: sum.splits DiscoveryPayload.splits intro!: effects_grow.obeys_intros emit_grows)

lemma dial_bootnodes_run:
  assumes "\<forall>x \<in> set (bootnode_strings (network_type h)). parse_multiaddr (net D) x = Inr (f x)"
  shows "dial_bootnodes D h es =
           (Inr (), es @ map (\<lambda>x. Dial (network_type h) (f x)) (bootnode_strings (network_type h)))"
proof -
  have "get_bootnodes (net D) (network_type h) = Inr (map f (bootnode_strings (network_type h)))"
    unfolding get_bootnodes_def using assms by (intro res_map_ok) simp
  then show ?thesis
    by (simp add: dial_bootnodes_def io_bind_def io_lift_def io_for_emit o_def)
qed


lemma client_is_full_bits:
  "client_is_full f \<longleftrightarrow> f \<le> 1 \<or> (bit f 1 \<and> bit f 2 \<and> bit f 3 \<and> bit f 4)"
  unfolding client_is_full_def word_or_1_eq word_and_30 ..

lemma keep_session_bits: "client_is_full f \<or> f AND 2 = 2 \<longleftrightarrow> f \<le> 1 \<or> bit f 1"
  unfolding client_is_full_bits word_and_2 by blast

lemma announced_meta_fails:
  "(\<exists>e. announced_meta L n as = Inl e)
     \<longleftrightarrow> as = [] \<or> (\<exists>a \<in> set as. \<exists>e. multiaddr_try_from L a = Inl e)"
proof (cases as)
  case (Cons a bs)
  have d: "(\<exists>e. decode_endpoint L b = Inl e) \<longleftrightarrow> (\<exists>e. multiaddr_try_from L b = Inl e)" for b
    by (cases "multiaddr_try_from L b") (simp_all add: decode_endpoint_def)
  show ?thesis
  proof (cases "multiaddr_try_from L a")
    case (Inr m)
    have "(\<exists>e. announced_meta L n as = Inl e) \<longleftrightarrow> (\<exists>e. res_map (decode_endpoint L) bs = Inl e)"
      by (cases "res_map (decode_endpoint L) bs") (auto simp: Cons Inr Let_def)
    with Cons Inr show ?thesis by (simp add: res_map_Inl d)
  qed (simp add: Cons)
qed simp

lemma announced_meta_ok:
  assumes "announced_meta L n as = Inr m"
  shows "network m = n \<and> (\<forall>e \<in> set (addresses m). \<not> is_loopback (address e))"
proof -
  from assms obtain a es where
    "m = (addr_to_node_meta L a n)
       \<lparr>addresses := filter (\<lambda>e. \<not> is_loopback (address e)) (addresses (addr_to_node_meta L a n) @ es)\<rparr>"
    by (cases as) (auto simp: res_bind_Inr Let_def)
  then show ?thesis by (simp add: addr_to_node_meta_eq)
qed

lemma announced_meta_exact:
  assumes "\<forall>a \<in> set as. multiaddr_try_from L a = Inr (dec a)" and "as \<noteq> []"
  shows "announced_meta L n as = Inr
    \<lparr>peer_id = last ([] # ids_of L (dec (hd as))),
     addresses = filter (\<lambda>e. \<not> is_loopback (address e))
       (map (\<lambda>a. \<lparr>address = last (localhost # ips_of (dec a)), port = last (0 # ports_of (dec a))\<rparr>) as),
     network = n\<rparr>"
proof (cases as)
  case (Cons a bs)
  have "res_map (decode_endpoint L) bs = Inr (map (\<lambda>b. addr_to_endpoint (dec b)) bs)"
    using assms(1) Cons by (intro res_map_ok) (simp add: decode_endpoint_def)
  with assms(1) Cons show ?thesis by (simp add: addr_to_node_meta_eq addr_to_endpoint_eq Let_def)
qed (use assms in simp)

lemma announced_nodes_run:
  assumes "\<forall>node \<in> set ns. \<forall>a \<in> set (node_addresses node). \<exists>m. multiaddr_try_from (net D) a = Inr m"
  shows "io_for ns (announced_node D h ctx sender) es =
           (Inr (), es @ concat (map (\<lambda>node.
              [SpawnPublish ''peer/reachable'' (json_or_default (reachable_to_json (json D)
                 (reachable_info_new (projr (announced_meta (net D) (network_type h) (node_addresses node))) sender))),
               Disconnect (session_id ctx)])
              (filter (\<lambda>node. node_addresses node \<noteq> []) ns)))"
  using assms
proof (induction ns arbitrary: es)
  case Nil
  then show ?case by (simp add: io_return_def)
next
  case (Cons node ns)
  show ?case
  proof (cases "node_addresses node = []")
    case True
    with Cons show ?thesis by (simp add: announced_node_def io_return_def io_bind_def)
  next
    case False
    have "\<nexists>e. announced_meta (net D) (network_type h) (node_addresses node) = Inl e"
      unfolding announced_meta_fails using False Cons.prems by force
    then obtain m where "announced_meta (net D) (network_type h) (node_addresses node) = Inr m"
      by (cases "announced_meta (net D) (network_type h) (node_addresses node)") auto
    with False Cons show ?thesis
      by (simp add: announced_node_def io_bind_def io_lift_def emit_def io_return_def)
  qed
qed

lemma announced_nodes_panic:
  assumes "node \<in> set ns" and "a \<in> set (node_addresses node)" and "multiaddr_try_from (net D) a = Inl e"
  shows "\<exists>e. fst (io_for ns (announced_node D h ctx sender) es) = Inl e"
  using assms
proof (induction ns arbitrary: es)
  case (Cons x ns)
  show ?case
  proof (cases "announced_node D h ctx sender x es")
    case (Pair r es')
    show ?thesis
    proof (cases r)
      case (Inl e)
      with Pair show ?thesis by (simp add: io_bind_def)
    next
      case (Inr u)
      have "x \<noteq> node"
      proof
        assume "x = node"
        then have "\<exists>e. announced_meta (net D) (network_type h) (node_addresses x) = Inl e"
          using Cons.prems by (auto simp: announced_meta_fails)
        then show False using Pair Inr Cons.prems \<open>x = node\<close>
          by (auto simp: announced_node_def io_bind_def io_lift_def split: if_splits)
      qed
      with Cons have "\<exists>e. fst (io_for ns (announced_node D h ctx sender) es') = Inl e" by simp
      with Pair Inr show ?thesis by (simp add: io_bind_def)
    qed
  qed
qed simp

section \<open>Properties\<close>

text \<open>Concrete libraries for the witnesses: one known peer, and one message with a bad address.\<close>

definition sample_json :: json_codec where
  "sample_json =
     \<lparr>endpoint_to_json = (\<lambda>_. None), endpoint_from_json = (\<lambda>_. None),
      node_to_json = (\<lambda>n. Some (peer_id n)), node_from_json = (\<lambda>s. if s = ''Qm'' then Some sample_node else None),
      reachable_to_json = (\<lambda>r. Some (peer_id (peer r))), reachable_from_json = (\<lambda>_. None),
      peer_to_json = (\<lambda>p. Some (version p)), peer_from_json = (\<lambda>_. None)\<rparr>"

definition sample_nodes :: "bytes \<Rightarrow> Nodes" where
  "sample_nodes a =
     \<lparr>announce = False, items = [\<lparr>node_addresses = []\<rparr>, \<lparr>node_addresses = [a]\<rparr>]\<rparr>"

definition sample_dialer :: dialer_libs where
  "sample_dialer =
     \<lparr>net = sample_lib\<lparr>parse_multiaddr := (\<lambda>s. Inr [Ip4 0x01020304])\<rparr>,
      mol = sample_molecule
        \<lparr>discovery_from_slice := (\<lambda>b. Inr \<lparr>payload = PayloadNodes (sample_nodes b)\<rparr>)\<rparr>,
      json = sample_json, snap = stored_snappy\<rparr>"

definition sample_handler :: Handler where
  "sample_handler = \<lparr>network_type = Pudge\<rparr>"

definition sample_context :: ProtocolContext where
  "sample_context = \<lparr>proto_id = 1, session_id = 7, session_address = [Ip4 0x05060708, Tcp 8115]\<rparr>"

lemma sample_selectors [simp]:
  "json sample_dialer = sample_json" "session_id sample_context = 7"
  "network_type sample_handler = Pudge"
  "json_or_default (reachable_to_json sample_json r) = peer_id (peer r)"
  "json_or_default (peer_to_json sample_json p) = version p"
  by (simp_all add: sample_dialer_def sample_context_def sample_handler_def sample_json_def
        json_or_default_def)

lemmas sample_defs = sample_dialer_def sample_handler_def sample_context_def sample_molecule_def
  sample_json_def sample_nodes_def sample_lib_def

text \<open>
  Property C14. A valid identify message always yields exactly one \<open>peer/online\<close> publication, made
  from the session's address and the handler's network; the peer counts as a full node exactly
  when it announces no service besides the lowest flag or all of bits 1 to 4; and the session is
  closed exactly when the peer announces services but not discovery (bit 1). A peer that announces
  nothing (flag 0 or 1) is kept, being counted as full, and so is one with discovery alone
  (flag 2), which is not full: either condition suffices to be kept, whereas the comment in the
  source asks for both.
\<close>

theorem received_identify_decision:
  assumes "identify_message_from_slice (mol D) data = Inr raw"
    and "identify_from_slice (mol D) raw = Inr p"
  shows "received_identify D h ctx data es =
           (Inr (), es @ SpawnPublish ''peer/online'' (json_or_default (peer_to_json (json D)
              \<lparr>info = addr_to_node_meta (net D) (session_address ctx) (network_type h),
               version = from_utf8_lossy (client_version p),
               full = (flag p \<le> 1 \<or> (bit (flag p) 1 \<and> bit (flag p) 2 \<and> bit (flag p) 3 \<and> bit (flag p) 4)),
               is_ex = False\<rparr>))
             # (if flag p \<le> 1 \<or> bit (flag p) 1 then [] else [Disconnect (session_id ctx)]))"
proof -
  have "received_identify D h ctx data es =
          (Inr (), es @ SpawnPublish ''peer/online'' (json_or_default (peer_to_json (json D)
              \<lparr>info = addr_to_node_meta (net D) (session_address ctx) (network_type h),
               version = from_utf8_lossy (client_version p),
               full = client_is_full (flag p), is_ex = False\<rparr>))
             # (if client_is_full (flag p) \<or> flag p AND 2 = 2 then [] else [Disconnect (session_id ctx)]))"
    using assms by (simp add: received_identify_def Let_def io_bind_def emit_def io_return_def)
  then show ?thesis by (simp only: keep_session_bits) (simp only: client_is_full_bits)
qed

theorem received_identify_decision_witness:
  "received_identify sample_dialer sample_handler sample_context [4] [] =
     (Inr (), [SpawnPublish ''peer/online'' (from_utf8_lossy [48]), Disconnect 7])"
proof -
  have i: "identify_message_from_slice (mol sample_dialer) [4] = Inr [4]"
    and p: "identify_from_slice (mol sample_dialer) [4] = Inr \<lparr>client_version = [48], flag = 4\<rparr>"
    by (simp_all add: sample_defs)
  have b: "\<not> bit (4 :: u64) 1" and le: "\<not> (4 :: u64) \<le> 1"
    by (simp_all add: bit_iff_odd word_le_nat_alt)
  show ?thesis
    using received_identify_decision [OF i p, of sample_handler sample_context "[]"] b le
    by simp
qed

text \<open>
  Property C13. When every announced address decodes, the discovery handler publishes one
  \<open>peer/reachable\<close> record for each announced node that has addresses, in order, each followed by
  a request to close the session. The record has the last peer identity of the node's first
  address, the endpoint of every one of its addresses in order save loopback endpoints, and the
  handler's network.
\<close>

theorem received_discovery_publishes:
  assumes "discovery_from_slice (mol D) data = Inr \<lparr>payload = PayloadNodes ns\<rparr>"
    and "\<forall>node \<in> set (items ns). \<forall>a \<in> set (node_addresses node).
           multiaddr_try_from (net D) a = Inr (dec a)"
  shows "received_discovery D h ctx data es =
       (Inr (), es @ concat (map (\<lambda>node.
          [SpawnPublish ''peer/reachable'' (json_or_default (reachable_to_json (json D)
             \<lparr>peer =
                \<lparr>peer_id = last ([] # ids_of (net D) (dec (hd (node_addresses node)))),
                 addresses = filter (\<lambda>e. \<not> is_loopback (address e))
                   (map (\<lambda>a. \<lparr>address = last (localhost # ips_of (dec a)), port = last (0 # ports_of (dec a))\<rparr>)
                      (node_addresses node)),
                 network = network_type h\<rparr>,
              from = addr_to_node_meta (net D) (session_address ctx) (network_type h)\<rparr>)),
           Disconnect (session_id ctx)])
         (filter (\<lambda>node. node_addresses node \<noteq> []) (items ns))))"
proof -
  have ok: "\<forall>node \<in> set (items ns). \<forall>a \<in> set (node_addresses node). \<exists>m. multiaddr_try_from (net D) a = Inr m"
    using assms(2) by blast
  have "received_discovery D h ctx data es =
          io_for (items ns) (announced_node D h ctx
            (addr_to_node_meta (net D) (session_address ctx) (network_type h))) es"
    by (simp add: received_discovery_def assms(1))
  also note announced_nodes_run [OF ok]
  finally show ?thesis
    using assms(2)
    by (auto simp: announced_meta_exact [where dec = dec] reachable_info_new_def intro!: arg_cong [where f = concat])
qed

theorem received_discovery_publishes_witness:
  "received_discovery sample_dialer sample_handler sample_context [4, 1, 2, 3, 4] [] =
     (Inr (), [SpawnPublish ''peer/reachable'' [], Disconnect 7])"
proof -
  have d: "discovery_from_slice (mol sample_dialer) [4, 1, 2, 3, 4]
             = Inr \<lparr>payload = PayloadNodes (sample_nodes [4, 1, 2, 3, 4])\<rparr>"
    by (simp add: sample_defs)
  have a: "\<forall>node \<in> set (items (sample_nodes [4, 1, 2, 3, 4])). \<forall>a \<in> set (node_addresses node).
           multiaddr_try_from (net sample_dialer) a = Inr [Ip4 0x01020304]"
    by (simp add: sample_defs)
  show ?thesis
    using received_discovery_publishes [OF d a, of sample_handler sample_context "[]"]
    by (simp add: sample_nodes_def ids_of_def map_filter_simps)
qed

text \<open>
  Property C10. The discovery handler fails exactly on a message that announces an address which does
  not decode as a multiaddress: the decoding is unwrapped, so any such message of a remote peer
  panics the handler, and nothing else does.
\<close>

theorem received_discovery_panics_iff:
  "(\<exists>e. fst (received_discovery D h ctx data es) = Inl e)
     \<longleftrightarrow> (\<exists>ns. discovery_from_slice (mol D) data = Inr \<lparr>payload = PayloadNodes ns\<rparr>
              \<and> (\<exists>node \<in> set (items ns). \<exists>a \<in> set (node_addresses node).
                   \<exists>e. multiaddr_try_from (net D) a = Inl e))"
proof (cases "\<exists>ns. discovery_from_slice (mol D) data = Inr \<lparr>payload = PayloadNodes ns\<rparr>")
  case False
  then have "received_discovery D h ctx data es = (Inr (), es)"
    by (auto simp: received_discovery_def io_return_def split: sum.splits DiscoveryPayload.splits)
       (metis DiscoveryMessage.surjective old.unit.exhaust)
  with False show ?thesis by simp
next
  case True
  then obtain ns where ns: "discovery_from_slice (mol D) data = Inr \<lparr>payload = PayloadNodes ns\<rparr>" by blast
  let ?sender = "addr_to_node_meta (net D) (session_address ctx) (network_type h)"
  have r: "received_discovery D h ctx data es = io_for (items ns) (announced_node D h ctx ?sender) es"
    by (simp add: received_discovery_def ns)
  show ?thesis
  proof (cases "\<forall>node \<in> set (items ns). \<forall>a \<in> set (node_addresses node).
                  \<exists>m. multiaddr_try_from (net D) a = Inr m")
    case True
    then have "fst (received_discovery D h ctx data es) = Inr ()" by (simp add: r announced_nodes_run)
    with True show ?thesis by (fastforce simp: ns)
  next
    case False
    then obtain node a e where n: "node \<in> set (items ns)" "a \<in> set (node_addresses node)"
      and "multiaddr_try_from (net D) a = Inl e"
      by (metis sumE)
    then show ?thesis
      using announced_nodes_panic [OF n, of D e h ctx ?sender es] by (auto simp: r ns)
  qed
qed

text \<open>
  Property C31. On start-up the identify protocol dials every bootnode of the handler's network
  exactly once, in table order, and then asks for the twelve-hour timer; a timer notification
  with token 1 dials the same list again, and start-up of any other protocol requests nothing.
\<close>

theorem init_dials_bootnodes:
  assumes "\<forall>x \<in> set (bootnode_strings (network_type h)). parse_multiaddr (net D) x = Inr (f x)"
  shows "init D h pid (Inr ()) es =
           (Inr (), if pid = protocol_id Identify
                    then es @ map (\<lambda>x. Dial (network_type h) (f x)) (bootnode_strings (network_type h))
                         @ [SetServiceNotify 2 43200 1]
                    else es)
         \<and> notify D h token es =
           (Inr (), if token = 1
                    then es @ map (\<lambda>x. Dial (network_type h) (f x)) (bootnode_strings (network_type h))
                    else es)"
  using dial_bootnodes_run [OF assms]
  by (simp add: init_def notify_def io_bind_def io_return_def io_lift_def emit_def)

theorem init_dials_bootnodes_witness:
  "init sample_dialer sample_handler 2 (Inr ()) [] =
     (Inr (), replicate 10 (Dial Pudge [Ip4 0x01020304]) @ [SetServiceNotify 2 43200 1])"
proof -
  have p: "\<forall>x \<in> set (bootnode_strings (network_type sample_handler)).
             parse_multiaddr (net sample_dialer) x = Inr [Ip4 0x01020304]"
    by (simp add: sample_dialer_def)
  have "length (bootnode_strings Pudge) = 10" by (simp add: bootnode_strings_def)
  then show ?thesis
    using init_dials_bootnodes [OF p, of 2 "[]" 0] by (simp add: map_replicate_const)
qed

text \<open>
  Property C24. Announcing and receiving fit together: a message built by \<open>build_discovery_nodes\<close>
  whose encoding and addresses the libraries decode makes the receiver publish exactly one
  record per address, with the identity and the non-loopback endpoint of that address.
\<close>

theorem build_then_receive_discovery:
  assumes "discovery_from_slice (mol D) data = Inr (build_discovery_nodes (net D) push addrs)"
    and "\<forall>a \<in> set addrs. multiaddr_try_from (net D) (multiaddr_to_vec (net D) a) = Inr a"
  shows "received_discovery D h ctx data es =
           (Inr (), es @ concat (map (\<lambda>a.
              [SpawnPublish ''peer/reachable'' (json_or_default (reachable_to_json (json D)
                 \<lparr>peer = \<lparr>peer_id = last ([] # ids_of (net D) a),
                          addresses = filter (\<lambda>e. \<not> is_loopback (address e)) [addr_to_endpoint a],
                          network = network_type h\<rparr>,
                  from = addr_to_node_meta (net D) (session_address ctx) (network_type h)\<rparr>)),
               Disconnect (session_id ctx)]) addrs))"
proof -
  let ?ns = "map (\<lambda>a. \<lparr>node_addresses = [multiaddr_to_vec (net D) a]\<rparr>) addrs"
  have ok: "\<forall>node \<in> set ?ns. \<forall>a \<in> set (node_addresses node). \<exists>m. multiaddr_try_from (net D) a = Inr m"
    using assms(2) by auto
  have f: "filter (\<lambda>node. node_addresses node \<noteq> []) ?ns = ?ns" by (induction addrs) auto
  have m: "announced_meta (net D) (network_type h) [multiaddr_to_vec (net D) a] =
             Inr \<lparr>peer_id = last ([] # ids_of (net D) a),
                  addresses = filter (\<lambda>e. \<not> is_loopback (address e)) [addr_to_endpoint a],
                  network = network_type h\<rparr>" if "a \<in> set addrs" for a
    using that assms(2) by (simp add: addr_to_node_meta_eq)
  have "received_discovery D h ctx data es =
          io_for ?ns (announced_node D h ctx
            (addr_to_node_meta (net D) (session_address ctx) (network_type h))) es"
    by (simp add: received_discovery_def assms(1) build_discovery_nodes_def)
  also note announced_nodes_run [OF ok]
  finally show ?thesis
    unfolding f
    by (auto simp only: map_map o_def Node.simps m sum.sel reachable_info_new_def cong: map_cong)
qed

definition sample_announcer :: dialer_libs where
  "sample_announcer =
     \<lparr>net = sample_lib,
      mol = sample_molecule\<lparr>discovery_from_slice :=
              (\<lambda>b. Inr (build_discovery_nodes sample_lib True [[Ip4 0x01020304]]))\<rparr>,
      json = sample_json, snap = stored_snappy\<rparr>"

theorem build_then_receive_discovery_witness:
  "received_discovery sample_announcer sample_handler sample_context [] [] =
     (Inr (), [SpawnPublish ''peer/reachable'' [], Disconnect 7])"
proof -
  have "discovery_from_slice (mol sample_announcer) []
          = Inr (build_discovery_nodes (net sample_announcer) True [[Ip4 0x01020304]])"
    and "\<forall>a \<in> set [[Ip4 0x01020304]].
           multiaddr_try_from (net sample_announcer) (multiaddr_to_vec (net sample_announcer) a) = Inr a"
    by (simp_all add: sample_announcer_def sample_lib_def)
  moreover have "json sample_announcer = sample_json" by (simp add: sample_announcer_def)
  ultimately show ?thesis
    using build_then_receive_discovery [of sample_announcer "[]" True "[[Ip4 0x01020304]]"
        sample_handler sample_context "[]"]
    by (simp add: ids_of_def map_filter_simps)
qed

end
