(* ===== verification/Mqtt_Stream.thy ===== *)
theory Mqtt_Stream
  imports Prelude
begin

text \<open>
  The MQTT receive loop that the dialer (\<open>src/main.rs\<close>) and marci (\<open>marci/src/main.rs\<close>) share:
  every item of the client's stream is either a message, which is handled, or the news that the
  connection was lost, on which the client reconnects until it succeeds. The client's
  \<open>reconnect\<close> is a parameter. A reconnect loop that never succeeds does not return, which is the
  value \<open>None\<close>.
\<close>

section \<open>The model\<close>

record mqtt_message =
  topic :: string
  mqtt_payload :: string

text \<open>The result carries the number of failed attempts, the variable \<open>rconn_attempt\<close>.\<close>

partial_function (option) reconnect_loop ::
  "('s, string + unit) call \<Rightarrow> nat \<Rightarrow> 's \<Rightarrow> (nat \<times> 's) option" where
  "reconnect_loop reconnect rconn_attempt s =
     (case reconnect s of
        (Inr _, s') \<Rightarrow> Some (rconn_attempt, s')
      | (Inl _, s') \<Rightarrow> reconnect_loop reconnect (Suc rconn_attempt) s')"

fun mqtt_loop ::
  "('s, string + unit) call \<Rightarrow> (mqtt_message \<Rightarrow> ('s, unit) io) \<Rightarrow> mqtt_message option list
     \<Rightarrow> 's \<Rightarrow> ((failure + unit) \<times> 's) option" where
  "mqtt_loop reconnect handle [] s = Some (Inr (), s)"
| "mqtt_loop reconnect handle (Some msg # rest) s =
     (case handle msg s of
        (Inl e, s') \<Rightarrow> Some (Inl e, s')
      | (Inr _, s') \<Rightarrow> mqtt_loop reconnect handle rest s')"
| "mqtt_loop reconnect handle (None # rest) s =
     (case reconnect_loop reconnect 0 s of
        None \<Rightarrow> None
      | Some (_, s') \<Rightarrow> mqtt_loop reconnect handle rest s')"

section \<open>Properties\<close>

text \<open>The state after a number of attempts.\<close>

definition after_attempts :: "('s, string + unit) call \<Rightarrow> nat \<Rightarrow> 's \<Rightarrow> 's" where
  "after_attempts reconnect n = ((\<lambda>s. snd (reconnect s)) ^^ n)"

lemma after_attempts_simps [simp]:
  "after_attempts rc 0 s = s"
  "after_attempts rc (Suc n) s = after_attempts rc n (snd (rc s))"
  unfolding after_attempts_def by (simp_all add: funpow_Suc_right del: funpow.simps(2))

lemma reconnect_loop_finds:
  assumes "\<forall>i < k. isl (fst (rc (after_attempts rc i s)))"
    and "\<not> isl (fst (rc (after_attempts rc k s)))"
  shows "reconnect_loop rc n s = Some (n + k, after_attempts rc (Suc k) s)"
  using assms
proof (induction k arbitrary: n s)
  case 0
  then show ?case
    by (auto simp: reconnect_loop.simps [of rc n s] split: prod.splits sum.splits)
next
  case (Suc k)
  obtain e t where t: "rc s = (Inl e, t)"
    using Suc.prems(1) by (cases "rc s"; cases "fst (rc s)") auto
  have "\<forall>i < k. isl (fst (rc (after_attempts rc i t)))"
    using Suc.prems(1) t by force
  moreover have "\<not> isl (fst (rc (after_attempts rc k t)))"
    using Suc.prems(2) t by simp
  ultimately have "reconnect_loop rc (Suc n) t = Some (Suc n + k, after_attempts rc (Suc k) t)"
    by (rule Suc.IH)
  with t show ?case by (simp add: reconnect_loop.simps [of rc n s])
qed

lemma reconnect_loop_returns:
  assumes "reconnect_loop rc n s = Some r"
  shows "\<exists>k. \<not> isl (fst (rc (after_attempts rc k s)))"
proof (rule reconnect_loop.raw_induct
    [where P = "\<lambda>rc n s r. \<exists>k. \<not> isl (fst (rc (after_attempts rc k s)))", OF _ assms])
  fix f :: "('a, string + unit) call \<Rightarrow> nat \<Rightarrow> 'a \<Rightarrow> (nat \<times> 'a) option" and rc n s r
  assume IH: "\<And>rc n s r. f rc n s = Some r \<Longrightarrow> \<exists>k. \<not> isl (fst (rc (after_attempts rc k s)))"
    and eq: "(case rc s of (Inl _, s') \<Rightarrow> f rc (Suc n) s' | (Inr _, s') \<Rightarrow> Some (n, s')) = Some r"
  show "\<exists>k. \<not> isl (fst (rc (after_attempts rc k s)))"
  proof (cases "rc s")
    case (Pair x t)
    show ?thesis
    proof (cases x)
      case (Inr u)
      with Pair have "\<not> isl (fst (rc (after_attempts rc 0 s)))" by simp
      then show ?thesis by blast
    next
      case (Inl e)
      with eq Pair have "f rc (Suc n) t = Some r" by simp
      then obtain k where "\<not> isl (fst (rc (after_attempts rc k t)))" using IH by blast
      with Pair have "\<not> isl (fst (rc (after_attempts rc (Suc k) s)))" by simp
      then show ?thesis by blast
    qed
  qed
qed

text \<open>
  Property C30. The reconnect loop is live exactly when the broker comes back: it returns if and only
  if some attempt succeeds, and then it stops at the first such attempt having counted precisely
  the failures before it.
\<close>

theorem reconnect_loop_live:
  "(\<exists>r. reconnect_loop rc 0 s = Some r) = (\<exists>k. \<not> isl (fst (rc (after_attempts rc k s))))
   \<and> (reconnect_loop rc 0 s =
        (if \<exists>k. \<not> isl (fst (rc (after_attempts rc k s)))
         then let k = (LEAST k. \<not> isl (fst (rc (after_attempts rc k s))))
              in Some (k, after_attempts rc (Suc k) s)
         else None))"
proof (cases "\<exists>k. \<not> isl (fst (rc (after_attempts rc k s)))")
  case True
  let ?k = "LEAST k. \<not> isl (fst (rc (after_attempts rc k s)))"
  from True have "\<not> isl (fst (rc (after_attempts rc ?k s)))" by (rule LeastI_ex)
  moreover have "\<forall>i < ?k. isl (fst (rc (after_attempts rc i s)))"
    using not_less_Least by blast
  ultimately have "reconnect_loop rc 0 s = Some (0 + ?k, after_attempts rc (Suc ?k) s)"
    by (intro reconnect_loop_finds)
  with True show ?thesis by (simp add: Let_def)
next
  case False
  then have "reconnect_loop rc 0 s = None"
    using reconnect_loop_returns by (metis option.exhaust)
  with False show ?thesis by simp
qed

end
