(* ===== verification/Dialer.thy ===== *)
theory Dialer
  imports Handler Mqtt_Stream
begin

text \<open>
  \<open>src/main.rs\<close>: the dialer's reaction to the messages of marci. The two P2P services, one per
  public network, are addressed by the network of the node; there is none for the development
  network. Building the MQTT client and the services is configuration and is not modelled.
\<close>

section \<open>The model\<close>

text \<open>\<open>addrs.into_iter().flatten()\<close>: the addresses that parsed.\<close>

definition flatten_ok :: "('e + 'a) list \<Rightarrow> 'a list" where
  "flatten_ok rs = List.map_filter (\<lambda>r. case r of Inr x \<Rightarrow> Some x | Inl _ \<Rightarrow> None) rs"

definition dial_address :: "NodeMetaInfo \<Rightarrow> Multiaddr \<Rightarrow> unit act" where
  "dial_address node addr =
     (case network node of
        Pudge \<Rightarrow> emit (Dial Pudge addr)
      | Mirana \<Rightarrow> emit (Dial Mirana addr)
      | Dev \<Rightarrow> io_fail (Panic ''internal error: entered unreachable code''))"

definition handle_dialer_message :: "dialer_libs \<Rightarrow> mqtt_message \<Rightarrow> unit act" where
  "handle_dialer_message D msg =
     (if topic msg = ''peer/needs_dial''
      then (case node_from_json (json D) (mqtt_payload msg) of
              None \<Rightarrow> io_return ()
            | Some node \<Rightarrow> io_for (flatten_ok (meta_info_to_addr (net D) node)) (dial_address node))
      else io_return ())"

text \<open>The task: the loop over the stream, after whose end the task panics.\<close>

definition mqtt_task ::
  "dialer_libs \<Rightarrow> (effect list, string + unit) call \<Rightarrow> mqtt_message option list
     \<Rightarrow> effect list \<Rightarrow> ((failure + unit) \<times> effect list) option" where
  "mqtt_task D reconnect stream es =
     (case mqtt_loop reconnect (handle_dialer_message D) stream es of
        None \<Rightarrow> None
      | Some (Inl e, es') \<Rightarrow> Some (Inl e, es')
      | Some (Inr _, es') \<Rightarrow>
          Some (Inl (Panic ''MQTT Context exited, Maybe service not ready...''), es'))"

section \<open>Properties\<close>

lemma dial_addresses_run:
  "network node \<noteq> Dev \<Longrightarrow>
   io_for as (dial_address node) es = (Inr (), es @ map (Dial (network node)) as)"
proof -
  assume "network node \<noteq> Dev"
  then have "dial_address node = (\<lambda>a. emit (Dial (network node) a))"
    by (cases "network node") (auto simp: dial_address_def fun_eq_iff)
  then show ?thesis by (simp add: io_for_emit)
qed

lemma dial_addresses_dev:
  "network node = Dev \<Longrightarrow>
   io_for as (dial_address node) es =
     (if as = [] then Inr () else Inl (Panic ''internal error: entered unreachable code''), es)"
  by (cases as) (simp_all add: dial_address_def io_bind_def io_fail_def io_return_def)

lemma flatten_ok_simps [simp]:
  "flatten_ok [] = []" "flatten_ok (Inr x # rs) = x # flatten_ok rs" "flatten_ok (Inl e # rs) = flatten_ok rs"
  by (simp_all add: flatten_ok_def map_filter_simps)

lemma flatten_ok_map_Inr [simp]: "flatten_ok (map Inr xs) = xs"
  by (induction xs) simp_all

lemma set_flatten_ok: "x \<in> set (flatten_ok rs) \<longleftrightarrow> Inr x \<in> set rs"
  by (induction rs) (auto simp: flatten_ok_def map_filter_simps split: sum.splits)

text \<open>
  Property C25. A dial request for a public network dials, on that network's service only, each
  address of the node that is not a loopback address and parses, in order; a request for the
  development network with such an address reaches \<open>unreachable!\<close> and panics; anything that is not
  a valid request is ignored.
\<close>

theorem handle_dialer_message_spec:
  "handle_dialer_message D msg es =
     (case (if topic msg = ''peer/needs_dial'' then node_from_json (json D) (mqtt_payload msg) else None) of
        None \<Rightarrow> (Inr (), es)
      | Some node \<Rightarrow>
          let as = flatten_ok (map (\<lambda>x. parse_multiaddr (net D) (endpoint_multiaddr_string (peer_id node) x))
                                   (filter (\<lambda>x. \<not> is_loopback (address x)) (addresses node)))
          in if network node = Dev \<and> as \<noteq> []
             then (Inl (Panic ''internal error: entered unreachable code''), es)
             else (Inr (), es @ map (Dial (network node)) as))"
proof -
  have "meta_info_to_addr (net D) node =
          map (\<lambda>x. parse_multiaddr (net D) (endpoint_multiaddr_string (peer_id node) x))
              (filter (\<lambda>x. \<not> is_loopback (address x)) (addresses node))" for node
    unfolding meta_info_to_addr_def by (induction "addresses node") (auto simp: List.map_filter_def)
  then show ?thesis
    by (auto simp: handle_dialer_message_def dial_addresses_run dial_addresses_dev io_return_def
          Let_def split: option.splits)
qed

end
