(* ===== verification/Redis.thy ===== *)
theory Redis
  imports Prelude "HOL-Library.Sublist"
begin

text \<open>
  The interface to Redis, which marci writes and the query service reads. Redis and its client
  crate are not part of the sources: the commands the code issues are the fields of the record
  \<open>redis\<close>, one per command and per type of answer, over an unknown state of the world, and the
  code takes that record as an argument. What is documented of the commands is the locale
  \<open>redis_service\<close>, stated through the contents \<open>view\<close> of the data base; any command may also fail.
  The locale \<open>redis_up\<close> adds that commands on keys of the right type and with acceptable life times
  do answer.
\<close>

section \<open>Commands and contents\<close>

record 's redis =
  r_get_string :: "string \<Rightarrow> ('s, string + string) call"
  r_get_opt_string :: "string \<Rightarrow> ('s, string + string option) call"
  r_get_opt_bool :: "string \<Rightarrow> ('s, string + bool option) call"
  r_get_u64 :: "string \<Rightarrow> ('s, string + u64) call"
  r_set :: "string \<Rightarrow> string \<Rightarrow> ('s, string + unit) call"
  r_set_ex :: "string \<Rightarrow> string \<Rightarrow> u64 \<Rightarrow> ('s, string + unit) call"
  r_expire :: "string \<Rightarrow> int \<Rightarrow> ('s, string + unit) call"
  r_del :: "string \<Rightarrow> ('s, string + unit) call"
  r_sadd :: "string \<Rightarrow> string \<Rightarrow> ('s, string + unit) call"
  r_scard :: "string \<Rightarrow> ('s, string + u64) call"
  r_smembers :: "string \<Rightarrow> ('s, string + string list) call"
  r_keys :: "string \<Rightarrow> ('s, string + string list) call"
  arg_bool :: "bool \<Rightarrow> string"
  arg_u64 :: "u64 \<Rightarrow> string"
  arg_i32 :: "int \<Rightarrow> string"

text \<open>A key holds a string or a set, with the remaining seconds to live if it is volatile.\<close>

datatype rval = RString string | RSet "string set"

type_synonym entry = "rval \<times> nat option"
type_synonym db = "string \<Rightarrow> entry option"

definition db_set :: "string \<Rightarrow> string \<Rightarrow> db \<Rightarrow> db" where
  "db_set k v d = d(k \<mapsto> (RString v, None))"

definition db_set_ex :: "string \<Rightarrow> string \<Rightarrow> nat \<Rightarrow> db \<Rightarrow> db" where
  "db_set_ex k v n d = d(k \<mapsto> (RString v, Some n))"

definition db_expire :: "string \<Rightarrow> nat \<Rightarrow> db \<Rightarrow> db" where
  "db_expire k n d = (case d k of None \<Rightarrow> d | Some (v, _) \<Rightarrow> d(k \<mapsto> (v, Some n)))"

definition db_del :: "string \<Rightarrow> db \<Rightarrow> db" where
  "db_del k d = d(k := None)"

definition db_sadd :: "string \<Rightarrow> string \<Rightarrow> db \<Rightarrow> db" where
  "db_sadd k m d =
     (case d k of
        None \<Rightarrow> d(k \<mapsto> (RSet {m}, None))
      | Some (RSet S, t) \<Rightarrow> d(k \<mapsto> (RSet (insert m S), t))
      | Some (RString _, _) \<Rightarrow> d)"

definition db_members :: "db \<Rightarrow> string \<Rightarrow> string set" where
  "db_members d k = (case d k of Some (RSet S, _) \<Rightarrow> S | _ \<Rightarrow> {})"

definition is_string_key :: "db \<Rightarrow> string \<Rightarrow> bool" where
  "is_string_key d k \<longleftrightarrow> (case d k of Some (RString _, _) \<Rightarrow> True | _ \<Rightarrow> False)"

definition is_set_key :: "db \<Rightarrow> string \<Rightarrow> bool" where
  "is_set_key d k \<longleftrightarrow> (case d k of Some (RSet _, _) \<Rightarrow> True | _ \<Rightarrow> False)"

text \<open>The passing of time: volatile keys lose their remaining seconds and vanish at zero.\<close>

definition elapse :: "nat \<Rightarrow> db \<Rightarrow> db" where
  "elapse n d k =
     (case d k of
        None \<Rightarrow> None
      | Some (v, None) \<Rightarrow> Some (v, None)
      | Some (v, Some t) \<Rightarrow> if t \<le> n then None else Some (v, Some (t - n)))"

text \<open>
  A writing command that answers has had its effect; one that failed may or may not have reached
  the server. A reading command changes nothing and its answer satisfies a condition on the contents.
\<close>

definition writes_as :: "('s \<Rightarrow> db) \<Rightarrow> (db \<Rightarrow> db) \<Rightarrow> ('s, string + 'a) call \<Rightarrow> bool" where
  "writes_as view f c \<longleftrightarrow>
     (\<forall>s r s'. c s = (r, s') \<longrightarrow>
        (case r of Inr _ \<Rightarrow> view s' = f (view s) | Inl _ \<Rightarrow> view s' = view s \<or> view s' = f (view s)))"

definition reads :: "('s \<Rightarrow> db) \<Rightarrow> (db \<Rightarrow> 'a \<Rightarrow> bool) \<Rightarrow> ('s, string + 'a) call \<Rightarrow> bool" where
  "reads view post c \<longleftrightarrow>
     (\<forall>s r s'. c s = (r, s') \<longrightarrow> view s' = view s \<and> (\<forall>x. r = Inr x \<longrightarrow> post (view s) x))"

definition keeps_view :: "('s \<Rightarrow> 'v) \<Rightarrow> ('s, 'a) call \<Rightarrow> bool" where
  "keeps_view view c \<longleftrightarrow> (\<forall>s r s'. c s = (r, s') \<longrightarrow> view s' = view s)"

definition no_meta :: "string \<Rightarrow> bool" where
  "no_meta p \<longleftrightarrow> (\<forall>c \<in> set p. c \<notin> {CHR ''*'', CHR ''?'', CHR ''['', CHR 0x5C})"

section \<open>The documented behaviour\<close>

locale redis_service =
  fixes R :: "'s redis" and view :: "'s \<Rightarrow> db" and glob :: "string \<Rightarrow> string \<Rightarrow> bool"
  assumes get_string: "reads view (\<lambda>d v. \<exists>t. d k = Some (RString v, t)) (r_get_string R k)"
    and get_opt_string:
      "reads view (\<lambda>d r. case r of None \<Rightarrow> d k = None | Some v \<Rightarrow> \<exists>t. d k = Some (RString v, t))
         (r_get_opt_string R k)"
    and get_opt_bool:
      "reads view (\<lambda>d r. case r of None \<Rightarrow> d k = None
                          | Some b \<Rightarrow> d k \<noteq> None \<and> (\<forall>c t. d k = Some (RString (arg_bool R c), t) \<longrightarrow> b = c))
         (r_get_opt_bool R k)"
    and get_u64:
      "reads view (\<lambda>d n. d k \<noteq> None \<and> (\<forall>m t. d k = Some (RString (arg_u64 R m), t) \<longrightarrow> n = m)) (r_get_u64 R k)"
    and set: "writes_as view (db_set k v) (r_set R k v)"
    and set_ex: "0 < n \<Longrightarrow> writes_as view (db_set_ex k v (unat n)) (r_set_ex R k v n)"
    and expire: "0 < i \<Longrightarrow> writes_as view (db_expire k (nat i)) (r_expire R k i)"
    and del: "writes_as view (db_del k) (r_del R k)"
    and sadd: "writes_as view (db_sadd k m) (r_sadd R k m)"
    and sadd_type: "r_sadd R k m s = (Inr u, s') \<Longrightarrow> \<not> is_string_key (view s) k"
    and scard: "reads view (\<lambda>d n. unat n = card (db_members d k)) (r_scard R k)"
    and smembers: "reads view (\<lambda>d xs. set xs = db_members d k \<and> distinct xs) (r_smembers R k)"
    and keys: "reads view (\<lambda>d ks. set ks = {k. d k \<noteq> None \<and> glob pat k} \<and> distinct ks) (r_keys R pat)"
    and glob_literal: "no_meta p \<Longrightarrow> glob p k \<longleftrightarrow> k = p"
    and glob_star: "no_meta a \<Longrightarrow> no_meta b \<Longrightarrow> glob (a @ ''*'' @ b) k \<longleftrightarrow> (\<exists>m. k = a @ m @ b)"

text \<open>
  Redis keeps the end of a life as a time stamp in milliseconds that must fit a signed 64-bit integer
  and refuses a longer life (\<open>invalid expire time\<close>). This many seconds fit until the clock passes
  the year seven million.
\<close>

definition redis_max_expiry :: nat where
  "redis_max_expiry = 9 * 10 ^ 15"

text \<open>
  The service answers: commands fail only on a key of the wrong type or for a life time that is not
  positive or too long.
\<close>

locale redis_up = redis_service +
  assumes up_get_string: "view s k = Some (RString v, t) \<Longrightarrow> \<exists>x s'. r_get_string R k s = (Inr x, s')"
    and up_get_opt_string: "\<not> is_set_key (view s) k \<Longrightarrow> \<exists>x s'. r_get_opt_string R k s = (Inr x, s')"
    and up_get_opt_bool:
      "view s k = Some (RString (arg_bool R b), t) \<Longrightarrow> \<exists>x s'. r_get_opt_bool R k s = (Inr x, s')"
    and up_get_u64:
      "view s k = Some (RString (arg_u64 R n), t) \<Longrightarrow> \<exists>x s'. r_get_u64 R k s = (Inr x, s')"
    and up_set: "\<exists>s'. r_set R k v s = (Inr (), s')"
    and up_set_ex: "0 < n \<Longrightarrow> unat n \<le> redis_max_expiry \<Longrightarrow> \<exists>s'. r_set_ex R k v n s = (Inr (), s')"
    and up_expire: "0 < i \<Longrightarrow> nat i \<le> redis_max_expiry \<Longrightarrow> \<exists>s'. r_expire R k i s = (Inr (), s')"
    and up_del: "\<exists>s'. r_del R k s = (Inr (), s')"
    and up_sadd: "\<not> is_string_key (view s) k \<Longrightarrow> \<exists>s'. r_sadd R k m s = (Inr (), s')"
    and up_scard: "\<not> is_string_key (view s) k \<Longrightarrow> card (db_members (view s) k) < 2 ^ 64 \<Longrightarrow> \<exists>n s'. r_scard R k s = (Inr n, s')"
    and up_smembers: "\<not> is_string_key (view s) k \<Longrightarrow> \<exists>xs s'. r_smembers R k s = (Inr xs, s')"
    and up_keys: "\<exists>ks s'. r_keys R pat s = (Inr ks, s')"

section \<open>Using the laws\<close>

lemma writes_asD:
  "writes_as view f c \<Longrightarrow> c s = (Inr u, s') \<Longrightarrow> view s' = f (view s)"
  by (fastforce simp: writes_as_def)

lemma writes_as_cases:
  "writes_as view f c \<Longrightarrow> view (snd (c s)) = view s \<or> view (snd (c s)) = f (view s)"
  unfolding writes_as_def by (cases "c s"; cases "fst (c s)") force+

lemma readsD:
  "reads view post c \<Longrightarrow> c s = (Inr x, s') \<Longrightarrow> view s' = view s \<and> post (view s) x"
  by (simp add: reads_def)

lemma reads_view: "reads view post c \<Longrightarrow> view (snd (c s)) = view s"
  unfolding reads_def by (metis prod.collapse)

lemma reads_view': "reads view post c \<Longrightarrow> c s = (r, s') \<Longrightarrow> view s' = view s"
  by (simp add: reads_def)

lemma keeps_viewD: "keeps_view view c \<Longrightarrow> c s = (r, s') \<Longrightarrow> view s' = view s"
  by (simp add: keeps_view_def)

lemma keeps_view_snd: "keeps_view view c \<Longrightarrow> view (snd (c s)) = view s"
  unfolding keeps_view_def by (metis prod.collapse)

text \<open>Each effect touches one key.\<close>

lemma db_effects_other [simp]:
  "k' \<noteq> k \<Longrightarrow> db_set k v d k' = d k'"
  "k' \<noteq> k \<Longrightarrow> db_set_ex k v n d k' = d k'"
  "k' \<noteq> k \<Longrightarrow> db_expire k n d k' = d k'"
  "k' \<noteq> k \<Longrightarrow> db_del k d k' = d k'"
  "k' \<noteq> k \<Longrightarrow> db_sadd k m d k' = d k'"
  by (simp_all add: db_set_def db_set_ex_def db_expire_def db_del_def db_sadd_def
        split: option.splits rval.splits prod.splits)

lemma fold_sadd_other: "k' \<noteq> k \<Longrightarrow> fold (\<lambda>x. db_sadd k (f x)) xs d k' = d k'"
  by (induction xs arbitrary: d) simp_all

lemma db_effects_same [simp]:
  "db_set k v d k = Some (RString v, None)"
  "db_set_ex k v n d k = Some (RString v, Some n)"
  "d k = Some (w, t) \<Longrightarrow> db_expire k n d k = Some (w, Some n)"
  "d k = None \<Longrightarrow> db_expire k n d k = None"
  "db_del k d k = None"
  by (simp_all add: db_set_def db_set_ex_def db_expire_def db_del_def)

lemma db_members_sadd [simp]:
  "\<not> is_string_key d k \<Longrightarrow> db_members (db_sadd k m d) k = insert m (db_members d k)"
  by (auto simp: db_members_def db_sadd_def is_string_key_def split: option.splits rval.splits prod.splits)

lemma no_meta_append [simp]: "no_meta (a @ b) \<longleftrightarrow> no_meta a \<and> no_meta b"
  by (simp add: no_meta_def ball_Un)

lemma no_meta_Cons: "no_meta (c # p) \<longleftrightarrow> c \<notin> {CHR ''*'', CHR ''?'', CHR ''['', CHR 0x5C} \<and> no_meta p"
  by (simp add: no_meta_def)

lemma no_meta_Nil [simp]: "no_meta []"
  by (simp add: no_meta_def)

lemma elapse_None: "d k = None \<Longrightarrow> elapse n d k = None"
  by (simp add: elapse_def)

end
