(* ===== verification/Marci_Keys.thy ===== *)
theory Marci_Keys
  imports Redis Discovery_Types
begin

text \<open>
  The names of the Redis keys (\<open>marci/src/main.rs\<close>, the \<open>_key_format\<close> macros), through which marci
  and the query service communicate. A family of keys is a prefix and a suffix around a peer
  identity; the locale \<open>key_family\<close> is what both programs rely on.
\<close>

section \<open>The formats\<close>

definition online_peer_key :: "string \<Rightarrow> string" where
  "online_peer_key pid = ''peer.online.'' @ pid"

definition online2_peer_key :: "string \<Rightarrow> string" where
  "online2_peer_key pid = ''peer.online2.'' @ pid"

definition online_ip_key :: "string \<Rightarrow> string" where
  "online_ip_key pid = ''online.'' @ pid @ ''.ip''"

definition reachable_peer_key :: "string \<Rightarrow> string" where
  "reachable_peer_key pid = ''peer.reachable.'' @ pid"

definition unknown_peer_key :: "string \<Rightarrow> string" where
  "unknown_peer_key pid = ''peer.unknown.'' @ pid"

definition peer_seen_key :: "string \<Rightarrow> string" where
  "peer_seen_key pid = ''peer_info.'' @ pid @ ''.last_seen''"

definition peer_ip_key :: "string \<Rightarrow> string" where
  "peer_ip_key pid = ''peer_info.'' @ pid @ ''.ip''"

definition peer_version_key :: "string \<Rightarrow> string" where
  "peer_version_key pid = ''peer_info.'' @ pid @ ''.version''"

definition peer_country_key :: "string \<Rightarrow> string" where
  "peer_country_key pid = ''peer_info.'' @ pid @ ''.country''"

definition peer_city_key :: "string \<Rightarrow> string" where
  "peer_city_key pid = ''peer_info.'' @ pid @ ''.city''"

definition peer_region_key :: "string \<Rightarrow> string" where
  "peer_region_key pid = ''peer_info.'' @ pid @ ''.region''"

definition peer_full_key :: "string \<Rightarrow> string" where
  "peer_full_key pid = ''peer_info.'' @ pid @ ''.full''"

definition peer_pos_key :: "string \<Rightarrow> string" where
  "peer_pos_key pid = ''peer_info.'' @ pid @ ''.pos''"

definition peer_witnesses_key :: "string \<Rightarrow> string" where
  "peer_witnesses_key pid = ''peer_info.'' @ pid @ ''.witnesses''"

definition peer_network_key :: "string \<Rightarrow> string" where
  "peer_network_key pid = ''peer_info.'' @ pid @ ''.network''"

definition peer_network_quick_key :: "string \<Rightarrow> string \<Rightarrow> string" where
  "peer_network_quick_key pid n = ''network.peer.'' @ pid @ ''.'' @ n"

definition service_last_update_key :: string where
  "service_last_update_key = ''service.last_update''"

text \<open>\<open>key.rsplit_once('.').map(|(_, part)| part).unwrap_or("")\<close>.\<close>

definition last_part :: "string \<Rightarrow> string" where
  "last_part key = (case rsplit_once CHR ''.'' key of Some (_, part) \<Rightarrow> part | None \<Rightarrow> [])"

lemmas key_defs = online_peer_key_def online2_peer_key_def online_ip_key_def reachable_peer_key_def
  unknown_peer_key_def peer_seen_key_def peer_ip_key_def peer_version_key_def peer_country_key_def
  peer_city_key_def peer_region_key_def peer_full_key_def peer_pos_key_def peer_witnesses_key_def
  peer_network_key_def peer_network_quick_key_def service_last_update_key_def

section \<open>Families of keys\<close>

text \<open>A peer identity that contains no dot and no pattern character (as base 58 text does).\<close>

definition plain_id :: "string \<Rightarrow> bool" where
  "plain_id pid \<longleftrightarrow> CHR ''.'' \<notin> set pid \<and> no_meta pid"

locale key_family =
  fixes key :: "string \<Rightarrow> string" and pre suf :: string
  assumes key_format: "key pid = pre @ pid @ suf"
    and literal: "no_meta pre" "no_meta suf"
begin

lemma inj: "key p = key q \<longleftrightarrow> p = q"
  by (simp add: key_format)

lemma no_meta_key: "plain_id p \<Longrightarrow> no_meta (key p)"
  using literal by (simp add: key_format plain_id_def)

lemma pattern_matches:
  assumes "redis_service R view glob"
  shows "glob (pre @ ''*'' @ suf) k \<longleftrightarrow> (\<exists>p. k = key p)"
  using redis_service.glob_star [OF assms literal] by (simp add: key_format)

lemma exact_matches:
  assumes "redis_service R view glob" and "plain_id p"
  shows "glob (key p) k \<longleftrightarrow> k = key p"
  using redis_service.glob_literal [OF assms(1) no_meta_key [OF assms(2)]] .

end

text \<open>A family that ends in the identity behind a dot: the identity is the last part of the key.\<close>

locale status_family = key_family key "stem @ ''.''" "[]" for key stem
begin

lemma last_part_key: "CHR ''.'' \<notin> set p \<Longrightarrow> last_part (key p) = p"
  by (simp add: last_part_def key_format rsplit_once_append)

end

lemma no_meta_into_str: "no_meta (into_str n)"
  by (cases n) (simp_all add: no_meta_Cons)

interpretation online_fam: status_family online_peer_key "''peer.online''"
  by unfold_locales (auto simp: online_peer_key_def no_meta_Cons)

interpretation online2_fam: status_family online2_peer_key "''peer.online2''"
  by unfold_locales (auto simp: online2_peer_key_def no_meta_Cons)

interpretation unknown_fam: status_family unknown_peer_key "''peer.unknown''"
  by unfold_locales (auto simp: unknown_peer_key_def no_meta_Cons)

interpretation reachable_fam: status_family reachable_peer_key "''peer.reachable''"
  by unfold_locales (auto simp: reachable_peer_key_def no_meta_Cons)

interpretation peer_ip_fam: key_family peer_ip_key "''peer_info.''" "''.ip''"
  by unfold_locales (auto simp: peer_ip_key_def no_meta_Cons)

interpretation seen_fam: key_family peer_seen_key "''peer_info.''" "''.last_seen''"
  by unfold_locales (auto simp: peer_seen_key_def no_meta_Cons)

interpretation country_fam: key_family peer_country_key "''peer_info.''" "''.country''"
  by unfold_locales (auto simp: peer_country_key_def no_meta_Cons)

interpretation network_fam: key_family peer_network_key "''peer_info.''" "''.network''"
  by unfold_locales (auto simp: peer_network_key_def no_meta_Cons)

interpretation quick_fam: key_family "\<lambda>pid. peer_network_quick_key pid (into_str n)"
  "''network.peer.''" "''.'' @ into_str n" for n
  by unfold_locales (auto simp: peer_network_quick_key_def no_meta_Cons no_meta_into_str)

section \<open>Keys of different families differ\<close>

text \<open>Different prefixes clash by computation; equal prefixes with different suffixes by this rule.\<close>

lemma suffix_clash:
  assumes "\<not> prefix (rev a) (rev b)" and "\<not> prefix (rev b) (rev a)"
  shows "p @ a \<noteq> q @ b"
proof
  assume "p @ a = q @ b"
  then have "rev a @ rev p = rev b @ rev q" by (metis rev_append)
  then have "prefix (rev a) (rev b) \<or> prefix (rev b) (rev a)"
    by (metis prefixI prefix_same_cases)
  with assms show False by blast
qed

lemma peer_info_keys_distinct [simp]:
  "peer_seen_key p \<noteq> peer_ip_key q" "peer_seen_key p \<noteq> peer_country_key q"
  "peer_seen_key p \<noteq> peer_city_key q" "peer_seen_key p \<noteq> peer_region_key q"
  "peer_seen_key p \<noteq> peer_full_key q" "peer_seen_key p \<noteq> peer_pos_key q"
  "peer_seen_key p \<noteq> peer_network_key q" "peer_ip_key p \<noteq> peer_country_key q"
  "peer_ip_key p \<noteq> peer_city_key q" "peer_ip_key p \<noteq> peer_region_key q"
  "peer_ip_key p \<noteq> peer_full_key q" "peer_ip_key p \<noteq> peer_pos_key q"
  "peer_ip_key p \<noteq> peer_network_key q" "peer_country_key p \<noteq> peer_city_key q"
  "peer_country_key p \<noteq> peer_region_key q" "peer_country_key p \<noteq> peer_full_key q"
  "peer_country_key p \<noteq> peer_pos_key q" "peer_country_key p \<noteq> peer_network_key q"
  "peer_city_key p \<noteq> peer_region_key q" "peer_city_key p \<noteq> peer_full_key q"
  "peer_city_key p \<noteq> peer_pos_key q" "peer_city_key p \<noteq> peer_network_key q"
  "peer_region_key p \<noteq> peer_full_key q" "peer_region_key p \<noteq> peer_pos_key q"
  "peer_region_key p \<noteq> peer_network_key q" "peer_full_key p \<noteq> peer_pos_key q"
  "peer_full_key p \<noteq> peer_network_key q" "peer_pos_key p \<noteq> peer_network_key q"
  unfolding key_defs same_append_eq by (rule suffix_clash; simp)+

lemmas peer_info_keys_distinct' [simp] = peer_info_keys_distinct [symmetric]

lemma status_keys_distinct [simp]:
  "online_peer_key p \<noteq> online2_peer_key q" "online_peer_key p \<noteq> online_ip_key q"
  "online_peer_key p \<noteq> reachable_peer_key q" "online_peer_key p \<noteq> unknown_peer_key q"
  "online_peer_key p \<noteq> service_last_update_key" "online_peer_key p \<noteq> peer_network_quick_key q n"
  "online_peer_key p \<noteq> peer_seen_key q" "online_peer_key p \<noteq> peer_ip_key q"
  "online_peer_key p \<noteq> peer_country_key q" "online_peer_key p \<noteq> peer_city_key q"
  "online_peer_key p \<noteq> peer_region_key q" "online_peer_key p \<noteq> peer_full_key q"
  "online_peer_key p \<noteq> peer_pos_key q" "online_peer_key p \<noteq> peer_network_key q"
  "online2_peer_key p \<noteq> online_ip_key q" "online2_peer_key p \<noteq> reachable_peer_key q"
  "online2_peer_key p \<noteq> unknown_peer_key q" "online2_peer_key p \<noteq> service_last_update_key"
  "online2_peer_key p \<noteq> peer_network_quick_key q n" "online2_peer_key p \<noteq> peer_seen_key q"
  "online2_peer_key p \<noteq> peer_ip_key q" "online2_peer_key p \<noteq> peer_country_key q"
  "online2_peer_key p \<noteq> peer_city_key q" "online2_peer_key p \<noteq> peer_region_key q"
  "online2_peer_key p \<noteq> peer_full_key q" "online2_peer_key p \<noteq> peer_pos_key q"
  "online2_peer_key p \<noteq> peer_network_key q" "online_ip_key p \<noteq> reachable_peer_key q"
  "online_ip_key p \<noteq> unknown_peer_key q" "online_ip_key p \<noteq> service_last_update_key"
  "online_ip_key p \<noteq> peer_network_quick_key q n" "online_ip_key p \<noteq> peer_seen_key q"
  "online_ip_key p \<noteq> peer_ip_key q" "online_ip_key p \<noteq> peer_country_key q"
  "online_ip_key p \<noteq> peer_city_key q" "online_ip_key p \<noteq> peer_region_key q"
  "online_ip_key p \<noteq> peer_full_key q" "online_ip_key p \<noteq> peer_pos_key q"
  "online_ip_key p \<noteq> peer_network_key q" "reachable_peer_key p \<noteq> unknown_peer_key q"
  "reachable_peer_key p \<noteq> service_last_update_key" "reachable_peer_key p \<noteq> peer_network_quick_key q n"
  "reachable_peer_key p \<noteq> peer_seen_key q" "reachable_peer_key p \<noteq> peer_ip_key q"
  "reachable_peer_key p \<noteq> peer_country_key q" "reachable_peer_key p \<noteq> peer_city_key q"
  "reachable_peer_key p \<noteq> peer_region_key q" "reachable_peer_key p \<noteq> peer_full_key q"
  "reachable_peer_key p \<noteq> peer_pos_key q" "reachable_peer_key p \<noteq> peer_network_key q"
  "unknown_peer_key p \<noteq> service_last_update_key" "unknown_peer_key p \<noteq> peer_network_quick_key q n"
  "unknown_peer_key p \<noteq> peer_seen_key q" "unknown_peer_key p \<noteq> peer_ip_key q"
  "unknown_peer_key p \<noteq> peer_country_key q" "unknown_peer_key p \<noteq> peer_city_key q"
  "unknown_peer_key p \<noteq> peer_region_key q" "unknown_peer_key p \<noteq> peer_full_key q"
  "unknown_peer_key p \<noteq> peer_pos_key q" "unknown_peer_key p \<noteq> peer_network_key q"
  "service_last_update_key \<noteq> peer_network_quick_key q n" "service_last_update_key \<noteq> peer_seen_key q"
  "service_last_update_key \<noteq> peer_ip_key q" "service_last_update_key \<noteq> peer_country_key q"
  "service_last_update_key \<noteq> peer_city_key q" "service_last_update_key \<noteq> peer_region_key q"
  "service_last_update_key \<noteq> peer_full_key q" "service_last_update_key \<noteq> peer_pos_key q"
  "service_last_update_key \<noteq> peer_network_key q" "peer_network_quick_key p k \<noteq> peer_seen_key q"
  "peer_network_quick_key p k \<noteq> peer_ip_key q" "peer_network_quick_key p k \<noteq> peer_country_key q"
  "peer_network_quick_key p k \<noteq> peer_city_key q" "peer_network_quick_key p k \<noteq> peer_region_key q"
  "peer_network_quick_key p k \<noteq> peer_full_key q" "peer_network_quick_key p k \<noteq> peer_pos_key q"
  "peer_network_quick_key p k \<noteq> peer_network_key q"
  unfolding key_defs by simp_all

lemmas status_keys_distinct' [simp] = status_keys_distinct [symmetric]

lemma key_inject [simp]:
  "online_peer_key p = online_peer_key q \<longleftrightarrow> p = q"
  "online2_peer_key p = online2_peer_key q \<longleftrightarrow> p = q"
  "online_ip_key p = online_ip_key q \<longleftrightarrow> p = q"
  "reachable_peer_key p = reachable_peer_key q \<longleftrightarrow> p = q"
  "unknown_peer_key p = unknown_peer_key q \<longleftrightarrow> p = q"
  "peer_seen_key p = peer_seen_key q \<longleftrightarrow> p = q"
  "peer_ip_key p = peer_ip_key q \<longleftrightarrow> p = q"
  "peer_country_key p = peer_country_key q \<longleftrightarrow> p = q"
  "peer_city_key p = peer_city_key q \<longleftrightarrow> p = q"
  "peer_region_key p = peer_region_key q \<longleftrightarrow> p = q"
  "peer_full_key p = peer_full_key q \<longleftrightarrow> p = q"
  "peer_pos_key p = peer_pos_key q \<longleftrightarrow> p = q"
  "peer_network_key p = peer_network_key q \<longleftrightarrow> p = q"
  unfolding key_defs by simp_all

lemma quick_key_inject [simp]:
  "peer_network_quick_key p (into_str m) = peer_network_quick_key q (into_str n) \<longleftrightarrow> p = q \<and> m = n"
proof
  assume "peer_network_quick_key p (into_str m) = peer_network_quick_key q (into_str n)"
  then have "(''network.peer.'' @ p) @ CHR ''.'' # into_str m = (''network.peer.'' @ q) @ CHR ''.'' # into_str n"
    by (simp add: peer_network_quick_key_def)
  then have "Some (''network.peer.'' @ p, into_str m) = Some (''network.peer.'' @ q, into_str n)"
    using rsplit_once_append [OF into_str_no_dot] by metis
  then show "p = q \<and> m = n" by simp
qed simp

end
