(* ===== verification/Marci.thy ===== *)
theory Marci
  imports Marci_Keys Mqtt_Stream
begin

text \<open>
  \<open>marci/src/main.rs\<close>: the service that decides which peers count as online and which ones are to
  be dialled. This theory has its configuration, the cache of IP details and the four arms of its
  main loop as actions over marci's own state and the state of the outside world; the loop itself
  is the theory \<open>Marci_Machine\<close>.
\<close>

section \<open>Configuration\<close>

record marci_config =
  node_default_timeout :: u64
  node_ex_timeout :: u64
  node_unknown_default_timeout :: u64
  node_default_witnesses :: u64
  broadcast_interval :: u64

text \<open>An environment variable, its default, and the conversion followed by \<open>?\<close>.\<close>

definition env_u64 :: "(string \<Rightarrow> string option) \<Rightarrow> string \<Rightarrow> string \<Rightarrow> failure + u64" where
  "env_u64 env var dflt =
     (let v = (case env var of Some x \<Rightarrow> x | None \<Rightarrow> dflt)
      in case parse_u64 v of Some n \<Rightarrow> Inr n | None \<Rightarrow> Inl (ParseIntError v))"

definition read_config :: "(string \<Rightarrow> string option) \<Rightarrow> failure + marci_config" where
  "read_config env =
     res_bind (env_u64 env ''CKB_NODE_DEFAULT_TIMEOUT'' ''5184000'') (\<lambda>a.
     res_bind (env_u64 env ''CKB_NODE_EX_DEFAULT_TIMEOUT'' ''86400'') (\<lambda>b.
     res_bind (env_u64 env ''CKB_NODE_UNKNOWN_DEFAULT_TIMEOUT'' ''1209600'') (\<lambda>c.
     res_bind (env_u64 env ''CKB_NODE_DEFAULT_WITNESSES'' ''3'') (\<lambda>d.
     res_bind (env_u64 env ''MERCI_DEFAULT_INTERVAL'' ''180'') (\<lambda>e.
       Inr \<lparr>node_default_timeout = a, node_ex_timeout = b, node_unknown_default_timeout = c,
            node_default_witnesses = d, broadcast_interval = e\<rparr>)))))"

section \<open>State and outside world\<close>

text \<open>The fields of the details the \<open>ipinfo\<close> crate returns that marci stores.\<close>

record IpDetails =
  country :: string
  city :: string
  region :: string
  loc :: string

record 's marci_env =
  redis :: "'s redis"
  sys_now :: "('s, int) call"
  ip_lookup :: "string \<Rightarrow> ('s, string + IpDetails) call"
  mqtt_publish :: "string \<Rightarrow> string \<Rightarrow> ('s, string + unit) call"
  mqtt_reconnect :: "('s, string + unit) call"
  codec :: json_codec

record 's marci =
  ipinfo_cache :: "string \<Rightarrow> IpDetails option"
  world :: 's

definition on_world :: "('s, 'a) call \<Rightarrow> ('s marci, 'a) call" where
  "on_world c = (\<lambda>m. case c (world m) of (x, w) \<Rightarrow> (x, m\<lparr>world := w\<rparr>))"

text \<open>A Redis command followed by \<open>?\<close>, and one whose result is inspected.\<close>

definition redis_q :: "('s, string + 'a) call \<Rightarrow> ('s marci, 'a) io" where
  "redis_q c = io_question RedisError (on_world c)"

definition redis_r :: "('s, string + 'a) call \<Rightarrow> ('s marci, string + 'a) io" where
  "redis_r c = io_await (on_world c)"

text \<open>\<open>SystemTime::now().duration_since(UNIX_EPOCH).unwrap_or_default().as_secs()\<close>.\<close>

definition now_secs :: "'s marci_env \<Rightarrow> ('s marci, u64) io" where
  "now_secs E = io_bind (io_await (on_world (sys_now E))) (\<lambda>t. io_return (of_int (max 0 t)))"

text \<open>\<open>u64::try_into::<i64>().unwrap()\<close>.\<close>

definition try_into_i64 :: "u64 \<Rightarrow> failure + int" where
  "try_into_i64 n =
     (if uint n < 2 ^ 63 then Inr (uint n)
      else Inl (Panic ''called Result::unwrap() on an Err value: TryFromIntError''))"

text \<open>A helper that the program keeps but does not call.\<close>

definition check_peer_online :: "'s marci_env \<Rightarrow> string \<Rightarrow> ('s marci, bool) io" where
  "check_peer_online E pid =
     io_bind (redis_r (r_keys (redis E) pid)) (\<lambda>ks. io_return (pid \<in> set (unwrap_or [] ks)))"

section \<open>IP details\<close>

definition lookup_ipinfo :: "'s marci_env \<Rightarrow> string \<Rightarrow> ('s marci, string + IpDetails) io" where
  "lookup_ipinfo E ip =
     io_bind (io_await (\<lambda>m. (ipinfo_cache m ip, m))) (\<lambda>cached.
       case cached of
         Some ipdetails \<Rightarrow> io_return (Inr ipdetails)
       | None \<Rightarrow>
           io_bind (io_await (on_world (ip_lookup E ip))) (\<lambda>lookup_info.
             case lookup_info of
               Inr ipdetails \<Rightarrow>
                 io_bind (io_await (\<lambda>m. ((), m\<lparr>ipinfo_cache := (ipinfo_cache m)(ip \<mapsto> ipdetails)\<rparr>)))
                   (\<lambda>_. io_return (Inr ipdetails))
             | Inl err \<Rightarrow> io_return (Inl err)))"

fun query_addresses :: "'s marci_env \<Rightarrow> EndpointInfo list \<Rightarrow> ('s marci, IpDetails option) io" where
  "query_addresses E [] = io_return None"
| "query_addresses E (addr # addrs) =
     io_bind (lookup_ipinfo E (show_ip (address addr))) (\<lambda>r.
       case r of Inr res \<Rightarrow> io_return (Some res) | Inl _ \<Rightarrow> query_addresses E addrs)"

definition query_by_reachable :: "'s marci_env \<Rightarrow> ReachableInfo \<Rightarrow> ('s marci, IpDetails option) io" where
  "query_by_reachable E reachable = query_addresses E (addresses (peer reachable))"

definition query_by_ip :: "'s marci_env \<Rightarrow> EndpointInfo \<Rightarrow> ('s marci, IpDetails option) io" where
  "query_by_ip E ip =
     io_bind (lookup_ipinfo E (show_ip (address ip))) (\<lambda>r.
       case r of Inr res \<Rightarrow> io_return (Some res) | Inl _ \<Rightarrow> io_return None)"

text \<open>The four writes that both the online and the reachable arm make from the details.\<close>

definition store_ip_details :: "'s marci_env \<Rightarrow> string \<Rightarrow> IpDetails \<Rightarrow> ('s marci, unit) io" where
  "store_ip_details E pid ip =
     io_seq
       [redis_q (r_set (redis E) (peer_country_key pid) (country ip)),
        redis_q (r_set (redis E) (peer_city_key pid) (city ip)),
        redis_q (r_set (redis E) (peer_region_key pid) (region ip)),
        redis_q (r_set (redis E) (peer_pos_key pid) (loc ip))]"

definition store_last_seen :: "'s marci_env \<Rightarrow> string \<Rightarrow> ('s marci, unit) io" where
  "store_last_seen E pid =
     io_bind (now_secs E) (\<lambda>t. redis_q (r_set (redis E) (peer_seen_key pid) (arg_u64 (redis E) t)))"

text \<open>The result of this write is dropped by \<open>unwrap_or_default\<close>.\<close>

definition store_last_update :: "'s marci_env \<Rightarrow> ('s marci, unit) io" where
  "store_last_update E =
     io_bind (now_secs E) (\<lambda>t.
     io_bind (redis_r (r_set (redis E) service_last_update_key (arg_u64 (redis E) t))) (\<lambda>_.
       io_return ()))"

section \<open>The arms of the main loop\<close>

text \<open>
  Both the online and the unknown arm first look for the online entry and prolong it if it is there.
\<close>

definition refresh_or_else :: "'s marci_env \<Rightarrow> marci_config \<Rightarrow> string \<Rightarrow> ('s marci, unit) io \<Rightarrow> ('s marci, unit) io" where
  "refresh_or_else E cfg pid otherwise =
     io_bind (redis_r (r_get_string (redis E) (online_peer_key pid))) (\<lambda>r.
       case r of
         Inr _ \<Rightarrow>
           io_bind (io_lift (try_into_i64 (node_default_timeout cfg))) (\<lambda>t.
             redis_q (r_expire (redis E) (online_peer_key pid) t))
       | Inl _ \<Rightarrow> otherwise)"

definition record_address :: "'s marci_env \<Rightarrow> marci_config \<Rightarrow> NodeMetaInfo \<Rightarrow> ('s marci, unit) io" where
  "record_address E cfg n =
     (case addresses n of
        [] \<Rightarrow> io_return ()
      | addr # _ \<Rightarrow>
          io_bind (redis_q (r_set_ex (redis E) (online_ip_key (peer_id n))
                     (json_or_default (endpoint_to_json (codec E) addr)) (node_default_timeout cfg))) (\<lambda>_.
          io_bind (query_by_ip E addr) (\<lambda>r.
            case r of None \<Rightarrow> io_return () | Some ip \<Rightarrow> store_ip_details E (peer_id n) ip)))"

definition handle_online :: "'s marci_env \<Rightarrow> marci_config \<Rightarrow> PeerInfo \<Rightarrow> ('s marci, unit) io" where
  "handle_online E cfg p =
     (let pid = peer_id (info p) in
      io_seq
       [refresh_or_else E cfg pid
          (if is_ex p
           then redis_q (r_set_ex (redis E) (online2_peer_key pid) (version p) (node_default_timeout cfg))
           else redis_q (r_set_ex (redis E) (online_peer_key pid) (version p) (node_default_timeout cfg))),
        record_address E cfg (info p),
        redis_q (r_set (redis E) (peer_full_key pid) (arg_bool (redis E) (full p))),
        store_last_seen E pid,
        redis_q (r_del (redis E) (unknown_peer_key pid))])"

definition verify_witnesses :: "'s marci_env \<Rightarrow> marci_config \<Rightarrow> string \<Rightarrow> ('s marci, unit) io" where
  "verify_witnesses E cfg pid =
     io_bind (redis_r (r_scard (redis E) (reachable_peer_key pid))) (\<lambda>c.
       if unwrap_or 0 c \<ge> node_default_witnesses cfg
       then io_seq
             [redis_q (r_set_ex (redis E) (unknown_peer_key pid) ''unknown''
                         (node_unknown_default_timeout cfg)),
              redis_q (r_del (redis E) (reachable_peer_key pid))]
       else io_return ())"

definition handle_unknown :: "'s marci_env \<Rightarrow> marci_config \<Rightarrow> NodeMetaInfo \<Rightarrow> ('s marci, unit) io" where
  "handle_unknown E cfg p =
     io_seq
      [refresh_or_else E cfg (peer_id p) (verify_witnesses E cfg (peer_id p)),
       store_last_seen E (peer_id p)]"

text \<open>The IP details of a heard-of peer are looked up only while no country is stored.\<close>

definition update_ip_info :: "'s marci_env \<Rightarrow> ReachableInfo \<Rightarrow> ('s marci, unit) io" where
  "update_ip_info E p =
     io_bind (redis_r (r_get_string (redis E) (peer_country_key (peer_id (peer p))))) (\<lambda>c.
       if unwrap_or [] c = []
       then io_bind (query_by_reachable E p) (\<lambda>r.
              case r of None \<Rightarrow> io_return () | Some ip \<Rightarrow> store_ip_details E (peer_id (peer p)) ip)
       else io_return ())"

definition handle_reachable :: "'s marci_env \<Rightarrow> ReachableInfo \<Rightarrow> ('s marci, unit) io" where
  "handle_reachable E p =
     (let pid = peer_id (peer p) in
      io_seq
       [redis_q (r_sadd (redis E) (reachable_peer_key pid) (peer_id (from p))),
        redis_q (r_set (redis E)
                   (peer_network_quick_key pid (to_lowercase (into_str (network (peer p)))))
                   (arg_i32 (redis E) 0)),
        io_for (addresses (peer p)) (\<lambda>ip.
          redis_q (r_sadd (redis E) (peer_ip_key pid)
                     (json_or_default (endpoint_to_json (codec E) ip)))),
        redis_q (r_set (redis E) (peer_network_key pid) (into_str (network (peer p)))),
        store_last_seen E pid,
        update_ip_info E p,
        store_last_update E])"

text \<open>One peer of the broadcast: its stored endpoints and network as a dial request.\<close>

definition parse_endpoints :: "json_codec \<Rightarrow> string list \<Rightarrow> EndpointInfo list" where
  "parse_endpoints J raw_info = List.map_filter (endpoint_from_json J) raw_info"

definition broadcast_peer :: "'s marci_env \<Rightarrow> string \<Rightarrow> ('s marci, unit) io" where
  "broadcast_peer E pid =
     io_bind (redis_r (r_smembers (redis E) (peer_ip_key pid))) (\<lambda>raw.
     io_bind (redis_r (r_get_string (redis E) (peer_network_key pid))) (\<lambda>net.
       let meta_info =
             \<lparr>peer_id = pid, addresses = parse_endpoints (codec E) (unwrap_or [] raw),
              network = network_from_string (unwrap_or [] net)\<rparr>
       in io_question MqttError (on_world
            (mqtt_publish E ''peer/needs_dial''
               (json_or_default (node_to_json (codec E) meta_info))))))"

definition handle_tick :: "'s marci_env \<Rightarrow> ('s marci, unit) io" where
  "handle_tick E =
     io_bind (redis_q (r_keys (redis E) ''peer.reachable.*'')) (\<lambda>ks.
       io_seq [io_for (map last_part ks) (broadcast_peer E), store_last_update E])"

end
