(* ===== verification/Marci_Spec.thy ===== *)
theory Marci_Spec
  imports Marci
begin

text \<open>
  What marci's arms do to the contents of the data base. The abstract specification of an arm is
  a function on contents; the refinement lemmas say that an arm that returns has had exactly that
  effect. Failure of a command in the middle is covered by the frame conditions, which hold for
  every outcome: an arm touches only the keys of its own peer and the service key.
\<close>

section \<open>Abstract specifications\<close>

definition mview :: "('s \<Rightarrow> db) \<Rightarrow> 's marci \<Rightarrow> db" where
  "mview view m = view (world m)"

definition details_spec :: "string \<Rightarrow> IpDetails option \<Rightarrow> db \<Rightarrow> db" where
  "details_spec pid r d =
     (case r of
        None \<Rightarrow> d
      | Some ip \<Rightarrow> db_set (peer_pos_key pid) (loc ip) (db_set (peer_region_key pid) (region ip)
                    (db_set (peer_city_key pid) (city ip) (db_set (peer_country_key pid) (country ip) d))))"

text \<open>
  A report that a peer is online: refresh its entry or create one, record where and what it is,
  and forget that it was unknown. \<open>found\<close> says whether the online entry was read, \<open>r\<close> are the IP
  details obtained and \<open>seen\<close> is the time stamp as text.
\<close>

definition online_spec :: "json_codec \<Rightarrow> marci_config \<Rightarrow> PeerInfo \<Rightarrow> string \<Rightarrow> bool \<Rightarrow> IpDetails option \<Rightarrow> string \<Rightarrow> db \<Rightarrow> db" where
  "online_spec J cfg p fl found r seen d =
     (let pid = peer_id (info p); T = unat (node_default_timeout cfg);
          d1 = (if found then db_expire (online_peer_key pid) T d
                else db_set_ex (if is_ex p then online2_peer_key pid else online_peer_key pid) (version p) T d);
          d2 = (case addresses (info p) of
                  [] \<Rightarrow> d1
                | a # _ \<Rightarrow> details_spec pid r
                     (db_set_ex (online_ip_key pid) (json_or_default (endpoint_to_json J a)) T d1))
      in db_del (unknown_peer_key pid) (db_set (peer_seen_key pid) seen (db_set (peer_full_key pid) fl d2)))"

text \<open>
  A report that dialling a peer failed: an online peer is refreshed, any other peer with enough
  witnesses becomes unknown and its witnesses are forgotten.
\<close>

definition unknown_spec :: "marci_config \<Rightarrow> string \<Rightarrow> bool \<Rightarrow> nat \<Rightarrow> string \<Rightarrow> db \<Rightarrow> db" where
  "unknown_spec cfg pid found witnesses seen d =
     db_set (peer_seen_key pid) seen
       (if found then db_expire (online_peer_key pid) (unat (node_default_timeout cfg)) d
        else if unat (node_default_witnesses cfg) \<le> witnesses
        then db_del (reachable_peer_key pid)
               (db_set_ex (unknown_peer_key pid) ''unknown'' (unat (node_unknown_default_timeout cfg)) d)
        else d)"

text \<open>A report that a peer was heard of: one more witness, its network and its endpoints.\<close>

definition reachable_spec :: "json_codec \<Rightarrow> ReachableInfo \<Rightarrow> string \<Rightarrow> string \<Rightarrow> db \<Rightarrow> db" where
  "reachable_spec J p zero seen d =
     (let pid = peer_id (peer p); net = into_str (network (peer p)) in
      db_set (peer_seen_key pid) seen (db_set (peer_network_key pid) net
        (fold (\<lambda>ip. db_sadd (peer_ip_key pid) (json_or_default (endpoint_to_json J ip))) (addresses (peer p))
          (db_set (peer_network_quick_key pid net) zero
            (db_sadd (reachable_peer_key pid) (peer_id (from p)) d)))))"

section \<open>The writes of one peer\<close>

text \<open>
  Every single write that marci can make on behalf of a peer, as a step relation on contents.
  \<open>nets\<close> are the networks that reports may name. A peer becomes unknown only with enough
  witnesses.
\<close>

inductive peer_step :: "json_codec \<Rightarrow> marci_config \<Rightarrow> CKBNetworkType set \<Rightarrow> string \<Rightarrow> db \<Rightarrow> db \<Rightarrow> bool"
  for J cfg nets pid where
  refresh: "peer_step J cfg nets pid d (db_expire (online_peer_key pid) (unat (node_default_timeout cfg)) d)"
| online: "peer_step J cfg nets pid d (db_set_ex (online_peer_key pid) v (unat (node_default_timeout cfg)) d)"
| online2: "peer_step J cfg nets pid d (db_set_ex (online2_peer_key pid) v (unat (node_default_timeout cfg)) d)"
| online_ip: "peer_step J cfg nets pid d (db_set_ex (online_ip_key pid) v (unat (node_default_timeout cfg)) d)"
| unknown: "unat (node_default_witnesses cfg) \<le> card (db_members d (reachable_peer_key pid)) \<Longrightarrow>
    peer_step J cfg nets pid d
      (db_set_ex (unknown_peer_key pid) ''unknown'' (unat (node_unknown_default_timeout cfg)) d)"
| forget_unknown: "peer_step J cfg nets pid d (db_del (unknown_peer_key pid) d)"
| forget_witnesses: "peer_step J cfg nets pid d (db_del (reachable_peer_key pid) d)"
| witness: "peer_step J cfg nets pid d (db_sadd (reachable_peer_key pid) w d)"
| endpoint: "peer_step J cfg nets pid d (db_sadd (peer_ip_key pid) (json_or_default (endpoint_to_json J e)) d)"
| attribute: "k \<in> {peer_seen_key pid, peer_country_key pid, peer_city_key pid, peer_region_key pid,
                 peer_pos_key pid, peer_full_key pid, service_last_update_key} \<Longrightarrow>
    peer_step J cfg nets pid d (db_set k v d)"
| quick: "n \<in> nets \<Longrightarrow> peer_step J cfg nets pid d (db_set (peer_network_quick_key pid (into_str n)) v d)"
| network: "n \<in> nets \<Longrightarrow> peer_step J cfg nets pid d (db_set (peer_network_key pid) (into_str n) d)"

definition wrote :: "('s \<Rightarrow> db) \<Rightarrow> json_codec \<Rightarrow> marci_config \<Rightarrow> CKBNetworkType set \<Rightarrow> string \<Rightarrow> 's marci \<Rightarrow> 's marci \<Rightarrow> bool" where
  "wrote view J cfg nets pid m m' \<longleftrightarrow> (peer_step J cfg nets pid)\<^sup>*\<^sup>* (mview view m) (mview view m')"

interpretation wrote: io_preorder "wrote view J cfg nets pid" for view J cfg nets pid
  by unfold_locales (auto simp: wrote_def)

section \<open>Frames\<close>

definition peer_footprint :: "string \<Rightarrow> string set" where
  "peer_footprint pid =
     {online_peer_key pid, online2_peer_key pid, unknown_peer_key pid, reachable_peer_key pid,
      online_ip_key pid, peer_seen_key pid, peer_ip_key pid, peer_country_key pid, peer_city_key pid,
      peer_region_key pid, peer_pos_key pid, peer_full_key pid, peer_network_key pid,
      service_last_update_key} \<union> {peer_network_quick_key pid (into_str n) |n. True}"

text \<open>The cache only grows, and only by answers of the lookup service.\<close>

definition cache_grows :: "'s marci \<Rightarrow> 's marci \<Rightarrow> bool" where
  "cache_grows m m' \<longleftrightarrow> ipinfo_cache m \<subseteq>\<^sub>m ipinfo_cache m'"

interpretation cache: io_preorder cache_grows
  by unfold_locales (auto simp: cache_grows_def intro: map_le_trans)

section \<open>Successful steps\<close>

lemma redis_q_ok [io_ok]:
  "redis_q c m = (Inr x, m') \<longleftrightarrow> (\<exists>w. c (world m) = (Inr x, w) \<and> m' = m\<lparr>world := w\<rparr>)"
  by (auto simp: redis_q_def io_question_ok on_world_def split: prod.splits)

lemma redis_r_ok [io_ok]:
  "redis_r c m = (Inr r, m') \<longleftrightarrow> (\<exists>w. c (world m) = (r, w) \<and> m' = m\<lparr>world := w\<rparr>)"
  by (auto simp: redis_r_def io_await_ok on_world_def split: prod.splits)

lemma on_world_ok: "on_world c m = (x, m') \<longleftrightarrow> (\<exists>w. c (world m) = (x, w) \<and> m' = m\<lparr>world := w\<rparr>)"
  by (auto simp: on_world_def split: prod.splits)

lemma mview_world [simp]: "mview view (m\<lparr>world := w\<rparr>) = view w"
  by (simp add: mview_def)

lemma try_into_i64_ok: "try_into_i64 n = Inr i \<longleftrightarrow> i = uint n \<and> uint n < 2 ^ 63"
  by (auto simp: try_into_i64_def)

text \<open>Actions that leave the contents alone, whatever their outcome.\<close>

definition same_contents :: "('s \<Rightarrow> db) \<Rightarrow> 's marci \<Rightarrow> 's marci \<Rightarrow> bool" where
  "same_contents view m m' \<longleftrightarrow> mview view m' = mview view m"

interpretation same: io_preorder "same_contents view" for view
  by unfold_locales (simp_all add: same_contents_def)

lemma obeys_mono: "io_obeys P c \<Longrightarrow> (\<And>m m'. P m m' \<Longrightarrow> Q m m') \<Longrightarrow> io_obeys Q c"
  by (simp add: io_obeys_def)

lemma same_contents_wrote: "io_obeys (same_contents view) c \<Longrightarrow> io_obeys (wrote view J cfg nets pid) c"
  by (erule obeys_mono) (simp add: same_contents_def wrote_def)

lemma writes_wrote_at:
  assumes "writes_as view f c" and "peer_step J cfg nets pid (mview view m) (f (mview view m))"
  shows "wrote view J cfg nets pid m (snd (redis_q c m))" "wrote view J cfg nets pid m (snd (redis_r c m))"
proof -
  have "mview view (snd (redis_q c m)) = view (snd (c (world m)))"
    "mview view (snd (redis_r c m)) = view (snd (c (world m)))"
    by (simp_all add: redis_q_def redis_r_def io_question_def io_await_def on_world_def split_beta
          split: sum.splits)
  with writes_as_cases [OF assms(1), of "world m"] assms(2)
  show "wrote view J cfg nets pid m (snd (redis_q c m))" "wrote view J cfg nets pid m (snd (redis_r c m))"
    by (auto simp: wrote_def mview_def)
qed

lemma writes_wrote:
  assumes "writes_as view f c" and "\<And>d. peer_step J cfg nets pid d (f d)"
  shows "io_obeys (wrote view J cfg nets pid) (redis_q c)" "io_obeys (wrote view J cfg nets pid) (redis_r c)"
  using assms by (auto simp: io_obeys_def intro: writes_wrote_at)

lemma keeps_view_same:
  "keeps_view view c \<Longrightarrow> io_obeys (same_contents view) (io_await (on_world c))"
  "keeps_view view c' \<Longrightarrow> io_obeys (same_contents view) (io_question conv (on_world c'))"
  by (auto simp: same_contents_def mview_def on_world_def split: prod.splits
        dest: keeps_viewD intro!: same.obeys_await same.obeys_question)

lemma reads_same: "reads view post c \<Longrightarrow> io_obeys (same_contents view) (redis_r c)"
  "reads view post c \<Longrightarrow> io_obeys (same_contents view) (redis_q c)"
  unfolding redis_r_def redis_q_def
  by (rule keeps_view_same; simp add: keeps_view_def reads_def)+

text \<open>The outside world of marci: Redis, and services that leave Redis alone.\<close>

locale marci_world = redis_service "redis E" view glob
  for E :: "'s marci_env" and view :: "'s \<Rightarrow> db" and glob +
  assumes now_keeps: "keeps_view view (sys_now E)"
    and lookup_keeps: "keeps_view view (ip_lookup E ip)"
    and publish_keeps: "keeps_view view (mqtt_publish E t p)"
    and reconnect_keeps: "keeps_view view (mqtt_reconnect E)"
begin

lemma set_step: "redis_q (r_set (redis E) k v) m = (Inr u, m') \<Longrightarrow> mview view m' = db_set k v (mview view m)"
  by (auto simp: io_ok mview_def dest: writes_asD [OF set])

lemma set_ex_step:
  "0 < n \<Longrightarrow> redis_q (r_set_ex (redis E) k v n) m = (Inr u, m') \<Longrightarrow>
   mview view m' = db_set_ex k v (unat n) (mview view m)"
  by (auto simp: io_ok mview_def dest: writes_asD [OF set_ex])

lemma expire_step:
  "0 < n \<Longrightarrow> redis_q (r_expire (redis E) k (uint n)) m = (Inr u, m') \<Longrightarrow>
   mview view m' = db_expire k (unat n) (mview view m)" for n :: u64
proof -
  assume n: "0 < n" and r: "redis_q (r_expire (redis E) k (uint n)) m = (Inr u, m')"
  from n have "0 < uint n" by (simp add: word_less_def)
  from writes_asD [OF expire [OF this]] r show ?thesis
    by (auto simp: io_ok mview_def)
qed

lemma del_step: "redis_q (r_del (redis E) k) m = (Inr u, m') \<Longrightarrow> mview view m' = db_del k (mview view m)"
  by (auto simp: io_ok mview_def dest: writes_asD [OF del])

lemma sadd_step:
  "redis_q (r_sadd (redis E) k x) m = (Inr u, m') \<Longrightarrow> mview view m' = db_sadd k x (mview view m)"
  by (auto simp: io_ok mview_def dest: writes_asD [OF sadd])

lemma get_string_step:
  "redis_r (r_get_string (redis E) k) m = (Inr r, m') \<Longrightarrow>
   mview view m' = mview view m \<and> (\<not> isl r \<longrightarrow> is_string_key (mview view m) k)"
  by (cases r)
     (auto simp: io_ok mview_def is_string_key_def dest: reads_view' [OF get_string] readsD [OF get_string])

lemma scard_step:
  "redis_r (r_scard (redis E) k) m = (Inr r, m') \<Longrightarrow>
   mview view m' = mview view m \<and> (\<not> isl r \<longrightarrow> unat (unwrap_or 0 r) = card (db_members (mview view m) k))"
  by (cases r) (auto simp: io_ok mview_def dest: reads_view' [OF scard] readsD [OF scard])

lemma now_step: "now_secs E m = (Inr t, m') \<Longrightarrow> mview view m' = mview view m"
  by (auto simp: now_secs_def io_ok on_world_ok mview_def dest: keeps_viewD [OF now_keeps])

lemma last_seen_step:
  "store_last_seen E pid m = (Inr u, m') \<Longrightarrow>
   \<exists>t. mview view m' = db_set (peer_seen_key pid) (arg_u64 (redis E) t) (mview view m)"
  unfolding store_last_seen_def io_bind_ok using set_step now_step by metis

lemma lookup_same: "io_obeys (same_contents view) (lookup_ipinfo E ip)"
  by (auto simp: lookup_ipinfo_def same_contents_def mview_def split: option.splits sum.splits
        intro!: same.obeys_intros same.obeys_await keeps_view_same lookup_keeps)

lemma query_same: "io_obeys (same_contents view) (query_addresses E as)"
  by (induction as) (auto split: sum.splits intro!: same.obeys_intros lookup_same)

lemma query_by_ip_same: "io_obeys (same_contents view) (query_by_ip E a)"
  by (auto simp: query_by_ip_def split: sum.splits intro!: same.obeys_intros lookup_same)

lemma query_by_reachable_same: "io_obeys (same_contents view) (query_by_reachable E a)"
  by (simp add: query_by_reachable_def query_same)

lemmas query_steps = query_by_ip_same [THEN io_obeysD, unfolded same_contents_def]
  query_by_reachable_same [THEN io_obeysD, unfolded same_contents_def]

lemma details_step:
  "store_ip_details E pid ip m = (Inr u, m') \<Longrightarrow> mview view m' = details_spec pid (Some ip) (mview view m)"
  by (auto simp: store_ip_details_def details_spec_def io_bind_ok io_return_ok dest!: set_step)

lemma details_opt_step:
  "(case r of None \<Rightarrow> io_return () | Some ip \<Rightarrow> store_ip_details E pid ip) m = (Inr u, m') \<Longrightarrow>
   mview view m' = details_spec pid r (mview view m)"
  by (cases r) (auto simp: io_ok details_spec_def dest: details_step)

end

section \<open>Runs of the online arm\<close>

text \<open>
  The states a successful run goes through, with the IP details \<open>det\<close> that the lookup returned and
  the time stamp \<open>t\<close> that was read.
\<close>

definition recorded :: "'s marci_env \<Rightarrow> marci_config \<Rightarrow> NodeMetaInfo \<Rightarrow> IpDetails option \<Rightarrow> 's marci \<Rightarrow> 's marci \<Rightarrow> bool" where
  "recorded E cfg n det m m' \<longleftrightarrow>
     (case addresses n of
        [] \<Rightarrow> det = None \<and> m' = m
      | a # _ \<Rightarrow> (\<exists>m1 m2. redis_q (r_set_ex (redis E) (online_ip_key (peer_id n))
                     (json_or_default (endpoint_to_json (codec E) a)) (node_default_timeout cfg)) m = (Inr (), m1)
            \<and> query_by_ip E a m1 = (Inr det, m2)
            \<and> (case det of None \<Rightarrow> io_return () | Some ip \<Rightarrow> store_ip_details E (peer_id n) ip) m2 = (Inr (), m')))"

definition online_run ::
  "'s marci_env \<Rightarrow> marci_config \<Rightarrow> PeerInfo \<Rightarrow> IpDetails option \<Rightarrow> u64 \<Rightarrow>
   's marci \<Rightarrow> 's marci \<Rightarrow> 's marci \<Rightarrow> 's marci \<Rightarrow> 's marci \<Rightarrow> 's marci \<Rightarrow> 's marci \<Rightarrow> bool" where
  "online_run E cfg p det t m m1 m2 m3 m4 m5 m' \<longleftrightarrow>
     refresh_or_else E cfg (peer_id (info p))
       (if is_ex p
        then redis_q (r_set_ex (redis E) (online2_peer_key (peer_id (info p))) (version p) (node_default_timeout cfg))
        else redis_q (r_set_ex (redis E) (online_peer_key (peer_id (info p))) (version p) (node_default_timeout cfg))) m
       = (Inr (), m1)
     \<and> recorded E cfg (info p) det m1 m2
     \<and> redis_q (r_set (redis E) (peer_full_key (peer_id (info p))) (arg_bool (redis E) (full p))) m2 = (Inr (), m3)
     \<and> now_secs E m3 = (Inr t, m4)
     \<and> redis_q (r_set (redis E) (peer_seen_key (peer_id (info p))) (arg_u64 (redis E) t)) m4 = (Inr (), m5)
     \<and> redis_q (r_del (redis E) (unknown_peer_key (peer_id (info p)))) m5 = (Inr (), m')"

lemma record_address_ok: "record_address E cfg n m = (Inr u, m') \<longleftrightarrow> (\<exists>det. recorded E cfg n det m m')"
  by (cases "addresses n") (auto simp: record_address_def recorded_def io_bind_ok io_return_ok)

lemma handle_online_ok:
  "handle_online E cfg p m = (Inr u, m') \<longleftrightarrow> (\<exists>det t m1 m2 m3 m4 m5. online_run E cfg p det t m m1 m2 m3 m4 m5 m')"
  unfolding handle_online_def Let_def io_seq_ok record_address_ok store_last_seen_def io_bind_ok online_run_def
  by blast

section \<open>Refinement\<close>

context marci_world
begin

lemma refresh_or_else_step:
  assumes T: "0 < node_default_timeout cfg" and r: "refresh_or_else E cfg pid other m = (Inr u, m')"
  obtains (found) "is_string_key (mview view m) (online_peer_key pid)"
      "mview view m' = db_expire (online_peer_key pid) (unat (node_default_timeout cfg)) (mview view m)"
  | (other) m1 where "isl (fst (r_get_string (redis E) (online_peer_key pid) (world m)))"
      "mview view m1 = mview view m" "other m1 = (Inr u, m')"
proof -
  from r obtain x m1 where g: "redis_r (r_get_string (redis E) (online_peer_key pid)) m = (Inr x, m1)"
    and c: "(case x of
               Inr _ \<Rightarrow> io_bind (io_lift (try_into_i64 (node_default_timeout cfg)))
                          (\<lambda>t. redis_q (r_expire (redis E) (online_peer_key pid) t))
             | Inl _ \<Rightarrow> other) m1 = (Inr u, m')"
    unfolding refresh_or_else_def io_bind_ok by blast
  note v = get_string_step [OF g]
  show ?thesis
  proof (cases x)
    case (Inr y)
    with c have "redis_q (r_expire (redis E) (online_peer_key pid) (uint (node_default_timeout cfg))) m1 = (Inr u, m')"
      by (auto simp: io_bind_ok io_lift_ok try_into_i64_ok)
    from expire_step [OF T this] v Inr show ?thesis by (intro found) auto
  next
    case (Inl e)
    with c v g show ?thesis by (intro other [of m1]) (auto simp: io_ok)
  qed
qed

lemma recorded_step:
  assumes T: "0 < node_default_timeout cfg" and r: "recorded E cfg n det m m'"
  shows "mview view m' =
      (case addresses n of
         [] \<Rightarrow> mview view m
       | a # _ \<Rightarrow> details_spec (peer_id n) det
            (db_set_ex (online_ip_key (peer_id n)) (json_or_default (endpoint_to_json (codec E) a))
               (unat (node_default_timeout cfg)) (mview view m)))"
  using r unfolding recorded_def
  by (cases "addresses n") (auto dest!: details_opt_step query_steps(1) set_ex_step [OF T])

lemma verify_witnesses_step:
  assumes U: "0 < node_unknown_default_timeout cfg" and r: "verify_witnesses E cfg pid m = (Inr u, m')"
  shows "\<exists>n. mview view m' =
      (if unat (node_default_witnesses cfg) \<le> n
       then db_del (reachable_peer_key pid)
             (db_set_ex (unknown_peer_key pid) ''unknown'' (unat (node_unknown_default_timeout cfg)) (mview view m))
       else mview view m)
      \<and> n = unat (unwrap_or 0 (fst (r_scard (redis E) (reachable_peer_key pid) (world m))))
      \<and> (n = 0 \<or> n = card (db_members (mview view m) (reachable_peer_key pid)))"
proof -
  from r obtain c m1 where c: "redis_r (r_scard (redis E) (reachable_peer_key pid)) m = (Inr c, m1)"
    and i: "(if unwrap_or 0 c \<ge> node_default_witnesses cfg
             then io_seq
                   [redis_q (r_set_ex (redis E) (unknown_peer_key pid) ''unknown''
                               (node_unknown_default_timeout cfg)),
                    redis_q (r_del (redis E) (reachable_peer_key pid))]
             else io_return ()) m1 = (Inr u, m')"
    unfolding verify_witnesses_def io_bind_ok by blast
  have "mview view m' =
      (if unat (node_default_witnesses cfg) \<le> unat (unwrap_or 0 c)
       then db_del (reachable_peer_key pid)
             (db_set_ex (unknown_peer_key pid) ''unknown'' (unat (node_unknown_default_timeout cfg)) (mview view m1))
       else mview view m1)"
    using i by (auto simp: word_le_nat_alt io_bind_ok io_return_ok split: if_splits
                  dest!: set_ex_step [OF U] del_step)
  moreover have "unat (unwrap_or 0 c) = 0 \<or> unat (unwrap_or 0 c) = card (db_members (mview view m) (reachable_peer_key pid))"
    using scard_step [OF c] by (cases c) auto
  moreover have "fst (r_scard (redis E) (reachable_peer_key pid) (world m)) = c"
    using c by (auto simp: redis_r_ok)
  ultimately show ?thesis using scard_step [OF c] by auto
qed

lemma handle_online_effect:
  assumes T: "0 < node_default_timeout cfg" and r: "online_run E cfg p det t m m1 m2 m3 m4 m5 m'"
  shows "\<exists>found.
    mview view m' = online_spec (codec E) cfg p (arg_bool (redis E) (full p)) found det
                      (arg_u64 (redis E) t) (mview view m)
    \<and> (found \<longrightarrow> is_string_key (mview view m) (online_peer_key (peer_id (info p))))
    \<and> (\<not> found \<longrightarrow> isl (fst (r_get_string (redis E) (online_peer_key (peer_id (info p))) (world m))))"
proof -
  let ?pid = "peer_id (info p)" and ?T = "node_default_timeout cfg"
  let ?d = "mview view m"
  note run = r [unfolded online_run_def]
  note 1 = run [THEN conjunct1] and 2 = run [THEN conjunct2, THEN conjunct1]
    and 3 = run [THEN conjunct2, THEN conjunct2, THEN conjunct1]
    and rest = run [THEN conjunct2, THEN conjunct2, THEN conjunct2]
  note 4 = rest [THEN conjunct1] and 5 = rest [THEN conjunct2, THEN conjunct1]
    and 6 = rest [THEN conjunct2, THEN conjunct2]
  have "\<exists>found. mview view m1 =
      (if found then db_expire (online_peer_key ?pid) (unat ?T) ?d
       else db_set_ex (if is_ex p then online2_peer_key ?pid else online_peer_key ?pid) (version p) (unat ?T) ?d)
      \<and> (found \<longrightarrow> is_string_key ?d (online_peer_key ?pid))
      \<and> (\<not> found \<longrightarrow> isl (fst (r_get_string (redis E) (online_peer_key ?pid) (world m))))"
  proof (rule refresh_or_else_step [OF T 1], goal_cases found other)
    case found
    then show ?case by (intro exI [of _ True]) simp
  next
    case (other m1)
    then show ?case
      by (intro exI [of _ False]) (auto split: if_splits dest!: set_ex_step [OF T])
  qed
  then obtain found where first: "mview view m1 =
      (if found then db_expire (online_peer_key ?pid) (unat ?T) ?d
       else db_set_ex (if is_ex p then online2_peer_key ?pid else online_peer_key ?pid) (version p) (unat ?T) ?d)"
    and found: "found \<longrightarrow> is_string_key ?d (online_peer_key ?pid)"
      "\<not> found \<longrightarrow> isl (fst (r_get_string (redis E) (online_peer_key ?pid) (world m)))" by blast
  have "mview view m' = online_spec (codec E) cfg p (arg_bool (redis E) (full p)) found det (arg_u64 (redis E) t) ?d"
    unfolding online_spec_def Let_def
    by (simp only: del_step [OF 6] set_step [OF 5] now_step [OF 4] set_step [OF 3] recorded_step [OF T 2] first)
  with found show ?thesis by blast
qed

lemma handle_online_refines:
  assumes T: "0 < node_default_timeout cfg" and r: "handle_online E cfg p m = (Inr u, m')"
  shows "\<exists>found det t.
    mview view m' = online_spec (codec E) cfg p (arg_bool (redis E) (full p)) found det
                      (arg_u64 (redis E) t) (mview view m)
    \<and> (found \<longrightarrow> is_string_key (mview view m) (online_peer_key (peer_id (info p))))
    \<and> (\<not> found \<longrightarrow> isl (fst (r_get_string (redis E) (online_peer_key (peer_id (info p))) (world m))))"
  using r handle_online_effect [OF T] unfolding handle_online_ok by metis

lemma handle_unknown_refines:
  assumes T: "0 < node_default_timeout cfg" and U: "0 < node_unknown_default_timeout cfg"
    and r: "handle_unknown E cfg p m = (Inr u, m')"
  shows "\<exists>found n t.
    mview view m' = unknown_spec cfg (peer_id p) found n (arg_u64 (redis E) t) (mview view m)
    \<and> (found \<longrightarrow> is_string_key (mview view m) (online_peer_key (peer_id p)))
    \<and> (\<not> found \<longrightarrow> isl (fst (r_get_string (redis E) (online_peer_key (peer_id p)) (world m))))
    \<and> (n = 0 \<or> n = card (db_members (mview view m) (reachable_peer_key (peer_id p))))"
proof -
  let ?pid = "peer_id p"
  from r obtain m1 where
    1: "refresh_or_else E cfg ?pid (verify_witnesses E cfg ?pid) m = (Inr (), m1)"
    and 2: "store_last_seen E ?pid m1 = (Inr (), m')"
    unfolding handle_unknown_def io_seq_ok by blast
  from last_seen_step [OF 2] obtain t where
    t: "mview view m' = db_set (peer_seen_key ?pid) (arg_u64 (redis E) t) (mview view m1)" by blast
  show ?thesis
  proof (rule refresh_or_else_step [OF T 1], goal_cases found other)
    case found
    with t show ?case unfolding unknown_spec_def by (intro exI [of _ True]) auto
  next
    case (other m2)
    from verify_witnesses_step [OF U other(3)] obtain n where "mview view m1 =
      (if unat (node_default_witnesses cfg) \<le> n
       then db_del (reachable_peer_key ?pid)
             (db_set_ex (unknown_peer_key ?pid) ''unknown'' (unat (node_unknown_default_timeout cfg)) (mview view m2))
       else mview view m2)"
      and "n = 0 \<or> n = card (db_members (mview view m2) (reachable_peer_key ?pid))" by blast
    with t other(1,2) show ?case
      unfolding unknown_spec_def by (intro exI [of _ False] exI [of _ n] exI [of _ t]) auto
  qed
qed

end

section \<open>Arms only make the writes of their peer\<close>

text \<open>Marci as it is configured: both timeouts are positive.\<close>

locale marci_service = marci_world E view glob
  for E :: "'s marci_env" and view :: "'s \<Rightarrow> db" and glob +
  fixes cfg :: marci_config
  assumes T_pos: "0 < node_default_timeout cfg" and U_pos: "0 < node_unknown_default_timeout cfg"
begin

lemma now_same: "io_obeys (same_contents view) (now_secs E)"
  unfolding now_secs_def by (intro same.obeys_intros keeps_view_same now_keeps)

lemmas quiet_wrote = now_same [THEN same_contents_wrote]
  query_by_ip_same [THEN same_contents_wrote] query_by_reachable_same [THEN same_contents_wrote]
  reads_same(1) [OF get_string, THEN same_contents_wrote] reads_same(1) [OF smembers, THEN same_contents_wrote]
  reads_same(2) [OF keys, THEN same_contents_wrote]
  keeps_view_same(2) [OF publish_keeps, THEN same_contents_wrote]

lemma last_seen_wrote: "io_obeys (wrote view (codec E) cfg nets pid) (store_last_seen E pid)"
  unfolding store_last_seen_def
  by (intro wrote.obeys_intros quiet_wrote writes_wrote [OF set] peer_step.attribute) simp

lemma last_update_wrote: "io_obeys (wrote view (codec E) cfg nets pid) (store_last_update E)"
  unfolding store_last_update_def
  by (intro wrote.obeys_intros quiet_wrote writes_wrote [OF set] peer_step.attribute) simp

lemma details_wrote: "io_obeys (wrote view (codec E) cfg nets pid) (store_ip_details E pid ip)"
  unfolding store_ip_details_def
  by (auto intro!: wrote.obeys_intros writes_wrote [OF set] peer_step.attribute)

lemma details_opt_wrote:
  "io_obeys (wrote view (codec E) cfg nets pid)
     (case r of None \<Rightarrow> io_return () | Some ip \<Rightarrow> store_ip_details E pid ip)"
  by (cases r) (auto intro: wrote.obeys_return details_wrote)

lemma refresh_or_else_wrote:
  assumes "io_obeys (wrote view (codec E) cfg nets pid) other"
  shows "io_obeys (wrote view (codec E) cfg nets pid) (refresh_or_else E cfg pid other)"
proof -
  have "io_obeys (wrote view (codec E) cfg nets pid)
      (io_bind (io_lift (try_into_i64 (node_default_timeout cfg))) (\<lambda>t. redis_q (r_expire (redis E) (online_peer_key pid) t)))"
  proof (cases "try_into_i64 (node_default_timeout cfg)")
    case (Inr i)
    then have i: "i = uint (node_default_timeout cfg)" by (simp add: try_into_i64_ok)
    with T_pos have pos: "0 < i" by (simp add: word_less_def)
    have "nat i = unat (node_default_timeout cfg)" by (simp add: i)
    then show ?thesis
      using writes_wrote [OF expire [OF pos]] peer_step.refresh [of "codec E" cfg nets pid]
      by (simp add: Inr io_bind_def io_lift_def)
  qed (simp add: io_bind_def io_lift_def io_obeys_def wrote.refl)
  with assms show ?thesis
    unfolding refresh_or_else_def
    by (intro wrote.obeys_bind quiet_wrote) (auto split: sum.split)
qed

lemma verify_witnesses_wrote: "io_obeys (wrote view (codec E) cfg nets pid) (verify_witnesses E cfg pid)"
  unfolding io_obeys_def
proof
  fix m :: "'s marci"
  let ?W = "wrote view (codec E) cfg nets pid"
  obtain c w where c: "r_scard (redis E) (reachable_peer_key pid) (world m) = (c, w)" by force
  let ?m1 = "m\<lparr>world := w\<rparr>"
  have r: "redis_r (r_scard (redis E) (reachable_peer_key pid)) m = (Inr c, ?m1)"
    using c by (simp add: redis_r_ok)
  then have v: "mview view ?m1 = mview view m" using scard_step by blast
  have first: "?W ?m1 (snd (redis_q (r_set_ex (redis E) (unknown_peer_key pid) ''unknown''
          (node_unknown_default_timeout cfg)) ?m1))" if "node_default_witnesses cfg \<le> unwrap_or 0 c"
  proof (rule writes_wrote_at(1) [OF set_ex [OF U_pos]])
    have "unat (node_default_witnesses cfg) \<le> card (db_members (mview view ?m1) (reachable_peer_key pid))"
      using that scard_step [OF r] v by (cases c) (auto simp: word_le_nat_alt)
    then show "peer_step (codec E) cfg nets pid (mview view ?m1)
        (db_set_ex (unknown_peer_key pid) ''unknown'' (unat (node_unknown_default_timeout cfg)) (mview view ?m1))"
      by (rule peer_step.unknown)
  qed
  have rest: "io_obeys ?W (io_seq [redis_q (r_del (redis E) (reachable_peer_key pid))])"
    by (auto intro!: wrote.obeys_intros writes_wrote [OF del] peer_step.forget_witnesses)
  have "?W ?m1 (snd ((if node_default_witnesses cfg \<le> unwrap_or 0 c
       then io_seq
             [redis_q (r_set_ex (redis E) (unknown_peer_key pid) ''unknown'' (node_unknown_default_timeout cfg)),
              redis_q (r_del (redis E) (reachable_peer_key pid))]
       else io_return ()) ?m1))"
  proof (cases "node_default_witnesses cfg \<le> unwrap_or 0 c")
    case True
    obtain q m2 where q: "redis_q (r_set_ex (redis E) (unknown_peer_key pid) ''unknown''
          (node_unknown_default_timeout cfg)) ?m1 = (q, m2)" by force
    have "?W m2 (snd (io_seq [redis_q (r_del (redis E) (reachable_peer_key pid))] m2))"
      using rest by (simp only: io_obeys_def)
    with first [OF True] q True show ?thesis
      by (cases q) (auto simp: io_bind_def split: prod.splits sum.splits intro: wrote.trans)
  qed (simp add: io_return_def wrote.refl)
  then show "?W m (snd (verify_witnesses E cfg pid m))"
    using v by (simp add: verify_witnesses_def io_bind_def r wrote_def)
qed

lemma record_address_wrote: "io_obeys (wrote view (codec E) cfg nets (peer_id n)) (record_address E cfg n)"
  unfolding record_address_def
  by (auto split: list.split intro!: wrote.obeys_intros details_opt_wrote writes_wrote [OF set_ex [OF T_pos]]
        peer_step.online_ip quiet_wrote)

lemma handle_online_wrote:
  "io_obeys (wrote view (codec E) cfg nets (peer_id (info p))) (handle_online E cfg p)"
  unfolding handle_online_def Let_def
  by (auto intro!: wrote.obeys_intros refresh_or_else_wrote record_address_wrote last_seen_wrote
        writes_wrote [OF set] writes_wrote [OF set_ex [OF T_pos]] writes_wrote [OF del]
        peer_step.online peer_step.online2 peer_step.attribute peer_step.forget_unknown)

lemma handle_unknown_wrote:
  "io_obeys (wrote view (codec E) cfg nets (peer_id p)) (handle_unknown E cfg p)"
  unfolding handle_unknown_def
  by (auto intro!: wrote.obeys_intros refresh_or_else_wrote verify_witnesses_wrote last_seen_wrote)

lemma update_ip_info_wrote:
  "io_obeys (wrote view (codec E) cfg nets (peer_id (peer p))) (update_ip_info E p)"
  unfolding update_ip_info_def
  by (auto intro!: wrote.obeys_intros quiet_wrote details_opt_wrote)

lemma handle_reachable_wrote:
  "network (peer p) \<in> nets \<Longrightarrow>
   io_obeys (wrote view (codec E) cfg nets (peer_id (peer p))) (handle_reachable E p)"
  unfolding handle_reachable_def Let_def
  by (auto intro!: wrote.obeys_intros writes_wrote [OF set] writes_wrote [OF sadd] update_ip_info_wrote
        last_seen_wrote last_update_wrote
        peer_step.witness peer_step.endpoint peer_step.quick peer_step.network)

lemma handle_tick_wrote: "io_obeys (wrote view (codec E) cfg nets pid) (handle_tick E)"
  unfolding handle_tick_def broadcast_peer_def Let_def
  by (auto intro!: wrote.obeys_intros quiet_wrote last_update_wrote)

end

end
