(* ===== verification/Marci_Invariant.thy ===== *)
theory Marci_Invariant
  imports Marci_Spec
begin

text \<open>
  The type and life-time discipline of marci's data base, and that every write of every arm keeps
  it: which keys hold strings or sets, which of them are volatile and for how long, and which
  values the typed ones may have.
\<close>

section \<open>The discipline\<close>

definition endpoint_text :: "json_codec \<Rightarrow> EndpointInfo \<Rightarrow> string" where
  "endpoint_text J x = json_or_default (endpoint_to_json J x)"

definition entry_ok :: "json_codec \<Rightarrow> marci_config \<Rightarrow> CKBNetworkType set \<Rightarrow> string \<Rightarrow> entry \<Rightarrow> bool" where
  "entry_ok J cfg nets k e \<longleftrightarrow>
     (\<forall>pid. k \<in> {online_peer_key pid, online2_peer_key pid, online_ip_key pid} \<longrightarrow>
        (\<exists>v t. e = (RString v, Some t) \<and> 0 < t \<and> t \<le> unat (node_default_timeout cfg)))
     \<and> (\<forall>pid. k = unknown_peer_key pid \<longrightarrow>
        (\<exists>t. e = (RString ''unknown'', Some t) \<and> 0 < t \<and> t \<le> unat (node_unknown_default_timeout cfg)))
     \<and> (\<forall>pid. k = reachable_peer_key pid \<longrightarrow> (\<exists>S. e = (RSet S, None) \<and> S \<noteq> {} \<and> finite S))
     \<and> (\<forall>pid. k = peer_ip_key pid \<longrightarrow> (\<exists>es. e = (RSet (endpoint_text J ` es), None) \<and> es \<noteq> {} \<and> finite es))
     \<and> (\<forall>pid. k = peer_network_key pid \<longrightarrow> (\<exists>n \<in> nets. e = (RString (into_str n), None)))
     \<and> (\<forall>pid. k \<in> {peer_seen_key pid, peer_country_key pid, peer_city_key pid, peer_region_key pid,
                    peer_pos_key pid, peer_full_key pid, service_last_update_key} \<longrightarrow>
        (\<exists>v. e = (RString v, None)))
     \<and> (\<forall>pid n. k = peer_network_quick_key pid n \<longrightarrow> (\<exists>v. e = (RString v, None)))"

definition well_typed :: "json_codec \<Rightarrow> marci_config \<Rightarrow> CKBNetworkType set \<Rightarrow> db \<Rightarrow> bool" where
  "well_typed J cfg nets d \<longleftrightarrow> (\<forall>k. pred_option (entry_ok J cfg nets k) (d k))"

section \<open>One write\<close>

lemma well_typed_empty: "well_typed J cfg nets (\<lambda>_. None)"
  by (simp add: well_typed_def)

lemma well_typedD: "well_typed J cfg nets d \<Longrightarrow> d k = Some e \<Longrightarrow> entry_ok J cfg nets k e"
  unfolding well_typed_def by (metis option.pred_inject(2))

lemma well_typed_upd: "well_typed J cfg nets d \<Longrightarrow> entry_ok J cfg nets k e \<Longrightarrow> well_typed J cfg nets (d(k \<mapsto> e))"
  by (simp add: well_typed_def)

lemma well_typed_del: "well_typed J cfg nets d \<Longrightarrow> well_typed J cfg nets (db_del k d)"
  by (simp add: well_typed_def db_del_def)

lemma well_typed_sadd:
  assumes "well_typed J cfg nets d" and "entry_ok J cfg nets k (RSet {x}, None)"
    and "\<And>S t. d k = Some (RSet S, t) \<Longrightarrow> entry_ok J cfg nets k (RSet (insert x S), t)"
  shows "well_typed J cfg nets (db_sadd k x d)"
  unfolding well_typed_def
proof
  fix k'
  have "pred_option (entry_ok J cfg nets k') (d k')" using assms(1) by (simp add: well_typed_def)
  then show "pred_option (entry_ok J cfg nets k') (db_sadd k x d k')"
    using assms(2,3) by (cases "k' = k") (auto simp: db_sadd_def split: option.splits rval.splits)
qed

lemma well_typed_online:
  assumes "well_typed J cfg nets d" and "d k = Some e"
    and "k \<in> {online_peer_key pid, online2_peer_key pid, online_ip_key pid}"
  shows "\<exists>v t. e = (RString v, Some t) \<and> 0 < t \<and> t \<le> unat (node_default_timeout cfg)"
  using well_typedD [OF assms(1,2)] assms(3) unfolding entry_ok_def by blast

lemma well_typed_unknown:
  "well_typed J cfg nets d \<Longrightarrow> d (unknown_peer_key pid) = Some e \<Longrightarrow>
   \<exists>t. e = (RString ''unknown'', Some t) \<and> 0 < t \<and> t \<le> unat (node_unknown_default_timeout cfg)"
  by (drule (1) well_typedD) (unfold entry_ok_def, blast)

lemma well_typed_reachable:
  "well_typed J cfg nets d \<Longrightarrow> d (reachable_peer_key pid) = Some e \<Longrightarrow> \<exists>S. e = (RSet S, None) \<and> S \<noteq> {} \<and> finite S"
  by (drule (1) well_typedD) (unfold entry_ok_def, blast)

lemma well_typed_ip:
  "well_typed J cfg nets d \<Longrightarrow> d (peer_ip_key pid) = Some e \<Longrightarrow>
   \<exists>es. e = (RSet (endpoint_text J ` es), None) \<and> es \<noteq> {} \<and> finite es"
  by (drule (1) well_typedD) (unfold entry_ok_def, blast)

lemma well_typed_network:
  "well_typed J cfg nets d \<Longrightarrow> d (peer_network_key pid) = Some e \<Longrightarrow> \<exists>n \<in> nets. e = (RString (into_str n), None)"
  by (drule (1) well_typedD) (unfold entry_ok_def, blast)

lemma well_typed_step:
  assumes "peer_step J cfg nets pid d d'" and "well_typed J cfg nets d"
    and "0 < node_default_timeout cfg" and "0 < node_unknown_default_timeout cfg"
  shows "well_typed J cfg nets d'"
  using assms
proof (induction rule: peer_step.induct)
  case (refresh d)
  show ?case
  proof (cases "d (online_peer_key pid)")
    case (Some e)
    with well_typed_online [OF refresh(1) Some] obtain v t where "e = (RString v, Some t)" by auto
    with Some have "db_expire (online_peer_key pid) (unat (node_default_timeout cfg)) d
        = db_set_ex (online_peer_key pid) v (unat (node_default_timeout cfg)) d"
      by (simp add: db_expire_def db_set_ex_def)
    moreover have "entry_ok J cfg nets (online_peer_key pid) (RString v, Some (unat (node_default_timeout cfg)))"
      using refresh by (simp add: entry_ok_def unat_gt_0 word_neq_0_conv)
    ultimately show ?thesis
      using well_typed_upd [OF refresh(1)] by (simp only: db_set_ex_def)
  qed (use refresh in \<open>simp add: db_expire_def\<close>)
next
  case (witness d w)
  show ?case
  proof (rule well_typed_sadd [OF witness(1)])
    show "entry_ok J cfg nets (reachable_peer_key pid) (RSet (insert w S), t)"
      if "d (reachable_peer_key pid) = Some (RSet S, t)" for S t
      using well_typed_reachable [OF witness(1) that] by (simp add: entry_ok_def)
  qed (simp add: entry_ok_def)
next
  case (endpoint d x)
  show ?case unfolding endpoint_text_def [symmetric]
  proof (rule well_typed_sadd [OF endpoint(1)])
    show "entry_ok J cfg nets (peer_ip_key pid) (RSet {endpoint_text J x}, None)"
      by (auto simp: entry_ok_def intro: exI [of _ "{x}"])
    show "entry_ok J cfg nets (peer_ip_key pid) (RSet (insert (endpoint_text J x) S), t)"
      if "d (peer_ip_key pid) = Some (RSet S, t)" for S t
    proof -
      from well_typed_ip [OF endpoint(1) that] obtain es where "S = endpoint_text J ` es" "t = None" "finite es"
        by auto
      then show ?thesis by (auto simp: entry_ok_def intro: exI [of _ "insert x es"])
    qed
  qed
qed (auto simp: db_set_def db_set_ex_def entry_ok_def unat_gt_0 word_neq_0_conv
       intro!: well_typed_upd well_typed_del)

section \<open>Frames and time\<close>

lemma peer_step_frame: "peer_step J cfg nets pid d d' \<Longrightarrow> k \<notin> peer_footprint pid \<Longrightarrow> d' k = d k"
  by (induction rule: peer_step.induct) (auto simp: peer_footprint_def)

lemma peer_steps_frame:
  "(peer_step J cfg nets pid)\<^sup>*\<^sup>* d d' \<Longrightarrow> k \<notin> peer_footprint pid \<Longrightarrow> d' k = d k"
  by (induction rule: rtranclp_induct) (auto dest: peer_step_frame)

text \<open>The keys of a long enough identity are longer than any given key but the service key.\<close>

lemma footprint_length: "k \<in> peer_footprint pid \<Longrightarrow> k = service_last_update_key \<or> length pid < length k"
  by (auto simp: peer_footprint_def key_defs)

lemma fresh_footprint:
  assumes "k \<noteq> service_last_update_key"
  shows "\<exists>pid. k \<notin> peer_footprint pid"
  using footprint_length [of k "replicate (length k) CHR ''x''"] assms by auto

lemma well_typed_steps:
  "(peer_step J cfg nets pid)\<^sup>*\<^sup>* d d' \<Longrightarrow> well_typed J cfg nets d \<Longrightarrow>
   0 < node_default_timeout cfg \<Longrightarrow> 0 < node_unknown_default_timeout cfg \<Longrightarrow> well_typed J cfg nets d'"
  by (induction rule: rtranclp_induct) (auto dest: well_typed_step)

lemma entry_ok_elapse:
  assumes "entry_ok J cfg nets k (v, Some t)" and "n < t"
  shows "entry_ok J cfg nets k (v, Some (t - n))"
proof -
  have "0 < t - n" "t - n \<le> t" using assms(2) by simp_all
  with assms(1) show ?thesis unfolding entry_ok_def by (fastforce intro: le_trans)
qed

lemma well_typed_elapse:
  assumes "well_typed J cfg nets d"
  shows "well_typed J cfg nets (elapse n d)"
  unfolding well_typed_def
proof
  fix k
  show "pred_option (entry_ok J cfg nets k) (elapse n d k)"
    using well_typedD [OF assms, of k] entry_ok_elapse
    by (auto simp: elapse_def not_le split: option.split)
qed

end
