(* ===== verification/Marci_Total.thy ===== *)
theory Marci_Total
  imports Marci_Invariant
begin

text \<open>
  The refinement of the reachable arm, and that marci's arms return: while Redis and the broker
  answer, the online, the unknown and the broadcast arm never stop the program, and the reachable
  arm does not either on a data base that follows the discipline.
\<close>

section \<open>Runs of the reachable arm\<close>

text \<open>
  The states a successful run goes through, with the time stamp \<open>seen\<close> and the IP details \<open>det\<close> that
  were obtained, if they were asked for.
\<close>

definition heard_run ::
  "'s marci_env \<Rightarrow> ReachableInfo \<Rightarrow> u64 \<Rightarrow>
   's marci \<Rightarrow> 's marci \<Rightarrow> 's marci \<Rightarrow> 's marci \<Rightarrow> 's marci \<Rightarrow> 's marci \<Rightarrow> 's marci \<Rightarrow> bool" where
  "heard_run E p seen m m1 m2 m3 m4 m5 m6 \<longleftrightarrow>
     redis_q (r_sadd (redis E) (reachable_peer_key (peer_id (peer p))) (peer_id (from p))) m = (Inr (), m1)
     \<and> redis_q (r_set (redis E) (peer_network_quick_key (peer_id (peer p)) (into_str (network (peer p))))
          (arg_i32 (redis E) 0)) m1 = (Inr (), m2)
     \<and> io_for (addresses (peer p)) (\<lambda>ip. redis_q (r_sadd (redis E) (peer_ip_key (peer_id (peer p)))
          (json_or_default (endpoint_to_json (codec E) ip)))) m2 = (Inr (), m3)
     \<and> redis_q (r_set (redis E) (peer_network_key (peer_id (peer p))) (into_str (network (peer p)))) m3 = (Inr (), m4)
     \<and> now_secs E m4 = (Inr seen, m5)
     \<and> redis_q (r_set (redis E) (peer_seen_key (peer_id (peer p))) (arg_u64 (redis E) seen)) m5 = (Inr (), m6)"

definition updated :: "'s marci_env \<Rightarrow> ReachableInfo \<Rightarrow> IpDetails option \<Rightarrow> 's marci \<Rightarrow> 's marci \<Rightarrow> bool" where
  "updated E p det m m' \<longleftrightarrow>
     (\<exists>c m1. redis_r (r_get_string (redis E) (peer_country_key (peer_id (peer p)))) m = (Inr c, m1)
        \<and> (if unwrap_or [] c = []
           then \<exists>m2. query_by_reachable E p m1 = (Inr det, m2)
                  \<and> (case det of None \<Rightarrow> io_return () | Some ip \<Rightarrow> store_ip_details E (peer_id (peer p)) ip) m2 = (Inr (), m')
           else det = None \<and> m' = m1))"

lemma update_ip_info_ok: "update_ip_info E p m = (Inr u, m') \<longleftrightarrow> (\<exists>det. updated E p det m m')"
proof -
  have "(if b then io_bind q f else io_return ()) m1 = (Inr u, m') \<longleftrightarrow>
      (\<exists>det. if b then \<exists>m2. q m1 = (Inr det, m2) \<and> f det m2 = (Inr (), m') else det = None \<and> m' = m1)"
    for b and q :: "('a marci, IpDetails option) io" and f m1
    by (auto simp: io_bind_ok io_return_ok)
  note split = this
  show ?thesis unfolding update_ip_info_def updated_def io_bind_ok [of "redis_r c" for c] split by blast
qed

lemma handle_reachable_ok:
  "handle_reachable E p m = (Inr u, m') \<longleftrightarrow>
     (\<exists>seen det m1 m2 m3 m4 m5 m6 m7. heard_run E p seen m m1 m2 m3 m4 m5 m6
        \<and> updated E p det m6 m7 \<and> store_last_update E m7 = (Inr (), m'))"
  unfolding handle_reachable_def Let_def io_seq_ok to_lowercase_into_str update_ip_info_ok store_last_seen_def
    io_bind_ok heard_run_def
  by blast

section \<open>The reachable arm\<close>

context marci_world
begin

lemma sadd_all_step:
  "io_for xs (\<lambda>x. redis_q (r_sadd (redis E) k (f x))) m = (Inr u, m') \<Longrightarrow>
   mview view m' = fold (\<lambda>x. db_sadd k (f x)) xs (mview view m)"
proof (induction xs arbitrary: m u)
  case (Cons x xs)
  then obtain m1 where "redis_q (r_sadd (redis E) k (f x)) m = (Inr (), m1)"
    and "io_for xs (\<lambda>x. redis_q (r_sadd (redis E) k (f x))) m1 = (Inr (), m')"
    unfolding io_for_ok by blast
  with Cons.IH sadd_step show ?case by fastforce
qed (simp add: io_return_ok)

lemma updated_step:
  assumes "updated E p det m m'"
  shows "mview view m' = details_spec (peer_id (peer p)) det (mview view m)"
proof -
  from assms obtain c m1 where g: "redis_r (r_get_string (redis E) (peer_country_key (peer_id (peer p)))) m = (Inr c, m1)"
    and i: "if unwrap_or [] c = []
           then \<exists>m2. query_by_reachable E p m1 = (Inr det, m2)
                  \<and> (case det of None \<Rightarrow> io_return () | Some ip \<Rightarrow> store_ip_details E (peer_id (peer p)) ip) m2 = (Inr (), m')
           else det = None \<and> m' = m1"
    unfolding updated_def by blast
  have v: "mview view m1 = mview view m" using get_string_step [OF g] by simp
  show ?thesis
  proof (cases "unwrap_or [] c = []")
    case True
    with i obtain m2 where q: "query_by_reachable E p m1 = (Inr det, m2)"
      and s: "(case det of None \<Rightarrow> io_return () | Some ip \<Rightarrow> store_ip_details E (peer_id (peer p)) ip) m2 = (Inr (), m')"
      by auto
    show ?thesis by (simp only: details_opt_step [OF s] query_steps(2) [OF q] v)
  qed (use i v in \<open>simp add: details_spec_def\<close>)
qed

lemma update_ip_info_step:
  "update_ip_info E p m = (Inr u, m') \<Longrightarrow> \<exists>det. mview view m' = details_spec (peer_id (peer p)) det (mview view m)"
  unfolding update_ip_info_ok using updated_step by blast

lemma last_update_step:
  assumes "store_last_update E m = (Inr u, m')"
  shows "\<exists>t. mview view m' \<in> {mview view m, db_set service_last_update_key (arg_u64 (redis E) t) (mview view m)}"
proof -
  from assms obtain t m1 r where n: "now_secs E m = (Inr t, m1)"
    and s: "redis_r (r_set (redis E) service_last_update_key (arg_u64 (redis E) t)) m1 = (Inr r, m')"
    unfolding store_last_update_def io_bind_ok by (auto simp: io_return_ok)
  from s have "mview view m' = view (snd (r_set (redis E) service_last_update_key (arg_u64 (redis E) t) (world m1)))"
    by (auto simp: redis_r_ok)
  with writes_as_cases [OF set, of service_last_update_key "arg_u64 (redis E) t" "world m1"] now_step [OF n]
  show ?thesis by (metis insertCI mview_def)
qed

lemma heard_effect:
  assumes "heard_run E p seen m m1 m2 m3 m4 m5 m6"
  shows "mview view m6 = reachable_spec (codec E) p (arg_i32 (redis E) 0) (arg_u64 (redis E) seen) (mview view m)"
    and "\<not> is_string_key (mview view m) (reachable_peer_key (peer_id (peer p)))"
proof -
  let ?pid = "peer_id (peer p)" and ?n = "into_str (network (peer p))"
  note run = assms [unfolded heard_run_def]
  note 1 = run [THEN conjunct1] and 2 = run [THEN conjunct2, THEN conjunct1]
    and rest = run [THEN conjunct2, THEN conjunct2]
  note 3 = rest [THEN conjunct1] and 4 = rest [THEN conjunct2, THEN conjunct1]
    and 5 = rest [THEN conjunct2, THEN conjunct2, THEN conjunct1]
    and 6 = rest [THEN conjunct2, THEN conjunct2, THEN conjunct2]
  show "mview view m6 = reachable_spec (codec E) p (arg_i32 (redis E) 0) (arg_u64 (redis E) seen) (mview view m)"
    by (simp add: reachable_spec_def Let_def set_step [OF 6] now_step [OF 5] set_step [OF 4] sadd_all_step [OF 3]
          set_step [OF 2] sadd_step [OF 1])
  show "\<not> is_string_key (mview view m) (reachable_peer_key ?pid)"
    using 1 sadd_type by (auto simp: redis_q_ok mview_def)
qed

lemma handle_reachable_refines:
  assumes r: "handle_reachable E p m = (Inr u, m')"
  shows "\<exists>seen t det d.
       d = details_spec (peer_id (peer p)) det
             (reachable_spec (codec E) p (arg_i32 (redis E) 0) (arg_u64 (redis E) seen) (mview view m))
     \<and> mview view m' \<in> {d, db_set service_last_update_key (arg_u64 (redis E) t) d}
     \<and> \<not> is_string_key (mview view m) (reachable_peer_key (peer_id (peer p)))"
proof -
  from r obtain seen det m1 m2 m3 m4 m5 m6 m7 where
    h: "heard_run E p seen m m1 m2 m3 m4 m5 m6" and d: "updated E p det m6 m7"
    and l: "store_last_update E m7 = (Inr (), m')"
    unfolding handle_reachable_ok by blast
  from last_update_step [OF l] heard_effect [OF h] updated_step [OF d] show ?thesis by metis
qed

end

section \<open>The arms return\<close>

text \<open>Redis answers and the broker takes publications.\<close>

locale marci_answers = marci_world E view glob + redis_up "redis E" view glob
  for E :: "'s marci_env" and view :: "'s \<Rightarrow> db" and glob +
  assumes publish_up: "\<exists>s'. mqtt_publish E t p s = (Inr (), s')"

text \<open>
  The timeouts with which no arm can fail. The configuration accepts any 64-bit number, but Redis
  refuses a life of no time and one that is too long, and a number above the signed range makes
  \<open>try_into().unwrap()\<close> panic.
\<close>

definition accepted_timeouts :: "marci_config \<Rightarrow> bool" where
  "accepted_timeouts cfg \<longleftrightarrow>
     0 < unat (node_default_timeout cfg) \<and> unat (node_default_timeout cfg) \<le> redis_max_expiry
     \<and> 0 < unat (node_unknown_default_timeout cfg) \<and> unat (node_unknown_default_timeout cfg) \<le> redis_max_expiry"

locale marci_up = marci_answers E view glob + marci_service E view glob cfg
  for E :: "'s marci_env" and view :: "'s \<Rightarrow> db" and glob and cfg +
  assumes accepted: "accepted_timeouts cfg"
begin

lemma T_max: "unat (node_default_timeout cfg) \<le> redis_max_expiry"
  and U_max: "unat (node_unknown_default_timeout cfg) \<le> redis_max_expiry"
  using accepted by (simp_all add: accepted_timeouts_def)

lemma T_i64: "uint (node_default_timeout cfg) < 2 ^ 63"
proof -
  have "uint (node_default_timeout cfg) \<le> int redis_max_expiry"
    using T_max unfolding unat_eq_nat_uint nat_le_iff .
  then show ?thesis by (simp add: redis_max_expiry_def)
qed

lemma redis_q_total: "(\<And>s. \<exists>x s'. c s = (Inr x, s')) \<Longrightarrow> io_total (redis_q c)"
  unfolding redis_q_def
  by (rule io_total_question) (metis on_world_ok)

lemma set_total: "io_total (redis_q (r_set (redis E) k v))"
  using up_set by (intro redis_q_total) blast

lemma set_ex_total: "0 < n \<Longrightarrow> unat n \<le> redis_max_expiry \<Longrightarrow> io_total (redis_q (r_set_ex (redis E) k v n))"
  using up_set_ex by (intro redis_q_total) blast

lemma del_total: "io_total (redis_q (r_del (redis E) k))"
  using up_del by (intro redis_q_total) blast

lemma keys_total: "io_total (redis_q (r_keys (redis E) k))"
  using up_keys by (intro redis_q_total) blast

lemma redis_r_total: "io_total (redis_r c)"
  by (simp add: redis_r_def io_total_await)

lemma expire_total:
  "io_total (io_bind (io_lift (try_into_i64 (node_default_timeout cfg))) (\<lambda>t. redis_q (r_expire (redis E) k t)))"
proof -
  have "0 < uint (node_default_timeout cfg)" using T_pos by (simp add: word_less_def)
  then have "io_total (redis_q (r_expire (redis E) k (uint (node_default_timeout cfg))))"
    using up_expire T_max by (intro redis_q_total) (simp add: nat_uint_eq)
  then show ?thesis using T_i64 by (simp add: try_into_i64_def io_bind_def io_lift_def)
qed

lemma now_total: "io_total (now_secs E)"
  unfolding now_secs_def by (intro io_total_intros)

lemma last_seen_total: "io_total (store_last_seen E pid)"
  unfolding store_last_seen_def by (intro io_total_intros now_total set_total)

lemma last_update_total: "io_total (store_last_update E)"
  unfolding store_last_update_def by (intro io_total_intros now_total redis_r_total)

lemma details_total: "io_total (store_ip_details E pid ip)"
  unfolding store_ip_details_def by (auto intro!: io_total_intros set_total)

lemma lookup_total: "io_total (lookup_ipinfo E ip)"
  unfolding lookup_ipinfo_def by (auto split: option.split sum.split intro!: io_total_intros)

lemma query_total: "io_total (query_addresses E xs)"
  by (induction xs) (auto split: sum.split intro!: io_total_intros lookup_total)

lemma query_by_total: "io_total (query_by_ip E x)" "io_total (query_by_reachable E p)"
  unfolding query_by_ip_def query_by_reachable_def
  by (auto split: sum.split intro!: io_total_intros lookup_total query_total)

lemmas total_intros = io_total_intros set_total set_ex_total del_total keys_total redis_r_total
  expire_total last_seen_total last_update_total details_total query_by_total T_pos U_pos T_max U_max

lemma refresh_or_else_total: "io_total other \<Longrightarrow> io_total (refresh_or_else E cfg pid other)"
  unfolding refresh_or_else_def by (auto split: sum.split intro!: total_intros)

lemma handle_online_total: "io_total (handle_online E cfg p)"
  unfolding handle_online_def record_address_def Let_def
  by (auto split: list.split option.split intro!: refresh_or_else_total total_intros)

lemma handle_unknown_total: "io_total (handle_unknown E cfg p)"
  unfolding handle_unknown_def verify_witnesses_def
  by (auto simp del: io_seq.simps intro!: refresh_or_else_total total_intros)

lemma update_ip_info_total: "io_total (update_ip_info E p)"
  unfolding update_ip_info_def by (auto split: option.split intro!: total_intros)

lemma handle_tick_total: "io_total (handle_tick E)"
proof -
  have "io_total (io_question MqttError (on_world (mqtt_publish E t x)))" for t x
    using publish_up by (intro io_total_question) (metis on_world_ok)
  then show ?thesis
    unfolding handle_tick_def broadcast_peer_def Let_def by (auto intro!: total_intros)
qed

lemma not_string_key:
  "well_typed J c nets d \<Longrightarrow> \<not> is_string_key d (reachable_peer_key pid)"
  "well_typed J c nets d \<Longrightarrow> \<not> is_string_key d (peer_ip_key pid)"
  by (auto simp: is_string_key_def split: option.splits prod.splits rval.splits
        dest: well_typed_reachable well_typed_ip)

lemma sadd_returns:
  "\<not> is_string_key (mview view m) k \<Longrightarrow> \<exists>m'. redis_q (r_sadd (redis E) k x) m = (Inr (), m')"
  using up_sadd by (fastforce simp: redis_q_ok mview_def)

lemma endpoints_return:
  "well_typed (codec E) cfg nets (mview view m) \<Longrightarrow>
   \<exists>m'. io_for xs (\<lambda>x. redis_q (r_sadd (redis E) (peer_ip_key pid)
            (json_or_default (endpoint_to_json (codec E) x)))) m = (Inr (), m')"
proof (induction xs arbitrary: m)
  case (Cons x xs)
  obtain m1 where m1: "redis_q (r_sadd (redis E) (peer_ip_key pid)
      (json_or_default (endpoint_to_json (codec E) x))) m = (Inr (), m1)"
    using sadd_returns not_string_key(2) [OF Cons.prems] by blast
  have "well_typed (codec E) cfg nets (mview view m1)"
    unfolding sadd_step [OF m1]
    by (rule well_typed_step [OF peer_step.endpoint Cons.prems T_pos U_pos])
  with Cons.IH m1 show ?case by (simp only: io_for_ok) blast
qed (simp add: io_return_def)

lemma io_totalD: "io_total c \<Longrightarrow> \<exists>x m'. c m = (Inr x, m')"
  by (simp add: io_total_def)

lemma handle_reachable_returns:
  assumes "well_typed (codec E) cfg nets (mview view m)" and "network (peer p) \<in> nets"
  shows "\<exists>m'. handle_reachable E p m = (Inr (), m')"
proof -
  let ?pid = "peer_id (peer p)" and ?n = "network (peer p)"
  obtain m1 where
    1: "redis_q (r_sadd (redis E) (reachable_peer_key ?pid) (peer_id (from p))) m = (Inr (), m1)"
    using sadd_returns not_string_key(1) [OF assms(1)] by blast
  obtain m2 where
    2: "redis_q (r_set (redis E) (peer_network_quick_key ?pid (into_str ?n)) (arg_i32 (redis E) 0)) m1 = (Inr (), m2)"
    using io_totalD [OF set_total] by fastforce
  note w = assms(1) T_pos U_pos
  have "well_typed (codec E) cfg nets (mview view m2)"
    unfolding set_step [OF 2] sadd_step [OF 1]
    by (rule well_typed_step [OF peer_step.quick [OF assms(2)] well_typed_step [OF peer_step.witness w] w(2,3)])
  from endpoints_return [OF this] obtain m3 where
    3: "io_for (addresses (peer p)) (\<lambda>x. redis_q (r_sadd (redis E) (peer_ip_key ?pid)
            (json_or_default (endpoint_to_json (codec E) x)))) m2 = (Inr (), m3)" by blast
  have "io_total (io_seq [redis_q (r_set (redis E) (peer_network_key ?pid) (into_str ?n)), store_last_seen E ?pid,
      update_ip_info E p, store_last_update E])"
    by (auto simp del: io_seq.simps intro!: io_total_seq set_total last_seen_total update_ip_info_total last_update_total)
  from io_totalD [OF this] 1 2 3 show ?thesis
    unfolding handle_reachable_def Let_def to_lowercase_into_str io_seq_ok by fastforce
qed

section \<open>Exact effects\<close>

lemma get_string_found:
  "isl (fst (r_get_string (redis E) k s)) \<Longrightarrow> \<not> is_string_key (view s) k"
  using up_get_string by (fastforce simp: is_string_key_def split: option.splits rval.splits)

lemma handle_online_exact:
  "\<exists>m' det t. handle_online E cfg p m = (Inr (), m')
     \<and> mview view m' = online_spec (codec E) cfg p (arg_bool (redis E) (full p))
         (is_string_key (mview view m) (online_peer_key (peer_id (info p)))) det (arg_u64 (redis E) t) (mview view m)"
proof -
  obtain m' where r: "handle_online E cfg p m = (Inr (), m')"
    using io_totalD [OF handle_online_total] by fastforce
  from handle_online_refines [OF T_pos r] obtain found det t where
    v: "mview view m' = online_spec (codec E) cfg p (arg_bool (redis E) (full p)) found det
          (arg_u64 (redis E) t) (mview view m)"
    and "found \<longrightarrow> is_string_key (mview view m) (online_peer_key (peer_id (info p)))"
    and "\<not> found \<longrightarrow> isl (fst (r_get_string (redis E) (online_peer_key (peer_id (info p))) (world m)))"
    by blast
  then have "found = is_string_key (mview view m) (online_peer_key (peer_id (info p)))"
    using get_string_found by (auto simp: mview_def)
  with r v show ?thesis by blast
qed

lemma verify_witnesses_exact:
  assumes "verify_witnesses E cfg pid m = (Inr u, m')"
    and "\<not> is_string_key (mview view m) (reachable_peer_key pid)"
    and "card (db_members (mview view m) (reachable_peer_key pid)) < 2 ^ 64"
  shows "mview view m' =
      (if unat (node_default_witnesses cfg) \<le> card (db_members (mview view m) (reachable_peer_key pid))
       then db_del (reachable_peer_key pid)
             (db_set_ex (unknown_peer_key pid) ''unknown'' (unat (node_unknown_default_timeout cfg)) (mview view m))
       else mview view m)"
proof -
  obtain c w where c: "r_scard (redis E) (reachable_peer_key pid) (world m) = (Inr c, w)"
    using up_scard [OF assms(2,3) [unfolded mview_def]] by blast
  then have "unat c = card (db_members (mview view m) (reachable_peer_key pid))"
    using readsD [OF scard] by (simp add: mview_def)
  with verify_witnesses_step [OF U_pos assms(1)] c show ?thesis by auto
qed

lemma handle_unknown_exact:
  assumes "well_typed (codec E) cfg nets (mview view m)"
    and "card (db_members (mview view m) (reachable_peer_key (peer_id p))) < 2 ^ 64"
  shows "\<exists>m' t. handle_unknown E cfg p m = (Inr (), m')
     \<and> mview view m' = unknown_spec cfg (peer_id p) (is_string_key (mview view m) (online_peer_key (peer_id p)))
         (card (db_members (mview view m) (reachable_peer_key (peer_id p)))) (arg_u64 (redis E) t) (mview view m)"
proof -
  let ?pid = "peer_id p"
  obtain m' where r: "handle_unknown E cfg p m = (Inr (), m')"
    using io_totalD [OF handle_unknown_total] by fastforce
  then obtain m1 where
    1: "refresh_or_else E cfg ?pid (verify_witnesses E cfg ?pid) m = (Inr (), m1)"
    and 2: "store_last_seen E ?pid m1 = (Inr (), m')"
    unfolding handle_unknown_def io_seq_ok by blast
  from last_seen_step [OF 2] obtain t where
    t: "mview view m' = db_set (peer_seen_key ?pid) (arg_u64 (redis E) t) (mview view m1)" by blast
  have "mview view m' = unknown_spec cfg ?pid (is_string_key (mview view m) (online_peer_key ?pid))
      (card (db_members (mview view m) (reachable_peer_key ?pid))) (arg_u64 (redis E) t) (mview view m)"
  proof (rule refresh_or_else_step [OF T_pos 1], goal_cases found other)
    case found
    with t show ?case by (simp add: unknown_spec_def)
  next
    case (other m2)
    then have "\<not> is_string_key (mview view m) (online_peer_key ?pid)"
      using get_string_found by (auto simp: mview_def)
    with t verify_witnesses_exact [OF other(3)] other(2) assms not_string_key(1) [OF assms(1)]
    show ?case by (simp add: unknown_spec_def)
  qed
  with r show ?thesis by blast
qed

end

lemma marci_upI:
  assumes "marci_answers E view glob" and "accepted_timeouts cfg"
  shows "marci_up E view glob cfg"
  using assms
  by (intro marci_up.intro marci_service.intro marci_service_axioms.intro marci_up_axioms.intro)
     (simp_all add: marci_answers_def accepted_timeouts_def unat_gt_0 word_neq_0_conv)

end
