(* ===== verification/Marci_Machine.thy ===== *)
theory Marci_Machine
  imports Marci_Total
begin

text \<open>
  Marci as a whole: the task that receives from MQTT puts the reports into three bounded channels
  and reconnects when the connection is lost, and the main loop takes one event at a time, a report from one of the channels or a tick of the
  broadcast timer, in any order. An arm that fails ends the program. The machine has one step per
  event, and one per attempt to reconnect, so that the main loop goes on in between; between events
  time passes in the data base.
\<close>

section \<open>The machine\<close>

text \<open>\<open>reconnecting\<close> is the number of failed attempts while the receiving task reconnects.\<close>

record 's machine =
  online_q :: "PeerInfo list"
  reachable_q :: "ReachableInfo list"
  unknown_q :: "NodeMetaInfo list"
  reconnecting :: "nat option"
  core :: "'s marci"
  exited :: "failure option"

datatype delivery = ToOnline PeerInfo | ToReachable ReachableInfo | ToUnknown NodeMetaInfo

text \<open>The receiving task: which channel a message goes to, if it parses and the topic is known.\<close>

definition route :: "json_codec \<Rightarrow> mqtt_message \<Rightarrow> delivery option" where
  "route J msg =
     (if topic msg = ''peer/online'' then map_option ToOnline (peer_from_json J (mqtt_payload msg))
      else if topic msg = ''peer/online2'' then map_option ToOnline (peer_from_json J (mqtt_payload msg))
      else if topic msg = ''peer/reachable'' then map_option ToReachable (reachable_from_json J (mqtt_payload msg))
      else if topic msg = ''peer/unknown'' then map_option ToUnknown (node_from_json J (mqtt_payload msg))
      else None)"

definition online_capacity :: nat where "online_capacity = 100"
definition reachable_capacity :: nat where "reachable_capacity = 500"
definition unknown_capacity :: nat where "unknown_capacity = 100"

text \<open>\<open>send(..).await\<close> on a bounded channel: \<open>None\<close> while it has no room.\<close>

definition send_delivery :: "delivery \<Rightarrow> 's machine \<Rightarrow> 's machine option" where
  "send_delivery dl M =
     (case dl of
        ToOnline p \<Rightarrow>
          if length (online_q M) < online_capacity then Some (M\<lparr>online_q := online_q M @ [p]\<rparr>) else None
      | ToReachable p \<Rightarrow>
          if length (reachable_q M) < reachable_capacity then Some (M\<lparr>reachable_q := reachable_q M @ [p]\<rparr>) else None
      | ToUnknown p \<Rightarrow>
          if length (unknown_q M) < unknown_capacity then Some (M\<lparr>unknown_q := unknown_q M @ [p]\<rparr>) else None)"

text \<open>
  The receiving task on a lost connection: it receives nothing until a call of \<open>reconnect\<close> succeeds.
  Both are \<open>None\<close> when the task is not in the state in question.
\<close>

definition connection_lost :: "'s machine \<Rightarrow> 's machine option" where
  "connection_lost M =
     (case reconnecting M of None \<Rightarrow> Some (M\<lparr>reconnecting := Some 0\<rparr>) | Some _ \<Rightarrow> None)"

definition reconnect_attempt :: "'s marci_env \<Rightarrow> 's machine \<Rightarrow> 's machine option" where
  "reconnect_attempt E M =
     (case reconnecting M of
        None \<Rightarrow> None
      | Some rconn_attempt \<Rightarrow>
          (case on_world (mqtt_reconnect E) (core M) of
             (Inl _, m) \<Rightarrow> Some (M\<lparr>reconnecting := Some (Suc rconn_attempt), core := m\<rparr>)
           | (Inr _, m) \<Rightarrow> Some (M\<lparr>reconnecting := None, core := m\<rparr>)))"

text \<open>Running an arm of the loop: an error or a panic ends \<open>main\<close>.\<close>

definition run_arm :: "('s marci, unit) io \<Rightarrow> 's machine \<Rightarrow> 's machine" where
  "run_arm arm M =
     (case arm (core M) of
        (Inr _, m) \<Rightarrow> M\<lparr>core := m\<rparr>
      | (Inl e, m) \<Rightarrow> M\<lparr>core := m, exited := Some e\<rparr>)"

text \<open>The branches of \<open>select!\<close>: \<open>None\<close> when the branch is not ready.\<close>

definition select_online :: "'s marci_env \<Rightarrow> marci_config \<Rightarrow> 's machine \<Rightarrow> 's machine option" where
  "select_online E cfg M =
     (case online_q M of
        [] \<Rightarrow> None
      | p # ps \<Rightarrow> Some (run_arm (handle_online E cfg p) (M\<lparr>online_q := ps\<rparr>)))"

definition select_unknown :: "'s marci_env \<Rightarrow> marci_config \<Rightarrow> 's machine \<Rightarrow> 's machine option" where
  "select_unknown E cfg M =
     (case unknown_q M of
        [] \<Rightarrow> None
      | p # ps \<Rightarrow> Some (run_arm (handle_unknown E cfg p) (M\<lparr>unknown_q := ps\<rparr>)))"

definition select_reachable :: "'s marci_env \<Rightarrow> 's machine \<Rightarrow> 's machine option" where
  "select_reachable E M =
     (case reachable_q M of
        [] \<Rightarrow> None
      | p # ps \<Rightarrow> Some (run_arm (handle_reachable E p) (M\<lparr>reachable_q := ps\<rparr>)))"

definition select_tick :: "'s marci_env \<Rightarrow> 's machine \<Rightarrow> 's machine option" where
  "select_tick E M = Some (run_arm (handle_tick E) M)"

text \<open>\<open>nets\<close> are the networks that reachable reports name; \<open>UNIV\<close> puts no restriction.\<close>

definition names_only :: "CKBNetworkType set \<Rightarrow> delivery \<Rightarrow> bool" where
  "names_only nets dl \<longleftrightarrow> (case dl of ToReachable p \<Rightarrow> network (peer p) \<in> nets | _ \<Rightarrow> True)"

inductive marci_step ::
  "'s marci_env \<Rightarrow> ('s \<Rightarrow> db) \<Rightarrow> marci_config \<Rightarrow> CKBNetworkType set \<Rightarrow> 's machine \<Rightarrow> 's machine \<Rightarrow> bool"
  for E view cfg nets where
  receive: "exited M = None \<Longrightarrow> reconnecting M = None \<Longrightarrow> route (codec E) msg = Some dl \<Longrightarrow> names_only nets dl \<Longrightarrow>
    send_delivery dl M = Some M' \<Longrightarrow> marci_step E view cfg nets M M'"
| lost: "exited M = None \<Longrightarrow> connection_lost M = Some M' \<Longrightarrow> marci_step E view cfg nets M M'"
| attempt: "exited M = None \<Longrightarrow> reconnect_attempt E M = Some M' \<Longrightarrow> marci_step E view cfg nets M M'"
| online: "exited M = None \<Longrightarrow> select_online E cfg M = Some M' \<Longrightarrow> marci_step E view cfg nets M M'"
| unknown: "exited M = None \<Longrightarrow> select_unknown E cfg M = Some M' \<Longrightarrow> marci_step E view cfg nets M M'"
| reachable: "exited M = None \<Longrightarrow> select_reachable E M = Some M' \<Longrightarrow> marci_step E view cfg nets M M'"
| tick: "exited M = None \<Longrightarrow> select_tick E M = Some M' \<Longrightarrow> marci_step E view cfg nets M M'"
| time: "exited M = None \<Longrightarrow> view w = elapse n (mview view (core M)) \<Longrightarrow>
    marci_step E view cfg nets M (M\<lparr>core := (core M)\<lparr>world := w\<rparr>\<rparr>)"

definition initial_machine :: "'s \<Rightarrow> 's machine" where
  "initial_machine w =
     \<lparr>online_q = [], reachable_q = [], unknown_q = [], reconnecting = None,
      core = \<lparr>ipinfo_cache = (\<lambda>_. None), world = w\<rparr>, exited = None\<rparr>"

text \<open>
  What decides, once the connections are there, whether the loop is reached: the configuration and
  the timer, whose constructor \<open>tokio::time::interval\<close> is the parameter \<open>interval\<close>.
\<close>

definition marci_start ::
  "(u64 \<Rightarrow> failure + unit) \<Rightarrow> (string \<Rightarrow> string option) \<Rightarrow> 's \<Rightarrow> failure + (marci_config \<times> 's machine)" where
  "marci_start interval env w =
     res_bind (read_config env) (\<lambda>cfg.
     res_bind (interval (broadcast_interval cfg)) (\<lambda>_.
       Inr (cfg, initial_machine w)))"

inductive_cases marci_stepE: "marci_step E view cfg nets M M'"

section \<open>The invariant\<close>

definition machine_ok :: "('s \<Rightarrow> db) \<Rightarrow> json_codec \<Rightarrow> marci_config \<Rightarrow> CKBNetworkType set \<Rightarrow> 's machine \<Rightarrow> bool" where
  "machine_ok view J cfg nets M \<longleftrightarrow>
     length (online_q M) \<le> online_capacity
     \<and> length (reachable_q M) \<le> reachable_capacity
     \<and> length (unknown_q M) \<le> unknown_capacity
     \<and> list_all (\<lambda>p. network (peer p) \<in> nets) (reachable_q M)
     \<and> well_typed J cfg nets (mview view (core M))"

lemmas select_defs = select_online_def select_unknown_def select_reachable_def select_tick_def

lemma run_arm_simps [simp]:
  "online_q (run_arm arm M) = online_q M" "reachable_q (run_arm arm M) = reachable_q M"
  "unknown_q (run_arm arm M) = unknown_q M" "reconnecting (run_arm arm M) = reconnecting M" "core (run_arm arm M) = snd (arm (core M))"
  by (simp_all add: run_arm_def split: prod.splits sum.splits)

lemma run_arm_exited: "arm (core M) = (Inr u, m') \<Longrightarrow> exited (run_arm arm M) = exited M"
  by (simp add: run_arm_def)

lemma connection_lost_ok:
  "connection_lost M = Some M' \<Longrightarrow> machine_ok view J cfg nets M \<Longrightarrow> machine_ok view J cfg nets M' \<and> exited M' = exited M"
  by (auto simp: connection_lost_def machine_ok_def split: option.splits)

lemma reconnect_attempt_ok:
  assumes "reconnect_attempt E M = Some M'" and "keeps_view view (mqtt_reconnect E)" and "machine_ok view J cfg nets M"
  shows "machine_ok view J cfg nets M' \<and> exited M' = exited M"
  using assms keeps_viewD [OF assms(2)]
  by (auto simp: reconnect_attempt_def on_world_def machine_ok_def mview_def
        split: option.splits prod.splits sum.splits)

lemma send_delivery_ok:
  assumes "send_delivery dl M = Some M'" and "names_only nets dl" and "machine_ok view J cfg nets M"
  shows "machine_ok view J cfg nets M' \<and> exited M' = exited M \<and> core M' = core M"
  using assms
  by (cases dl) (auto simp: send_delivery_def names_only_def machine_ok_def split: if_splits)

context marci_service
begin

lemma wrote_well_typed:
  assumes "io_obeys (wrote view (codec E) cfg nets pid) arm" and "well_typed (codec E) cfg nets (mview view m)"
  shows "well_typed (codec E) cfg nets (mview view (snd (arm m)))"
proof (rule well_typed_steps [OF _ assms(2) T_pos U_pos])
  show "(peer_step (codec E) cfg nets pid)\<^sup>*\<^sup>* (mview view m) (mview view (snd (arm m)))"
    using assms(1) by (simp add: io_obeys_def wrote_def)
qed

lemma marci_step_ok:
  "marci_step E view cfg nets M M' \<Longrightarrow> machine_ok view (codec E) cfg nets M \<Longrightarrow>
   machine_ok view (codec E) cfg nets M'"
proof (induction rule: marci_step.induct)
  case (receive M msg dl M')
  then show ?case using send_delivery_ok by blast
next
  case (online M M')
  then show ?case
    using wrote_well_typed [OF handle_online_wrote]
    by (auto simp: select_defs machine_ok_def split: list.splits)
next
  case (unknown M M')
  then show ?case
    using wrote_well_typed [OF handle_unknown_wrote]
    by (auto simp: select_defs machine_ok_def split: list.splits)
next
  case (reachable M M')
  then show ?case
    using wrote_well_typed [OF handle_reachable_wrote]
    by (auto simp: select_defs machine_ok_def split: list.splits)
next
  case (tick M M')
  then show ?case
    using wrote_well_typed [OF handle_tick_wrote] by (auto simp: select_defs machine_ok_def)
next
  case (time M w n)
  then show ?case by (auto simp: machine_ok_def well_typed_elapse)
qed (use connection_lost_ok reconnect_attempt_ok [OF _ reconnect_keeps] in blast)+

lemma marci_steps_ok:
  "(marci_step E view cfg nets)\<^sup>*\<^sup>* M M' \<Longrightarrow> machine_ok view (codec E) cfg nets M \<Longrightarrow>
   machine_ok view (codec E) cfg nets M'"
  by (induction rule: rtranclp_induct) (auto dest: marci_step_ok)

lemma reachable_machine_ok:
  assumes "well_typed (codec E) cfg nets (view w)" and "(marci_step E view cfg nets)\<^sup>*\<^sup>* (initial_machine w) M"
  shows "machine_ok view (codec E) cfg nets M"
  using marci_steps_ok [OF assms(2)] assms(1)
  by (simp add: machine_ok_def initial_machine_def mview_def)

end

section \<open>Progress\<close>

text \<open>What waits in the channels, and the arm that takes it.\<close>

definition waiting :: "'s machine \<Rightarrow> delivery list" where
  "waiting M = map ToOnline (online_q M) @ map ToUnknown (unknown_q M) @ map ToReachable (reachable_q M)"

definition arm_of :: "'s marci_env \<Rightarrow> marci_config \<Rightarrow> delivery \<Rightarrow> ('s marci, unit) io" where
  "arm_of E cfg dl =
     (case dl of
        ToOnline p \<Rightarrow> handle_online E cfg p
      | ToUnknown p \<Rightarrow> handle_unknown E cfg p
      | ToReachable p \<Rightarrow> handle_reachable E p)"

lemma arm_of_simps [simp]:
  "arm_of E cfg (ToOnline p) = handle_online E cfg p"
  "arm_of E cfg (ToUnknown q) = handle_unknown E cfg q"
  "arm_of E cfg (ToReachable r) = handle_reachable E r"
  by (simp_all add: arm_of_def)

lemma waiting_runs:
  "io_for (waiting M) (arm_of E cfg) m = (Inr (), m') \<longleftrightarrow>
     io_seq [io_for (online_q M) (handle_online E cfg), io_for (unknown_q M) (handle_unknown E cfg),
             io_for (reachable_q M) (handle_reachable E)] m = (Inr (), m')"
  by (simp add: waiting_def io_for_append_ok io_for_map io_seq_ok del: io_seq.simps)

lemma waiting_Nil: "waiting M = [] \<longleftrightarrow> online_q M = [] \<and> reachable_q M = [] \<and> unknown_q M = []"
  by (auto simp: waiting_def)

context marci_up
begin

lemma marci_step_not_exited:
  "marci_step E view cfg nets M M' \<Longrightarrow> machine_ok view (codec E) cfg nets M \<Longrightarrow> exited M' = None"
proof (induction rule: marci_step.induct)
  case (receive M msg dl M')
  then show ?case using send_delivery_ok by metis
next
  case (online M M')
  then obtain p ps where q: "M' = run_arm (handle_online E cfg p) (M\<lparr>online_q := ps\<rparr>)"
    by (auto simp: select_defs split: list.splits)
  obtain x m' where "handle_online E cfg p (core M) = (Inr x, m')"
    using io_totalD [OF handle_online_total] by blast
  with q online show ?case by (simp add: run_arm_exited)
next
  case (unknown M M')
  then obtain p ps where q: "M' = run_arm (handle_unknown E cfg p) (M\<lparr>unknown_q := ps\<rparr>)"
    by (auto simp: select_defs split: list.splits)
  obtain x m' where "handle_unknown E cfg p (core M) = (Inr x, m')"
    using io_totalD [OF handle_unknown_total] by blast
  with q unknown show ?case by (simp add: run_arm_exited)
next
  case (reachable M M')
  then obtain p ps where q: "reachable_q M = p # ps"
    "M' = run_arm (handle_reachable E p) (M\<lparr>reachable_q := ps\<rparr>)"
    by (auto simp: select_defs split: list.splits)
  with reachable obtain m' where "handle_reachable E p (core M) = (Inr (), m')"
    using handle_reachable_returns by (fastforce simp: machine_ok_def)
  with q reachable show ?case by (simp add: run_arm_exited)
next
  case (tick M M')
  obtain x m' where "handle_tick E (core M) = (Inr x, m')"
    using io_totalD [OF handle_tick_total] by blast
  with tick show ?case by (auto simp: select_defs run_arm_exited)
qed (use connection_lost_ok reconnect_attempt_ok [OF _ reconnect_keeps] in fastforce)+

lemma marci_steps_not_exited:
  "(marci_step E view cfg nets)\<^sup>*\<^sup>* M M' \<Longrightarrow> machine_ok view (codec E) cfg nets M \<Longrightarrow> exited M = None \<Longrightarrow>
   exited M' = None"
  by (induction rule: rtranclp_induct) (auto dest: marci_step_not_exited marci_steps_ok)

lemma reachable_not_exited:
  assumes "well_typed (codec E) cfg nets (view w)" and "(marci_step E view cfg nets)\<^sup>*\<^sup>* (initial_machine w) M"
  shows "exited M = None"
  using marci_steps_not_exited [OF assms(2)] assms(1)
  by (simp add: machine_ok_def initial_machine_def mview_def)

text \<open>
  The reports that wait can all be handled: each arm takes the first report of its channel and
  leaves the rest.
\<close>

lemma waiting_step:
  assumes "waiting M = dl # dls" and ok: "machine_ok view (codec E) cfg nets M" and "exited M = None"
  shows "\<exists>M'. marci_step E view cfg nets M M' \<and> waiting M' = dls \<and> exited M' = None
     \<and> arm_of E cfg dl (core M) = (Inr (), core M')"
proof -
  have ex: "exited M' = None" if "marci_step E view cfg nets M M'" for M'
    using marci_step_not_exited [OF that ok] .
  consider p ps where "online_q M = p # ps" "dl = ToOnline p"
      "dls = map ToOnline ps @ map ToUnknown (unknown_q M) @ map ToReachable (reachable_q M)"
    | p ps where "online_q M = []" "unknown_q M = p # ps" "dl = ToUnknown p"
      "dls = map ToUnknown ps @ map ToReachable (reachable_q M)"
    | p ps where "online_q M = []" "unknown_q M = []" "reachable_q M = p # ps" "dl = ToReachable p"
      "dls = map ToReachable ps"
    using assms(1) by (auto simp: waiting_def append_eq_Cons_conv map_eq_Cons_conv)
  then show ?thesis
  proof cases
    case 1
    obtain m' where m': "handle_online E cfg p (core M) = (Inr (), m')"
      using io_totalD [OF handle_online_total] by fastforce
    let ?M = "run_arm (handle_online E cfg p) (M\<lparr>online_q := ps\<rparr>)"
    have "marci_step E view cfg nets M ?M"
      by (rule marci_step.online [OF assms(3)]) (simp add: select_online_def 1)
    with ex 1 m' show ?thesis by (intro exI [of _ ?M]) (simp add: waiting_def)
  next
    case 2
    obtain m' where m': "handle_unknown E cfg p (core M) = (Inr (), m')"
      using io_totalD [OF handle_unknown_total] by fastforce
    let ?M = "run_arm (handle_unknown E cfg p) (M\<lparr>unknown_q := ps\<rparr>)"
    have "marci_step E view cfg nets M ?M"
      by (rule marci_step.unknown [OF assms(3)]) (simp add: select_unknown_def 2)
    with ex 2 m' show ?thesis by (intro exI [of _ ?M]) (simp add: waiting_def)
  next
    case 3
    then obtain m' where m': "handle_reachable E p (core M) = (Inr (), m')"
      using handle_reachable_returns ok by (fastforce simp: machine_ok_def)
    let ?M = "run_arm (handle_reachable E p) (M\<lparr>reachable_q := ps\<rparr>)"
    have "marci_step E view cfg nets M ?M"
      by (rule marci_step.reachable [OF assms(3)]) (simp add: select_reachable_def 3)
    with ex 3 m' show ?thesis by (intro exI [of _ ?M]) (simp add: waiting_def)
  qed
qed

lemma queues_drain:
  "machine_ok view (codec E) cfg nets M \<Longrightarrow> exited M = None \<Longrightarrow>
   \<exists>M'. (marci_step E view cfg nets)\<^sup>*\<^sup>* M M' \<and> waiting M' = [] \<and> exited M' = None
     \<and> io_for (waiting M) (arm_of E cfg) (core M) = (Inr (), core M')"
proof (induction "waiting M" arbitrary: M)
  case Nil
  then show ?case by (intro exI [of _ M]) (simp add: io_return_def)
next
  case (Cons dl dls)
  from waiting_step [OF Cons.hyps(2) [symmetric] Cons.prems] obtain M1 where
    s: "marci_step E view cfg nets M M1" and w: "waiting M1 = dls" and "exited M1 = None"
    and a: "arm_of E cfg dl (core M) = (Inr (), core M1)" by blast
  with Cons.hyps(1) [OF w [symmetric]] marci_step_ok [OF s Cons.prems(1)] obtain M' where
    "(marci_step E view cfg nets)\<^sup>*\<^sup>* M1 M'" "waiting M' = []" "exited M' = None"
    "io_for dls (arm_of E cfg) (core M1) = (Inr (), core M')" by blast
  with s a show ?case
    unfolding Cons.hyps(2) [symmetric] io_for_ok by (meson converse_rtranclp_into_rtranclp)
qed

end

end
