(* ===== verification/Marci_Broadcast.thy ===== *)
theory Marci_Broadcast
  imports Marci_Machine
begin

text \<open>
  The broadcast of the timer arm: what is published, observed through the log \<open>sent\<close> of the
  broker. Each peer with a reachable entry is asked to be dialled once, with all its stored
  endpoints and its stored network.
\<close>

section \<open>The requests\<close>

definition stored_network :: "db \<Rightarrow> string \<Rightarrow> CKBNetworkType" where
  "stored_network d pid =
     (case d (peer_network_key pid) of Some (RString v, _) \<Rightarrow> network_from_string v | _ \<Rightarrow> Mirana)"

definition stored_endpoints :: "json_codec \<Rightarrow> db \<Rightarrow> string \<Rightarrow> EndpointInfo set" where
  "stored_endpoints J d pid = {e. \<exists>s \<in> db_members d (peer_ip_key pid). endpoint_from_json J s = Some e}"

definition request_for :: "json_codec \<Rightarrow> db \<Rightarrow> string \<Rightarrow> NodeMetaInfo \<Rightarrow> bool" where
  "request_for J d pid n \<longleftrightarrow>
     peer_id n = pid \<and> set (addresses n) = stored_endpoints J d pid \<and> network n = stored_network d pid"

definition dial_message :: "json_codec \<Rightarrow> NodeMetaInfo \<Rightarrow> string \<times> string" where
  "dial_message J n = (''peer/needs_dial'', json_or_default (node_to_json J n))"

lemma network_from_empty: "network_from_string [] = Mirana"
  by (simp add: network_from_string_def)

lemma set_parse_endpoints:
  "set (parse_endpoints J xs) = {e. \<exists>s \<in> set xs. endpoint_from_json J s = Some e}"
  by (force simp: parse_endpoints_def List.map_filter_def)

text \<open>A data base that follows the discipline gives back the endpoints that were stored.\<close>

lemma stored_endpoints_image:
  assumes "json_roundtrip J" and "db_members d (peer_ip_key pid) = endpoint_text J ` es"
  shows "stored_endpoints J d pid = es"
  using json_roundtripD(1) [OF assms(1)]
  by (auto simp: stored_endpoints_def assms(2) endpoint_text_def)

lemma stored_network_nets:
  "well_typed J cfg nets d \<Longrightarrow> Mirana \<in> nets \<Longrightarrow> stored_network d pid \<in> nets"
  by (auto simp: stored_network_def split: option.splits rval.splits dest!: well_typed_network)

section \<open>The broker's log\<close>

locale marci_broker = marci_up E view glob cfg
  for E :: "'s marci_env" and view :: "'s \<Rightarrow> db" and glob and cfg +
  fixes sent :: "'s \<Rightarrow> (string \<times> string) list"
  assumes publish_sent: "mqtt_publish E t p s = (Inr u, s') \<Longrightarrow> sent s' = sent s @ [(t, p)]"
    and keys_sent: "keeps_view sent (r_keys (redis E) k)"
    and smembers_sent: "keeps_view sent (r_smembers (redis E) k)"
    and get_string_sent: "keeps_view sent (r_get_string (redis E) k)"
    and set_sent: "keeps_view sent (r_set (redis E) k v)"
    and now_sent: "keeps_view sent (sys_now E)"
begin

lemma members_read:
  assumes "redis_r (r_smembers (redis E) k) m = (Inr raw, m')" and "\<not> is_string_key (mview view m) k"
  shows "set (unwrap_or [] raw) = db_members (mview view m) k \<and> mview view m' = mview view m
     \<and> sent (world m') = sent (world m)"
proof -
  from assms(1) obtain w where w: "r_smembers (redis E) k (world m) = (raw, w)" "m' = m\<lparr>world := w\<rparr>"
    by (auto simp: redis_r_ok)
  with up_smembers assms(2) obtain xs where xs: "raw = Inr xs" by (force simp: mview_def)
  with w readsD [OF smembers] keeps_viewD [OF smembers_sent] show ?thesis by (fastforce simp: mview_def)
qed

lemma network_read:
  assumes "redis_r (r_get_string (redis E) (peer_network_key pid)) m = (Inr r, m')"
    and "\<not> is_set_key (mview view m) (peer_network_key pid)"
  shows "network_from_string (unwrap_or [] r) = stored_network (mview view m) pid
     \<and> mview view m' = mview view m \<and> sent (world m') = sent (world m)"
proof -
  let ?k = "peer_network_key pid"
  from assms(1) obtain w where w: "r_get_string (redis E) ?k (world m) = (r, w)" "m' = m\<lparr>world := w\<rparr>"
    by (auto simp: redis_r_ok)
  have v: "view w = view (world m)" using w reads_view' [OF get_string] by blast
  have "network_from_string (unwrap_or [] r) = stored_network (mview view m) pid"
  proof (cases r)
    case (Inr x)
    with w readsD [OF get_string] show ?thesis by (fastforce simp: stored_network_def mview_def)
  next
    case (Inl e)
    then have "view (world m) ?k \<noteq> Some (RString x, t)" for x t
      using up_get_string [of "world m" ?k x t] w by auto
    with assms(2) Inl show ?thesis
      by (auto simp: stored_network_def mview_def is_set_key_def network_from_empty
            split: option.splits rval.splits)
  qed
  with v w keeps_viewD [OF get_string_sent] show ?thesis by (simp add: mview_def)
qed

lemma not_set_key: "well_typed J c nets d \<Longrightarrow> \<not> is_set_key d (peer_network_key pid)"
  by (auto simp: is_set_key_def split: option.splits rval.splits dest!: well_typed_network)

lemma broadcast_peer_step:
  assumes "broadcast_peer E pid m = (Inr u, m')" and wt: "well_typed (codec E) cfg nets (mview view m)"
  shows "mview view m' = mview view m
     \<and> (\<exists>n. request_for (codec E) (mview view m) pid n
          \<and> sent (world m') = sent (world m) @ [dial_message (codec E) n])"
proof -
  from assms(1) obtain raw m1 r m2 where
    1: "redis_r (r_smembers (redis E) (peer_ip_key pid)) m = (Inr raw, m1)"
    and 2: "redis_r (r_get_string (redis E) (peer_network_key pid)) m1 = (Inr r, m2)"
    and 3: "io_question MqttError (on_world (mqtt_publish E ''peer/needs_dial''
        (json_or_default (node_to_json (codec E)
          \<lparr>peer_id = pid, addresses = parse_endpoints (codec E) (unwrap_or [] raw),
           network = network_from_string (unwrap_or [] r)\<rparr>)))) m2 = (Inr u, m')"
    unfolding broadcast_peer_def io_bind_ok Let_def by blast
  note a = members_read [OF 1 not_string_key(2) [OF wt]]
  from a wt have "\<not> is_set_key (mview view m1) (peer_network_key pid)" by (simp add: not_set_key)
  note b = network_read [OF 2 this]
  let ?n = "\<lparr>peer_id = pid, addresses = parse_endpoints (codec E) (unwrap_or [] raw),
             network = network_from_string (unwrap_or [] r)\<rparr> :: NodeMetaInfo"
  from a b have "request_for (codec E) (mview view m) pid ?n"
    by (simp add: request_for_def set_parse_endpoints stored_endpoints_def)
  moreover have "mview view m' = mview view m2"
    using 3 keeps_viewD [OF publish_keeps] by (auto simp: io_question_ok on_world_ok mview_def)
  moreover have "sent (world m') = sent (world m2) @ [dial_message (codec E) ?n]"
    using 3 publish_sent by (auto simp: io_question_ok on_world_ok dial_message_def)
  ultimately show ?thesis using a b by metis
qed

lemma broadcast_all_step:
  "io_for pids (broadcast_peer E) m = (Inr u, m') \<Longrightarrow> well_typed (codec E) cfg nets (mview view m) \<Longrightarrow>
   mview view m' = mview view m
   \<and> (\<exists>ns. list_all2 (request_for (codec E) (mview view m)) pids ns
        \<and> sent (world m') = sent (world m) @ map (dial_message (codec E)) ns)"
proof (induction pids arbitrary: m u)
  case (Cons pid pids)
  then obtain m1 where 1: "broadcast_peer E pid m = (Inr (), m1)"
    and 2: "io_for pids (broadcast_peer E) m1 = (Inr (), m')"
    unfolding io_for_ok by blast
  from broadcast_peer_step [OF 1 Cons.prems(2)] obtain n where v: "mview view m1 = mview view m"
    and n: "request_for (codec E) (mview view m) pid n"
      "sent (world m1) = sent (world m) @ [dial_message (codec E) n]" by blast
  with Cons.IH [OF 2] Cons.prems(2) obtain ns where "mview view m' = mview view m"
    "list_all2 (request_for (codec E) (mview view m)) pids ns"
    "sent (world m') = sent (world m1) @ map (dial_message (codec E)) ns" by auto
  with n show ?case by (intro conjI exI [of _ "n # ns"]) auto
qed (auto simp: io_return_ok)

lemma last_update_sent: "store_last_update E m = (Inr u, m') \<Longrightarrow> sent (world m') = sent (world m)"
  by (auto simp: store_last_update_def now_secs_def io_ok on_world_ok
        dest!: keeps_viewD [OF now_sent] keeps_viewD [OF set_sent])

lemma handle_tick_publishes:
  assumes r: "handle_tick E m = (Inr u, m')" and wt: "well_typed (codec E) cfg nets (mview view m)"
  shows "\<exists>ks ns. distinct ks
     \<and> set ks = {reachable_peer_key pid |pid. mview view m (reachable_peer_key pid) \<noteq> None}
     \<and> list_all2 (request_for (codec E) (mview view m)) (map last_part ks) ns
     \<and> sent (world m') = sent (world m) @ map (dial_message (codec E)) ns"
proof -
  from r obtain ks m1 m2 where
    1: "redis_q (r_keys (redis E) ''peer.reachable.*'') m = (Inr ks, m1)"
    and 2: "io_for (map last_part ks) (broadcast_peer E) m1 = (Inr (), m2)"
    and 3: "store_last_update E m2 = (Inr (), m')"
    unfolding handle_tick_def io_bind_ok io_seq_ok by blast
  from 1 obtain w where w: "r_keys (redis E) ''peer.reachable.*'' (world m) = (Inr ks, w)" "m1 = m\<lparr>world := w\<rparr>"
    by (auto simp: redis_q_ok)
  from readsD [OF keys w(1)] have v: "mview view m1 = mview view m" and d: "distinct ks"
    and s: "set ks = {k. mview view m k \<noteq> None \<and> glob ''peer.reachable.*'' k}"
    using w(2) by (auto simp: mview_def)
  have "glob ''peer.reachable.*'' k \<longleftrightarrow> (\<exists>pid. k = reachable_peer_key pid)" for k
    using reachable_fam.pattern_matches [OF redis_service_axioms, of k] by simp
  with s have ks: "set ks = {reachable_peer_key pid |pid. mview view m (reachable_peer_key pid) \<noteq> None}" by auto
  from broadcast_all_step [OF 2] v wt obtain ns where
    "list_all2 (request_for (codec E) (mview view m)) (map last_part ks) ns"
    "sent (world m2) = sent (world m1) @ map (dial_message (codec E)) ns" by auto
  moreover have "sent (world m1) = sent (world m)" using w keeps_viewD [OF keys_sent] by simp
  ultimately show ?thesis using d ks last_update_sent [OF 3] by (intro exI [of _ ks] exI [of _ ns]) simp
qed

end

end
