(* ===== verification/Marci_Cache.thy ===== *)
theory Marci_Cache
  imports Marci_Spec
begin

text \<open>
  The cache of IP details (\<open>ipinfo_cache\<close> of \<open>marci/src/main.rs\<close>): every arm only adds to it, and
  whatever it holds was an answer of the lookup service.
\<close>

definition cache_answers :: "'s marci_env \<Rightarrow> 's marci \<Rightarrow> bool" where
  "cache_answers E m \<longleftrightarrow> (\<forall>ip d. ipinfo_cache m ip = Some d \<longrightarrow> (\<exists>s s'. ip_lookup E ip s = (Inr d, s')))"

text \<open>Both at once, as one preorder on states.\<close>

definition cache_step :: "'s marci_env \<Rightarrow> 's marci \<Rightarrow> 's marci \<Rightarrow> bool" where
  "cache_step E m m' \<longleftrightarrow> cache_grows m m' \<and> (cache_answers E m \<longrightarrow> cache_answers E m')"

interpretation cstep: io_preorder "cache_step E" for E
  by unfold_locales (auto simp: cache_step_def intro: cache.refl cache.trans)

lemma world_cache_step: "cache_step E m (m\<lparr>world := w\<rparr>)"
  by (simp add: cache_step_def cache_grows_def cache_answers_def)

lemma on_world_cache: "cache_step E m (snd (on_world c m))"
  by (simp add: on_world_def split_beta world_cache_step)

lemma calls_cache:
  "io_obeys (cache_step E) (io_await (on_world c))"
  "io_obeys (cache_step E) (io_question conv (on_world c'))"
  by (auto intro!: cstep.obeys_await cstep.obeys_question on_world_cache)

lemma redis_cache: "io_obeys (cache_step E) (redis_r c)" "io_obeys (cache_step E) (redis_q c')"
  by (simp_all add: redis_r_def redis_q_def calls_cache)

lemma lookup_run:
  "lookup_ipinfo E ip m =
     (case ipinfo_cache m ip of
        Some d \<Rightarrow> (Inr (Inr d), m)
      | None \<Rightarrow>
          (case ip_lookup E ip (world m) of
             (Inr d, w) \<Rightarrow> (Inr (Inr d), m\<lparr>world := w, ipinfo_cache := (ipinfo_cache m)(ip \<mapsto> d)\<rparr>)
           | (Inl e, w) \<Rightarrow> (Inr (Inl e), m\<lparr>world := w\<rparr>)))"
  by (simp add: lookup_ipinfo_def io_bind_def io_await_def on_world_def io_return_def
        split: option.splits prod.splits sum.splits)

lemma lookup_cache: "io_obeys (cache_step E) (lookup_ipinfo E ip)"
proof -
  have "cache_step E m (m\<lparr>world := w, ipinfo_cache := (ipinfo_cache m)(ip \<mapsto> d)\<rparr>)"
    if "ipinfo_cache m ip = None" and "ip_lookup E ip (world m) = (Inr d, w)" for m w d
    using that
    by (auto simp: cache_step_def cache_grows_def cache_answers_def map_le_def)
  then show ?thesis
    by (auto simp: io_obeys_def lookup_run cstep.refl world_cache_step split: option.splits prod.splits sum.splits)
qed

lemma query_cache:
  "io_obeys (cache_step E) (query_addresses E xs)" "io_obeys (cache_step E) (query_by_ip E a)"
  "io_obeys (cache_step E) (query_by_reachable E p)"
proof -
  show *: "io_obeys (cache_step E) (query_addresses E xs)" for xs
    by (induction xs) (auto split: sum.splits intro!: cstep.obeys_intros lookup_cache)
  show "io_obeys (cache_step E) (query_by_ip E a)"
    by (auto simp: query_by_ip_def split: sum.splits intro!: cstep.obeys_intros lookup_cache)
  show "io_obeys (cache_step E) (query_by_reachable E p)"
    by (simp add: query_by_reachable_def *)
qed

lemmas cache_intros = cstep.obeys_intros calls_cache redis_cache query_cache

lemma details_cache: "io_obeys (cache_step E) (store_ip_details E pid ip)"
  unfolding store_ip_details_def by (auto intro!: cache_intros)

lemma stamps_cache:
  "io_obeys (cache_step E) (store_last_seen E pid)" "io_obeys (cache_step E) (store_last_update E)"
  unfolding store_last_seen_def store_last_update_def now_secs_def by (auto intro!: cache_intros)

lemma refresh_or_else_cache:
  "io_obeys (cache_step E) other \<Longrightarrow> io_obeys (cache_step E) (refresh_or_else E cfg pid other)"
  unfolding refresh_or_else_def by (auto split: sum.split intro!: cache_intros)

lemma arms_cache:
  "io_obeys (cache_step E) (handle_online E cfg p)"
  "io_obeys (cache_step E) (handle_unknown E cfg u)"
  "io_obeys (cache_step E) (handle_reachable E r)"
  "io_obeys (cache_step E) (handle_tick E)"
  unfolding handle_online_def handle_unknown_def handle_reachable_def handle_tick_def record_address_def
    verify_witnesses_def update_ip_info_def broadcast_peer_def Let_def
  by (auto split: list.split option.split simp del: io_seq.simps
        intro!: cache_intros refresh_or_else_cache details_cache stamps_cache)

end
