(* ===== verification/Marci_Clock.thy ===== *)
theory Marci_Clock
  imports Marci_Total Marci_Cache
begin

text \<open>
  What the arms of marci record of the time and of the addresses. The locale \<open>marci_clock\<close> says what
  is relied on of the system clock: it does not run backwards while an arm runs, and reading it
  returns its value. The IP details that are stored are those the cache has after the arm, and they
  are missing only if the lookup was asked for during the arm and failed.
\<close>

section \<open>Time stamps and lookups\<close>

definition advances :: "('s \<Rightarrow> int) \<Rightarrow> ('s, 'a) call \<Rightarrow> bool" where
  "advances clock c \<longleftrightarrow> (\<forall>s. clock s \<le> clock (snd (c s)))"

definition later :: "('s \<Rightarrow> int) \<Rightarrow> 's marci \<Rightarrow> 's marci \<Rightarrow> bool" where
  "later clock m m' \<longleftrightarrow> clock (world m) \<le> clock (world m')"

interpretation later: io_preorder "later clock" for clock
  by unfold_locales (auto simp: later_def)

text \<open>\<open>t\<close> is a reading of the clock between two states, zero before the epoch.\<close>

definition stamped :: "('s \<Rightarrow> int) \<Rightarrow> 's marci \<Rightarrow> 's marci \<Rightarrow> u64 \<Rightarrow> bool" where
  "stamped clock m m' t \<longleftrightarrow>
     (\<exists>x. clock (world m) \<le> x \<and> x \<le> clock (world m') \<and> t = of_int (max 0 x))"

text \<open>Between two states the lookup service was asked for an address and had no answer.\<close>

definition lookup_failed :: "'s marci_env \<Rightarrow> ('s \<Rightarrow> int) \<Rightarrow> 's marci \<Rightarrow> 's marci \<Rightarrow> string \<Rightarrow> bool" where
  "lookup_failed E clock m m' ip \<longleftrightarrow>
     (\<exists>s e s'. ip_lookup E ip s = (Inl e, s') \<and> clock (world m) \<le> clock s \<and> clock s' \<le> clock (world m'))"

text \<open>
  The details of the first of some addresses that is in the cache at the end; if there is none, each
  of the addresses was looked up in vain.
\<close>

definition looked_up ::
  "'s marci_env \<Rightarrow> ('s \<Rightarrow> int) \<Rightarrow> 's marci \<Rightarrow> 's marci \<Rightarrow> EndpointInfo list \<Rightarrow> IpDetails option \<Rightarrow> bool" where
  "looked_up E clock m m' as det \<longleftrightarrow>
     det = find_map (\<lambda>a. ipinfo_cache m' (show_ip (address a))) as
     \<and> (det = None \<longrightarrow> list_all (\<lambda>a. lookup_failed E clock m m' (show_ip (address a))) as)"

lemma stamped_mono:
  "later clock m m1 \<Longrightarrow> stamped clock m1 m2 t \<Longrightarrow> later clock m2 m' \<Longrightarrow> stamped clock m m' t"
  unfolding stamped_def later_def by (elim exE conjE) (rule exI, intro conjI, erule (1) order_trans, erule (1) order_trans, assumption)

lemma lookup_failed_mono:
  "later clock m m1 \<Longrightarrow> lookup_failed E clock m1 m2 ip \<Longrightarrow> later clock m2 m' \<Longrightarrow> lookup_failed E clock m m' ip"
  unfolding lookup_failed_def later_def by (meson order_trans)

lemma looked_up_mono:
  assumes "later clock m m1" and "looked_up E clock m1 m2 as det" and "later clock m2 m'"
    and "ipinfo_cache m' = ipinfo_cache m2"
  shows "looked_up E clock m m' as det"
  using assms lookup_failed_mono [OF assms(1) _ assms(3)] by (auto simp: looked_up_def list_all_iff)

section \<open>The cache after a lookup\<close>

definition same_cache :: "'s marci \<Rightarrow> 's marci \<Rightarrow> bool" where
  "same_cache m m' \<longleftrightarrow> ipinfo_cache m' = ipinfo_cache m"

interpretation same_cache: io_preorder same_cache
  by unfold_locales (simp_all add: same_cache_def)

lemma calls_same_cache:
  "io_obeys same_cache (io_await (on_world c))" "io_obeys same_cache (redis_r c')" "io_obeys same_cache (redis_q c'')"
  unfolding redis_r_def redis_q_def
  by (auto simp: same_cache_def on_world_def split_beta intro!: same_cache.obeys_await same_cache.obeys_question)

lemma writes_same_cache:
  "io_obeys same_cache (store_ip_details E pid ip)" "io_obeys same_cache (now_secs E)"
  "io_obeys same_cache (store_last_update E)"
  "io_obeys same_cache (case det of None \<Rightarrow> io_return () | Some ip \<Rightarrow> store_ip_details E pid ip)"
  unfolding store_ip_details_def now_secs_def store_last_update_def
  by (auto split: option.split intro!: same_cache.obeys_intros calls_same_cache)

lemmas same_cache_steps = calls_same_cache [THEN io_obeysD, unfolded same_cache_def]
  writes_same_cache [THEN io_obeysD, unfolded same_cache_def]

section \<open>The clock during an arm\<close>

locale marci_clock =
  fixes E :: "'s marci_env" and clock :: "'s \<Rightarrow> int"
  assumes now_clock: "sys_now E s = (t, s') \<Longrightarrow> clock s \<le> t \<and> t \<le> clock s'"
    and get_string_clock: "advances clock (r_get_string (redis E) k)"
    and set_clock: "advances clock (r_set (redis E) k v)"
    and set_ex_clock: "advances clock (r_set_ex (redis E) k v n)"
    and expire_clock: "advances clock (r_expire (redis E) k i)"
    and del_clock: "advances clock (r_del (redis E) k)"
    and sadd_clock: "advances clock (r_sadd (redis E) k v)"
    and smembers_clock: "advances clock (r_smembers (redis E) k)"
    and keys_clock: "advances clock (r_keys (redis E) k)"
    and lookup_clock: "advances clock (ip_lookup E ip)"
    and publish_clock: "advances clock (mqtt_publish E tp p)"
begin

lemma calls_later:
  "advances clock c \<Longrightarrow> io_obeys (later clock) (redis_r c)"
  "advances clock c' \<Longrightarrow> io_obeys (later clock) (redis_q c')"
  "advances clock c'' \<Longrightarrow> io_obeys (later clock) (io_question conv (on_world c''))"
  unfolding redis_r_def redis_q_def advances_def
  by (auto simp: later_def on_world_def split_beta intro!: later.obeys_await later.obeys_question)

lemmas redis_later = get_string_clock [THEN calls_later(1)] smembers_clock [THEN calls_later(1)]
  set_clock [THEN calls_later(1)] set_clock [THEN calls_later(2)] set_ex_clock [THEN calls_later(2)]
  expire_clock [THEN calls_later(2)] del_clock [THEN calls_later(2)] sadd_clock [THEN calls_later(2)]
  keys_clock [THEN calls_later(2)] publish_clock [THEN calls_later(3)]

lemma now_stamped: "now_secs E m = (Inr t, m') \<Longrightarrow> stamped clock m m' t"
  unfolding now_secs_def io_bind_ok io_await_ok io_return_ok on_world_ok stamped_def
  by (auto dest!: now_clock)

lemma now_later: "io_obeys (later clock) (now_secs E)"
proof -
  have "later clock m (snd (on_world (sys_now E) m))" for m
    using now_clock [of "world m"] by (fastforce simp: later_def on_world_def split: prod.split)
  then show ?thesis unfolding now_secs_def by (intro later.obeys_intros later.obeys_await)
qed

lemma lookup_later: "io_obeys (later clock) (lookup_ipinfo E ip)"
proof -
  have "clock s \<le> clock s'" if "ip_lookup E ip s = (r, s')" for s r s'
    using lookup_clock that unfolding advances_def by (metis snd_conv)
  then show ?thesis
    by (auto simp: io_obeys_def lookup_run later_def split: option.splits prod.splits sum.splits)
qed

lemma query_later: "io_obeys (later clock) (query_addresses E xs)" "io_obeys (later clock) (query_by_ip E a)"
proof -
  show "io_obeys (later clock) (query_addresses E xs)"
    by (induction xs) (auto split: sum.splits intro!: later.obeys_intros lookup_later)
  show "io_obeys (later clock) (query_by_ip E a)"
    by (auto simp: query_by_ip_def split: sum.splits intro!: later.obeys_intros lookup_later)
qed

lemma details_later:
  "io_obeys (later clock) (case det of None \<Rightarrow> io_return () | Some ip \<Rightarrow> store_ip_details E pid ip)"
  unfolding store_ip_details_def by (auto split: option.split intro!: later.obeys_intros redis_later)

lemma last_update_later: "io_obeys (later clock) (store_last_update E)"
  unfolding store_last_update_def by (intro later.obeys_intros redis_later now_later)

lemma refresh_later: "io_obeys (later clock) other \<Longrightarrow> io_obeys (later clock) (refresh_or_else E cfg pid other)"
  unfolding refresh_or_else_def by (auto split: sum.split intro!: later.obeys_intros redis_later)

lemma broadcast_later: "io_obeys (later clock) (broadcast_peer E pid)"
  unfolding broadcast_peer_def Let_def by (intro later.obeys_intros redis_later)

lemma endpoints_later: "io_obeys (later clock) (io_for xs (\<lambda>x. redis_q (r_sadd (redis E) k (f x))))"
  by (intro later.obeys_intros redis_later)

section \<open>What a lookup returns\<close>

lemma lookup_fails:
  assumes "lookup_ipinfo E ip m = (Inr (Inl e), m')"
  shows "lookup_failed E clock m m' ip \<and> ipinfo_cache m ip = None \<and> ipinfo_cache m' = ipinfo_cache m"
  using assms
  by (auto simp: lookup_run lookup_failed_def split: option.splits prod.splits sum.splits)
     (metis order_refl)

lemma lookup_finds:
  assumes "lookup_ipinfo E ip m = (Inr (Inr d), m')"
  shows "ipinfo_cache m' ip = Some d
     \<and> (ipinfo_cache m' = ipinfo_cache m \<or> ipinfo_cache m' = (ipinfo_cache m)(ip \<mapsto> d))"
  using assms by (auto simp: lookup_run split: option.splits prod.splits sum.splits)

lemma query_by_ip_looked_up:
  assumes "query_by_ip E a m = (Inr det, m')"
  shows "looked_up E clock m m' [a] det"
proof -
  from assms obtain r m1 where l: "lookup_ipinfo E (show_ip (address a)) m = (Inr r, m1)"
    and c: "(case r of Inr res \<Rightarrow> io_return (Some res) | Inl _ \<Rightarrow> io_return None) m1 = (Inr det, m')"
    unfolding query_by_ip_def io_bind_ok by blast
  show ?thesis
  proof (cases r)
    case (Inl e)
    with c lookup_fails [OF l [unfolded Inl]] show ?thesis by (simp add: looked_up_def io_return_ok)
  next
    case (Inr d)
    with c lookup_finds [OF l [unfolded Inr]] show ?thesis by (simp add: looked_up_def io_return_ok)
  qed
qed

lemma query_addresses_looked_up:
  "query_addresses E as m = (Inr det, m') \<Longrightarrow>
   looked_up E clock m m' as det
   \<and> (ipinfo_cache m' = ipinfo_cache m \<or> (\<exists>ip d. det = Some d \<and> ipinfo_cache m' = (ipinfo_cache m)(ip \<mapsto> d)))"
proof (induction as arbitrary: m)
  case (Cons a as)
  then obtain r m1 where l: "lookup_ipinfo E (show_ip (address a)) m = (Inr r, m1)"
    and c: "(case r of Inr res \<Rightarrow> io_return (Some res) | Inl _ \<Rightarrow> query_addresses E as) m1 = (Inr det, m')"
    by (auto simp: io_bind_ok)
  show ?case
  proof (cases r)
    case (Inr d)
    with l c lookup_finds show ?thesis by (fastforce simp: io_return_ok looked_up_def)
  next
    case (Inl e)
    with c have q: "query_addresses E as m1 = (Inr det, m')" by simp
    note f = lookup_fails [OF l [unfolded Inl]]
    note IH = Cons.IH [OF q]
    have "later clock m m1" "later clock m1 m'"
      using io_obeysD [OF lookup_later l] io_obeysD [OF query_later(1) q] .
    then have "list_all (\<lambda>a. lookup_failed E clock m m' (show_ip (address a))) (a # as)" if "det = None"
      using that IH f lookup_failed_mono later.refl by (fastforce simp: looked_up_def list_all_iff)
    moreover have grown: "ipinfo_cache m' = ipinfo_cache m
        \<or> (\<exists>ip d. det = Some d \<and> ipinfo_cache m' = (ipinfo_cache m)(ip \<mapsto> d))"
      using IH f by metis
    moreover have "det = find_map (\<lambda>a. ipinfo_cache m' (show_ip (address a))) (a # as)"
    proof -
      have rest: "det = find_map (\<lambda>a. ipinfo_cache m' (show_ip (address a))) as" using IH by (simp add: looked_up_def)
      show ?thesis
      proof (cases "ipinfo_cache m' (show_ip (address a))")
        case (Some d)
        with f grown have "det = Some d" by (auto split: if_splits)
        then show ?thesis by (simp add: Some)
      qed (simp add: rest)
    qed
    ultimately show ?thesis unfolding looked_up_def by blast
  qed
qed (simp add: looked_up_def io_return_ok)

end

section \<open>The arms\<close>

context marci_clock
begin

lemma recorded_looked_up:
  assumes "recorded E cfg n det m m'"
  shows "later clock m m' \<and> looked_up E clock m m' (take 1 (addresses n)) det"
proof (cases "addresses n")
  case Nil
  with assms show ?thesis by (simp add: recorded_def later.refl looked_up_def)
next
  case (Cons a as)
  with assms obtain m1 m2 where
    1: "redis_q (r_set_ex (redis E) (online_ip_key (peer_id n))
          (json_or_default (endpoint_to_json (codec E) a)) (node_default_timeout cfg)) m = (Inr (), m1)"
    and 2: "query_by_ip E a m1 = (Inr det, m2)"
    and 3: "(case det of None \<Rightarrow> io_return () | Some ip \<Rightarrow> store_ip_details E (peer_id n) ip) m2 = (Inr (), m')"
    by (auto simp: recorded_def)
  have l: "later clock m m1" "later clock m1 m2" "later clock m2 m'"
    using io_obeysD [OF redis_later(5) 1] io_obeysD [OF query_later(2) 2] io_obeysD [OF details_later 3] .
  have c: "ipinfo_cache m' = ipinfo_cache m2" using same_cache_steps(7) [OF 3] .
  from looked_up_mono [OF l(1) query_by_ip_looked_up [OF 2] l(3) c] l show ?thesis
    by (auto simp: Cons intro: later.trans)
qed

lemma heard_stamped:
  assumes "heard_run E p seen m m1 m2 m3 m4 m5 m6"
  shows "later clock m m6 \<and> stamped clock m m6 seen"
proof -
  note run = assms [unfolded heard_run_def]
  note rest = run [THEN conjunct2, THEN conjunct2, THEN conjunct2]
  note 5 = rest [THEN conjunct2, THEN conjunct1] and 6 = rest [THEN conjunct2, THEN conjunct2]
  have "later clock m m1" "later clock m1 m2" "later clock m2 m3" "later clock m3 m4"
    using io_obeysD [OF redis_later(8) run [THEN conjunct1]] io_obeysD [OF redis_later(4) run [THEN conjunct2, THEN conjunct1]]
      io_obeysD [OF endpoints_later run [THEN conjunct2, THEN conjunct2, THEN conjunct1]]
      io_obeysD [OF redis_later(4) rest [THEN conjunct1]] .
  then have l: "later clock m m4" by (blast intro: later.trans)
  have "later clock m4 m5" "later clock m5 m6"
    using io_obeysD [OF now_later 5] io_obeysD [OF redis_later(4) 6] .
  with l stamped_mono [OF l now_stamped [OF 5]] show ?thesis by (blast intro: later.trans)
qed

lemma updated_later: "updated E p det m m' \<Longrightarrow> later clock m m'"
proof -
  assume "updated E p det m m'"
  then have "update_ip_info E p m = (Inr (), m')" unfolding update_ip_info_ok by blast
  moreover have "io_obeys (later clock) (update_ip_info E p)"
    unfolding update_ip_info_def query_by_reachable_def
    by (auto intro!: later.obeys_intros redis_later query_later details_later)
  ultimately show ?thesis by (rule io_obeysD [rotated])
qed

lemma last_update_stamped:
  assumes "store_last_update E m = (Inr u, m')"
  shows "\<exists>t m1 r. stamped clock m m1 t \<and> later clock m1 m'
     \<and> redis_r (r_set (redis E) service_last_update_key (arg_u64 (redis E) t)) m1 = (Inr r, m')
     \<and> now_secs E m = (Inr t, m1)"
proof -
  from assms obtain t m1 r where n: "now_secs E m = (Inr t, m1)"
    and s: "redis_r (r_set (redis E) service_last_update_key (arg_u64 (redis E) t)) m1 = (Inr r, m')"
    unfolding store_last_update_def io_bind_ok by (auto simp: io_return_ok)
  from n s now_stamped [OF n] io_obeysD [OF redis_later(3) s] show ?thesis by blast
qed

lemma broadcast_then_later:
  "handle_tick E m = (Inr u, m') \<Longrightarrow> \<exists>m1. later clock m m1 \<and> store_last_update E m1 = (Inr (), m')"
proof -
  assume "handle_tick E m = (Inr u, m')"
  then obtain ks m1 m2 where 1: "redis_q (r_keys (redis E) ''peer.reachable.*'') m = (Inr ks, m1)"
    and 2: "io_for (map last_part ks) (broadcast_peer E) m1 = (Inr (), m2)"
    and 3: "store_last_update E m2 = (Inr (), m')"
    unfolding handle_tick_def io_bind_ok io_seq_ok by blast
  have "io_obeys (later clock) (io_for (map last_part ks) (broadcast_peer E))"
    by (intro later.obeys_for broadcast_later)
  from io_obeysD [OF redis_later(9) 1] io_obeysD [OF this 2] 3 show ?thesis by (blast intro: later.trans)
qed

end

section \<open>Exact effects with details and times\<close>

definition stored_country :: "db \<Rightarrow> string \<Rightarrow> string" where
  "stored_country d pid = (case d (peer_country_key pid) of Some (RString v, _) \<Rightarrow> v | _ \<Rightarrow> [])"

lemma reachable_spec_country:
  "stored_country (reachable_spec J p z seen d) (peer_id (peer p)) = stored_country d (peer_id (peer p))"
  by (simp add: stored_country_def reachable_spec_def Let_def fold_sadd_other)


locale marci_watched = marci_answers E view glob + marci_clock E clock
  for E :: "'s marci_env" and view :: "'s \<Rightarrow> db" and glob and clock
begin

lemma last_update_exact:
  assumes "store_last_update E m = (Inr u, m')"
  shows "\<exists>t. stamped clock m m' t
     \<and> mview view m' = db_set service_last_update_key (arg_u64 (redis E) t) (mview view m)"
proof -
  from last_update_stamped [OF assms] obtain t m1 r where st: "stamped clock m m1 t" and l: "later clock m1 m'"
    and s: "redis_r (r_set (redis E) service_last_update_key (arg_u64 (redis E) t)) m1 = (Inr r, m')"
    and n: "now_secs E m = (Inr t, m1)" by blast
  obtain w where w: "r_set (redis E) service_last_update_key (arg_u64 (redis E) t) (world m1) = (Inr (), w)"
    using up_set by blast
  with s writes_asD [OF set w] have "mview view m' = db_set service_last_update_key (arg_u64 (redis E) t) (mview view m1)"
    by (auto simp: redis_r_ok mview_def)
  with now_step [OF n] stamped_mono [OF later.refl st l] show ?thesis by auto
qed

lemma service_time_written:
  assumes "handle_tick E m = (Inr (), m') \<or> handle_reachable E p m = (Inr (), m')"
  shows "\<exists>t. stamped clock m m' t
     \<and> mview view m' service_last_update_key = Some (RString (arg_u64 (redis E) t), None)"
proof -
  from assms obtain m1 where l: "later clock m m1" and s: "store_last_update E m1 = (Inr (), m')"
  proof
    assume "handle_reachable E p m = (Inr (), m')"
    then obtain seen det m1 m2 m3 m4 m5 m6 m7 where h: "heard_run E p seen m m1 m2 m3 m4 m5 m6"
      and u: "updated E p det m6 m7" and "store_last_update E m7 = (Inr (), m')"
      unfolding handle_reachable_ok by blast
    moreover have "later clock m m7" using heard_stamped [OF h] updated_later [OF u] by (blast intro: later.trans)
    ultimately show thesis using that by blast
  qed (use that broadcast_then_later in blast)
  from last_update_exact [OF s] stamped_mono [OF l _ later.refl] show ?thesis by fastforce
qed

text \<open>The stored country, which decides whether the details are looked up.\<close>

lemma updated_looked_up:
  assumes "updated E p det m m'"
  shows "if stored_country (mview view m) (peer_id (peer p)) = []
     then looked_up E clock m m' (addresses (peer p)) det else det = None"
proof -
  let ?k = "peer_country_key (peer_id (peer p))"
  from assms obtain c m1 where g: "redis_r (r_get_string (redis E) ?k) m = (Inr c, m1)"
    and i: "if unwrap_or [] c = []
           then \<exists>m2. query_by_reachable E p m1 = (Inr det, m2)
                  \<and> (case det of None \<Rightarrow> io_return () | Some ip \<Rightarrow> store_ip_details E (peer_id (peer p)) ip) m2 = (Inr (), m')
           else det = None \<and> m' = m1"
    unfolding updated_def by blast
  from g obtain w where w: "r_get_string (redis E) ?k (world m) = (c, w)" by (auto simp: redis_r_ok)
  have c: "unwrap_or [] c = stored_country (mview view m) (peer_id (peer p))"
  proof (cases c)
    case (Inr v)
    with readsD [OF get_string] w show ?thesis by (fastforce simp: stored_country_def mview_def)
  next
    case (Inl e)
    with w up_get_string [of "world m" ?k] show ?thesis
      by (fastforce simp: stored_country_def mview_def split: option.split rval.split)
  qed
  show ?thesis
  proof (cases "unwrap_or [] c = []")
    case True
    with i obtain m2 where q: "query_addresses E (addresses (peer p)) m1 = (Inr det, m2)"
      and s: "(case det of None \<Rightarrow> io_return () | Some ip \<Rightarrow> store_ip_details E (peer_id (peer p)) ip) m2 = (Inr (), m')"
      by (auto simp: query_by_reachable_def)
    have "looked_up E clock m1 m2 (addresses (peer p)) det"
      using query_addresses_looked_up [OF q] by blast
    from looked_up_mono [OF io_obeysD [OF redis_later(1) g] this io_obeysD [OF details_later s] same_cache_steps(7) [OF s]]
    show ?thesis using True c by simp
  qed (use i c in simp)
qed

end

locale marci_timed = marci_up E view glob cfg + marci_watched E view glob clock
  for E :: "'s marci_env" and view :: "'s \<Rightarrow> db" and glob and cfg and clock
begin

lemma handle_online_timed:
  "\<exists>m' det t. handle_online E cfg p m = (Inr (), m')
     \<and> mview view m' = online_spec (codec E) cfg p (arg_bool (redis E) (full p))
         (is_string_key (mview view m) (online_peer_key (peer_id (info p)))) det (arg_u64 (redis E) t) (mview view m)
     \<and> looked_up E clock m m' (take 1 (addresses (info p))) det \<and> stamped clock m m' t"
proof -
  obtain m' where r: "handle_online E cfg p m = (Inr (), m')"
    using io_totalD [OF handle_online_total] by fastforce
  then obtain det t m1 m2 m3 m4 m5 where run: "online_run E cfg p det t m m1 m2 m3 m4 m5 m'"
    unfolding handle_online_ok by blast
  from handle_online_effect [OF T_pos run] obtain found where
    v: "mview view m' = online_spec (codec E) cfg p (arg_bool (redis E) (full p)) found det
          (arg_u64 (redis E) t) (mview view m)"
    and "found \<longrightarrow> is_string_key (mview view m) (online_peer_key (peer_id (info p)))"
    and "\<not> found \<longrightarrow> isl (fst (r_get_string (redis E) (online_peer_key (peer_id (info p))) (world m)))"
    by blast
  then have f: "found = is_string_key (mview view m) (online_peer_key (peer_id (info p)))"
    using get_string_found by (auto simp: mview_def)
  note run = run [unfolded online_run_def]
  note rest = run [THEN conjunct2, THEN conjunct2]
  note 3 = rest [THEN conjunct1] and 4 = rest [THEN conjunct2, THEN conjunct1]
    and 5 = rest [THEN conjunct2, THEN conjunct2, THEN conjunct1]
    and 6 = rest [THEN conjunct2, THEN conjunct2, THEN conjunct2]
  have "io_obeys (later clock) (if b then redis_q (r_set_ex (redis E) k x n) else redis_q (r_set_ex (redis E) k' x n))"
    for b k k' x n by (simp add: redis_later)
  then have l1: "later clock m m1" by (rule io_obeysD [OF refresh_later run [THEN conjunct1]])
  note d = recorded_looked_up [OF run [THEN conjunct2, THEN conjunct1]]
  have l3: "later clock m2 m3" and l4: "later clock m3 m4" and "later clock m4 m5" "later clock m5 m'"
    using io_obeysD [OF redis_later(4) 3] io_obeysD [OF now_later 4] io_obeysD [OF redis_later(4) 5]
      io_obeysD [OF redis_later(7) 6] .
  then have l5: "later clock m4 m'" by (blast intro: later.trans)
  have "later clock m m3" using l1 d l3 by (blast intro: later.trans)
  from stamped_mono [OF this now_stamped [OF 4] l5] have "stamped clock m m' t" .
  moreover have "looked_up E clock m m' (take 1 (addresses (info p))) det"
  proof (rule looked_up_mono [OF l1])
    show "looked_up E clock m1 m2 (take 1 (addresses (info p))) det" using d by blast
    show "later clock m2 m'" using l3 l4 l5 by (blast intro: later.trans)
    show "ipinfo_cache m' = ipinfo_cache m2"
      using same_cache_steps(3) [OF 3] same_cache_steps(5) [OF 4] same_cache_steps(3) [OF 5] same_cache_steps(3) [OF 6]
      by simp
  qed
  ultimately show ?thesis using r v f by blast
qed

lemma handle_reachable_timed:
  assumes "well_typed (codec E) cfg nets (mview view m)" and "network (peer p) \<in> nets"
  shows "\<exists>m' seen det t. handle_reachable E p m = (Inr (), m')
     \<and> mview view m' = db_set service_last_update_key (arg_u64 (redis E) t)
         (details_spec (peer_id (peer p)) det
            (reachable_spec (codec E) p (arg_i32 (redis E) 0) (arg_u64 (redis E) seen) (mview view m)))
     \<and> (if stored_country (mview view m) (peer_id (peer p)) = []
        then looked_up E clock m m' (addresses (peer p)) det else det = None)
     \<and> stamped clock m m' seen \<and> stamped clock m m' t"
proof -
  obtain m' where r: "handle_reachable E p m = (Inr (), m')"
    using handle_reachable_returns [OF assms] by blast
  then obtain seen det m1 m2 m3 m4 m5 m6 m7 where h: "heard_run E p seen m m1 m2 m3 m4 m5 m6"
    and u: "updated E p det m6 m7" and s: "store_last_update E m7 = (Inr (), m')"
    unfolding handle_reachable_ok by blast
  note hs = heard_stamped [OF h]
  have l: "later clock m6 m7" "later clock m7 m'" using updated_later [OF u] io_obeysD [OF last_update_later s] .
  from last_update_exact [OF s] obtain t where t: "stamped clock m7 m' t"
    and v: "mview view m' = db_set service_last_update_key (arg_u64 (redis E) t) (mview view m7)" by blast
  have "later clock m6 m'" "later clock m m7" using l hs by (blast intro: later.trans)+
  then have "stamped clock m m' seen" "stamped clock m m' t"
    using hs t stamped_mono later.refl by blast+
  moreover have "if stored_country (mview view m) (peer_id (peer p)) = []
     then looked_up E clock m m' (addresses (peer p)) det else det = None"
    using updated_looked_up [OF u] looked_up_mono [OF hs [THEN conjunct1] _ l(2) same_cache_steps(6) [OF s]]
    by (simp add: heard_effect(1) [OF h] reachable_spec_country split: if_splits)
  moreover have "mview view m' = db_set service_last_update_key (arg_u64 (redis E) t)
      (details_spec (peer_id (peer p)) det
         (reachable_spec (codec E) p (arg_i32 (redis E) 0) (arg_u64 (redis E) seen) (mview view m)))"
    by (simp add: v updated_step [OF u] heard_effect(1) [OF h])
  ultimately show ?thesis using r by blast
qed

end

end
