(* ===== verification/Redis_Reference.thy ===== *)
theory Redis_Reference
  imports Redis Discovery_Types
begin

text \<open>
  A reference implementation of the outside services on association lists: the store with the
  command semantics of Redis, a clock, a table of IP details and a log of MQTT publications, and
  a codec for the records. It shows that the assumptions made of these services can hold
  together, and it is what the concrete runs of the components are evaluated on.
\<close>

section \<open>The store\<close>

datatype mval = MStr string | MSet "string list"

record mem =
  mem_db :: "(string \<times> mval \<times> nat option) list"
  mem_clock :: int
  mem_published :: "(string \<times> string) list"

definition mem_get :: "mem \<Rightarrow> string \<Rightarrow> (mval \<times> nat option) option" where
  "mem_get s k = map_of (mem_db s) k"

definition mem_put :: "string \<Rightarrow> mval \<times> nat option \<Rightarrow> mem \<Rightarrow> mem" where
  "mem_put k e s = s\<lparr>mem_db := (k, e) # mem_db s\<rparr>"

definition mem_remove :: "string \<Rightarrow> mem \<Rightarrow> mem" where
  "mem_remove k s = s\<lparr>mem_db := filter (\<lambda>p. fst p \<noteq> k) (mem_db s)\<rparr>"

definition mem_view :: "mem \<Rightarrow> db" where
  "mem_view s k =
     (case mem_get s k of
        None \<Rightarrow> None
      | Some (MStr v, t) \<Rightarrow> Some (RString v, t)
      | Some (MSet xs, t) \<Rightarrow> Some (RSet (set xs), t))"

definition mem_sadd :: "string \<Rightarrow> string \<Rightarrow> (mem, string + unit) call" where
  "mem_sadd k m s =
     (case mem_get s k of
        None \<Rightarrow> (Inr (), mem_put k (MSet [m], None) s)
      | Some (MSet xs, t) \<Rightarrow> (Inr (), mem_put k (MSet (m # xs), t) s)
      | Some (MStr _, _) \<Rightarrow> (Inl ''WRONGTYPE'', s))"

definition mem_members :: "string \<Rightarrow> mem \<Rightarrow> string + string list" where
  "mem_members k s =
     (case mem_get s k of
        None \<Rightarrow> Inr []
      | Some (MSet xs, _) \<Rightarrow> Inr (remdups xs)
      | Some (MStr _, _) \<Rightarrow> Inl ''WRONGTYPE'')"

definition mem_scard :: "string \<Rightarrow> mem \<Rightarrow> string + u64" where
  "mem_scard k s =
     (case mem_members k s of
        Inl e \<Rightarrow> Inl e
      | Inr xs \<Rightarrow> if length xs < 2 ^ 64 then Inr (of_nat (length xs)) else Inl ''out of range'')"

definition mem_string :: "string \<Rightarrow> mem \<Rightarrow> string + string option" where
  "mem_string k s =
     (case mem_get s k of
        None \<Rightarrow> Inr None
      | Some (MStr v, _) \<Rightarrow> Inr (Some v)
      | Some (MSet _, _) \<Rightarrow> Inl ''WRONGTYPE'')"

primrec mem_glob :: "string \<Rightarrow> string \<Rightarrow> bool" where
  "mem_glob [] = (\<lambda>k. k = [])"
| "mem_glob (c # p) =
     (\<lambda>k. if c = CHR ''*'' then list_ex (mem_glob p) (suffixes k)
          else case k of [] \<Rightarrow> False | x # xs \<Rightarrow> (x = c \<or> c = CHR ''?'') \<and> mem_glob p xs)"

definition mem_redis :: "mem redis" where
  "mem_redis =
     \<lparr>r_get_string = (\<lambda>k s. (case mem_string k s of Inr (Some v) \<Rightarrow> Inr v | Inr None \<Rightarrow> Inl ''nil'' | Inl e \<Rightarrow> Inl e, s)),
      r_get_opt_string = (\<lambda>k s. (mem_string k s, s)),
      r_get_opt_bool =
        (\<lambda>k s. (case mem_string k s of
                  Inr None \<Rightarrow> Inr None
                | Inr (Some v) \<Rightarrow> if v = ''1'' then Inr (Some True) else if v = ''0'' then Inr (Some False)
                                 else Inl ''not a bool''
                | Inl e \<Rightarrow> Inl e, s)),
      r_get_u64 =
        (\<lambda>k s. (case mem_string k s of
                  Inr (Some v) \<Rightarrow> (case parse_u64 v of Some n \<Rightarrow> Inr n | None \<Rightarrow> Inl ''not an integer'')
                | Inr None \<Rightarrow> Inl ''nil''
                | Inl e \<Rightarrow> Inl e, s)),
      r_set = (\<lambda>k v s. (Inr (), mem_put k (MStr v, None) s)),
      r_set_ex = (\<lambda>k v n s. if n = 0 \<or> redis_max_expiry < unat n then (Inl ''invalid expire time'', s)
                             else (Inr (), mem_put k (MStr v, Some (unat n)) s)),
      r_expire = (\<lambda>k i s. if int redis_max_expiry < i then (Inl ''invalid expire time'', s) else case mem_get s k of
                            None \<Rightarrow> (Inr (), s)
                          | Some (v, _) \<Rightarrow> (Inr (), if 0 < i then mem_put k (v, Some (nat i)) s else mem_remove k s)),
      r_del = (\<lambda>k s. (Inr (), mem_remove k s)),
      r_sadd = mem_sadd,
      r_scard = (\<lambda>k s. (mem_scard k s, s)),
      r_smembers = (\<lambda>k s. (mem_members k s, s)),
      r_keys = (\<lambda>pat s. (Inr (filter (mem_glob pat) (remdups (map fst (mem_db s)))), s)),
      arg_bool = (\<lambda>b. if b then ''1'' else ''0''),
      arg_u64 = (\<lambda>n. show_nat (unat n)),
      arg_i32 = (\<lambda>i. if i < 0 then CHR ''-'' # show_nat (nat (- i)) else show_nat (nat i))\<rparr>"

definition mem_empty :: mem where
  "mem_empty = \<lparr>mem_db = [], mem_clock = 0, mem_published = []\<rparr>"

section \<open>The store keeps the documented behaviour\<close>

lemma mem_view_put [simp]:
  "mem_view (mem_put k (MStr v, t) s) = (mem_view s)(k \<mapsto> (RString v, t))"
  "mem_view (mem_put k (MSet xs, t) s) = (mem_view s)(k \<mapsto> (RSet (set xs), t))"
  by (auto simp: mem_view_def mem_put_def mem_get_def fun_eq_iff)

lemma map_of_filter_key: "map_of (filter (\<lambda>p. fst p \<noteq> k) xs) k' = (if k' = k then None else map_of xs k')"
  by (induction xs) auto

lemma mem_view_remove [simp]: "mem_view (mem_remove k s) = (mem_view s)(k := None)"
  by (auto simp: mem_view_def mem_remove_def mem_get_def fun_eq_iff map_of_filter_key)

lemma mem_view_dom: "mem_view s k \<noteq> None \<longleftrightarrow> k \<in> fst ` set (mem_db s)"
proof -
  have "mem_view s k \<noteq> None \<longleftrightarrow> mem_get s k \<noteq> None"
    by (auto simp: mem_view_def split: option.splits mval.splits)
  also have "\<dots> \<longleftrightarrow> k \<in> fst ` set (mem_db s)"
    by (metis map_of_eq_None_iff mem_get_def)
  finally show ?thesis .
qed

lemma mem_glob_literal: "no_meta p \<Longrightarrow> mem_glob p k \<longleftrightarrow> k = p"
  by (induction p arbitrary: k) (auto simp: no_meta_def split: list.splits)

lemma mem_glob_star:
  "no_meta a \<Longrightarrow> no_meta b \<Longrightarrow> mem_glob (a @ ''*'' @ b) k \<longleftrightarrow> (\<exists>m. k = a @ m @ b)"
proof (induction a arbitrary: k)
  case Nil
  then show ?case by (auto simp: list_ex_iff mem_glob_literal suffix_def)
next
  case (Cons c a)
  then show ?case by (auto simp: no_meta_def split: list.splits)
qed

lemma mem_string_cases:
  "mem_string k s = Inr None \<longleftrightarrow> mem_view s k = None"
  "mem_string k s = Inr (Some v) \<longleftrightarrow> (\<exists>t. mem_view s k = Some (RString v, t))"
  by (auto simp: mem_string_def mem_view_def split: option.splits mval.splits)

lemma mem_members_ok:
  "mem_members k s = Inr xs \<Longrightarrow> set xs = db_members (mem_view s) k \<and> distinct xs"
  by (auto simp: mem_members_def db_members_def mem_view_def split: option.splits mval.splits)

lemma mem_members_up: "\<not> is_string_key (mem_view s) k \<Longrightarrow> \<exists>xs. mem_members k s = Inr xs"
  by (auto simp: mem_members_def is_string_key_def mem_view_def split: option.splits mval.splits)

interpretation mem: redis_up mem_redis mem_view mem_glob
proof unfold_locales
  show "reads mem_view (\<lambda>d v. \<exists>t. d k = Some (RString v, t)) (r_get_string mem_redis k)" for k
    by (auto simp: reads_def mem_redis_def mem_string_cases split: sum.splits option.splits)
  show "reads mem_view (\<lambda>d r. case r of None \<Rightarrow> d k = None | Some v \<Rightarrow> \<exists>t. d k = Some (RString v, t))
          (r_get_opt_string mem_redis k)" for k
    by (auto simp: reads_def mem_redis_def mem_string_cases split: option.splits)
  show "reads mem_view (\<lambda>d r. case r of None \<Rightarrow> d k = None
          | Some b \<Rightarrow> d k \<noteq> None \<and> (\<forall>c t. d k = Some (RString (arg_bool mem_redis c), t) \<longrightarrow> b = c))
          (r_get_opt_bool mem_redis k)" for k
    by (auto simp: reads_def mem_redis_def mem_string_cases split: sum.splits option.splits if_splits)
  show "reads mem_view (\<lambda>d n. d k \<noteq> None \<and> (\<forall>m t. d k = Some (RString (arg_u64 mem_redis m), t) \<longrightarrow> n = m))
          (r_get_u64 mem_redis k)" for k
    by (auto simp: reads_def mem_redis_def mem_string_cases split: sum.splits option.splits)
  show "writes_as mem_view (db_set k v) (r_set mem_redis k v)" for k v
    by (simp add: writes_as_def mem_redis_def db_set_def)
  show "0 < n \<Longrightarrow> writes_as mem_view (db_set_ex k v (unat n)) (r_set_ex mem_redis k v n)" for n k v
    by (auto simp: writes_as_def mem_redis_def db_set_ex_def)
  show "0 < i \<Longrightarrow> writes_as mem_view (db_expire k (nat i)) (r_expire mem_redis k i)" for i k
    by (auto simp: writes_as_def mem_redis_def db_expire_def split: option.splits)
       (auto simp: mem_view_def split: mval.splits)
  show "writes_as mem_view (db_del k) (r_del mem_redis k)" for k
    by (simp add: writes_as_def mem_redis_def db_del_def)
  show "writes_as mem_view (db_sadd k m) (r_sadd mem_redis k m)" for k m
    by (auto simp: writes_as_def mem_redis_def mem_sadd_def db_sadd_def split: option.splits mval.splits)
       (auto simp: mem_view_def split: mval.splits)
  show "\<not> is_string_key (mem_view s) k" if "r_sadd mem_redis k m s = (Inr u, s')" for k m s u s'
    using that
    by (auto simp: mem_redis_def mem_sadd_def is_string_key_def mem_view_def split: option.splits mval.splits)
  show "reads mem_view (\<lambda>d n. unat n = card (db_members d k)) (r_scard mem_redis k)" for k
    by (auto simp: reads_def mem_redis_def mem_scard_def unat_of_nat distinct_card [symmetric]
        dest!: mem_members_ok split: sum.splits if_splits)
  show "reads mem_view (\<lambda>d xs. set xs = db_members d k \<and> distinct xs) (r_smembers mem_redis k)" for k
    by (simp add: reads_def mem_redis_def mem_members_ok)
  show "reads mem_view (\<lambda>d ks. set ks = {k. d k \<noteq> None \<and> mem_glob pat k} \<and> distinct ks) (r_keys mem_redis pat)" for pat
    using mem_view_dom by (auto simp: reads_def mem_redis_def)
  show "\<exists>x s'. r_get_string mem_redis k s = (Inr x, s')" if "mem_view s k = Some (RString v, t)" for s k v t
    using that mem_string_cases(2) [of k s v] by (auto simp: mem_redis_def)
  show "\<exists>x s'. r_get_opt_string mem_redis k s = (Inr x, s')" if "\<not> is_set_key (mem_view s) k" for s k
    using that by (auto simp: mem_redis_def mem_string_def is_set_key_def mem_view_def split: option.splits mval.splits)
  show "\<exists>x s'. r_get_opt_bool mem_redis k s = (Inr x, s')"
    if "mem_view s k = Some (RString (arg_bool mem_redis b), t)" for s k b t
    using that mem_string_cases(2) [of k s "arg_bool mem_redis b"] by (auto simp: mem_redis_def)
  show "\<exists>x s'. r_get_u64 mem_redis k s = (Inr x, s')"
    if "mem_view s k = Some (RString (arg_u64 mem_redis n), t)" for s k n t
    using that mem_string_cases(2) [of k s "arg_u64 mem_redis n"] by (auto simp: mem_redis_def)
  show "\<exists>s'. r_sadd mem_redis k m s = (Inr (), s')" if "\<not> is_string_key (mem_view s) k" for s k m
    using that by (auto simp: mem_redis_def mem_sadd_def is_string_key_def mem_view_def split: option.splits mval.splits)
  show "\<exists>n s'. r_scard mem_redis k s = (Inr n, s')"
    if "\<not> is_string_key (mem_view s) k" and "card (db_members (mem_view s) k) < 2 ^ 64" for s k
    using mem_members_up [OF that(1)] that(2) mem_members_ok [of k s]
    by (auto simp: mem_redis_def mem_scard_def distinct_card [symmetric])
  show "\<exists>xs s'. r_smembers mem_redis k s = (Inr xs, s')" if "\<not> is_string_key (mem_view s) k" for s k
    using mem_members_up [OF that] by (auto simp: mem_redis_def)
  show "\<exists>s'. r_set_ex mem_redis k v n s = (Inr (), s')" if "0 < n" and "unat n \<le> redis_max_expiry" for s k v n
    using that by (auto simp: mem_redis_def)
  show "\<exists>s'. r_expire mem_redis k i s = (Inr (), s')" if "nat i \<le> redis_max_expiry" for s k i
    using that by (auto simp: mem_redis_def split: option.splits)
  show "mem_glob (a @ ''*'' @ b) k \<longleftrightarrow> (\<exists>m. k = a @ m @ b)" if "no_meta a" and "no_meta b" for a b k
    using that by (rule mem_glob_star)
qed (auto simp: mem_glob_literal mem_redis_def)

section \<open>A codec for the records\<close>

text \<open>
  A prefix code: numbers in unary, lists behind their length. Every decoder returns the value and
  the rest of the text.
\<close>

definition enc_nat :: "nat \<Rightarrow> string" where
  "enc_nat n = replicate n CHR ''1'' @ ''.''"

definition dec_nat :: "string \<Rightarrow> nat \<times> string" where
  "dec_nat s = (length (takeWhile (\<lambda>c. c = CHR ''1'') s), tl (dropWhile (\<lambda>c. c = CHR ''1'') s))"

definition enc_str :: "string \<Rightarrow> string" where
  "enc_str s = enc_nat (length s) @ s"

definition dec_str :: "string \<Rightarrow> string \<times> string" where
  "dec_str s = (let (n, r) = dec_nat s in (take n r, drop n r))"

definition enc_ip :: "IpAddr \<Rightarrow> string" where
  "enc_ip a = (case a of V4 w \<Rightarrow> enc_nat 4 @ enc_nat (unat w) | V6 w \<Rightarrow> enc_nat 6 @ enc_nat (unat w))"

definition dec_ip :: "string \<Rightarrow> IpAddr \<times> string" where
  "dec_ip s = (let (v, r) = dec_nat s; (n, q) = dec_nat r in (if v = 4 then V4 (of_nat n) else V6 (of_nat n), q))"

definition enc_endpoint :: "EndpointInfo \<Rightarrow> string" where
  "enc_endpoint e = enc_ip (address e) @ enc_nat (unat (port e))"

definition dec_endpoint :: "string \<Rightarrow> EndpointInfo \<times> string" where
  "dec_endpoint s = (let (a, r) = dec_ip s; (p, q) = dec_nat r in (\<lparr>address = a, port = of_nat p\<rparr>, q))"

fun dec_many :: "(string \<Rightarrow> 'a \<times> string) \<Rightarrow> nat \<Rightarrow> string \<Rightarrow> 'a list \<times> string" where
  "dec_many f 0 s = ([], s)"
| "dec_many f (Suc n) s = (let (x, r) = f s; (xs, q) = dec_many f n r in (x # xs, q))"

definition enc_node :: "NodeMetaInfo \<Rightarrow> string" where
  "enc_node m = enc_str (peer_id m) @ enc_str (into_str (network m))
     @ enc_nat (length (addresses m)) @ concat (map enc_endpoint (addresses m))"

definition dec_node :: "string \<Rightarrow> NodeMetaInfo \<times> string" where
  "dec_node s =
     (let (p, r) = dec_str s; (n, q) = dec_str r; (k, u) = dec_nat q; (es, w) = dec_many dec_endpoint k u
      in (\<lparr>peer_id = p, addresses = es, network = network_from_string n\<rparr>, w))"

definition enc_peer :: "PeerInfo \<Rightarrow> string" where
  "enc_peer p = enc_node (info p) @ enc_str (version p) @ enc_nat (of_bool (full p)) @ enc_nat (of_bool (is_ex p))"

definition dec_peer :: "string \<Rightarrow> PeerInfo" where
  "dec_peer s =
     (let (m, r) = dec_node s; (v, q) = dec_str r; (f, u) = dec_nat q; (x, w) = dec_nat u
      in \<lparr>info = m, version = v, full = (f = 1), is_ex = (x = 1)\<rparr>)"

definition ref_codec :: json_codec where
  "ref_codec =
     \<lparr>endpoint_to_json = (\<lambda>e. Some (enc_endpoint e)), endpoint_from_json = (\<lambda>s. Some (fst (dec_endpoint s))),
      node_to_json = (\<lambda>m. Some (enc_node m)), node_from_json = (\<lambda>s. Some (fst (dec_node s))),
      reachable_to_json = (\<lambda>r. Some (enc_node (peer r) @ enc_node (from r))),
      reachable_from_json =
        (\<lambda>s. let (p, r) = dec_node s in Some \<lparr>peer = p, from = fst (dec_node r)\<rparr>),
      peer_to_json = (\<lambda>p. Some (enc_peer p)), peer_from_json = (\<lambda>s. Some (dec_peer s))\<rparr>"

lemma dec_enc_nat [simp]: "dec_nat (enc_nat n @ r) = (n, r)"
  by (simp add: dec_nat_def enc_nat_def takeWhile_append dropWhile_append)

lemma dec_enc_str [simp]: "dec_str (enc_str s @ r) = (s, r)"
  by (simp add: dec_str_def enc_str_def)

lemma dec_enc_ip [simp]: "dec_ip (enc_ip a @ r) = (a, r)"
  by (cases a) (simp_all add: dec_ip_def enc_ip_def)

lemma dec_enc_endpoint [simp]: "dec_endpoint (enc_endpoint e @ r) = (e, r)"
  by (simp add: dec_endpoint_def enc_endpoint_def)

lemma dec_many_concat [simp]:
  "dec_many dec_endpoint (length es) (concat (map enc_endpoint es) @ r) = (es, r)"
  by (induction es) simp_all

lemma dec_enc_node [simp]: "dec_node (enc_node m @ r) = (m, r)"
  by (simp add: dec_node_def enc_node_def)

lemma dec_enc_peer [simp]: "dec_peer (enc_peer p) = p"
proof -
  have "dec_nat (enc_nat n) = (n, [])" for n using dec_enc_nat [of n "[]"] by simp
  then show ?thesis by (cases p) (simp add: dec_peer_def enc_peer_def)
qed

lemma ref_codec_roundtrip: "json_roundtrip ref_codec"
proof -
  have "fst (dec_endpoint (enc_endpoint e)) = e" for e using dec_enc_endpoint [of e "[]"] by simp
  moreover have "fst (dec_node (enc_node m)) = m" for m using dec_enc_node [of m "[]"] by simp
  ultimately show ?thesis by (simp add: json_roundtrip_def ref_codec_def)
qed

end
