(* ===== verification/Marci_Reference.thy ===== *)
theory Marci_Reference
  imports Marci_Broadcast Marci_Clock Redis_Reference
begin

text \<open>
  Marci on the reference services: the store of \<open>Redis_Reference\<close>, its clock and its log of
  publications, and an IP lookup that knows the addresses of one network. The interpretations
  discharge every assumption the lemmas on marci make of its surroundings.
\<close>

definition ref_details :: IpDetails where
  "ref_details = \<lparr>country = ''CN'', city = ''Beijing'', region = ''Beijing'', loc = ''39.9,116.4''\<rparr>"

definition ref_env :: "mem marci_env" where
  "ref_env =
     \<lparr>redis = mem_redis,
      sys_now = (\<lambda>s. (mem_clock s, s)),
      ip_lookup = (\<lambda>ip s. (if take 2 ip = ''8.'' then Inr ref_details else Inl ''not found'', s)),
      mqtt_publish = (\<lambda>t p s. (Inr (), s\<lparr>mem_published := mem_published s @ [(t, p)]\<rparr>)),
      mqtt_reconnect = (\<lambda>s. (Inr (), s)),
      codec = ref_codec\<rparr>"

definition default_config :: marci_config where
  "default_config =
     \<lparr>node_default_timeout = 5184000, node_ex_timeout = 86400, node_unknown_default_timeout = 1209600,
      node_default_witnesses = 3, broadcast_interval = 180\<rparr>"

lemma mem_view_published [simp]: "mem_view (s\<lparr>mem_published := xs\<rparr>) = mem_view s"
  by (simp add: mem_view_def mem_get_def fun_eq_iff)

lemma ref_env_simps [simp]: "redis ref_env = mem_redis" "codec ref_env = ref_codec"
  by (simp_all add: ref_env_def)

lemma mem_redis_published:
  "keeps_view mem_published (r_keys mem_redis k)" "keeps_view mem_published (r_smembers mem_redis k)"
  "keeps_view mem_published (r_get_string mem_redis k)" "keeps_view mem_published (r_set mem_redis k v)"
  by (simp_all add: keeps_view_def mem_redis_def mem_put_def)

lemma default_accepted: "accepted_timeouts default_config"
  by (simp add: accepted_timeouts_def default_config_def redis_max_expiry_def)

lemma ref_world: "marci_world ref_env mem_view mem_glob"
proof (intro marci_world.intro)
  show "redis_service (redis ref_env) mem_view mem_glob"
    using mem.redis_service_axioms by simp
  show "marci_world_axioms ref_env mem_view"
    by unfold_locales (simp_all add: keeps_view_def ref_env_def)
qed

interpretation ref_marci: marci_broker ref_env mem_view mem_glob default_config mem_published
proof (intro marci_broker.intro marci_up.intro marci_answers.intro marci_service.intro ref_world)
  show "redis_up (redis ref_env) mem_view mem_glob"
    using mem.redis_up_axioms by simp
  show "marci_service_axioms default_config"
    by unfold_locales (simp_all add: default_config_def)
  show "marci_answers_axioms ref_env"
    by unfold_locales (simp add: ref_env_def)
  show "marci_up_axioms default_config"
    by unfold_locales (rule default_accepted)
  show "marci_broker_axioms ref_env mem_published"
    by unfold_locales (simp_all add: mem_redis_published, auto simp: keeps_view_def ref_env_def)
qed

lemma mem_redis_clock:
  "advances mem_clock (r_get_string mem_redis k)" "advances mem_clock (r_set mem_redis k v)"
  "advances mem_clock (r_set_ex mem_redis k v n)" "advances mem_clock (r_expire mem_redis k i)"
  "advances mem_clock (r_del mem_redis k)" "advances mem_clock (r_sadd mem_redis k v)"
  "advances mem_clock (r_smembers mem_redis k)" "advances mem_clock (r_keys mem_redis k)"
  by (simp_all add: advances_def mem_redis_def mem_put_def mem_remove_def mem_sadd_def
        split: option.split mval.split)

interpretation ref_timed: marci_timed ref_env mem_view mem_glob default_config mem_clock
proof (intro marci_timed.intro marci_watched.intro ref_marci.marci_up_axioms ref_marci.marci_answers_axioms)
  show "marci_clock ref_env mem_clock"
    by unfold_locales (simp_all add: mem_redis_clock, simp_all add: ref_env_def advances_def)
qed

lemma ref_marci_locales:
  "marci_broker ref_env mem_view mem_glob default_config mem_published"
  "marci_up ref_env mem_view mem_glob default_config"
  "marci_service ref_env mem_view mem_glob default_config"
  "marci_answers ref_env mem_view mem_glob"
  "marci_clock ref_env mem_clock"
  by (rule ref_marci.marci_broker_axioms ref_marci.marci_up_axioms ref_marci.marci_service_axioms
        ref_marci.marci_answers_axioms ref_timed.marci_clock_axioms)+

section \<open>The default configuration\<close>

text \<open>An environment in which no variable is set.\<close>

lemma default_config_read: "read_config (\<lambda>_. None) = Inr default_config"
  by (simp add: read_config_def env_u64_def parse_u64_def default_config_def of_char_of)

end
