(* ===== verification/Marci_Properties.thy ===== *)
theory Marci_Properties
  imports Marci_Reference Marci_Cache
begin

text \<open>
  The properties of marci: its invariant and the life time of the entries, that it never ends
  while the services answer, the refinement of each arm with its frame, the cache of IP details,
  the broadcast, and with which configurations it starts. The properties assume interface locales
  of its surroundings; the witnesses instantiate them with the reference services. Those that
  assume \<open>marci_up\<close> or \<open>marci_broker\<close> include that the timeouts are accepted ones.
\<close>

section \<open>Sample data\<close>

definition sample_reported :: NodeMetaInfo where
  "sample_reported = \<lparr>peer_id = ''Qm1'', addresses = [\<lparr>address = V4 0x08080808, port = 8115\<rparr>], network = Mirana\<rparr>"

definition sample_peer :: PeerInfo where
  "sample_peer = \<lparr>info = sample_reported, version = ''0.111.0 (abc)'', full = True, is_ex = False\<rparr>"

definition sample_reachable :: ReachableInfo where
  "sample_reachable = \<lparr>peer = sample_reported, from = sample_reported\<lparr>peer_id := ''Qm2''\<rparr>\<rparr>"

definition sample_marci :: "mem marci" where
  "sample_marci = \<lparr>ipinfo_cache = (\<lambda>_. None), world = mem_empty\<rparr>"

lemma mem_view_empty: "mem_view mem_empty = (\<lambda>_. None)"
  by (simp add: mem_view_def mem_get_def mem_empty_def fun_eq_iff)

lemma sample_marci_view: "mview mem_view sample_marci = (\<lambda>_. None)"
  by (simp add: mview_def sample_marci_def mem_view_empty)

lemma sample_well_typed: "well_typed ref_codec cfg nets (mem_view mem_empty)"
  by (simp add: mem_view_empty well_typed_empty)

text \<open>A run: the connection is lost and comes back, a reachable report arrives and is handled.\<close>

definition sample_queued :: "mem machine" where
  "sample_queued = (initial_machine mem_empty)\<lparr>reachable_q := [sample_reachable]\<rparr>"

definition sample_machine :: "mem machine" where
  "sample_machine = run_arm (handle_reachable ref_env sample_reachable) (initial_machine mem_empty)"

lemma sample_queued_run:
  "(marci_step ref_env mem_view default_config {Mirana, Pudge})\<^sup>*\<^sup>* (initial_machine mem_empty) sample_queued"
proof -
  let ?M = "initial_machine mem_empty" and ?step = "marci_step ref_env mem_view default_config {Mirana, Pudge}"
  let ?msg = "\<lparr>topic = ''peer/reachable'',
    mqtt_payload = json_or_default (reachable_to_json ref_codec sample_reachable)\<rparr> :: mqtt_message"
  have idle: "exited ?M = None" "reconnecting ?M = None" by (simp_all add: initial_machine_def)
  have lost: "?step ?M (?M\<lparr>reconnecting := Some 0\<rparr>)"
    by (rule marci_step.lost) (simp_all add: idle connection_lost_def)
  have again: "?step (?M\<lparr>reconnecting := Some 0\<rparr>) ?M"
    by (rule marci_step.attempt) (simp_all add: reconnect_attempt_def on_world_def ref_env_def initial_machine_def)
  have "route (codec ref_env) ?msg = Some (ToReachable sample_reachable)"
    using json_roundtripD(3) [OF ref_codec_roundtrip] by (simp add: route_def)
  then have "?step ?M sample_queued"
    by (rule marci_step.receive [OF idle])
       (simp_all add: names_only_def send_delivery_def reachable_capacity_def sample_queued_def initial_machine_def
          sample_reachable_def sample_reported_def)
  with lost again show ?thesis by (meson converse_rtranclp_into_rtranclp r_into_rtranclp)
qed

lemma sample_run:
  "(marci_step ref_env mem_view default_config {Mirana, Pudge})\<^sup>*\<^sup>* (initial_machine mem_empty) sample_machine"
proof -
  have "marci_step ref_env mem_view default_config {Mirana, Pudge} sample_queued sample_machine"
    by (rule marci_step.reachable)
       (simp_all add: select_reachable_def sample_queued_def sample_machine_def initial_machine_def)
  with sample_queued_run show ?thesis by (rule rtranclp.rtrancl_into_rtrancl)
qed

lemma sample_ip: "show_ipv4 0x08080808 = ''8.8.8.8''"
  by code_simp

section \<open>The invariant and the life time of entries\<close>

text \<open>
  Property C1. In every state marci can reach from a well typed data base, whatever the order of
  reports, ticks, lost connections and passing time and whether commands fail or not, the three channels are within
  their capacities, queued reachable reports name only the networks in question, and the data base
  is well typed: status entries are volatile strings within their configured life time, witnesses
  and endpoints are non-empty sets of the right texts, and the stored networks are those reported.
\<close>

theorem marci_invariant:
  assumes "marci_service E view glob cfg"
    and "well_typed (codec E) cfg nets (view w)"
    and "(marci_step E view cfg nets)\<^sup>*\<^sup>* (initial_machine w) M"
  shows "length (online_q M) \<le> 100 \<and> length (reachable_q M) \<le> 500 \<and> length (unknown_q M) \<le> 100
     \<and> list_all (\<lambda>p. network (peer p) \<in> nets) (reachable_q M)
     \<and> well_typed (codec E) cfg nets (mview view (core M))"
  using marci_service.reachable_machine_ok [OF assms]
  by (simp add: machine_ok_def online_capacity_def reachable_capacity_def unknown_capacity_def)

theorem marci_invariant_witness:
  "length (online_q sample_machine) \<le> 100 \<and> length (reachable_q sample_machine) \<le> 500
   \<and> length (unknown_q sample_machine) \<le> 100
   \<and> list_all (\<lambda>p. network (peer p) \<in> {Mirana, Pudge}) (reachable_q sample_machine)
   \<and> well_typed ref_codec default_config {Mirana, Pudge} (mview mem_view (core sample_machine))"
  using marci_invariant [OF ref_marci_locales(3) _ sample_run] sample_well_typed by simp

text \<open>
  Property C20. Status entries die: in every state marci can reach, once the configured timeout has
  passed without further reports, no peer is online in either form and no online address is left,
  and once the unknown timeout has passed no peer is unknown.
\<close>

theorem status_entries_expire:
  assumes "marci_service E view glob cfg"
    and "well_typed (codec E) cfg nets (view w)"
    and "(marci_step E view cfg nets)\<^sup>*\<^sup>* (initial_machine w) M"
  shows "elapse (unat (node_default_timeout cfg)) (mview view (core M)) (online_peer_key pid) = None
     \<and> elapse (unat (node_default_timeout cfg)) (mview view (core M)) (online2_peer_key pid) = None
     \<and> elapse (unat (node_default_timeout cfg)) (mview view (core M)) (online_ip_key pid) = None
     \<and> elapse (unat (node_unknown_default_timeout cfg)) (mview view (core M)) (unknown_peer_key pid) = None"
proof -
  have wt: "well_typed (codec E) cfg nets (mview view (core M))"
    using marci_service.reachable_machine_ok [OF assms]
    by (simp add: machine_ok_def)
  have "elapse (unat (node_default_timeout cfg)) (mview view (core M)) k = None"
    if "k \<in> {online_peer_key pid, online2_peer_key pid, online_ip_key pid}" for k
    using well_typed_online [OF wt _ that] by (auto simp: elapse_def split: option.splits)
  moreover have "elapse (unat (node_unknown_default_timeout cfg)) (mview view (core M)) (unknown_peer_key pid) = None"
    using well_typed_unknown [OF wt] by (auto simp: elapse_def split: option.splits)
  ultimately show ?thesis by simp
qed

theorem status_entries_expire_witness:
  "elapse 5184000 (mview mem_view (core sample_machine)) (online_peer_key ''Qm1'') = None
   \<and> elapse 1209600 (mview mem_view (core sample_machine)) (unknown_peer_key ''Qm1'') = None"
proof -
  have "unat (node_default_timeout default_config) = 5184000"
    "unat (node_unknown_default_timeout default_config) = 1209600" by (simp_all add: default_config_def)
  then show ?thesis
    using status_entries_expire [OF ref_marci_locales(3) _ sample_run, of "''Qm1''"] sample_well_typed by simp
qed

section \<open>Progress\<close>



text \<open>
  Property C21. No report waits for ever for want of a step: from every state marci can reach, the
  arms of the loop can handle everything that is queued. They take each report once, in the order
  of its channel, and what they leave is what the handlers of exactly these reports leave when they
  are run one after another from the state in question; the program is still running.
\<close>

theorem marci_drains:
  assumes "marci_answers E view glob" and "accepted_timeouts cfg"
    and "well_typed (codec E) cfg nets (view w)"
    and "(marci_step E view cfg nets)\<^sup>*\<^sup>* (initial_machine w) M"
  shows "\<exists>M'. (marci_step E view cfg nets)\<^sup>*\<^sup>* M M'
     \<and> online_q M' = [] \<and> reachable_q M' = [] \<and> unknown_q M' = [] \<and> exited M' = None
     \<and> io_seq [io_for (online_q M) (handle_online E cfg), io_for (unknown_q M) (handle_unknown E cfg),
               io_for (reachable_q M) (handle_reachable E)] (core M) = (Inr (), core M')"
proof -
  note up = marci_upI [OF assms(1,2)]
  then have "marci_service E view glob cfg" by (simp add: marci_up_def)
  then have "machine_ok view (codec E) cfg nets M"
    using assms(3,4) by (rule marci_service.reachable_machine_ok)
  from marci_up.queues_drain [OF up this marci_up.reachable_not_exited [OF up assms(3,4)]] show ?thesis
    unfolding waiting_runs waiting_Nil by blast
qed

theorem marci_drains_witness:
  "\<exists>M'. (marci_step ref_env mem_view default_config {Mirana, Pudge})\<^sup>*\<^sup>* sample_queued M'
     \<and> reachable_q M' = [] \<and> exited M' = None
     \<and> handle_reachable ref_env sample_reachable \<lparr>ipinfo_cache = (\<lambda>_. None), world = mem_empty\<rparr> = (Inr (), core M')"
proof -
  from marci_drains [OF ref_marci_locales(4) default_accepted _ sample_queued_run] sample_well_typed
  show ?thesis by (auto simp: sample_queued_def initial_machine_def io_ok)
qed

section \<open>The arms\<close>

text \<open>
  Property C7. While Redis and the broker answer, and with timeouts that Redis accepts, a report that a
  peer is online is always handled completely, and its effect on the data base is exactly the
  specified one: an existing online entry has its life renewed and keeps its version, otherwise the
  entry of the reported kind is created with the reported version; the first address, the IP
  details, the node kind and the time are recorded, and the peer is no longer unknown. The details
  are those that the cache has for the first address when the arm is done, and they are missing
  only if this address was looked up during the arm without success; the time is a reading of the
  system clock during the arm, as long as the clock is not set back meanwhile.
\<close>

theorem online_arm_refines:
  assumes "marci_answers E view glob" and "accepted_timeouts cfg" and "marci_clock E clock"
  shows "\<exists>m' det t. handle_online E cfg p m = (Inr (), m')
     \<and> mview view m' = online_spec (codec E) cfg p (arg_bool (redis E) (full p))
         (is_string_key (mview view m) (online_peer_key (peer_id (info p)))) det (arg_u64 (redis E) t) (mview view m)
     \<and> looked_up E clock m m' (take 1 (addresses (info p))) det \<and> stamped clock m m' t"
  by (rule marci_timed.handle_online_timed
        [OF marci_timed.intro [OF marci_upI [OF assms(1,2)] marci_watched.intro [OF assms(1,3)]]])

theorem online_arm_refines_witness:
  "\<exists>m' det t. handle_online ref_env default_config sample_peer sample_marci = (Inr (), m')
     \<and> mview mem_view m' = online_spec ref_codec default_config sample_peer ''1'' False (Some det)
         (show_nat (unat (t :: u64))) (\<lambda>_. None)
     \<and> ipinfo_cache m' ''8.8.8.8'' = Some det \<and> stamped mem_clock sample_marci m' t"
proof -
  have args: "arg_bool mem_redis (full sample_peer) = ''1''" "arg_u64 mem_redis t = show_nat (unat t)" for t
    by (simp_all add: mem_redis_def sample_peer_def)
  let ?a = "\<lparr>address = V4 0x08080808, port = 8115\<rparr> :: EndpointInfo"
  have a: "take (Suc 0) (addresses (info sample_peer)) = [?a]"
    by (simp add: sample_peer_def sample_reported_def)
  obtain m' det t where m': "handle_online ref_env default_config sample_peer sample_marci = (Inr (), m')"
    and v: "mview mem_view m' = online_spec ref_codec default_config sample_peer ''1'' False det
         (show_nat (unat (t :: u64))) (\<lambda>_. None)"
    and l: "looked_up ref_env mem_clock sample_marci m' [?a] det" and t: "stamped mem_clock sample_marci m' t"
    using online_arm_refines [OF ref_marci_locales(4) default_accepted ref_marci_locales(5), of sample_peer sample_marci]
    by (auto simp: sample_marci_view is_string_key_def a args simp del: take_Suc_Cons)
  have "\<not> lookup_failed ref_env mem_clock sample_marci m' ''8.8.8.8''"
    by (simp add: lookup_failed_def ref_env_def)
  with l have "det \<noteq> None" by (auto simp: looked_up_def sample_ip)
  with l have "ipinfo_cache m' ''8.8.8.8'' = det" by (simp add: looked_up_def sample_ip split: option.splits)
  with m' v t \<open>det \<noteq> None\<close> show ?thesis by blast
qed

text \<open>
  Property C6. While Redis and the broker answer, and with timeouts that Redis accepts, a report that
  dialling a peer failed is always handled completely, and its effect is exactly the specified one: an online peer is renewed; any other peer becomes unknown, and its
  witnesses are forgotten, precisely when at least the configured number of distinct witnesses has
  reported it; otherwise only the time of the report is recorded.
\<close>

theorem unknown_arm_refines:
  assumes "marci_up E view glob cfg"
    and "well_typed (codec E) cfg nets (mview view m)"
    and "card (db_members (mview view m) (reachable_peer_key (peer_id p))) < 2 ^ 64"
  shows "\<exists>m' t. handle_unknown E cfg p m = (Inr (), m')
     \<and> mview view m' = unknown_spec cfg (peer_id p) (is_string_key (mview view m) (online_peer_key (peer_id p)))
         (card (db_members (mview view m) (reachable_peer_key (peer_id p)))) (arg_u64 (redis E) t) (mview view m)"
  using assms by (rule marci_up.handle_unknown_exact)

theorem unknown_arm_refines_witness:
  "\<exists>m' t. handle_unknown ref_env default_config sample_reported sample_marci = (Inr (), m')
     \<and> mview mem_view m' = unknown_spec default_config ''Qm1'' False 0 (show_nat (unat (t :: u64))) (\<lambda>_. None)"
proof -
  have "arg_u64 mem_redis t = show_nat (unat t)" for t by (simp add: mem_redis_def)
  then show ?thesis
    using unknown_arm_refines [OF ref_marci_locales(2), of UNIV sample_marci sample_reported]
    by (simp add: sample_marci_view is_string_key_def db_members_def well_typed_empty sample_reported_def)
qed

text \<open>
  Property C15. While Redis and the broker answer, and with timeouts that Redis accepts, a report that
  a peer was heard of is handled completely on a well typed data base, and its effect is exactly
  the specified one: the reporter joins the witnesses, the endpoints join the stored set, the
  network is recorded under both keys and the time is recorded. If no country was stored for the
  peer, the IP details become those that the cache has, when the arm is done, for the first
  endpoint it knows, and they stay away only if every endpoint was looked up during the arm without
  success; with a stored country they are left alone. Last, the service time is set. Both times are
  readings of the system clock during the arm, as long as the clock is not set back meanwhile.
\<close>

theorem reachable_arm_refines:
  assumes "marci_answers E view glob" and "accepted_timeouts cfg" and "marci_clock E clock"
    and "well_typed (codec E) cfg nets (mview view m)" and "network (peer p) \<in> nets"
  shows "\<exists>m' seen det t. handle_reachable E p m = (Inr (), m')
     \<and> mview view m' = db_set service_last_update_key (arg_u64 (redis E) t)
         (details_spec (peer_id (peer p)) det
            (reachable_spec (codec E) p (arg_i32 (redis E) 0) (arg_u64 (redis E) seen) (mview view m)))
     \<and> (if stored_country (mview view m) (peer_id (peer p)) = []
        then looked_up E clock m m' (addresses (peer p)) det else det = None)
     \<and> stamped clock m m' seen \<and> stamped clock m m' t"
  by (rule marci_timed.handle_reachable_timed
        [OF marci_timed.intro [OF marci_upI [OF assms(1,2)] marci_watched.intro [OF assms(1,3)]] assms(4,5)])

theorem reachable_arm_refines_witness:
  "\<exists>m' seen det t. handle_reachable ref_env sample_reachable sample_marci = (Inr (), m')
     \<and> mview mem_view m' = db_set service_last_update_key (show_nat (unat (t :: u64)))
         (details_spec ''Qm1'' det (reachable_spec ref_codec sample_reachable ''0'' (show_nat (unat (seen :: u64))) (\<lambda>_. None)))
     \<and> looked_up ref_env mem_clock sample_marci m' (addresses sample_reported) det
     \<and> stamped mem_clock sample_marci m' seen \<and> stamped mem_clock sample_marci m' t"
proof -
  have "arg_u64 mem_redis t = show_nat (unat t)" "arg_i32 mem_redis 0 = ''0''" for t
    by (simp_all add: mem_redis_def show_nat_def show_radix.simps digit_char_def char_of_def bit_0)
  moreover have "peer_id (peer sample_reachable) = ''Qm1''" "peer sample_reachable = sample_reported"
    by (simp_all add: sample_reachable_def sample_reported_def)
  ultimately show ?thesis
    using reachable_arm_refines [OF ref_marci_locales(4) default_accepted ref_marci_locales(5), of UNIV sample_marci sample_reachable]
    by (simp add: sample_marci_view well_typed_empty stored_country_def)
qed

text \<open>
  Property C22. Reports stay with their peer: whatever the outcome of its Redis commands, an arm that
  handles a report about a peer leaves every key alone that is not one of this peer's keys or the
  service key, and the broadcast changes nothing but the service key.
\<close>

theorem arms_frame:
  assumes "marci_service E view glob cfg"
    and "peer_id (info p) = pid" and "peer_id u = pid" and "peer_id (peer r) = pid"
    and "k \<notin> peer_footprint pid"
  shows "mview view (snd (handle_online E cfg p m)) k = mview view m k
     \<and> mview view (snd (handle_unknown E cfg u m)) k = mview view m k
     \<and> mview view (snd (handle_reachable E r m)) k = mview view m k
     \<and> mview view (snd (handle_tick E m)) k = mview view m k
     \<and> (k' \<noteq> service_last_update_key \<longrightarrow> mview view (snd (handle_tick E m)) k' = mview view m k')"
proof -
  have frame: "mview view (snd (arm m)) k = mview view m k"
    if "io_obeys (wrote view (codec E) cfg UNIV pid) arm" and "k \<notin> peer_footprint pid" for arm pid k
    using peer_steps_frame [OF io_obeys_at [OF that(1), unfolded wrote_def] that(2)] .
  note w = marci_service.handle_online_wrote [OF assms(1), of UNIV p]
    marci_service.handle_unknown_wrote [OF assms(1), of UNIV u]
    marci_service.handle_reachable_wrote [OF assms(1), of r UNIV]
  have "mview view (snd (handle_tick E m)) k' = mview view m k'" if other: "k' \<noteq> service_last_update_key"
    using frame [OF marci_service.handle_tick_wrote [OF assms(1)]] fresh_footprint [OF other] by blast
  with frame [OF marci_service.handle_tick_wrote [OF assms(1)] assms(5)]
  show ?thesis using w assms(2-5) frame by auto
qed

theorem arms_frame_witness:
  "mview mem_view (snd (handle_online ref_env default_config sample_peer sample_marci)) (online_peer_key ''Qm9'') = None"
proof -
  have "online_peer_key ''Qm9'' \<notin> peer_footprint ''Qm1''"
    by (simp add: peer_footprint_def)
  then show ?thesis
    using arms_frame [OF ref_marci_locales(3), of sample_peer "''Qm1''" sample_reported sample_reachable
        "online_peer_key ''Qm9''" sample_marci]
    by (simp add: sample_peer_def sample_reported_def sample_reachable_def sample_marci_view)
qed

text \<open>
  Property C26. The details of an address are looked up once: after a successful lookup the same
  details are returned in every later state without calling the service, because no arm ever
  forgets a cached address; and whatever the cache holds is an answer of the service, errors are
  not cached.
\<close>

theorem ip_details_looked_up_once:
  assumes "lookup_ipinfo E ip m = (Inr (Inr det), m')" and "cache_step E m' m''"
  shows "lookup_ipinfo E ip m'' = (Inr (Inr det), m'')
     \<and> cache_step E m'' (snd (handle_online E cfg p m''))
     \<and> cache_step E m'' (snd (handle_unknown E cfg u m''))
     \<and> cache_step E m'' (snd (handle_reachable E r m''))
     \<and> cache_step E m'' (snd (handle_tick E m''))
     \<and> (cache_answers E m \<longrightarrow> (\<exists>s s'. ip_lookup E ip s = (Inr det, s')))"
proof -
  have c: "ipinfo_cache m' ip = Some det"
    using assms(1) by (auto simp: lookup_run split: option.splits prod.splits sum.splits)
  with assms(2) have "ipinfo_cache m'' ip = Some det"
    unfolding cache_step_def cache_grows_def map_le_def by (metis domI)
  then have "lookup_ipinfo E ip m'' = (Inr (Inr det), m'')" by (simp add: lookup_run)
  moreover have "cache_step E m m'" using io_obeysD [OF lookup_cache assms(1)] .
  then have "cache_answers E m \<longrightarrow> (\<exists>s s'. ip_lookup E ip s = (Inr det, s'))"
    using c by (auto simp: cache_step_def cache_answers_def)
  ultimately show ?thesis by (simp add: arms_cache [THEN io_obeys_at])
qed

theorem ip_details_looked_up_once_witness:
  "lookup_ipinfo ref_env ''8.8.8.8'' (sample_marci\<lparr>ipinfo_cache := [''8.8.8.8'' \<mapsto> ref_details]\<rparr>)
   = (Inr (Inr ref_details), sample_marci\<lparr>ipinfo_cache := [''8.8.8.8'' \<mapsto> ref_details]\<rparr>)"
proof -
  have "lookup_ipinfo ref_env ''8.8.8.8'' sample_marci =
      (Inr (Inr ref_details), sample_marci\<lparr>ipinfo_cache := [''8.8.8.8'' \<mapsto> ref_details]\<rparr>)"
    by (simp add: lookup_run sample_marci_def ref_env_def)
  from ip_details_looked_up_once [OF this cstep.refl] show ?thesis by blast
qed

text \<open>
  Property C9. The broadcast asks once for every peer that has a reachable entry: while Redis and the
  broker answer, on a well typed data base, the timer arm returns having published, in some order and nothing else, exactly one
  dial request per reachable entry, which carries the identity at the end of the key, all
  endpoints stored for it and the network stored for it.
\<close>

theorem broadcast_requests:
  assumes "marci_broker E view glob cfg sent"
    and "well_typed (codec E) cfg nets (mview view m)"
  shows "\<exists>m' ks ns. handle_tick E m = (Inr (), m') \<and> distinct ks
     \<and> set ks = {reachable_peer_key pid |pid. mview view m (reachable_peer_key pid) \<noteq> None}
     \<and> list_all2 (request_for (codec E) (mview view m)) (map last_part ks) ns
     \<and> sent (world m') = sent (world m) @ map (dial_message (codec E)) ns"
proof -
  have "marci_up E view glob cfg" using assms(1) by (simp add: marci_broker_def)
  then obtain m' where "handle_tick E m = (Inr (), m')"
    using marci_up.handle_tick_total by (fastforce simp: io_total_def)
  with marci_broker.handle_tick_publishes [OF assms(1) this assms(2)] show ?thesis by blast
qed

theorem broadcast_requests_witness:
  "\<exists>m' ks ns. handle_tick ref_env (core sample_machine) = (Inr (), m') \<and> distinct ks
     \<and> set ks = {reachable_peer_key pid |pid. mview mem_view (core sample_machine) (reachable_peer_key pid) \<noteq> None}
     \<and> list_all2 (request_for ref_codec (mview mem_view (core sample_machine))) (map last_part ks) ns
     \<and> mem_published (world m') = mem_published (world (core sample_machine)) @ map (dial_message ref_codec) ns"
proof -
  have "machine_ok mem_view (codec ref_env) default_config {Mirana, Pudge} sample_machine"
    by (rule ref_marci.reachable_machine_ok [OF _ sample_run]) (simp add: sample_well_typed)
  then show ?thesis
    using broadcast_requests [OF ref_marci_locales(1), of "{Mirana, Pudge}" "core sample_machine"]
    by (simp add: machine_ok_def)
qed

section \<open>Configuration\<close>

text \<open>The number of an environment variable, with a default if it is not set.\<close>

definition number_or :: "u64 \<Rightarrow> string option \<Rightarrow> u64 option" where
  "number_or dflt var = (case var of None \<Rightarrow> Some dflt | Some v \<Rightarrow> parse_u64 v)"

lemma read_config_spec:
  "read_config env = Inr cfg \<longleftrightarrow>
     number_or (60 * 86400) (env ''CKB_NODE_DEFAULT_TIMEOUT'') = Some (node_default_timeout cfg)
     \<and> number_or 86400 (env ''CKB_NODE_EX_DEFAULT_TIMEOUT'') = Some (node_ex_timeout cfg)
     \<and> number_or (14 * 86400) (env ''CKB_NODE_UNKNOWN_DEFAULT_TIMEOUT'') = Some (node_unknown_default_timeout cfg)
     \<and> number_or 3 (env ''CKB_NODE_DEFAULT_WITNESSES'') = Some (node_default_witnesses cfg)
     \<and> number_or 180 (env ''MERCI_DEFAULT_INTERVAL'') = Some (broadcast_interval cfg)"
proof -
  have env: "env_u64 env var dflt = Inr n \<longleftrightarrow>
      (case env var of None \<Rightarrow> parse_u64 dflt | Some v \<Rightarrow> parse_u64 v) = Some n" for var dflt n
    by (auto simp: env_u64_def Let_def split: option.splits)
  have defaults: "parse_u64 ''5184000'' = Some (60 * 86400)" "parse_u64 ''86400'' = Some 86400"
    "parse_u64 ''1209600'' = Some (14 * 86400)" "parse_u64 ''3'' = Some 3" "parse_u64 ''180'' = Some 180"
    by (simp_all add: parse_u64_def of_char_of)
  show ?thesis
    unfolding read_config_def res_bind_Inr env defaults number_or_def by (cases cfg) auto
qed

lemma read_config_no_panic: "read_config env \<noteq> Inl (Panic msg)"
  by (auto simp: read_config_def env_u64_def Let_def res_bind_def split: sum.splits option.splits)

text \<open>
  The documented behaviour of \<open>tokio::time::interval\<close>: it panics if and only if the period is zero.
\<close>

definition panics_on_zero :: "(u64 \<Rightarrow> failure + unit) \<Rightarrow> bool" where
  "panics_on_zero interval \<longleftrightarrow>
     (\<forall>n. case interval n of Inl e \<Rightarrow> n = 0 \<and> (\<exists>msg. e = Panic msg) | Inr _ \<Rightarrow> n \<noteq> 0)"

lemma interval_cases:
  assumes "panics_on_zero interval"
  shows "interval n = Inr () \<longleftrightarrow> n \<noteq> 0" and "(\<exists>msg. interval n = Inl (Panic msg)) \<longleftrightarrow> n = 0"
  using assms [unfolded panics_on_zero_def, THEN spec, of n] by (cases "interval n"; auto)+

text \<open>
  Property C40. As far as its configuration and its timer decide, marci reaches its loop exactly when
  each of its five variables is unset or a decimal number that fits 64 bits and the broadcast
  interval is not zero; it then runs with those numbers, with the documented defaults (sixty days,
  one day, fourteen days, three witnesses, three minutes) for the unset ones. It panics exactly
  when the five are such numbers and the interval is zero, which the configuration accepts.
\<close>

theorem marci_starts:
  assumes "panics_on_zero interval"
  shows "(marci_start interval env w = Inr (cfg, M) \<longleftrightarrow>
       number_or (60 * 86400) (env ''CKB_NODE_DEFAULT_TIMEOUT'') = Some (node_default_timeout cfg)
       \<and> number_or 86400 (env ''CKB_NODE_EX_DEFAULT_TIMEOUT'') = Some (node_ex_timeout cfg)
       \<and> number_or (14 * 86400) (env ''CKB_NODE_UNKNOWN_DEFAULT_TIMEOUT'') = Some (node_unknown_default_timeout cfg)
       \<and> number_or 3 (env ''CKB_NODE_DEFAULT_WITNESSES'') = Some (node_default_witnesses cfg)
       \<and> number_or 180 (env ''MERCI_DEFAULT_INTERVAL'') = Some (broadcast_interval cfg)
       \<and> broadcast_interval cfg \<noteq> 0 \<and> M = initial_machine w)
     \<and> ((\<exists>msg. marci_start interval env w = Inl (Panic msg)) \<longleftrightarrow>
       number_or (60 * 86400) (env ''CKB_NODE_DEFAULT_TIMEOUT'') \<noteq> None
       \<and> number_or 86400 (env ''CKB_NODE_EX_DEFAULT_TIMEOUT'') \<noteq> None
       \<and> number_or (14 * 86400) (env ''CKB_NODE_UNKNOWN_DEFAULT_TIMEOUT'') \<noteq> None
       \<and> number_or 3 (env ''CKB_NODE_DEFAULT_WITNESSES'') \<noteq> None
       \<and> number_or 180 (env ''MERCI_DEFAULT_INTERVAL'') = Some 0)"
proof
  have "marci_start interval env w = Inr (cfg, M) \<longleftrightarrow>
      read_config env = Inr cfg \<and> broadcast_interval cfg \<noteq> 0 \<and> M = initial_machine w"
    by (auto simp: marci_start_def res_bind_Inr interval_cases(1) [OF assms])
  then show "marci_start interval env w = Inr (cfg, M) \<longleftrightarrow>
       number_or (60 * 86400) (env ''CKB_NODE_DEFAULT_TIMEOUT'') = Some (node_default_timeout cfg)
       \<and> number_or 86400 (env ''CKB_NODE_EX_DEFAULT_TIMEOUT'') = Some (node_ex_timeout cfg)
       \<and> number_or (14 * 86400) (env ''CKB_NODE_UNKNOWN_DEFAULT_TIMEOUT'') = Some (node_unknown_default_timeout cfg)
       \<and> number_or 3 (env ''CKB_NODE_DEFAULT_WITNESSES'') = Some (node_default_witnesses cfg)
       \<and> number_or 180 (env ''MERCI_DEFAULT_INTERVAL'') = Some (broadcast_interval cfg)
       \<and> broadcast_interval cfg \<noteq> 0 \<and> M = initial_machine w"
    by (simp only: read_config_spec conj_assoc)
next
  have "(\<exists>msg. marci_start interval env w = Inl (Panic msg)) \<longleftrightarrow>
      (\<exists>c. read_config env = Inr c \<and> broadcast_interval c = 0)"
  proof (cases "read_config env")
    case (Inl e)
    then show ?thesis using read_config_no_panic [of env] by (auto simp: marci_start_def)
  next
    case (Inr c)
    then show ?thesis
      using interval_cases(1) [OF assms, of "broadcast_interval c"] interval_cases(2) [OF assms, of "broadcast_interval c"]
      by (cases "interval (broadcast_interval c)") (auto simp: marci_start_def)
  qed
  then show "(\<exists>msg. marci_start interval env w = Inl (Panic msg)) \<longleftrightarrow>
       number_or (60 * 86400) (env ''CKB_NODE_DEFAULT_TIMEOUT'') \<noteq> None
       \<and> number_or 86400 (env ''CKB_NODE_EX_DEFAULT_TIMEOUT'') \<noteq> None
       \<and> number_or (14 * 86400) (env ''CKB_NODE_UNKNOWN_DEFAULT_TIMEOUT'') \<noteq> None
       \<and> number_or 3 (env ''CKB_NODE_DEFAULT_WITNESSES'') \<noteq> None
       \<and> number_or 180 (env ''MERCI_DEFAULT_INTERVAL'') = Some 0"
    unfolding read_config_spec by (metis (no_types) marci_config.select_convs option.exhaust option.distinct(1))
qed

theorem marci_starts_witness:
  "\<exists>msg. marci_start (\<lambda>n. if n = 0 then Inl (Panic ''`period` must be non-zero.'') else Inr ())
     [''MERCI_DEFAULT_INTERVAL'' \<mapsto> ''0''] mem_empty = Inl (Panic msg)"
proof -
  have "panics_on_zero (\<lambda>n. if n = 0 then Inl (Panic ''`period` must be non-zero.'') else Inr ())"
    by (simp add: panics_on_zero_def)
  moreover have "number_or 180 (Some ''0'') = Some 0" by (simp add: number_or_def parse_u64_def of_char_of)
  ultimately show ?thesis
    using marci_starts [of _ "[''MERCI_DEFAULT_INTERVAL'' \<mapsto> ''0'']" mem_empty]
    by (simp add: number_or_def)
qed

end
