(* ===== verification/Exposed.thy ===== *)
theory Exposed
  imports Marci_Keys
begin

text \<open>
  The query service (\<open>exposed/src/main.rs\<close>, \<open>exposed/src/model.rs\<close>): the handlers of its HTTP
  routes, which read what marci wrote. The HTTP framework only routes requests to them; a request
  is the argument and the response the result. The regular expression engine and the range of
  the calendar library are parameters.
\<close>

section \<open>Numbers of the standard library\<close>

text \<open>
  \<open>f64::from_str\<close>: the texts it accepts, with the number they denote as sign, decimal digits and
  power of ten, before it is rounded to a double.
\<close>

datatype f64 = NaN | Infinite bool | Decimal bool nat int

definition is_digit :: "char \<Rightarrow> bool" where
  "is_digit c \<longleftrightarrow> 48 \<le> (of_char c :: nat) \<and> (of_char c :: nat) \<le> 57"

definition strip_sign :: "string \<Rightarrow> bool \<times> string" where
  "strip_sign s =
     (case s of
        [] \<Rightarrow> (False, [])
      | c # r \<Rightarrow> if c = CHR ''-'' then (True, r) else if c = CHR ''+'' then (False, r) else (False, s))"

definition digits_value :: "string \<Rightarrow> nat" where
  "digits_value ds = foldl (\<lambda>n c. n * 10 + (of_char c - 48)) 0 ds"

definition parse_exponent :: "string \<Rightarrow> int option" where
  "parse_exponent s =
     (case s of
        [] \<Rightarrow> Some 0
      | c # r \<Rightarrow>
          if c \<in> {CHR ''e'', CHR ''E''}
          then let (neg, ds) = strip_sign r
               in if ds \<noteq> [] \<and> list_all is_digit ds
                  then Some (if neg then - int (digits_value ds) else int (digits_value ds))
                  else None
          else None)"

definition parse_f64 :: "string \<Rightarrow> f64 option" where
  "parse_f64 s =
     (let (neg, r) = strip_sign s in
      if to_lowercase r \<in> {''inf'', ''infinity''} then Some (Infinite neg)
      else if to_lowercase r = ''nan'' then Some NaN
      else
        let whole = takeWhile is_digit r; r1 = dropWhile is_digit r;
            frac = (case r1 of c # r2 \<Rightarrow> if c = CHR ''.'' then takeWhile is_digit r2 else [] | [] \<Rightarrow> []);
            rest = (case r1 of c # r2 \<Rightarrow> if c = CHR ''.'' then dropWhile is_digit r2 else r1 | [] \<Rightarrow> [])
        in if whole = [] \<and> frac = [] then None
           else map_option (\<lambda>e. Decimal neg (digits_value (whole @ frac)) (e - int (length frac)))
                  (parse_exponent rest))"

section \<open>The data\<close>

record Peer =
  peer_index :: "32 word"
  peer_version :: string
  version_short :: string
  last_seen :: "u64 option"
  peer_country :: "string option"
  peer_city :: "string option"
  latitude :: "f64 option"
  longitude :: "f64 option"
  node_type :: int

record QueryParams =
  query_network :: string
  offline_timeout :: u64
  unknown_offline_timeout :: u64

record PeerStatus =
  status_peer_id :: string
  in_map :: bool
  status_info :: "Peer option"

definition default_network :: string where
  "default_network = ''mirana''"

definition default_timeout :: "(string \<Rightarrow> string option) \<Rightarrow> failure + u64" where
  "default_timeout env =
     (case parse_u64 (case env ''MARCI_DEFAULT_TIMEOUT'' of Some v \<Rightarrow> v | None \<Rightarrow> ''43200'') of
        Some n \<Rightarrow> Inr n
      | None \<Rightarrow> Inl (Panic ''unwrap on an Err value''))"

definition default_unknown_timeout :: "(string \<Rightarrow> string option) \<Rightarrow> failure + u64" where
  "default_unknown_timeout env =
     (case parse_u64 (case env ''MARCI_DEFAULT_UNKNOWN_TIMEOUT'' of Some v \<Rightarrow> v | None \<Rightarrow> ''1440'') of
        Some n \<Rightarrow> Inr n
      | None \<Rightarrow> Inl (Panic ''unwrap on an Err value''))"

text \<open>The fields of a query that are missing are filled in with the defaults.\<close>

definition query_params ::
  "(string \<Rightarrow> string option) \<Rightarrow> string option \<Rightarrow> u64 option \<Rightarrow> u64 option \<Rightarrow> failure + QueryParams" where
  "query_params env n t u =
     res_bind (case t of Some x \<Rightarrow> Inr x | None \<Rightarrow> default_timeout env) (\<lambda>t'.
     res_bind (case u of Some x \<Rightarrow> Inr x | None \<Rightarrow> default_unknown_timeout env) (\<lambda>u'.
       Inr \<lparr>query_network = (case n of Some x \<Rightarrow> x | None \<Rightarrow> default_network),
            offline_timeout = t', unknown_offline_timeout = u'\<rparr>))"

datatype cache_directive = MaxAge u32 | MinFresh u32

datatype response =
    OkPeers "cache_directive list" "Peer list"
  | OkStatus PeerStatus
  | OkService u64
  | OkBody string
  | NotAcceptable string
  | InternalServerError

text \<open>
  The outside world: Redis, the clock in nanoseconds since the epoch, the first group captured by
  the expression \<open>^(.*?)[^0-9.].*$\<close>, and the seconds the calendar library can represent.
\<close>

record 's exposed_env =
  ex_redis :: "'s redis"
  ex_now :: "('s, int) call"
  captures :: "string \<Rightarrow> string option"
  in_calendar :: "u64 \<Rightarrow> bool"

record 's service_data =
  last_cache_update :: int
  cached :: "Peer list"
  client :: 's

section \<open>Reading a peer\<close>

text \<open>A call followed by \<open>unwrap_or_default\<close>, and one followed by \<open>?\<close>.\<close>

definition get_or :: "'a \<Rightarrow> ('s, string + 'a) call \<Rightarrow> ('s, 'a) io" where
  "get_or dflt c = io_bind (io_await c) (\<lambda>r. io_return (unwrap_or dflt r))"

definition get_q :: "('s, string + 'a) call \<Rightarrow> ('s, 'a) io" where
  "get_q c = io_question RedisError c"

definition parse_position :: "string + string \<Rightarrow> f64 option \<times> f64 option" where
  "parse_position r =
     (case r of
        Inl _ \<Rightarrow> (None, None)
      | Inr location \<Rightarrow>
          let lat_lon = split_on CHR '','' location
          in (parse_f64 (lat_lon ! 0), if 1 < length lat_lon then parse_f64 (lat_lon ! 1) else None))"

definition get_peer_info ::
  "'s exposed_env \<Rightarrow> string
     \<Rightarrow> ('s, string option \<times> string option \<times> f64 option \<times> f64 option \<times> bool option \<times> u64) io" where
  "get_peer_info X pid =
     io_bind (get_or None (r_get_opt_string (ex_redis X) (peer_country_key pid))) (\<lambda>c.
     io_bind (get_or None (r_get_opt_string (ex_redis X) (peer_city_key pid))) (\<lambda>t.
     io_bind (io_await (r_get_string (ex_redis X) (peer_pos_key pid))) (\<lambda>r.
     io_bind (get_or None (r_get_opt_bool (ex_redis X) (peer_full_key pid))) (\<lambda>f.
     io_bind (get_or 0 (r_get_u64 (ex_redis X) (peer_seen_key pid))) (\<lambda>timestamp.
       let (lat, lon) = parse_position r in io_return (c, t, lat, lon, f, timestamp))))))"

definition node_type_from_full :: "bool option \<Rightarrow> int" where
  "node_type_from_full f = (case f of Some True \<Rightarrow> 0 | Some False \<Rightarrow> 1 | None \<Rightarrow> 0)"

definition version_prefix :: "'s exposed_env \<Rightarrow> string \<Rightarrow> string" where
  "version_prefix X v = (case captures X v of Some g \<Rightarrow> g | None \<Rightarrow> v)"

text \<open>\<open>DateTime::<Utc>::from(UNIX_EPOCH + Duration::from_secs(timestamp))\<close>: both steps may panic.\<close>

definition seen_time :: "'s exposed_env \<Rightarrow> u64 \<Rightarrow> failure + u64" where
  "seen_time X timestamp =
     (if 2 ^ 63 \<le> unat timestamp then Inl (Panic ''overflow when adding duration to instant'')
      else if \<not> in_calendar X timestamp then Inl (Panic ''timestamp out of range'')
      else Inr timestamp)"

text \<open>Reading the details of a peer whose version is known and making the entry.\<close>

definition read_peer :: "'s exposed_env \<Rightarrow> string \<Rightarrow> 32 word \<Rightarrow> string \<Rightarrow> string \<Rightarrow> ('s, Peer) io" where
  "read_peer X pid i v short =
     io_bind (get_peer_info X pid) (\<lambda>(c, t, lat, lon, f, timestamp).
     io_bind (io_lift (seen_time X timestamp)) (\<lambda>seen.
       io_return \<lparr>peer_index = i, peer_version = v, version_short = short, last_seen = Some seen,
                  peer_country = c, peer_city = t, latitude = lat, longitude = lon,
                  node_type = node_type_from_full f\<rparr>))"

section \<open>The status of one peer\<close>

definition found_in_map :: "string \<Rightarrow> Peer \<Rightarrow> response" where
  "found_in_map pid p = OkStatus \<lparr>status_peer_id = pid, in_map = True, status_info = Some p\<rparr>"

definition peer_in_map :: "'s exposed_env \<Rightarrow> string \<Rightarrow> ('s, response) io" where
  "peer_in_map X pid =
     io_bind (get_or [] (r_keys (ex_redis X) (online_peer_key pid))) (\<lambda>online_keys.
     if online_keys \<noteq> [] then
       io_bind (get_or [] (r_get_string (ex_redis X) (online_peer_key pid))) (\<lambda>v.
       io_bind (read_peer X pid 0 v (version_prefix X v)) (\<lambda>p. io_return (found_in_map pid p)))
     else
     io_bind (get_or [] (r_keys (ex_redis X) (online2_peer_key pid))) (\<lambda>online2_keys.
     if online2_keys \<noteq> [] then
       io_bind (get_or [] (r_get_string (ex_redis X) (online2_peer_key pid))) (\<lambda>v.
       io_bind (read_peer X pid 0 v (version_prefix X v)) (\<lambda>p. io_return (found_in_map pid p)))
     else
     io_bind (get_or [] (r_keys (ex_redis X) (unknown_peer_key pid))) (\<lambda>unknown_keys.
     if unknown_keys \<noteq> [] then
       io_bind (read_peer X pid 0 [] ''Unknown'') (\<lambda>p. io_return (found_in_map pid p))
     else
       io_return (OkStatus \<lparr>status_peer_id = pid, in_map = False, status_info = None\<rparr>))))"

section \<open>The list of peers\<close>

text \<open>\<open>key.rsplit('.').collect::<Vec<_>>()[1]\<close> panics on a key without a dot.\<close>

definition reachable_keys_to_peer_ids :: "string list \<Rightarrow> failure + string list" where
  "reachable_keys_to_peer_ids ks =
     res_map (\<lambda>key. let parts = rsplit CHR ''.'' key
                    in if 1 < length parts then Inr (parts ! 1) else Inl (Panic ''index out of bounds'')) ks"

definition keys_to_peer_ids :: "string list \<Rightarrow> string list" where
  "keys_to_peer_ids ks = map last_part ks"

definition list_peer ::
  "'s exposed_env \<Rightarrow> string list \<Rightarrow> string list \<Rightarrow> string list \<Rightarrow> nat \<Rightarrow> string \<Rightarrow> ('s, Peer option) io" where
  "list_peer X online_peers online2_peers unknown_peers index pid =
     (if pid \<notin> set online_peers \<and> pid \<notin> set online2_peers \<and> pid \<notin> set unknown_peers
      then io_return None
      else
        io_bind
          (if pid \<in> set online_peers then get_q (r_get_string (ex_redis X) (online_peer_key pid))
           else if pid \<in> set online2_peers then get_q (r_get_string (ex_redis X) (online2_peer_key pid))
           else io_return []) (\<lambda>v.
        io_bind
          (read_peer X pid (of_nat index) v
             (if pid \<notin> set online_peers \<and> pid \<notin> set online2_peers then ''Unknown''
              else version_prefix X v)) (\<lambda>p.
        io_return (Some p))))"

fun list_peers ::
  "'s exposed_env \<Rightarrow> string list \<Rightarrow> string list \<Rightarrow> string list \<Rightarrow> nat \<Rightarrow> string list \<Rightarrow> ('s, Peer list) io" where
  "list_peers X online_peers online2_peers unknown_peers index [] = io_return []"
| "list_peers X online_peers online2_peers unknown_peers index (pid # pids) =
     io_bind (list_peer X online_peers online2_peers unknown_peers index pid) (\<lambda>entry.
     io_bind (list_peers X online_peers online2_peers unknown_peers (Suc index) pids) (\<lambda>peers.
       io_return (case entry of None \<Rightarrow> peers | Some p \<Rightarrow> p # peers)))"

definition network_keys :: "'s exposed_env \<Rightarrow> CKBNetworkType \<Rightarrow> ('s, string list) io" where
  "network_keys X n =
     (case n of
        Mirana \<Rightarrow> get_q (r_keys (ex_redis X) ''network.peer.*.mirana'')
      | Pudge \<Rightarrow> get_q (r_keys (ex_redis X) ''network.peer.*.pudge'')
      | Dev \<Rightarrow> io_fail (Panic ''internal error: entered unreachable code''))"

definition get_peers :: "'s exposed_env \<Rightarrow> CKBNetworkType \<Rightarrow> u64 \<Rightarrow> u64 \<Rightarrow> ('s, Peer list) io" where
  "get_peers X n offline_min unknown_offline_min =
     io_bind (network_keys X n) (\<lambda>ks.
     io_bind (io_lift (reachable_keys_to_peer_ids ks)) (\<lambda>peer_ids.
     io_bind (get_q (r_keys (ex_redis X) ''peer.online.*'')) (\<lambda>online_keys.
     io_bind (get_q (r_keys (ex_redis X) ''peer.online2.*'')) (\<lambda>online2_keys.
     io_bind (get_q (r_keys (ex_redis X) ''peer.unknown.*'')) (\<lambda>unknown_keys.
       list_peers X (keys_to_peer_ids online_keys) (keys_to_peer_ids online2_keys)
         (keys_to_peer_ids unknown_keys) 0 peer_ids)))))"

section \<open>The cached list and the other routes\<close>

definition on_client :: "('s, 'a) io \<Rightarrow> ('s service_data, 'a) io" where
  "on_client act = (\<lambda>m. case act (client m) of (r, w) \<Rightarrow> (r, m\<lparr>client := w\<rparr>))"

definition cache_headers :: "cache_directive list" where
  "cache_headers = [MaxAge 45, MinFresh 30]"

definition cache_stale :: "'s service_data \<Rightarrow> int \<Rightarrow> bool" where
  "cache_stale m now \<longleftrightarrow> 30 < max 0 (now - last_cache_update m) div 10 ^ 9"

text \<open>The list is stored only if no other request holds the lock of the cache at that moment.\<close>

definition store_cache :: "'s exposed_env \<Rightarrow> bool \<Rightarrow> Peer list \<Rightarrow> ('s service_data, response) io" where
  "store_cache X locked peers =
     (if locked then io_return (OkPeers cache_headers peers)
      else io_bind (on_client (io_await (ex_now X))) (\<lambda>now.
           io_bind (io_await (\<lambda>m. ((), m\<lparr>cached := peers, last_cache_update := now\<rparr>))) (\<lambda>_.
             io_return (OkPeers cache_headers peers))))"

text \<open>A Redis error of \<open>get_peers\<close> becomes a response; a panic stays a panic.\<close>

definition respond_peers ::
  "'s exposed_env \<Rightarrow> bool \<Rightarrow> QueryParams \<Rightarrow> ('s service_data, response) io" where
  "respond_peers X locked q =
     (\<lambda>m. case on_client (get_peers X (network_from_string (query_network q)) (offline_timeout q)
                            (unknown_offline_timeout q)) m of
            (Inr peers, m') \<Rightarrow> store_cache X locked peers m'
          | (Inl (RedisError e), m') \<Rightarrow> (Inr InternalServerError, m')
          | (Inl e, m') \<Rightarrow> (Inl e, m'))"

definition peer_handler :: "'s exposed_env \<Rightarrow> bool \<Rightarrow> QueryParams \<Rightarrow> ('s service_data, response) io" where
  "peer_handler X locked q =
     (\<lambda>m. if cached m = [] then respond_peers X locked q m
          else (case ex_now X (client m) of
                  (now, w) \<Rightarrow>
                    let m' = m\<lparr>client := w\<rparr>
                    in if cache_stale m' now then respond_peers X locked q m'
                       else (Inr (OkPeers cache_headers (cached m')), m')))"

definition last_update :: "'s exposed_env \<Rightarrow> ('s, u64) io" where
  "last_update X = get_q (r_get_u64 (ex_redis X) service_last_update_key)"

definition last_update_handler :: "'s exposed_env \<Rightarrow> ('s, response) io" where
  "last_update_handler X =
     (\<lambda>s. case last_update X s of
            (Inr t, s') \<Rightarrow> (Inr (OkService t), s')
          | (Inl _, s') \<Rightarrow> (Inr InternalServerError, s'))"

text \<open>
  \<open>addr.ip().to_string()\<close> is printed with the debug format of a string, which puts it in quotes;
  an address has no character that this format escapes.
\<close>

definition add_node :: "string \<Rightarrow> IpAddr option \<Rightarrow> response" where
  "add_node node_id peer_addr =
     (case peer_addr of
        Some a \<Rightarrow> OkBody (''node_id: '' @ node_id @ '', addr: '' @ [CHR 0x22] @ show_ip a @ [CHR 0x22])
      | None \<Rightarrow> NotAcceptable (''{node_id: '' @ node_id @ ''}''))"

text \<open>
  The server builds one such record for each of its workers, all on the same Redis connection; a
  record is the state of one worker.
\<close>

definition service_start :: "'s \<Rightarrow> 's service_data" where
  "service_start w = \<lparr>last_cache_update = 0, cached = [], client = w\<rparr>"

end
