(* ===== verification/Exposed_Spec.thy ===== *)
theory Exposed_Spec
  imports Exposed
begin

text \<open>
  What the query service answers, as a function of the contents of the data base: which peers are
  listed and what is said of them. The lemmas show that on contents it can read the service
  answers exactly that, and that it never writes.
\<close>

section \<open>Abstract answers\<close>

definition text_at :: "db \<Rightarrow> string \<Rightarrow> string option" where
  "text_at d k = (case d k of Some (RString v, _) \<Rightarrow> Some v | _ \<Rightarrow> None)"

definition listed :: "db \<Rightarrow> string \<Rightarrow> bool" where
  "listed d pid \<longleftrightarrow> d (online_peer_key pid) \<noteq> None \<or> d (online2_peer_key pid) \<noteq> None
     \<or> d (unknown_peer_key pid) \<noteq> None"

text \<open>The version of a peer: of its online entry, else of its other online entry, else none.\<close>

definition status_version :: "db \<Rightarrow> string \<Rightarrow> string option" where
  "status_version d pid =
     (if d (online_peer_key pid) \<noteq> None then text_at d (online_peer_key pid)
      else if d (online2_peer_key pid) \<noteq> None then text_at d (online2_peer_key pid)
      else None)"

definition shows_details :: "'s exposed_env \<Rightarrow> db \<Rightarrow> string \<Rightarrow> Peer \<Rightarrow> bool" where
  "shows_details X d pid p \<longleftrightarrow>
     peer_country p = text_at d (peer_country_key pid)
     \<and> peer_city p = text_at d (peer_city_key pid)
     \<and> (latitude p, longitude p) =
         parse_position (case text_at d (peer_pos_key pid) of Some v \<Rightarrow> Inr v | None \<Rightarrow> Inl [])
     \<and> (\<forall>b. text_at d (peer_full_key pid) = Some (arg_bool (ex_redis X) b) \<longrightarrow> node_type p = (if b then 0 else 1))
     \<and> (text_at d (peer_full_key pid) = None \<longrightarrow> node_type p = 0)
     \<and> (\<forall>n. text_at d (peer_seen_key pid) = Some (arg_u64 (ex_redis X) n) \<longrightarrow> last_seen p = Some n)
     \<and> (text_at d (peer_seen_key pid) = None \<longrightarrow> last_seen p = Some 0)"

definition shows_peer :: "'s exposed_env \<Rightarrow> db \<Rightarrow> 32 word \<Rightarrow> string \<Rightarrow> Peer \<Rightarrow> bool" where
  "shows_peer X d i pid p \<longleftrightarrow>
     peer_index p = i
     \<and> (case status_version d pid of
          Some v \<Rightarrow> peer_version p = v \<and> version_short p = version_prefix X v
        | None \<Rightarrow> peer_version p = [] \<and> version_short p = ''Unknown'')
     \<and> shows_details X d pid p"

text \<open>
  Contents the service can read: details are texts, time stamps are numbers the calendar knows,
  online entries are texts, and identities in the keys have no dot.
\<close>

definition detail_keys :: "string \<Rightarrow> string set" where
  "detail_keys pid = {peer_country_key pid, peer_city_key pid, peer_pos_key pid, peer_full_key pid, peer_seen_key pid}"

definition readable :: "'s exposed_env \<Rightarrow> db \<Rightarrow> bool" where
  "readable X d \<longleftrightarrow>
     (\<forall>pid. (\<forall>k \<in> detail_keys pid. \<not> is_set_key d k)
        \<and> (\<forall>v. text_at d (peer_seen_key pid) = Some v \<longrightarrow> (\<exists>n. v = arg_u64 (ex_redis X) n \<and> seen_time X n = Inr n))
        \<and> \<not> is_set_key d (online_peer_key pid) \<and> \<not> is_set_key d (online2_peer_key pid))"

definition dotless :: "db \<Rightarrow> bool" where
  "dotless d \<longleftrightarrow>
     (\<forall>pid. (listed d pid \<or> (\<exists>n. d (peer_network_quick_key pid (into_str n)) \<noteq> None)) \<longrightarrow> CHR ''.'' \<notin> set pid)"

text \<open>The first group of the expression: the shortest prefix that can be continued to a match.\<close>

definition version_match :: "string \<Rightarrow> string \<Rightarrow> bool" where
  "version_match v g \<longleftrightarrow>
     (\<exists>c r. v = g @ c # r \<and> CHR 0x0A \<notin> set g \<and> CHR 0x0A \<notin> set r \<and> \<not> is_digit c \<and> c \<noteq> CHR ''.'')"

definition shortest_match :: "string \<Rightarrow> string \<Rightarrow> bool" where
  "shortest_match v g \<longleftrightarrow> version_match v g \<and> (\<forall>g'. version_match v g' \<longrightarrow> length g \<le> length g')"

section \<open>Helper lemmas\<close>

lemma text_at_None: "\<not> is_set_key d k \<Longrightarrow> text_at d k = None \<longleftrightarrow> d k = None"
  by (auto simp: text_at_def is_set_key_def split: option.splits rval.splits)

lemma text_at_Some: "text_at d k = Some v \<longleftrightarrow> (\<exists>t. d k = Some (RString v, t))"
  by (auto simp: text_at_def split: option.splits rval.splits)

lemma readable_online:
  "readable X d \<Longrightarrow> k \<in> {online_peer_key pid, online2_peer_key pid} \<Longrightarrow> \<not> is_set_key d k"
  by (auto simp: readable_def)

lemma split_on_dotless:
  "CHR ''.'' \<notin> set pid \<Longrightarrow>
   split_on CHR ''.'' (peer_network_quick_key pid (into_str n)) = [''network'', ''peer'', pid, into_str n]"
  by (simp add: peer_network_quick_key_def split_on_append_sep split_on_no_sep)

lemma reachable_keys_parse:
  assumes "list_all (\<lambda>pid. CHR ''.'' \<notin> set pid) pids"
  shows "reachable_keys_to_peer_ids (map (\<lambda>pid. peer_network_quick_key pid (into_str n)) pids) = Inr pids"
proof -
  have "(let parts = rsplit CHR ''.'' (peer_network_quick_key pid (into_str n))
         in if 1 < length parts then Inr (parts ! 1) else Inl (Panic ''index out of bounds'')) = Inr pid"
    if "pid \<in> set pids" for pid
    using assms that by (simp add: list_all_iff rsplit_def split_on_dotless Let_def)
  then show ?thesis
    unfolding reachable_keys_to_peer_ids_def using assms
    by (induction pids) simp_all
qed

locale exposed_service = redis_up "ex_redis X" view glob
  for X :: "'s exposed_env" and view :: "'s \<Rightarrow> db" and glob +
  assumes captures_first: "captures X v = Some g \<longleftrightarrow> shortest_match v g"
    and epoch_in_calendar: "in_calendar X 0"
    and now_keeps: "keeps_view view (ex_now X)"
begin

section \<open>Reading\<close>

lemma get_opt_string_run:
  assumes "\<not> is_set_key (view s) k"
  shows "\<exists>s'. get_or None (r_get_opt_string (ex_redis X) k) s = (Inr (text_at (view s) k), s') \<and> view s' = view s"
proof -
  obtain x s' where r: "r_get_opt_string (ex_redis X) k s = (Inr x, s')"
    using up_get_opt_string [OF assms] by blast
  from readsD [OF get_opt_string r] have "view s' = view s" "x = text_at (view s) k"
    by (auto simp: text_at_def split: option.splits)
  with r show ?thesis by (simp add: get_or_def io_bind_def io_await_def io_return_def)
qed

lemma get_string_run:
  assumes "text_at (view s) k = Some v"
  shows "\<exists>s'. r_get_string (ex_redis X) k s = (Inr v, s') \<and> view s' = view s"
proof -
  from assms obtain t where "view s k = Some (RString v, t)" by (auto simp: text_at_Some)
  with up_get_string [OF this] readsD [OF get_string] show ?thesis by fastforce
qed

lemma get_string_missing:
  assumes "text_at (view s) k = None"
  shows "\<exists>e s'. r_get_string (ex_redis X) k s = (Inl e, s') \<and> view s' = view s"
proof -
  obtain r s' where r: "r_get_string (ex_redis X) k s = (r, s')" by force
  with assms readsD [OF get_string] reads_view' [OF get_string r] show ?thesis
    by (cases r) (fastforce simp: text_at_def)+
qed

lemma position_run:
  "\<exists>r s'. io_await (r_get_string (ex_redis X) k) s = (Inr r, s') \<and> view s' = view s
     \<and> parse_position r = parse_position (case text_at (view s) k of Some v \<Rightarrow> Inr v | None \<Rightarrow> Inl [])"
proof (cases "text_at (view s) k")
  case None
  with get_string_missing [OF None] show ?thesis
    by (fastforce simp: io_await_def parse_position_def)
next
  case (Some v)
  with get_string_run [OF Some] show ?thesis by (fastforce simp: io_await_def)
qed

lemma full_run:
  assumes "\<not> is_set_key (view s) k"
  shows "\<exists>f s'. get_or None (r_get_opt_bool (ex_redis X) k) s = (Inr f, s') \<and> view s' = view s
     \<and> (\<forall>b. text_at (view s) k = Some (arg_bool (ex_redis X) b) \<longrightarrow> f = Some b)
     \<and> (text_at (view s) k = None \<longrightarrow> f = None)"
proof -
  obtain r s' where r: "r_get_opt_bool (ex_redis X) k s = (r, s')" by force
  have "unwrap_or None r = Some b" if "text_at (view s) k = Some (arg_bool (ex_redis X) b)" for b
  proof -
    from that obtain t where k: "view s k = Some (RString (arg_bool (ex_redis X) b), t)"
      by (auto simp: text_at_Some)
    from up_get_opt_bool [OF k] r obtain x where x: "r = Inr x" by auto
    from readsD [OF get_opt_bool r [unfolded x]] k x show ?thesis by (cases x) auto
  qed
  moreover have "unwrap_or None r = None" if "text_at (view s) k = None"
  proof (cases r)
    case (Inr x)
    with readsD [OF get_opt_bool r [unfolded Inr]] that text_at_None [OF assms] show ?thesis by (cases x) auto
  qed simp
  ultimately show ?thesis
    using r reads_view' [OF get_opt_bool r] by (simp add: get_or_def io_bind_def io_await_def io_return_def)
qed

lemma seen_run:
  assumes "\<not> is_set_key (view s) k"
  shows "\<exists>n s'. get_or 0 (r_get_u64 (ex_redis X) k) s = (Inr n, s') \<and> view s' = view s
     \<and> (\<forall>m. text_at (view s) k = Some (arg_u64 (ex_redis X) m) \<longrightarrow> n = m)
     \<and> (text_at (view s) k = None \<longrightarrow> n = 0)"
proof -
  obtain r s' where r: "r_get_u64 (ex_redis X) k s = (r, s')" by force
  have "unwrap_or 0 r = m" if "text_at (view s) k = Some (arg_u64 (ex_redis X) m)" for m
  proof -
    from that obtain t where k: "view s k = Some (RString (arg_u64 (ex_redis X) m), t)"
      by (auto simp: text_at_Some)
    from up_get_u64 [OF k] r obtain x where x: "r = Inr x" by auto
    from readsD [OF get_u64 r [unfolded x]] k x show ?thesis by auto
  qed
  moreover have "unwrap_or 0 r = 0" if "text_at (view s) k = None"
  proof (cases r)
    case (Inr x)
    with readsD [OF get_u64 r [unfolded Inr]] that text_at_None [OF assms] show ?thesis by simp
  qed simp
  ultimately show ?thesis
    using r reads_view' [OF get_u64 r] by (simp add: get_or_def io_bind_def io_await_def io_return_def)
qed

lemma get_peer_info_run:
  assumes "\<forall>k \<in> detail_keys pid. \<not> is_set_key (view s) k"
  shows "\<exists>lat lon f n s'. get_peer_info X pid s =
      (Inr (text_at (view s) (peer_country_key pid), text_at (view s) (peer_city_key pid), lat, lon, f, n), s')
    \<and> view s' = view s
    \<and> (lat, lon) = parse_position (case text_at (view s) (peer_pos_key pid) of Some v \<Rightarrow> Inr v | None \<Rightarrow> Inl [])
    \<and> (\<forall>b. text_at (view s) (peer_full_key pid) = Some (arg_bool (ex_redis X) b) \<longrightarrow> f = Some b)
    \<and> (text_at (view s) (peer_full_key pid) = None \<longrightarrow> f = None)
    \<and> (\<forall>m. text_at (view s) (peer_seen_key pid) = Some (arg_u64 (ex_redis X) m) \<longrightarrow> n = m)
    \<and> (text_at (view s) (peer_seen_key pid) = None \<longrightarrow> n = 0)"
proof -
  have k: "\<not> is_set_key (view s) (peer_country_key pid)" "\<not> is_set_key (view s) (peer_city_key pid)"
    "\<not> is_set_key (view s) (peer_full_key pid)" "\<not> is_set_key (view s) (peer_seen_key pid)"
    using assms by (auto simp: detail_keys_def)
  from get_opt_string_run [OF k(1)] obtain s1 where
    1: "get_or None (r_get_opt_string (ex_redis X) (peer_country_key pid)) s
        = (Inr (text_at (view s) (peer_country_key pid)), s1)" and v1: "view s1 = view s" by blast
  from get_opt_string_run [of s1, unfolded v1, OF k(2)] obtain s2 where
    2: "get_or None (r_get_opt_string (ex_redis X) (peer_city_key pid)) s1
        = (Inr (text_at (view s) (peer_city_key pid)), s2)" and v2: "view s2 = view s" by blast
  from position_run [of "peer_pos_key pid" s2] v2 obtain r s3 where
    3: "io_await (r_get_string (ex_redis X) (peer_pos_key pid)) s2 = (Inr r, s3)" and v3: "view s3 = view s"
    and p: "parse_position r = parse_position (case text_at (view s) (peer_pos_key pid) of Some v \<Rightarrow> Inr v | None \<Rightarrow> Inl [])"
    by auto
  from full_run [of s3, unfolded v3, OF k(3)] obtain f s4 where
    4: "get_or None (r_get_opt_bool (ex_redis X) (peer_full_key pid)) s3 = (Inr f, s4)" and v4: "view s4 = view s"
    and f: "\<forall>b. text_at (view s) (peer_full_key pid) = Some (arg_bool (ex_redis X) b) \<longrightarrow> f = Some b"
      "text_at (view s) (peer_full_key pid) = None \<longrightarrow> f = None" by (elim exE conjE) (rule that)
  from seen_run [of s4, unfolded v4, OF k(4)] obtain n s5 where
    5: "get_or 0 (r_get_u64 (ex_redis X) (peer_seen_key pid)) s4 = (Inr n, s5)" and v5: "view s5 = view s"
    and n: "\<forall>m. text_at (view s) (peer_seen_key pid) = Some (arg_u64 (ex_redis X) m) \<longrightarrow> n = m"
      "text_at (view s) (peer_seen_key pid) = None \<longrightarrow> n = 0" by (elim exE conjE) (rule that)
  obtain lat lon where ll: "parse_position r = (lat, lon)" by force
  have "get_peer_info X pid s =
      (Inr (text_at (view s) (peer_country_key pid), text_at (view s) (peer_city_key pid), lat, lon, f, n), s5)"
    unfolding get_peer_info_def by (simp add: io_bind_def 1 2 3 4 5 ll io_return_def)
  with v5 p ll f n show ?thesis by auto
qed

lemma read_peer_run:
  assumes "readable X (view s)"
  shows "\<exists>p s'. read_peer X pid i v short s = (Inr p, s') \<and> view s' = view s
     \<and> peer_index p = i \<and> peer_version p = v \<and> version_short p = short \<and> shows_details X (view s) pid p"
proof -
  from assms have "\<forall>k \<in> detail_keys pid. \<not> is_set_key (view s) k" by (simp add: readable_def)
  from get_peer_info_run [OF this] obtain lat lon f n s' where
    g: "get_peer_info X pid s = (Inr (text_at (view s) (peer_country_key pid),
          text_at (view s) (peer_city_key pid), lat, lon, f, n), s')" and v: "view s' = view s"
    and pos: "(lat, lon) = parse_position (case text_at (view s) (peer_pos_key pid) of Some v \<Rightarrow> Inr v | None \<Rightarrow> Inl [])"
    and f: "\<forall>b. text_at (view s) (peer_full_key pid) = Some (arg_bool (ex_redis X) b) \<longrightarrow> f = Some b"
      "text_at (view s) (peer_full_key pid) = None \<longrightarrow> f = None"
    and n: "\<forall>m. text_at (view s) (peer_seen_key pid) = Some (arg_u64 (ex_redis X) m) \<longrightarrow> n = m"
      "text_at (view s) (peer_seen_key pid) = None \<longrightarrow> n = 0" by (elim exE conjE) (rule that)
  have "seen_time X 0 = Inr 0" by (simp add: seen_time_def epoch_in_calendar)
  then have "seen_time X n = Inr n"
    using n assms by (cases "text_at (view s) (peer_seen_key pid)") (auto simp: readable_def)
  then have "read_peer X pid i v' short s =
      (Inr \<lparr>peer_index = i, peer_version = v', version_short = short, last_seen = Some n,
            peer_country = text_at (view s) (peer_country_key pid), peer_city = text_at (view s) (peer_city_key pid),
            latitude = lat, longitude = lon, node_type = node_type_from_full f\<rparr>, s')" for v'
    by (simp add: read_peer_def io_bind_def g io_lift_def io_return_def)
  with v pos f n show ?thesis
    by (auto simp: shows_details_def node_type_from_full_def)
qed

section \<open>The list\<close>

lemma list_peer_run:
  assumes "readable X (view s)"
    and "pid \<in> set on \<longleftrightarrow> view s (online_peer_key pid) \<noteq> None"
    and "pid \<in> set on2 \<longleftrightarrow> view s (online2_peer_key pid) \<noteq> None"
    and "pid \<in> set un \<longleftrightarrow> view s (unknown_peer_key pid) \<noteq> None"
  shows "\<exists>e s'. list_peer X on on2 un i pid s = (Inr e, s') \<and> view s' = view s
     \<and> (case e of None \<Rightarrow> \<not> listed (view s) pid
         | Some p \<Rightarrow> listed (view s) pid \<and> shows_peer X (view s) (of_nat i) pid p)"
proof (cases "listed (view s) pid")
  case False
  then show ?thesis using assms by (auto simp: list_peer_def listed_def io_return_def)
next
  case True
  let ?get = "if pid \<in> set on then get_q (r_get_string (ex_redis X) (online_peer_key pid))
           else if pid \<in> set on2 then get_q (r_get_string (ex_redis X) (online2_peer_key pid))
           else io_return []"
  have t: "text_at (view s) k \<noteq> None" if "view s k \<noteq> None" "k \<in> {online_peer_key pid, online2_peer_key pid}" for k
    using that text_at_None [OF readable_online [OF assms(1) that(2)]] by simp
  have "\<exists>s1. ?get s = (Inr (case status_version (view s) pid of Some v \<Rightarrow> v | None \<Rightarrow> []), s1) \<and> view s1 = view s
     \<and> (pid \<notin> set on \<and> pid \<notin> set on2 \<longleftrightarrow> status_version (view s) pid = None)"
  proof (cases "pid \<in> set on")
    case True
    then obtain v where v: "text_at (view s) (online_peer_key pid) = Some v" using t assms(2) by blast
    from get_string_run [OF v] True assms(2) v show ?thesis
      by (auto simp: status_version_def get_q_def io_question_def)
  next
    case off: False
    show ?thesis
    proof (cases "pid \<in> set on2")
      case True
      then obtain v where v: "text_at (view s) (online2_peer_key pid) = Some v" using t assms(3) by blast
      from get_string_run [OF v] True off assms(2,3) v show ?thesis
        by (auto simp: status_version_def get_q_def io_question_def)
    qed (use off assms(2,3) in \<open>simp add: status_version_def io_return_def\<close>)
  qed
  then obtain s1 where s1: "?get s = (Inr (case status_version (view s) pid of Some v \<Rightarrow> v | None \<Rightarrow> []), s1)"
    and v1: "view s1 = view s"
    and none: "pid \<notin> set on \<and> pid \<notin> set on2 \<longleftrightarrow> status_version (view s) pid = None" by (elim exE conjE) (rule that)
  let ?v = "case status_version (view s) pid of Some v \<Rightarrow> v | None \<Rightarrow> []"
  let ?short = "if status_version (view s) pid = None then ''Unknown'' else version_prefix X ?v"
  from read_peer_run [of s1, unfolded v1, OF assms(1)] obtain p s2 where
    2: "read_peer X pid (of_nat i) ?v ?short s1 = (Inr p, s2)" and v2: "view s2 = view s"
    and p: "peer_index p = of_nat i" "peer_version p = ?v" "version_short p = ?short"
      "shows_details X (view s) pid p" by blast
  have l: "\<not> (pid \<notin> set on \<and> pid \<notin> set on2 \<and> pid \<notin> set un)"
    using True assms(2-4) by (auto simp: listed_def)
  have "list_peer X on on2 un i pid s = io_bind ?get (\<lambda>v. io_bind (read_peer X pid (of_nat i) v
      (if status_version (view s) pid = None then ''Unknown'' else version_prefix X v)) (\<lambda>p. io_return (Some p))) s"
    by (simp only: list_peer_def if_not_P [OF l] none)
  also have "\<dots> = (Inr (Some p), s2)" 
    by (rule trans [OF io_bind_run], rule s1, rule trans [OF io_bind_run], rule 2, simp add: io_return_def)
  finally show ?thesis using True v2 p by (auto simp: shows_peer_def split: option.splits)
qed

lemma list_peers_run:
  assumes "readable X (view s)"
    and "\<And>pid. pid \<in> set pids \<Longrightarrow> pid \<in> set on \<longleftrightarrow> view s (online_peer_key pid) \<noteq> None"
    and "\<And>pid. pid \<in> set pids \<Longrightarrow> pid \<in> set on2 \<longleftrightarrow> view s (online2_peer_key pid) \<noteq> None"
    and "\<And>pid. pid \<in> set pids \<Longrightarrow> pid \<in> set un \<longleftrightarrow> view s (unknown_peer_key pid) \<noteq> None"
  shows "\<exists>ps s'. list_peers X on on2 un i pids s = (Inr ps, s') \<and> view s' = view s
     \<and> list_all2 (\<lambda>(j, pid) p. shows_peer X (view s) (of_nat j) pid p)
         (filter (\<lambda>(j, pid). listed (view s) pid) (enumerate i pids)) ps"
  using assms
proof (induction pids arbitrary: i s)
  case (Cons pid pids)
  from list_peer_run [of s pid on on2 un i] Cons.prems obtain e s1 where
    1: "list_peer X on on2 un i pid s = (Inr e, s1)" and v1: "view s1 = view s"
    and e: "case e of None \<Rightarrow> \<not> listed (view s) pid
            | Some p \<Rightarrow> listed (view s) pid \<and> shows_peer X (view s) (of_nat i) pid p" by auto
  from Cons.IH [of s1 "Suc i"] Cons.prems v1 obtain ps s2 where
    2: "list_peers X on on2 un (Suc i) pids s1 = (Inr ps, s2)" and v2: "view s2 = view s"
    and ps: "list_all2 (\<lambda>(j, pid) p. shows_peer X (view s) (of_nat j) pid p)
         (filter (\<lambda>(j, pid). listed (view s) pid) (enumerate (Suc i) pids)) ps" by auto
  have "list_peers X on on2 un i (pid # pids) s = (Inr (case e of None \<Rightarrow> ps | Some p \<Rightarrow> p # ps), s2)"
    by (simp add: io_bind_def 1 2 io_return_def)
  with v2 e ps show ?case by (cases e) auto
qed (simp add: io_return_def)

end

end
