(* ===== verification/Exposed_Run.thy ===== *)
theory Exposed_Run
  imports Exposed_Spec
begin

text \<open>
  The routes of the query service: the list of peers, the status of one peer, the cache in front of
  the list, and that no route changes the data base.
\<close>

section \<open>Keys and identities\<close>

lemma in_keys_to_peer_ids:
  assumes "\<And>k. k \<in> set ks \<longleftrightarrow> d k \<noteq> None \<and> (\<exists>p. k = key p)"
    and "\<And>p. d (key p) \<noteq> None \<Longrightarrow> last_part (key p) = p"
  shows "pid \<in> set (keys_to_peer_ids ks) \<longleftrightarrow> d (key pid) \<noteq> None"
proof
  assume "pid \<in> set (keys_to_peer_ids ks)"
  then obtain k where "k \<in> set ks" "pid = last_part k" by (auto simp: keys_to_peer_ids_def)
  with assms show "d (key pid) \<noteq> None" by metis
next
  assume "d (key pid) \<noteq> None"
  with assms show "pid \<in> set (keys_to_peer_ids ks)"
    unfolding keys_to_peer_ids_def by (metis image_eqI list.set_map)
qed

lemma dotlessD:
  assumes "dotless d"
  shows "d (online_peer_key p) \<noteq> None \<Longrightarrow> last_part (online_peer_key p) = p"
    and "d (online2_peer_key p) \<noteq> None \<Longrightarrow> last_part (online2_peer_key p) = p"
    and "d (unknown_peer_key p) \<noteq> None \<Longrightarrow> last_part (unknown_peer_key p) = p"
    and "d (peer_network_quick_key p (into_str n)) \<noteq> None \<Longrightarrow> CHR ''.'' \<notin> set p"
  using assms online_fam.last_part_key online2_fam.last_part_key unknown_fam.last_part_key
  unfolding dotless_def listed_def by blast+

text \<open>The keys of a network are the keys of a list of identities.\<close>

lemma network_keys_ids:
  assumes "\<And>k. k \<in> set ks \<longleftrightarrow> d k \<noteq> None \<and> (\<exists>p. k = peer_network_quick_key p (into_str n))"
    and "distinct ks" and "dotless d"
  shows "\<exists>pids. ks = map (\<lambda>p. peer_network_quick_key p (into_str n)) pids \<and> distinct pids
     \<and> set pids = {p. d (peer_network_quick_key p (into_str n)) \<noteq> None}
     \<and> reachable_keys_to_peer_ids ks = Inr pids"
proof -
  let ?key = "\<lambda>p. peer_network_quick_key p (into_str n)"
  have "\<forall>k \<in> set ks. \<exists>p. k = ?key p" using assms(1) by blast
  then obtain f where f: "\<forall>k \<in> set ks. k = ?key (f k)" by metis
  let ?pids = "map f ks"
  have ks: "ks = map ?key ?pids" using f by (simp add: map_idI)
  with assms(2) have "distinct ?pids" by (metis distinct_map)
  moreover have s: "set ?pids = {p. d (?key p) \<noteq> None}"
  proof (rule set_eqI)
    fix p
    have "p \<in> set ?pids \<longleftrightarrow> ?key p \<in> set ks"
      using f quick_fam.inj [of p n] by (metis (no_types, lifting) image_iff list.set_map)
    then show "p \<in> set ?pids \<longleftrightarrow> p \<in> {p. d (?key p) \<noteq> None}" using assms(1) by blast
  qed
  moreover have "list_all (\<lambda>p. CHR ''.'' \<notin> set p) ?pids"
    using dotlessD(4) [OF assms(3)] s by (auto simp: list_all_iff)
  ultimately show ?thesis using reachable_keys_parse [of ?pids n] ks by metis
qed

definition status_answer :: "'s exposed_env \<Rightarrow> db \<Rightarrow> string \<Rightarrow> response \<Rightarrow> bool" where
  "status_answer X d pid r \<longleftrightarrow>
     (if listed d pid then \<exists>p. r = found_in_map pid p \<and> shows_peer X d 0 pid p
      else r = OkStatus \<lparr>status_peer_id = pid, in_map = False, status_info = None\<rparr>)"

definition unchanged :: "('s \<Rightarrow> db) \<Rightarrow> 's \<Rightarrow> 's \<Rightarrow> bool" where
  "unchanged view s s' \<longleftrightarrow> view s' = view s"

interpretation unchanged: io_preorder "unchanged view" for view
  by unfold_locales (simp_all add: unchanged_def)

section \<open>The list\<close>

context exposed_service
begin

lemma keys_run:
  "\<exists>ks s'. get_q (r_keys (ex_redis X) pat) s = (Inr ks, s') \<and> view s' = view s \<and> distinct ks
     \<and> set ks = {k. view s k \<noteq> None \<and> glob pat k}"
proof -
  obtain ks s' where r: "r_keys (ex_redis X) pat s = (Inr ks, s')" using up_keys by blast
  with readsD [OF keys r] show ?thesis by (simp add: get_q_def io_question_def)
qed

lemma get_peers_run:
  assumes "readable X (view s)" and "dotless (view s)" and "n \<noteq> Dev"
  shows "\<exists>ps s' pids. get_peers X n a b s = (Inr ps, s') \<and> view s' = view s \<and> distinct pids
     \<and> set pids = {pid. view s (peer_network_quick_key pid (into_str n)) \<noteq> None}
     \<and> list_all2 (\<lambda>(i, pid) p. shows_peer X (view s) (of_nat i) pid p)
         (filter (\<lambda>(i, pid). listed (view s) pid) (enumerate 0 pids)) ps"
proof -
  note svc = redis_service_axioms
  let ?pat = "''network.peer.'' @ ''*'' @ ''.'' @ into_str n"
  have nk: "network_keys X n = get_q (r_keys (ex_redis X) ?pat)"
    using assms(3) by (cases n) (simp_all add: network_keys_def)
  from keys_run [of ?pat s] obtain ks s1 where "get_q (r_keys (ex_redis X) ?pat) s = (Inr ks, s1)" and v1: "view s1 = view s"
    and ks: "distinct ks" "set ks = {k. view s k \<noteq> None \<and> glob ?pat k}"
    by (elim exE conjE) (rule that)
  then have 1: "network_keys X n s = (Inr ks, s1)" by (simp only: nk)
  from ks(2) have "k \<in> set ks \<longleftrightarrow> view s k \<noteq> None \<and> (\<exists>p. k = peer_network_quick_key p (into_str n))" for k
    using quick_fam.pattern_matches [OF svc, of n k] by simp
  from network_keys_ids [OF this ks(1) assms(2)] obtain pids where
    pids: "distinct pids" "set pids = {p. view s (peer_network_quick_key p (into_str n)) \<noteq> None}"
    and p: "reachable_keys_to_peer_ids ks = Inr pids" by metis
  obtain k1 s2 where 2: "get_q (r_keys (ex_redis X) ''peer.online.*'') s1 = (Inr k1, s2)" and v2: "view s2 = view s"
    and k1: "set k1 = {k. view s k \<noteq> None \<and> glob ''peer.online.*'' k}" 
    using keys_run [of "''peer.online.*''" s1, unfolded v1] by (elim exE conjE) (rule that)
  obtain k2 s3 where 3: "get_q (r_keys (ex_redis X) ''peer.online2.*'') s2 = (Inr k2, s3)" and v3: "view s3 = view s"
    and k2: "set k2 = {k. view s k \<noteq> None \<and> glob ''peer.online2.*'' k}" 
    using keys_run [of "''peer.online2.*''" s2, unfolded v2] by (elim exE conjE) (rule that)
  obtain k3 s4 where 4: "get_q (r_keys (ex_redis X) ''peer.unknown.*'') s3 = (Inr k3, s4)" and v4: "view s4 = view s"
    and k3: "set k3 = {k. view s k \<noteq> None \<and> glob ''peer.unknown.*'' k}" 
    using keys_run [of "''peer.unknown.*''" s3, unfolded v3] by (elim exE conjE) (rule that)
  have on: "pid \<in> set (keys_to_peer_ids k1) \<longleftrightarrow> view s (online_peer_key pid) \<noteq> None" for pid
    using online_fam.pattern_matches [OF svc] k1 dotlessD(1) [OF assms(2)] by (intro in_keys_to_peer_ids) auto
  have on2: "pid \<in> set (keys_to_peer_ids k2) \<longleftrightarrow> view s (online2_peer_key pid) \<noteq> None" for pid
    using online2_fam.pattern_matches [OF svc] k2 dotlessD(2) [OF assms(2)] by (intro in_keys_to_peer_ids) auto
  have un: "pid \<in> set (keys_to_peer_ids k3) \<longleftrightarrow> view s (unknown_peer_key pid) \<noteq> None" for pid
    using unknown_fam.pattern_matches [OF svc] k3 dotlessD(3) [OF assms(2)] by (intro in_keys_to_peer_ids) auto
  from list_peers_run [of s4 pids _ _ _ 0, unfolded v4, OF assms(1) on on2 un] obtain ps s5 where
    "list_peers X (keys_to_peer_ids k1) (keys_to_peer_ids k2) (keys_to_peer_ids k3) 0 pids s4 = (Inr ps, s5)"
    "view s5 = view s"
    "list_all2 (\<lambda>(i, pid) p. shows_peer X (view s) (of_nat i) pid p)
       (filter (\<lambda>(i, pid). listed (view s) pid) (enumerate 0 pids)) ps" by blast
  moreover from this(1) have "get_peers X n a b s = (Inr ps, s5)"
    by (simp add: get_peers_def io_bind_def 1 2 3 4 p io_lift_def)
  ultimately show ?thesis using pids by blast
qed

section \<open>The status of one peer\<close>

lemma exact_keys_run:
  assumes "no_meta k"
  shows "\<exists>ks s'. get_or [] (r_keys (ex_redis X) k) s = (Inr ks, s') \<and> view s' = view s
     \<and> (ks \<noteq> [] \<longleftrightarrow> view s k \<noteq> None)"
proof -
  obtain ks s' where r: "r_keys (ex_redis X) k s = (Inr ks, s')" using up_keys by blast
  from readsD [OF keys r] glob_literal [OF assms] have "view s' = view s" "set ks = {k'. view s k' \<noteq> None \<and> k' = k}"
    by auto
  moreover have "ks \<noteq> [] \<longleftrightarrow> set ks \<noteq> {}" by simp
  ultimately show ?thesis using r by (auto simp: get_or_def io_bind_def io_await_def io_return_def)
qed

lemma version_run:
  assumes "\<not> is_set_key (view s) k" and "view s k \<noteq> None"
  shows "\<exists>v s'. get_or [] (r_get_string (ex_redis X) k) s = (Inr v, s') \<and> view s' = view s
     \<and> text_at (view s) k = Some v"
proof -
  from assms(2) obtain v where v: "text_at (view s) k = Some v" using text_at_None [OF assms(1)] by auto
  from get_string_run [OF v] v show ?thesis
    by (auto simp: get_or_def io_bind_def io_await_def io_return_def)
qed

lemma found_run:
  assumes "readable X (view s)"
    and "case status_version (view s) pid of
           Some v' \<Rightarrow> v = v' \<and> short = version_prefix X v' | None \<Rightarrow> v = [] \<and> short = ''Unknown''"
  shows "\<exists>p s'. io_bind (read_peer X pid 0 v short) (\<lambda>p. io_return (found_in_map pid p)) s
             = (Inr (found_in_map pid p), s') \<and> view s' = view s \<and> shows_peer X (view s) 0 pid p"
proof -
  from read_peer_run [OF assms(1), of pid 0 v short] obtain p s' where
    "read_peer X pid 0 v short s = (Inr p, s')" "view s' = view s"
    "peer_index p = 0 \<and> peer_version p = v \<and> version_short p = short \<and> shows_details X (view s) pid p" by blast
  with assms(2) show ?thesis
    by (intro exI [of _ p] exI [of _ s']) (auto simp: io_bind_def io_return_def shows_peer_def split: option.splits)
qed

lemma peer_in_map_run:
  assumes r: "readable X (view s)" and "plain_id pid"
  shows "\<exists>a s'. peer_in_map X pid s = (Inr a, s') \<and> view s' = view s \<and> status_answer X (view s) pid a"
proof -
  let ?o = "online_peer_key pid" and ?o2 = "online2_peer_key pid" and ?u = "unknown_peer_key pid"
  note k = online_fam.no_meta_key [OF assms(2)] online2_fam.no_meta_key [OF assms(2)] unknown_fam.no_meta_key [OF assms(2)]
  from exact_keys_run [OF k(1), of s] obtain k1 s1 where 1: "get_or [] (r_keys (ex_redis X) ?o) s = (Inr k1, s1)"
    and v1: "view s1 = view s" and o: "k1 \<noteq> [] \<longleftrightarrow> view s ?o \<noteq> None" by blast
  show ?thesis
  proof (cases "view s ?o = None")
    case False
    from version_run [of s1 ?o] readable_online [OF r] False v1 obtain v s2 where
      2: "get_or [] (r_get_string (ex_redis X) ?o) s1 = (Inr v, s2)" and v2: "view s2 = view s"
      and v: "text_at (view s) ?o = Some v" by auto
    from found_run [where s = s2 and pid = pid and v = v and short = "version_prefix X v"] v2 r v False obtain p s3 where
      "io_bind (read_peer X pid 0 v (version_prefix X v)) (\<lambda>p. io_return (found_in_map pid p)) s2
         = (Inr (found_in_map pid p), s3)" "view s3 = view s" "shows_peer X (view s) 0 pid p"
      by (auto simp: status_version_def)
    with False o show ?thesis
      by (auto simp: peer_in_map_def io_bind_def 1 2 status_answer_def listed_def)
  next
    case offline: True
    from exact_keys_run [OF k(2), of s1] v1 obtain k2 s2 where 2: "get_or [] (r_keys (ex_redis X) ?o2) s1 = (Inr k2, s2)"
      and v2: "view s2 = view s" and o2: "k2 \<noteq> [] \<longleftrightarrow> view s ?o2 \<noteq> None" by auto
    show ?thesis
    proof (cases "view s ?o2 = None")
      case False
      from version_run [of s2 ?o2] readable_online [OF r] False v2 obtain v s3 where
        3: "get_or [] (r_get_string (ex_redis X) ?o2) s2 = (Inr v, s3)" and v3: "view s3 = view s"
        and v: "text_at (view s) ?o2 = Some v" by auto
      from found_run [where s = s3 and pid = pid and v = v and short = "version_prefix X v"] v3 r v False offline obtain p s4 where
        "io_bind (read_peer X pid 0 v (version_prefix X v)) (\<lambda>p. io_return (found_in_map pid p)) s3
           = (Inr (found_in_map pid p), s4)" "view s4 = view s" "shows_peer X (view s) 0 pid p"
        by (auto simp: status_version_def)
      with False offline o o2 show ?thesis
        by (auto simp: peer_in_map_def io_bind_def 1 2
              3 status_answer_def listed_def)
    next
      case offline2: True
      from exact_keys_run [OF k(3), of s2] v2 obtain k3 s3 where 3: "get_or [] (r_keys (ex_redis X) ?u) s2 = (Inr k3, s3)"
        and v3: "view s3 = view s" and u: "k3 \<noteq> [] \<longleftrightarrow> view s ?u \<noteq> None" by auto
      from found_run [where s = s3 and pid = pid and v = "[]" and short = "''Unknown''"] v3 r offline offline2 obtain p s4 where
        "io_bind (read_peer X pid 0 [] ''Unknown'') (\<lambda>p. io_return (found_in_map pid p)) s3
           = (Inr (found_in_map pid p), s4)" "view s4 = view s" "shows_peer X (view s) 0 pid p"
        by (auto simp: status_version_def)
      with offline offline2 o o2 u v3 show ?thesis
        by (auto simp: peer_in_map_def io_bind_def 1 2
              3 status_answer_def listed_def io_return_def)
    qed
  qed
qed

section \<open>Reading only\<close>

lemma reads_unchanged:
  assumes "reads view post c"
  shows "io_obeys (unchanged view) (io_await c)" "io_obeys (unchanged view) (get_or dflt c)"
    "io_obeys (unchanged view) (get_q c)"
proof -
  have u: "unchanged view s (snd (c s))" for s
    using reads_view [OF assms] by (simp add: unchanged_def)
  show a: "io_obeys (unchanged view) (io_await c)" by (rule unchanged.obeys_await) (rule u)
  show "io_obeys (unchanged view) (get_or dflt c)"
    unfolding get_or_def by (intro unchanged.obeys_intros a)
  show "io_obeys (unchanged view) (get_q c)"
    unfolding get_q_def by (rule unchanged.obeys_question) (rule u)
qed

lemmas read_unchanged = reads_unchanged [OF get_string] reads_unchanged [OF get_opt_string]
  reads_unchanged [OF get_opt_bool] reads_unchanged [OF get_u64] reads_unchanged [OF keys]

lemma read_peer_unchanged: "io_obeys (unchanged view) (read_peer X pid i v short)"
  unfolding read_peer_def get_peer_info_def
  by (auto split: prod.split intro!: unchanged.obeys_intros read_unchanged)

lemma peer_in_map_unchanged: "io_obeys (unchanged view) (peer_in_map X pid)"
  unfolding peer_in_map_def by (auto intro!: unchanged.obeys_intros read_unchanged read_peer_unchanged)

lemma list_peers_unchanged: "io_obeys (unchanged view) (list_peers X on on2 un i pids)"
  by (induction pids arbitrary: i)
     (auto simp: list_peer_def intro!: unchanged.obeys_intros read_unchanged read_peer_unchanged)

lemma get_peers_unchanged: "io_obeys (unchanged view) (get_peers X n a b)"
  unfolding get_peers_def network_keys_def
  by (auto split: CKBNetworkType.split intro!: unchanged.obeys_intros read_unchanged list_peers_unchanged)

lemma last_update_unchanged: "view (snd (last_update_handler X s)) = view s"
proof -
  have "io_obeys (unchanged view) (last_update X)"
    unfolding last_update_def by (rule read_unchanged)
  then show ?thesis
    using io_obeys_at [of "unchanged view" "last_update X" s]
    by (auto simp: last_update_handler_def unchanged_def split: prod.splits sum.splits)
qed

lemma respond_peers_unchanged: "view (client (snd (respond_peers X locked q m))) = view (client m)"
proof -
  obtain r w where g: "get_peers X (network_from_string (query_network q)) (offline_timeout q)
      (unknown_offline_timeout q) (client m) = (r, w)" by force
  then have v: "view w = view (client m)"
    using io_obeysD [OF get_peers_unchanged] unchanged_def by metis
  have "view (snd (ex_now X w)) = view w" using keeps_view_snd [OF now_keeps] .
  with g v show ?thesis
    by (auto simp: respond_peers_def on_client_def store_cache_def io_bind_def io_await_def io_return_def
          split: sum.splits failure.splits prod.splits)
qed

lemma peer_handler_unchanged: "view (client (snd (peer_handler X locked q m))) = view (client m)"
proof -
  have "view (snd (ex_now X (client m))) = view (client m)" using keeps_view_snd [OF now_keeps] .
  then show ?thesis
    by (auto simp: peer_handler_def Let_def respond_peers_unchanged split: prod.splits)
qed

section \<open>Short versions\<close>

lemma version_prefix_takeWhile:
  assumes "CHR 0x0A \<notin> set v"
  shows "version_prefix X v = takeWhile (\<lambda>c. is_digit c \<or> c = CHR ''.'') v"
proof (cases "\<exists>c \<in> set v. \<not> (is_digit c \<or> c = CHR ''.'')")
  case True
  let ?P = "\<lambda>c. is_digit c \<or> c = CHR ''.''"
  let ?g = "takeWhile ?P v"
  from True have ne: "dropWhile ?P v \<noteq> []" by auto
  then obtain c r where cr: "dropWhile ?P v = c # r" by (cases "dropWhile ?P v") auto
  then have c: "\<not> ?P c" using hd_dropWhile [OF ne] by simp
  have v: "v = ?g @ c # r" using takeWhile_dropWhile_id [of ?P v] cr by simp
  have nl: "CHR 0x0A \<notin> set ?g" "CHR 0x0A \<notin> set r" 
    using assms arg_cong [OF v, of set] by auto
  have m: "version_match v ?g" unfolding version_match_def using v nl c by blast
  have "length ?g \<le> length g'" if "version_match v g'" for g'
  proof (rule ccontr)
    assume "\<not> length ?g \<le> length g'"
    then have l: "length g' < length ?g" by simp
    from that obtain c' r' where "v = g' @ c' # r'" "\<not> ?P c'" by (auto simp: version_match_def)
    then have "v ! length g' = c'" by simp
    moreover have "v ! length g' = ?g ! length g'" using l by (simp add: takeWhile_nth)
    moreover have "?P (?g ! length g')" using nth_mem [OF l] by (rule set_takeWhileD [THEN conjunct2])
    ultimately show False using \<open>\<not> ?P c'\<close> by simp
  qed
  with m have "captures X v = Some ?g" by (simp add: captures_first shortest_match_def)
  then show ?thesis by (simp add: version_prefix_def)
next
  case False
  then have "\<not> version_match v g" for g by (auto simp: version_match_def)
  then have "captures X v = None"
    using captures_first [of v "the (captures X v)"] by (cases "captures X v") (simp_all add: shortest_match_def)
  moreover have "takeWhile (\<lambda>c. is_digit c \<or> c = CHR ''.'') v = v" using False by (simp add: takeWhile_eq_all_conv)
  ultimately show ?thesis by (simp only: version_prefix_def option.case)
qed

section \<open>Patterns in place of identities\<close>

text \<open>An identity that is a pattern is looked up as one.\<close>

lemma peer_in_map_star:
  assumes "readable X (view s)" and "view s (online_peer_key q) \<noteq> None"
    and "view s (online_peer_key ''*'') = None"
  shows "\<exists>p s'. peer_in_map X ''*'' s = (Inr (found_in_map ''*'' p), s') \<and> peer_version p = []"
proof -
  have k: "online_peer_key ''*'' = ''peer.online'' @ ''.'' @ ''*''" by (simp add: online_peer_key_def)
  obtain ks s1 where r: "r_keys (ex_redis X) (online_peer_key ''*'') s = (Inr ks, s1)" using up_keys by blast
  have "glob (online_peer_key ''*'') (online_peer_key q)"
    using online_fam.pattern_matches [OF redis_service_axioms, of "online_peer_key q"] by (auto simp: k)
  with assms(2) readsD [OF keys r] have "online_peer_key q \<in> set ks" and v1: "view s1 = view s" by simp_all
  then have ks: "ks \<noteq> []" by auto
  have "text_at (view s1) (online_peer_key ''*'') = None" using assms(3) v1 by (simp add: text_at_def)
  from get_string_missing [OF this] v1 obtain e s2 where
    2: "r_get_string (ex_redis X) (online_peer_key ''*'') s1 = (Inl e, s2)" and v2: "view s2 = view s" by auto
  from read_peer_run [of s2] v2 assms(1) obtain p s3 where
    "read_peer X ''*'' 0 [] (version_prefix X []) s2 = (Inr p, s3)" "peer_version p = []" by metis
  then show ?thesis
    using ks r 2 by (auto simp: peer_in_map_def get_or_def io_bind_def io_await_def io_return_def)
qed

end

end
