(* ===== verification/Exposed_Properties.thy ===== *)
theory Exposed_Properties
  imports Exposed_Run Redis_Reference
begin

text \<open>
  The query service on the reference store, and its properties: what the list and the status routes
  answer, the short versions, the cache, and that nothing is ever written.
\<close>

section \<open>The reference environment\<close>

text \<open>The expression by search: the first position whose character ends the prefix.\<close>

fun ref_capture :: "string \<Rightarrow> string \<Rightarrow> string option" where
  "ref_capture g [] = None"
| "ref_capture g (c # r) =
     (if CHR 0x0A \<notin> set g \<and> CHR 0x0A \<notin> set r \<and> \<not> is_digit c \<and> c \<noteq> CHR ''.'' then Some g
      else ref_capture (g @ [c]) r)"

definition ref_exposed :: "mem exposed_env" where
  "ref_exposed =
     \<lparr>ex_redis = mem_redis, ex_now = (\<lambda>s. (mem_clock s, s)), captures = ref_capture [],
      in_calendar = (\<lambda>t. t \<le> 8210266876799)\<rparr>"

lemma ref_capture_first:
  "ref_capture g r = Some h \<longleftrightarrow>
     version_match (g @ r) h \<and> length g \<le> length h
     \<and> (\<forall>h'. version_match (g @ r) h' \<longrightarrow> length g \<le> length h' \<longrightarrow> length h \<le> length h')"
proof (induction r arbitrary: g)
  case Nil
  then show ?case by (auto simp: version_match_def)
next
  case (Cons c r)
  have here: "version_match (g @ c # r) h' \<and> length h' = length g \<longleftrightarrow>
      h' = g \<and> CHR 0x0A \<notin> set g \<and> CHR 0x0A \<notin> set r \<and> \<not> is_digit c \<and> c \<noteq> CHR ''.''" for h'
    by (auto simp: version_match_def)
  show ?case
  proof (cases "CHR 0x0A \<notin> set g \<and> CHR 0x0A \<notin> set r \<and> \<not> is_digit c \<and> c \<noteq> CHR ''.''")
    case True
    then have m: "version_match (g @ c # r) g" using here by blast
    from True have "ref_capture g (c # r) = Some h \<longleftrightarrow> h = g" by auto
    with m here [of h] show ?thesis by (metis le_antisym order_refl)
  next
    case False
    then have no: "\<not> version_match (g @ c # r) h'" if "length h' = length g" for h' using here that by blast
    then have "length g \<le> length h' \<longleftrightarrow> Suc (length g) \<le> length h'" if "version_match (g @ c # r) h'" for h'
      using that by (metis Suc_leI Suc_leD le_neq_implies_less)
    then show ?thesis using Cons.IH [of "g @ [c]"] False by auto
  qed
qed

lemma ref_exposed_simps [simp]: "ex_redis ref_exposed = mem_redis"
  by (simp add: ref_exposed_def)

interpretation ref_service: exposed_service ref_exposed mem_view mem_glob
proof (intro exposed_service.intro)
  show "redis_up (ex_redis ref_exposed) mem_view mem_glob" using mem.redis_up_axioms by simp
  show "exposed_service_axioms ref_exposed mem_view"
  proof
    show "captures ref_exposed v = Some g \<longleftrightarrow> shortest_match v g" for v g
      using ref_capture_first [of "[]" v g] by (simp add: ref_exposed_def shortest_match_def)
  qed (simp_all add: ref_exposed_def keeps_view_def)
qed

text \<open>A store with one online peer of the main network.\<close>

definition sample_store :: mem where
  "sample_store =
     \<lparr>mem_db = [(peer_network_quick_key ''Qm1'' (into_str Mirana), MStr ''0'', None),
                (online_peer_key ''Qm1'', MStr ''0.111.0 (abc)'', Some 60),
                (peer_country_key ''Qm1'', MStr ''CN'', None)],
      mem_clock = 0, mem_published = []\<rparr>"

lemma sample_store_view:
  "mem_view sample_store = (\<lambda>k. if k = peer_network_quick_key ''Qm1'' (into_str Mirana) then Some (RString ''0'', None)
     else if k = online_peer_key ''Qm1'' then Some (RString ''0.111.0 (abc)'', Some 60)
     else if k = peer_country_key ''Qm1'' then Some (RString ''CN'', None) else None)"
  by (auto simp: mem_view_def mem_get_def sample_store_def fun_eq_iff)

lemma sample_readable: "readable ref_exposed (mem_view sample_store)"
  by (auto simp: readable_def sample_store_view is_set_key_def text_at_def)

lemma sample_dotless: "dotless (mem_view sample_store)"
  by (auto simp: dotless_def listed_def sample_store_view simp del: into_str.simps split: if_splits)

lemma sint_nonneg_small: "unat w < 2 ^ 31 \<Longrightarrow> 0 \<le> sint (w :: 32 word)"
proof -
  assume "unat w < 2 ^ 31"
  then have "\<not> bit w 31" by (simp add: bit_iff_odd drop_bit_eq_div word_arith_nat_div unat_div)
  then show ?thesis by (simp add: sint_uint signed_take_bit_nonnegative_iff bit_uint_iff)
qed

lemma numbers_increase:
  assumes l: "list_all2 (\<lambda>(i, pid) p. shows_peer X d (of_nat i) pid p)
      (filter (\<lambda>(i, pid). listed d pid) (enumerate 0 pids)) ps" and len: "length pids < 2 ^ 31"
  shows "sorted_wrt (\<lambda>p q. unat (peer_index p) < unat (peer_index q)) ps
     \<and> list_all (\<lambda>p. 0 \<le> sint (peer_index p)) ps"
proof -
  let ?xs = "filter (\<lambda>(i, pid). listed d pid) (enumerate 0 pids)"
  have nums: "map (\<lambda>p. unat (peer_index p)) ps = map fst ?xs"
  proof (rule nth_equalityI)
    fix j
    assume "j < length (map (\<lambda>p. unat (peer_index p)) ps)"
    then have j: "j < length ps" "j < length ?xs" using list_all2_lengthD [OF l] by simp_all
    obtain i pid where e: "?xs ! j = (i, pid)" by force
    then have "(i, pid) \<in> set ?xs" using j(2) by (metis nth_mem)
    then have "i < length pids" by (auto simp: in_set_enumerate_eq)
    with len have "i < 2 ^ LENGTH(32)" by simp
    then have "unat (of_nat i :: 32 word) = i" by (simp add: unat_of_nat take_bit_nat_eq_self)
    moreover have "peer_index (ps ! j) = of_nat i" using list_all2_nthD2 [OF l j(1)] e by (simp add: shows_peer_def)
    ultimately show "map (\<lambda>p. unat (peer_index p)) ps ! j = map fst ?xs ! j" using j e by simp
  qed (use list_all2_lengthD [OF l] in simp)
  have "sorted_wrt (<) (map fst (enumerate 0 pids))" by (simp add: sorted_wrt_upt)
  then have "sorted_wrt (\<lambda>x y. fst x < fst y) (enumerate 0 pids)" by (simp only: sorted_wrt_map)
  then have "sorted_wrt (\<lambda>x y. fst x < fst y) ?xs" by (rule sorted_wrt_filter)
  then have "sorted_wrt (<) (map (\<lambda>p. unat (peer_index p)) ps)" unfolding nums by (simp add: sorted_wrt_map)
  moreover have "unat (peer_index p) < 2 ^ 31" if "p \<in> set ps" for p
  proof -
    have "unat (peer_index p) \<in> set (map fst ?xs)" using that nums by (metis image_eqI list.set_map)
    then show ?thesis using len by (auto simp: in_set_enumerate_eq)
  qed
  then have "0 \<le> sint (peer_index p)" if "p \<in> set ps" for p
    using that by (simp add: sint_nonneg_small)
  ultimately show ?thesis by (simp add: sorted_wrt_map list_all_iff)
qed

section \<open>The list of peers\<close>

text \<open>
  Property C8. The list of a public network is exactly what the data base says: the service answers
  with one entry for each peer of that network that has an online or an unknown entry, and for no
  other, each entry numbered by the position of its key in Redis's answer and showing the version
  of the online entry (the regular one first), its short form, the stored location, the node kind
  and the time; peers with only an unknown entry are shown without a version.
\<close>

theorem get_peers_lists:
  assumes "exposed_service X view glob" and "readable X (view s)" and "dotless (view s)" and "n \<noteq> Dev"
  shows "\<exists>ps s' pids. get_peers X n a b s = (Inr ps, s') \<and> view s' = view s \<and> distinct pids
     \<and> set pids = {pid. view s (peer_network_quick_key pid (into_str n)) \<noteq> None}
     \<and> list_all2 (\<lambda>(i, pid) p. shows_peer X (view s) (of_nat i) pid p)
         (filter (\<lambda>(i, pid). listed (view s) pid) (enumerate 0 pids)) ps"
  using assms by (rule exposed_service.get_peers_run)

theorem get_peers_lists_witness:
  "\<exists>ps s' pids. get_peers ref_exposed Mirana 0 0 sample_store = (Inr ps, s')
     \<and> mem_view s' = mem_view sample_store \<and> distinct pids
     \<and> set pids = {pid. mem_view sample_store (peer_network_quick_key pid (into_str Mirana)) \<noteq> None}
     \<and> list_all2 (\<lambda>(i, pid) p. shows_peer ref_exposed (mem_view sample_store) (of_nat i) pid p)
         (filter (\<lambda>(i, pid). listed (mem_view sample_store) pid) (enumerate 0 pids)) ps"
  using get_peers_lists [OF ref_service.exposed_service_axioms sample_readable sample_dotless, of Mirana] by blast

text \<open>
  Property C37. The numbers of the entries tell them apart: as long as the network has fewer than
  2147483648 keys, the numbers in the list are strictly increasing and not negative as 32-bit integers.
\<close>

theorem listed_numbers_increase:
  assumes "exposed_service X view glob" and "readable X (view s)" and "dotless (view s)" and "n \<noteq> Dev"
    and "card {pid. view s (peer_network_quick_key pid (into_str n)) \<noteq> None} < 2 ^ 31"
    and "get_peers X n a b s = (Inr ps, s')"
  shows "sorted_wrt (\<lambda>p q. unat (peer_index p) < unat (peer_index q)) ps
     \<and> list_all (\<lambda>p. 0 \<le> sint (peer_index p)) ps"
proof -
  from exposed_service.get_peers_run [OF assms(1-4), of a b] assms(6) obtain pids where d: "distinct pids"
    and s: "set pids = {pid. view s (peer_network_quick_key pid (into_str n)) \<noteq> None}"
    and l: "list_all2 (\<lambda>(i, pid) p. shows_peer X (view s) (of_nat i) pid p)
         (filter (\<lambda>(i, pid). listed (view s) pid) (enumerate 0 pids)) ps" by auto
  from d s assms(5) have len: "length pids < 2 ^ 31" by (metis distinct_card)
  show ?thesis using numbers_increase [OF l len] .
qed

theorem listed_numbers_increase_witness:
  "\<exists>ps s'. get_peers ref_exposed Mirana 0 0 sample_store = (Inr ps, s')
     \<and> sorted_wrt (\<lambda>p q. unat (peer_index p) < unat (peer_index q)) ps"
proof -
  note ax = ref_service.exposed_service_axioms sample_readable sample_dotless
  obtain ps s' where g: "get_peers ref_exposed Mirana 0 0 sample_store = (Inr ps, s')"
    using exposed_service.get_peers_run [OF ax, of Mirana] by blast
  have "{pid. mem_view sample_store (peer_network_quick_key pid (into_str Mirana)) \<noteq> None} = {''Qm1''}"
    by (auto simp: sample_store_view simp del: into_str.simps)
  then have "card {pid. mem_view sample_store (peer_network_quick_key pid (into_str Mirana)) \<noteq> None} < 2 ^ 31"
    by simp
  from listed_numbers_increase [OF ax _ this g] g show ?thesis by simp
qed

text \<open>
  Property C33. Splitting the keys of a network gives back the identities they were made from, for
  identities without dots; on any keys the split panics exactly if some key has no dot.
\<close>

theorem reachable_keys_roundtrip:
  "(list_all (\<lambda>pid. CHR ''.'' \<notin> set pid) pids \<longrightarrow>
      reachable_keys_to_peer_ids (map (\<lambda>pid. peer_network_quick_key pid (into_str n)) pids) = Inr pids
      \<and> keys_to_peer_ids (map online_peer_key pids) = pids
      \<and> keys_to_peer_ids (map online2_peer_key pids) = pids
      \<and> keys_to_peer_ids (map unknown_peer_key pids) = pids)
   \<and> ((\<exists>e. reachable_keys_to_peer_ids ks = Inl e) \<longleftrightarrow> list_ex (\<lambda>k. CHR ''.'' \<notin> set k) ks)"
proof
  show "list_all (\<lambda>pid. CHR ''.'' \<notin> set pid) pids \<longrightarrow>
      reachable_keys_to_peer_ids (map (\<lambda>pid. peer_network_quick_key pid (into_str n)) pids) = Inr pids
      \<and> keys_to_peer_ids (map online_peer_key pids) = pids
      \<and> keys_to_peer_ids (map online2_peer_key pids) = pids
      \<and> keys_to_peer_ids (map unknown_peer_key pids) = pids"
    by (auto simp: reachable_keys_parse keys_to_peer_ids_def list_all_iff map_idI online_fam.last_part_key
          online2_fam.last_part_key unknown_fam.last_part_key)
  have "1 < length (rsplit CHR ''.'' k) \<longleftrightarrow> CHR ''.'' \<in> set k" for k
    by (simp add: rsplit_def length_split_on) (metis count_list_0_iff neq0_conv)
  then show "(\<exists>e. reachable_keys_to_peer_ids ks = Inl e) \<longleftrightarrow> list_ex (\<lambda>k. CHR ''.'' \<notin> set k) ks"
    unfolding reachable_keys_to_peer_ids_def res_map_Inl by (auto simp: Let_def list_ex_iff)
qed

theorem reachable_keys_roundtrip_witness:
  "reachable_keys_to_peer_ids (map (\<lambda>pid. peer_network_quick_key pid (into_str Pudge)) [''Qm1'', ''Qm2''])
     = Inr [''Qm1'', ''Qm2'']"
  using reachable_keys_roundtrip [of "[''Qm1'', ''Qm2'']" Pudge "[]"] by simp

section \<open>The status of one peer\<close>

text \<open>
  Property C11. The status route is exact on proper identities: a peer is reported as in the map
  precisely if it has an online, other online or unknown entry, and what is shown of it is what
  the data base says.
\<close>

theorem peer_status_exact:
  assumes "exposed_service X view glob" and "readable X (view s)" and "plain_id pid"
  shows "\<exists>a s'. peer_in_map X pid s = (Inr a, s') \<and> view s' = view s
     \<and> (if listed (view s) pid then \<exists>p. a = found_in_map pid p \<and> shows_peer X (view s) 0 pid p
        else a = OkStatus \<lparr>status_peer_id = pid, in_map = False, status_info = None\<rparr>)"
  using exposed_service.peer_in_map_run [OF assms] by (simp add: status_answer_def)

theorem peer_status_exact_witness:
  "\<exists>p s'. peer_in_map ref_exposed ''Qm1'' sample_store = (Inr (found_in_map ''Qm1'' p), s')
     \<and> peer_version p = ''0.111.0 (abc)'' \<and> peer_country p = Some ''CN''"
proof -
  have "plain_id ''Qm1''" by (simp add: plain_id_def no_meta_def)
  moreover have "listed (mem_view sample_store) ''Qm1''" by (simp add: listed_def sample_store_view)
  ultimately obtain p s' where
    "peer_in_map ref_exposed ''Qm1'' sample_store = (Inr (found_in_map ''Qm1'' p), s')"
    "shows_peer ref_exposed (mem_view sample_store) 0 ''Qm1'' p"
    using peer_status_exact [OF ref_service.exposed_service_axioms sample_readable, of "''Qm1''"] by auto
  then show ?thesis
    by (auto simp: shows_peer_def shows_details_def status_version_def text_at_def sample_store_view)
qed

text \<open>
  Property C35. The status route takes the identity as a pattern: asked for the peer \<open>*\<close>, of which there
  is no entry, it answers that this peer is in the map as soon as any peer is online.
\<close>

theorem peer_status_pattern:
  assumes "exposed_service X view glob" and "readable X (view s)"
    and "view s (online_peer_key q) \<noteq> None" and "\<not> listed (view s) ''*''"
  shows "\<exists>p s'. peer_in_map X ''*'' s = (Inr (found_in_map ''*'' p), s') \<and> peer_version p = []"
  using assms(4) unfolding listed_def by (intro exposed_service.peer_in_map_star [OF assms(1-3)]) blast

theorem peer_status_pattern_witness:
  "\<exists>p s'. peer_in_map ref_exposed ''*'' sample_store = (Inr (found_in_map ''*'' p), s') \<and> peer_version p = []"
proof -
  have "mem_view sample_store (online_peer_key ''Qm1'') \<noteq> None" "\<not> listed (mem_view sample_store) ''*''"
    by (simp_all add: sample_store_view listed_def)
  then show ?thesis
    using peer_status_pattern [OF ref_service.exposed_service_axioms sample_readable] by blast
qed

text \<open>
  Property C36. The short version of a version without a line break is its longest prefix of digits and
  dots; in particular a version that has nothing else is shown whole.
\<close>

theorem version_short_spec:
  assumes "exposed_service X view glob" and "CHR 0x0A \<notin> set v"
  shows "version_prefix X v = takeWhile (\<lambda>c. is_digit c \<or> c = CHR ''.'') v"
  using assms by (rule exposed_service.version_prefix_takeWhile)

theorem version_short_spec_witness: "version_prefix ref_exposed ''0.111.0 (abc)'' = ''0.111.0''"
proof -
  have "CHR 0x0A \<notin> set ''0.111.0 (abc)''" by simp
  from version_short_spec [OF ref_service.exposed_service_axioms this] show ?thesis
    by (simp add: is_digit_def)
qed

section \<open>The cache, and reading only\<close>

text \<open>A first request on the sample store: it is answered and fills the cache.\<close>

definition sample_query :: QueryParams where
  "sample_query = \<lparr>query_network = ''mirana'', offline_timeout = 0, unknown_offline_timeout = 0\<rparr>"

lemma sample_first_request:
  "\<exists>ps w. ps \<noteq> [] \<and> peer_handler ref_exposed False sample_query (service_start sample_store)
     = (Inr (OkPeers cache_headers ps), \<lparr>last_cache_update = mem_clock w, cached = ps, client = w\<rparr>)"
proof -
  obtain ps w pids where g: "get_peers ref_exposed Mirana 0 0 sample_store = (Inr ps, w)"
    and s: "set pids = {pid. mem_view sample_store (peer_network_quick_key pid (into_str Mirana)) \<noteq> None}"
    and l: "list_all2 (\<lambda>(i, pid) p. shows_peer ref_exposed (mem_view sample_store) (of_nat i) pid p)
         (filter (\<lambda>(i, pid). listed (mem_view sample_store) pid) (enumerate 0 pids)) ps"
    using ref_service.get_peers_run [OF sample_readable sample_dotless, of Mirana] by blast
  have "''Qm1'' \<in> set pids" using s by (simp add: sample_store_view)
  then have "''Qm1'' \<in> set (map snd (enumerate 0 pids))" by (simp only: map_snd_enumerate)
  then obtain i where "(i, ''Qm1'') \<in> set (enumerate 0 pids)"
    unfolding list.set_map by (elim imageE) (auto intro: that)
  then have "filter (\<lambda>(i, pid). listed (mem_view sample_store) pid) (enumerate 0 pids) \<noteq> []"
    by (auto simp: filter_empty_conv listed_def sample_store_view)
  with l have "ps \<noteq> []" by auto
  moreover have "network_from_string ''mirana'' = Mirana" by (simp add: network_from_string_def)
  ultimately show ?thesis
    using g by (auto simp: peer_handler_def respond_peers_def sample_query_def service_start_def on_client_def
        store_cache_def io_bind_def io_await_def io_return_def ref_exposed_def)
qed

lemma peer_handler_filled:
  assumes "cached m \<noteq> []"
  shows "peer_handler X locked q m =
     (if cache_stale m (fst (ex_now X (client m)))
      then respond_peers X locked q (m\<lparr>client := snd (ex_now X (client m))\<rparr>)
      else (Inr (OkPeers cache_headers (cached m)), m\<lparr>client := snd (ex_now X (client m))\<rparr>))"
proof -
  have "cache_stale (m\<lparr>client := w\<rparr>) now = cache_stale m now" for w now by (simp add: cache_stale_def)
  with assms show ?thesis by (simp add: peer_handler_def Let_def split_beta)
qed

text \<open>
  Property C28. Every list the service answers is either the cached list, and that only while it is not
  empty and its age in whole seconds is at most thirty, or what \<open>get_peers\<close> returned when it was
  called for this request, in the state the request found; a list fetched while the cache is not
  locked becomes the cached list, with the time read after the fetch.
\<close>

theorem peer_handler_fresh:
  assumes "peer_handler X locked q m = (Inr (OkPeers h ps), m')"
  shows "h = [MaxAge 45, MinFresh 30]
     \<and> ((cached m \<noteq> [] \<and> ps = cached m
          \<and> (fst (ex_now X (client m)) - last_cache_update m) div 10 ^ 9 \<le> 30
          \<and> m' = m\<lparr>client := snd (ex_now X (client m))\<rparr>)
        \<or> (\<exists>w. get_peers X (network_from_string (query_network q)) (offline_timeout q)
               (unknown_offline_timeout q) (if cached m = [] then client m else snd (ex_now X (client m)))
               = (Inr ps, w)
             \<and> m' = (if locked then m\<lparr>client := w\<rparr>
                     else \<lparr>last_cache_update = fst (ex_now X w), cached = ps, client = snd (ex_now X w)\<rparr>)))"
proof -
  have fetched: "h = cache_headers \<and> (\<exists>w. get_peers X (network_from_string (query_network q)) (offline_timeout q)
               (unknown_offline_timeout q) (client m1) = (Inr ps, w)
             \<and> m' = (if locked then m1\<lparr>client := w\<rparr>
                     else \<lparr>last_cache_update = fst (ex_now X w), cached = ps, client = snd (ex_now X w)\<rparr>))"
    if "respond_peers X locked q m1 = (Inr (OkPeers h ps), m')" for m1
    using that
    by (cases m1)
       (auto simp: respond_peers_def on_client_def store_cache_def io_bind_def io_await_def io_return_def
          split: prod.splits sum.splits failure.splits if_splits)
  let ?d = "fst (ex_now X (client m)) - last_cache_update m"
  let ?m1 = "m\<lparr>client := snd (ex_now X (client m))\<rparr>"
  consider "cached m = []" | "cached m \<noteq> []" "cache_stale m (fst (ex_now X (client m)))"
    | "cached m \<noteq> []" "\<not> cache_stale m (fst (ex_now X (client m)))" by blast
  then show ?thesis
  proof cases
    case 1
    then have "respond_peers X locked q m = (Inr (OkPeers h ps), m')"
      using assms by (simp add: peer_handler_def)
    from fetched [OF this] 1 show ?thesis by (simp add: cache_headers_def)
  next
    case 2
    then have r: "respond_peers X locked q ?m1 = (Inr (OkPeers h ps), m')"
      using assms by (simp add: peer_handler_filled)
    from fetched [OF r] have h: "h = cache_headers" by blast
    from fetched [OF r] obtain w where w: "get_peers X (network_from_string (query_network q)) (offline_timeout q)
        (unknown_offline_timeout q) (snd (ex_now X (client m))) = (Inr ps, w)"
      and m': "m' = (if locked then m\<lparr>client := w\<rparr>
                     else \<lparr>last_cache_update = fst (ex_now X w), cached = ps, client = snd (ex_now X w)\<rparr>)"
      by (cases m) auto
    show ?thesis using 2(1) w m' h by (intro conjI disjI2 exI [of _ w]) (simp_all add: cache_headers_def)
  next
    case 3
    then have "ps = cached m" "h = cache_headers" "m' = ?m1"
      using assms by (simp_all add: peer_handler_filled)
    moreover have "?d div 10 ^ 9 \<le> max 0 ?d div 10 ^ 9" by (rule zdiv_mono1) simp_all
    ultimately show ?thesis using 3 by (auto simp: cache_stale_def cache_headers_def not_less)
  qed
qed

theorem peer_handler_fresh_witness:
  "\<exists>ps w w'. ps \<noteq> [] \<and> get_peers ref_exposed Mirana 0 0 sample_store = (Inr ps, w')
     \<and> peer_handler ref_exposed False sample_query (service_start sample_store)
       = (Inr (OkPeers cache_headers ps), \<lparr>last_cache_update = mem_clock w, cached = ps, client = w\<rparr>)"
proof -
  obtain ps w where ne: "ps \<noteq> []" and h: "peer_handler ref_exposed False sample_query (service_start sample_store)
     = (Inr (OkPeers cache_headers ps), \<lparr>last_cache_update = mem_clock w, cached = ps, client = w\<rparr>)"
    using sample_first_request by blast
  have n: "network_from_string (query_network sample_query) = Mirana"
    by (simp add: sample_query_def network_from_string_def)
  have "cached (service_start sample_store) = []" "client (service_start sample_store) = sample_store"
    "offline_timeout sample_query = 0" "unknown_offline_timeout sample_query = 0"
    by (simp_all add: service_start_def sample_query_def)
  with peer_handler_fresh [OF h, unfolded n] ne h show ?thesis by auto
qed

text \<open>
  Property C29. The cache of a worker does not know about networks: once a request has filled it,
  every request that the same worker serves within the next thirty seconds is answered with that same
  list, whatever network it asks for, without consulting Redis.
\<close>

theorem peer_cache_ignores_network:
  assumes "cached m = []" and "peer_handler X False q m = (Inr (OkPeers h ps), m')" and "ps \<noteq> []"
    and "ex_now X (client m') = (now, w)" and "now - last_cache_update m' < 31 * 10 ^ 9"
  shows "peer_handler X locked q' m' = (Inr (OkPeers h ps), m'\<lparr>client := w\<rparr>)"
proof -
  have c: "cached m' = ps" "h = cache_headers"
    using assms(1,2)
    by (auto simp: peer_handler_def respond_peers_def on_client_def store_cache_def io_bind_def io_await_def
          io_return_def split: prod.splits sum.splits failure.splits)
  have "max 0 (now - last_cache_update m') < 31 * 10 ^ 9" using assms(5) by simp
  then have "max 0 (now - last_cache_update m') div 10 ^ 9 < 31"
    by (simp add: div_less_iff_less_mult)
  then have "\<not> cache_stale (m'\<lparr>client := w\<rparr>) now" by (simp add: cache_stale_def)
  with c assms(3,4) show ?thesis by (simp add: peer_handler_def Let_def)
qed

theorem peer_cache_ignores_network_witness:
  "\<exists>ps w. ps \<noteq> [] \<and> peer_handler ref_exposed False (sample_query\<lparr>query_network := ''pudge''\<rparr>)
       \<lparr>last_cache_update = mem_clock w, cached = ps, client = w\<rparr>
     = (Inr (OkPeers cache_headers ps), \<lparr>last_cache_update = mem_clock w, cached = ps, client = w\<rparr>)"
proof -
  obtain ps w where ne: "ps \<noteq> []" and h: "peer_handler ref_exposed False sample_query (service_start sample_store)
     = (Inr (OkPeers cache_headers ps), \<lparr>last_cache_update = mem_clock w, cached = ps, client = w\<rparr>)"
    using sample_first_request by blast
  let ?m = "\<lparr>last_cache_update = mem_clock w, cached = ps, client = w\<rparr> :: mem service_data"
  have "ex_now ref_exposed (client ?m) = (mem_clock w, w)" by (simp add: ref_exposed_def)
  from peer_cache_ignores_network [OF _ h ne this] ne show ?thesis
    by (fastforce simp: service_start_def)
qed

text \<open>
  Property C34. A request for the list of the development network brings the service to
  \<open>unreachable!\<close>: with an empty cache the handler panics, without having asked Redis.
\<close>

theorem dev_network_panics:
  assumes "query_network q = ''dev'' \<or> query_network q = ''ckb_dev''" and "cached m = []"
  shows "peer_handler X locked q m = (Inl (Panic ''internal error: entered unreachable code''), m)"
proof -
  from assms(1) have "network_from_string (query_network q) = Dev" by (auto simp: network_from_string_def)
  with assms(2) show ?thesis
    by (simp add: peer_handler_def respond_peers_def on_client_def get_peers_def network_keys_def io_bind_def io_fail_def)
qed

theorem dev_network_panics_witness:
  "peer_handler ref_exposed False \<lparr>query_network = ''dev'', offline_timeout = 0, unknown_offline_timeout = 0\<rparr>
     (service_start sample_store)
   = (Inl (Panic ''internal error: entered unreachable code''), service_start sample_store)"
  by (rule dev_network_panics) (simp_all add: service_start_def)

text \<open>
  Property C27. The query service never changes the data base: whatever the request and whatever
  happens, the contents after a handler are those before it.
\<close>

theorem exposed_read_only:
  assumes "exposed_service X view glob"
  shows "view (client (snd (peer_handler X locked q m))) = view (client m)
     \<and> view (snd (peer_in_map X pid s)) = view s
     \<and> view (snd (last_update_handler X s)) = view s"
  using exposed_service.peer_handler_unchanged [OF assms] exposed_service.last_update_unchanged [OF assms]
    io_obeys_at [OF exposed_service.peer_in_map_unchanged [OF assms]]
  by (simp add: unchanged_def)

theorem exposed_read_only_witness:
  "mem_view (snd (peer_in_map ref_exposed ''*'' sample_store)) = mem_view sample_store"
  using exposed_read_only [OF ref_service.exposed_service_axioms] by blast

end
