(* ===== verification/System.thy ===== *)
theory System
  imports Dialer Marci_Properties Exposed_Properties
begin

text \<open>
  Facts that connect the programs: what a handled report leaves in the data base, how long it
  stays, and what the other programs make of it.
\<close>

section \<open>What a report leaves behind\<close>

lemma details_spec_other:
  "k \<notin> {peer_country_key pid, peer_city_key pid, peer_region_key pid, peer_pos_key pid} \<Longrightarrow>
   details_spec pid det d k = d k"
  by (auto simp: details_spec_def split: option.split)

lemma sadd_not_string: "\<not> is_string_key d k \<Longrightarrow> \<not> is_string_key (db_sadd k m d) k'\<longleftrightarrow> \<not> is_string_key d k'"
  by (auto simp: db_sadd_def is_string_key_def split: option.splits rval.splits prod.splits)

lemma fold_sadd_members:
  "\<not> is_string_key d k \<Longrightarrow> db_members (fold (\<lambda>x. db_sadd k (f x)) xs d) k = f ` set xs \<union> db_members d k"
  by (induction xs arbitrary: d) (auto simp: sadd_not_string)

lemma sadd_present: "\<not> is_string_key d k \<Longrightarrow> db_sadd k m d k \<noteq> None"
  by (auto simp: db_sadd_def split: option.splits rval.splits)

lemma members_cong: "d k = d' k \<Longrightarrow> db_members d k = db_members d' k"
  by (simp add: db_members_def)

lemma reachable_spec_keys:
  assumes "\<not> is_string_key d (reachable_peer_key (peer_id (peer p)))"
    and "\<not> is_string_key d (peer_ip_key (peer_id (peer p)))"
  shows "reachable_spec J p z seen d (reachable_peer_key (peer_id (peer p))) \<noteq> None"
    and "endpoint_text J ` set (addresses (peer p))
           \<subseteq> db_members (reachable_spec J p z seen d) (peer_ip_key (peer_id (peer p)))"
    and "reachable_spec J p z seen d (peer_network_key (peer_id (peer p)))
           = Some (RString (into_str (network (peer p))), None)"
proof -
  let ?pid = "peer_id (peer p)"
  show "reachable_spec J p z seen d (reachable_peer_key ?pid) \<noteq> None"
    using sadd_present [OF assms(1)] by (simp add: reachable_spec_def Let_def fold_sadd_other)
  show "reachable_spec J p z seen d (peer_network_key ?pid) = Some (RString (into_str (network (peer p))), None)"
    by (simp_all add: reachable_spec_def Let_def fold_sadd_other)
  let ?d = "db_set (peer_network_quick_key ?pid (into_str (network (peer p)))) z
              (db_sadd (reachable_peer_key ?pid) (peer_id (from p)) d)"
  have "\<not> is_string_key ?d (peer_ip_key ?pid)" using assms(2) by (simp add: is_string_key_def)
  from fold_sadd_members [OF this, of "endpoint_text J"]
  have "endpoint_text J ` set (addresses (peer p)) \<subseteq>
      db_members (fold (\<lambda>ip. db_sadd (peer_ip_key ?pid) (endpoint_text J ip)) (addresses (peer p)) ?d) (peer_ip_key ?pid)"
    by blast
  also have "\<dots> = db_members (reachable_spec J p z seen d) (peer_ip_key ?pid)"
    by (rule members_cong) (simp add: reachable_spec_def Let_def endpoint_text_def)
  finally show "endpoint_text J ` set (addresses (peer p)) \<subseteq>
      db_members (reachable_spec J p z seen d) (peer_ip_key ?pid)" .
qed

text \<open>The status entry that an online report leaves is fresh.\<close>

lemma online_spec_keys:
  assumes "found \<longleftrightarrow> is_string_key d (online_peer_key (peer_id (info p)))"
  shows "found \<Longrightarrow> \<exists>v. d (online_peer_key (peer_id (info p))) = Some (RString v, snd (the (d (online_peer_key (peer_id (info p))))))
           \<and> online_spec J cfg p fl found det seen d (online_peer_key (peer_id (info p)))
               = Some (RString v, Some (unat (node_default_timeout cfg)))"
    and "\<not> found \<Longrightarrow> online_spec J cfg p fl found det seen d
             (if is_ex p then online2_peer_key (peer_id (info p)) else online_peer_key (peer_id (info p)))
           = Some (RString (version p), Some (unat (node_default_timeout cfg)))"
    and "\<not> found \<Longrightarrow> is_ex p \<Longrightarrow>
           online_spec J cfg p fl found det seen d (online_peer_key (peer_id (info p))) = d (online_peer_key (peer_id (info p)))"
proof -
  show "\<exists>v. d (online_peer_key (peer_id (info p))) = Some (RString v, snd (the (d (online_peer_key (peer_id (info p))))))
           \<and> online_spec J cfg p fl found det seen d (online_peer_key (peer_id (info p)))
               = Some (RString v, Some (unat (node_default_timeout cfg)))" if found
    using that assms
    by (auto simp: online_spec_def Let_def is_string_key_def details_spec_other split: option.splits rval.splits list.split)
  show "\<not> found \<Longrightarrow> online_spec J cfg p fl found det seen d
             (if is_ex p then online2_peer_key (peer_id (info p)) else online_peer_key (peer_id (info p)))
           = Some (RString (version p), Some (unat (node_default_timeout cfg)))"
    "\<not> found \<Longrightarrow> is_ex p \<Longrightarrow>
           online_spec J cfg p fl found det seen d (online_peer_key (peer_id (info p))) = d (online_peer_key (peer_id (info p)))"
    by (simp_all add: online_spec_def Let_def details_spec_other split: list.split)
qed

lemma elapse_alive: "d k = Some (v, Some t) \<Longrightarrow> n < t \<Longrightarrow> elapse n d k = Some (v, Some (t - n))"
  by (simp add: elapse_def)

lemma elapse_persistent: "d k = Some (v, None) \<Longrightarrow> elapse n d k = Some (v, None)"
  by (simp add: elapse_def)

lemma reachable_spec_quick:
  "reachable_spec J p z seen d (peer_network_quick_key (peer_id (peer p)) (into_str (network (peer p))))
     = Some (RString z, None)"
  by (simp add: reachable_spec_def Let_def fold_sadd_other)

lemma online_spec_quick:
  "online_spec J cfg p fl found det seen d (peer_network_quick_key pid n) = d (peer_network_quick_key pid n)"
  by (simp add: online_spec_def Let_def details_spec_other split: list.split)

text \<open>The effect of an arm that returned, without its witnesses for the unspecified parts.\<close>

lemma online_returned:
  assumes "marci_up E view glob cfg" and "handle_online E cfg p m = (Inr u, m')"
  shows "\<exists>det t. mview view m' = online_spec (codec E) cfg p (arg_bool (redis E) (full p))
     (is_string_key (mview view m) (online_peer_key (peer_id (info p)))) det (arg_u64 (redis E) t) (mview view m)"
  using marci_up.handle_online_exact [OF assms(1), of p m] assms(2) by auto

lemma reachable_returned:
  assumes "marci_up E view glob cfg" and "handle_reachable E p m = (Inr u, m')"
  shows "\<exists>seen. (\<forall>k. k \<notin> {peer_country_key (peer_id (peer p)), peer_city_key (peer_id (peer p)),
                peer_region_key (peer_id (peer p)), peer_pos_key (peer_id (peer p)), service_last_update_key} \<longrightarrow>
       mview view m' k = reachable_spec (codec E) p (arg_i32 (redis E) 0) (arg_u64 (redis E) seen) (mview view m) k)"
proof -
  have "marci_world E view glob" using assms(1) by (simp add: marci_up_def marci_answers_def)
  from marci_world.handle_reachable_refines [OF this assms(2)] obtain seen t det d where
    "d = details_spec (peer_id (peer p)) det
             (reachable_spec (codec E) p (arg_i32 (redis E) 0) (arg_u64 (redis E) seen) (mview view m))"
    "mview view m' = d \<or> mview view m' = db_set service_last_update_key (arg_u64 (redis E) t) d" by auto
  then show ?thesis by (intro exI [of _ seen]) (auto simp: details_spec_other)
qed

section \<open>What is shown of it\<close>

lemma online_shown:
  assumes "marci_up E view glob cfg" and "handle_online E cfg p m = (Inr u, m')"
    and "n < unat (node_default_timeout cfg)"
  shows "listed (elapse n (mview view m')) (peer_id (info p))"
    and "mview view m (online_peer_key (peer_id (info p))) = None \<Longrightarrow>
         status_version (elapse n (mview view m')) (peer_id (info p)) = Some (version p)"
proof -
  let ?pid = "peer_id (info p)" and ?d = "mview view m" and ?T = "unat (node_default_timeout cfg)"
  let ?f = "is_string_key ?d (online_peer_key ?pid)"
  from online_returned [OF assms(1,2)] obtain det t where
    v: "mview view m' = online_spec (codec E) cfg p (arg_bool (redis E) (full p)) ?f det (arg_u64 (redis E) t) ?d"
    by blast
  note keys = online_spec_keys [of ?f ?d p, OF refl, of "codec E" cfg "arg_bool (redis E) (full p)" det
      "arg_u64 (redis E) t", folded v]
  have "\<exists>k w. k \<in> {online_peer_key ?pid, online2_peer_key ?pid} \<and> mview view m' k = Some (RString w, Some ?T)"
    using keys(1,2) by (cases ?f) (auto split: if_splits)
  then show "listed (elapse n (mview view m')) ?pid"
    using elapse_alive [OF _ assms(3)] by (fastforce simp: listed_def)
  assume none: "?d (online_peer_key ?pid) = None"
  then have "\<not> ?f" by (simp add: is_string_key_def)
  note k = keys(2) [OF this] keys(3) [OF this]
  show "status_version (elapse n (mview view m')) ?pid = Some (version p)"
    using k none elapse_alive [of _ _ "RString (version p)", OF _ assms(3)]
    by (cases "is_ex p") (simp_all add: status_version_def text_at_def elapse_None)
qed

text \<open>No identity that has witnesses contains the separator of the keys.\<close>

definition dotless_reachable :: "db \<Rightarrow> bool" where
  "dotless_reachable d \<longleftrightarrow> (\<forall>pid. d (reachable_peer_key pid) \<noteq> None \<longrightarrow> CHR ''.'' \<notin> set pid)"

lemma unknown_shown:
  assumes "marci_up E view glob cfg" and "well_typed (codec E) cfg nets (mview view m)"
    and "handle_unknown E cfg p m = (Inr u, m')"
    and "card (db_members (mview view m) (reachable_peer_key (peer_id p))) < 2 ^ 64"
    and "unat (node_default_witnesses cfg) \<le> card (db_members (mview view m) (reachable_peer_key (peer_id p)))"
    and "mview view m (online_peer_key (peer_id p)) = None" and "mview view m (online2_peer_key (peer_id p)) = None"
    and "n < unat (node_unknown_default_timeout cfg)"
  shows "listed (elapse n (mview view m')) (peer_id p)"
    and "status_version (elapse n (mview view m')) (peer_id p) = None"
    and "elapse n (mview view m') (reachable_peer_key (peer_id p)) = None"
    and "dotless_reachable (mview view m) \<Longrightarrow> dotless_reachable (elapse n (mview view m'))"
proof -
  let ?pid = "peer_id p"
  from marci_up.handle_unknown_exact [OF assms(1,2,4)] assms(3,5,6) obtain t where
    v: "mview view m' = db_set (peer_seen_key ?pid) (arg_u64 (redis E) t) (db_del (reachable_peer_key ?pid)
         (db_set_ex (unknown_peer_key ?pid) ''unknown'' (unat (node_unknown_default_timeout cfg)) (mview view m)))"
    by (auto simp: unknown_spec_def is_string_key_def)
  have "mview view m' (unknown_peer_key ?pid) = Some (RString ''unknown'', Some (unat (node_unknown_default_timeout cfg)))"
    by (simp add: v)
  then show "listed (elapse n (mview view m')) ?pid"
    using elapse_alive [where d = "mview view m'" and k = "unknown_peer_key ?pid", OF _ assms(8)]
    by (simp add: listed_def)
  show "status_version (elapse n (mview view m')) ?pid = None"
    using assms(6,7) by (simp add: status_version_def v elapse_None)
  show gone: "elapse n (mview view m') (reachable_peer_key ?pid) = None" by (simp add: v elapse_None)
  have "elapse n (mview view m') (reachable_peer_key q) \<noteq> None \<Longrightarrow> mview view m (reachable_peer_key q) \<noteq> None" for q
  proof
    assume e: "elapse n (mview view m') (reachable_peer_key q) \<noteq> None" and "mview view m (reachable_peer_key q) = None"
    moreover from e gone have "q \<noteq> ?pid" by blast
    ultimately have "mview view m' (reachable_peer_key q) = None" by (simp add: v)
    from elapse_None [where d = "mview view m'", OF this] e show False by simp
  qed
  then show "dotless_reachable (mview view m) \<Longrightarrow> dotless_reachable (elapse n (mview view m'))"
    unfolding dotless_reachable_def by blast
qed

text \<open>A listed peer of the network has an entry in the list.\<close>

lemma shown_entry:
  assumes "list_all2 (\<lambda>(i, pid) p. shows_peer X d (of_nat i) pid p)
      (filter (\<lambda>(i, pid). listed d pid) (enumerate 0 pids)) ps" and "pid \<in> set pids" and "listed d pid"
  shows "list_ex (\<lambda>p. shows_peer X d (peer_index p) pid p) ps"
proof -
  have "pid \<in> set (map snd (enumerate 0 pids))" using assms(2) by (simp only: map_snd_enumerate)
  then obtain i where "(i, pid) \<in> set (enumerate 0 pids)"
    unfolding list.set_map by (elim imageE) (auto intro: that)
  with assms(3) have "(i, pid) \<in> set (filter (\<lambda>(i, pid). listed d pid) (enumerate 0 pids))" by simp
  with assms(1) obtain p where "p \<in> set ps" "shows_peer X d (of_nat i) pid p"
    unfolding list_all2_conv_all_nth in_set_conv_nth by (metis case_prod_conv nth_mem)
  then show ?thesis by (auto simp: list_ex_iff shows_peer_def)
qed

section \<open>What the dialer makes of a broadcast\<close>

definition as_message :: "string \<times> string \<Rightarrow> mqtt_message" where
  "as_message tp = \<lparr>topic = fst tp, mqtt_payload = snd tp\<rparr>"

text \<open>A dial request for a public network is carried out without a panic.\<close>

lemma dial_message_handled:
  assumes "json_roundtrip (json D)" and "network n \<noteq> Dev"
  shows "\<exists>as. handle_dialer_message D (as_message (dial_message (json D) n)) es
             = (Inr (), es @ map (Dial (network n)) as)
     \<and> (\<forall>e \<in> set (addresses n). \<forall>a. \<not> is_loopback (address e) \<longrightarrow>
           parse_multiaddr (net D) (endpoint_multiaddr_string (peer_id n) e) = Inr a \<longrightarrow> a \<in> set as)"
proof -
  let ?as = "flatten_ok (meta_info_to_addr (net D) n)"
  have "handle_dialer_message D (as_message (dial_message (json D) n)) es = (Inr (), es @ map (Dial (network n)) ?as)"
    using json_roundtripD(2) [OF assms(1)] dial_addresses_run [OF assms(2)]
    by (simp add: handle_dialer_message_def as_message_def dial_message_def)
  moreover have "a \<in> set ?as" if "e \<in> set (addresses n)" "\<not> is_loopback (address e)"
    "parse_multiaddr (net D) (endpoint_multiaddr_string (peer_id n) e) = Inr a" for e a
    using that by (force simp: set_flatten_ok meta_info_to_addr_def List.map_filter_def)
  ultimately show ?thesis by blast
qed

text \<open>A reported peer is among the requests of the next broadcast.\<close>

lemma reported_peer_requested:
  assumes b: "marci_broker E view glob cfg sent" and rt: "json_roundtrip (codec E)"
    and wt: "well_typed (codec E) cfg nets (mview view m)" and "network (peer p) \<in> nets"
    and dot: "CHR ''.'' \<notin> set (peer_id (peer p))"
    and r: "handle_reachable E p m = (Inr (), m1)" and t: "handle_tick E m1 = (Inr (), m2)"
  shows "\<exists>n. dial_message (codec E) n \<in> set (sent (world m2)) \<and> peer_id n = peer_id (peer p)
     \<and> set (addresses (peer p)) \<subseteq> set (addresses n) \<and> network n = network (peer p)"
proof -
  let ?pid = "peer_id (peer p)" and ?d = "mview view m1"
  have up: "marci_up E view glob cfg" using b by (simp add: marci_broker_def)
  then have svc: "marci_service E view glob cfg" by (simp add: marci_up_def)
  from reachable_returned [OF up r] obtain seen where v: "\<And>k. k \<notin> {peer_country_key ?pid, peer_city_key ?pid,
      peer_region_key ?pid, peer_pos_key ?pid, service_last_update_key} \<Longrightarrow>
      ?d k = reachable_spec (codec E) p (arg_i32 (redis E) 0) (arg_u64 (redis E) seen) (mview view m) k" by blast
  note keys = reachable_spec_keys [OF marci_up.not_string_key(1) [OF up wt] marci_up.not_string_key(2) [OF up wt],
      of "codec E" p "arg_i32 (redis E) 0" "arg_u64 (redis E) seen"]
  have wt1: "well_typed (codec E) cfg nets ?d"
    using marci_service.wrote_well_typed [OF svc marci_service.handle_reachable_wrote [OF svc assms(4)] wt] r by simp
  from marci_broker.handle_tick_publishes [OF b t wt1] obtain ks ns where
    ks: "set ks = {reachable_peer_key pid |pid. ?d (reachable_peer_key pid) \<noteq> None}"
    and req: "list_all2 (request_for (codec E) ?d) (map last_part ks) ns"
    and pub: "sent (world m2) = sent (world m1) @ map (dial_message (codec E)) ns" by blast
  have "?d (reachable_peer_key ?pid) \<noteq> None" using v keys(1) by simp
  with ks have "reachable_peer_key ?pid \<in> set ks" by blast
  then have "?pid \<in> set (map last_part ks)"
    using reachable_fam.last_part_key [OF dot] by (metis image_eqI list.set_map)
  with req obtain n where n: "n \<in> set ns" "request_for (codec E) ?d ?pid n"
    by (metis list_all2_conv_all_nth in_set_conv_nth)
  have "db_members ?d (peer_ip_key ?pid) =
      db_members (reachable_spec (codec E) p (arg_i32 (redis E) 0) (arg_u64 (redis E) seen) (mview view m)) (peer_ip_key ?pid)"
    by (rule members_cong) (simp add: v)
  with keys(2) have "endpoint_text (codec E) ` set (addresses (peer p)) \<subseteq> db_members ?d (peer_ip_key ?pid)" by simp
  then have "set (addresses (peer p)) \<subseteq> stored_endpoints (codec E) ?d ?pid"
    using json_roundtripD(1) [OF rt] by (force simp: stored_endpoints_def endpoint_text_def)
  moreover have "stored_network ?d ?pid = network (peer p)" using v keys(3) by (simp add: stored_network_def)
  ultimately show ?thesis using n pub by (auto simp: request_for_def)
qed

text \<open>A peer whose witnesses were forgotten is not among the requests of the next broadcast.\<close>

definition asks_for :: "json_codec \<Rightarrow> string \<Rightarrow> string \<times> string \<Rightarrow> bool" where
  "asks_for J pid msg = (case node_from_json J (snd msg) of Some n \<Rightarrow> peer_id n = pid | None \<Rightarrow> False)"

lemma not_requested:
  assumes b: "marci_broker E view glob cfg sent" and rt: "json_roundtrip (codec E)"
    and wt: "well_typed (codec E) cfg nets (mview view m)" and dots: "dotless_reachable (mview view m)"
    and none: "mview view m (reachable_peer_key pid) = None"
  shows "\<exists>m' msgs. handle_tick E m = (Inr (), m') \<and> sent (world m') = sent (world m) @ msgs
     \<and> list_all (\<lambda>msg. \<not> asks_for (codec E) pid msg) msgs"
proof -
  have up: "marci_up E view glob cfg" using b by (simp add: marci_broker_def)
  obtain m' where t: "handle_tick E m = (Inr (), m')"
    using marci_up.handle_tick_total [OF up] by (fastforce simp: io_total_def)
  from marci_broker.handle_tick_publishes [OF b t wt] obtain ks ns where
    ks: "set ks = {reachable_peer_key pid |pid. mview view m (reachable_peer_key pid) \<noteq> None}"
    and req: "list_all2 (request_for (codec E) (mview view m)) (map last_part ks) ns"
    and pub: "sent (world m') = sent (world m) @ map (dial_message (codec E)) ns" by blast
  have "\<not> asks_for (codec E) pid (dial_message (codec E) n)" if "n \<in> set ns" for n
  proof -
    from that obtain i where i: "i < length ns" "n = ns ! i" by (auto simp: in_set_conv_nth)
    with list_all2_lengthD [OF req] list_all2_nthD2 [OF req, of i]
    have "ks ! i \<in> set ks" "peer_id n = last_part (ks ! i)" by (simp_all add: request_for_def)
    then obtain k where k: "k \<in> set ks" "peer_id n = last_part k" by blast
    with ks obtain q where q: "k = reachable_peer_key q" "mview view m (reachable_peer_key q) \<noteq> None" by blast
    with dots k(2) have "peer_id n = q"
      using reachable_fam.last_part_key by (simp add: dotless_reachable_def)
    with q(2) none have "peer_id n \<noteq> pid" by auto
    then show ?thesis using json_roundtripD(2) [OF rt] by (simp add: asks_for_def dial_message_def)
  qed
  with t pub show ?thesis by (auto simp: list_all_iff)
qed

section \<open>What marci makes of the dialer's reports\<close>

definition understood :: "json_codec \<Rightarrow> CKBNetworkType \<Rightarrow> effect \<Rightarrow> bool" where
  "understood J n e \<longleftrightarrow>
     (case e of
        SpawnPublish t p \<Rightarrow> pred_option (names_only {n}) (route J \<lparr>topic = t, mqtt_payload = p\<rparr>)
                              \<and> route J \<lparr>topic = t, mqtt_payload = p\<rparr> \<noteq> None
      | Publish t p \<Rightarrow> pred_option (names_only {n}) (route J \<lparr>topic = t, mqtt_payload = p\<rparr>)
                              \<and> route J \<lparr>topic = t, mqtt_payload = p\<rparr> \<noteq> None
      | _ \<Rightarrow> True)"

definition all_understood :: "json_codec \<Rightarrow> CKBNetworkType \<Rightarrow> effect list \<Rightarrow> effect list \<Rightarrow> bool" where
  "all_understood J n es es' \<longleftrightarrow> (list_all (understood J n) es \<longrightarrow> list_all (understood J n) es')"

interpretation reports: io_preorder "all_understood J n" for J n
  by unfold_locales (auto simp: all_understood_def)

lemma emit_understood: "understood J n e \<Longrightarrow> io_obeys (all_understood J n) (emit e)"
  by (simp add: io_obeys_def emit_def all_understood_def)

lemma understood_run:
  "io_obeys (all_understood J n) c \<Longrightarrow> list_all (understood J n) es \<Longrightarrow> list_all (understood J n) (snd (c es))"
  by (simp add: io_obeys_def all_understood_def)

lemma publications_understood:
  assumes "json_roundtrip J"
  shows "understood J n (SpawnPublish ''peer/online'' (json_or_default (peer_to_json J x)))"
    and "network (peer r) = n \<Longrightarrow> understood J n (SpawnPublish ''peer/reachable'' (json_or_default (reachable_to_json J r)))"
    and "understood J n (Publish ''peer/unknown'' (json_or_default (node_to_json J u)))"
    and "understood J n (Disconnect i)" "understood J n (Dial q a)" "understood J n (SendMessage b)"
    and "understood J n (SetServiceNotify i j k)"
  using json_roundtripD [OF assms] by (simp_all add: understood_def route_def names_only_def)

lemma announced_node_understood:
  assumes "json_roundtrip (json D)"
  shows "io_obeys (all_understood (json D) (network_type h)) (announced_node D h ctx sender node)"
proof (cases "announced_meta (net D) (network_type h) (node_addresses node)")
  case (Inl e)
  then show ?thesis
    by (simp add: announced_node_def io_obeys_def io_bind_def io_lift_def io_return_def reports.refl)
next
  case (Inr meta)
  then have "network meta = network_type h"
    using announced_meta_ok by blast
  then have "io_obeys (all_understood (json D) (network_type h)) (io_seq
      [emit (SpawnPublish ''peer/reachable'' (json_or_default (reachable_to_json (json D) (reachable_info_new meta sender)))),
       emit (Disconnect (session_id ctx))])"
    by (auto simp: reachable_info_new_def simp del: io_seq.simps
          intro!: reports.obeys_seq emit_understood publications_understood [OF assms])
  with Inr show ?thesis
    by (simp add: announced_node_def io_bind_def io_lift_def reports.obeys_return del: io_seq.simps)
qed

lemma received_understood:
  assumes "json_roundtrip (json D)"
  shows "io_obeys (all_understood (json D) (network_type h)) (received D h ctx data)"
  unfolding received_def received_discovery_def received_identify_def Let_def
  by (auto split: sum.split DiscoveryPayload.split
        intro!: reports.obeys_intros emit_understood publications_understood [OF assms] announced_node_understood [OF assms])

lemma callbacks_understood:
  assumes "json_roundtrip (json D)"
  shows "io_obeys (all_understood (json D) (network_type h)) (handle_error D h e)"
    and "io_obeys (all_understood (json D) (network_type h)) (init D h pid nr)"
    and "io_obeys (all_understood (json D) (network_type h)) (connected D h ctx)"
    and "io_obeys (all_understood (json D) (network_type h)) (notify D h token)"
  unfolding init_def connected_def connected_discovery_def notify_def dial_bootnodes_def
  by (cases e; auto intro!: reports.obeys_intros emit_understood publications_understood [OF assms])
     (auto intro!: reports.obeys_intros emit_understood publications_understood [OF assms])

end
