(* ===== verification/Sample_Runs.thy ===== *)
theory Sample_Runs
  imports System
begin

text \<open>
  Concrete runs on the reference services: a report that a peer was heard of, a report that it is
  online, and a dial failure of a peer with three witnesses, each evaluated to its final state.
\<close>

definition bare_node :: NodeMetaInfo where
  "bare_node = \<lparr>peer_id = ''Qm1'', addresses = [], network = Mirana\<rparr>"

definition bare_reachable :: ReachableInfo where
  "bare_reachable = \<lparr>peer = bare_node, from = bare_node\<lparr>peer_id := ''Qm2''\<rparr>\<rparr>"

definition bare_peer :: PeerInfo where
  "bare_peer = \<lparr>info = bare_node, version = ''0.111.0'', full = True, is_ex = False\<rparr>"

definition heard_of :: "mem marci" where
  "heard_of = sample_marci\<lparr>world := \<lparr>mem_db =
     [(service_last_update_key, MStr ''0'', None), (peer_seen_key ''Qm1'', MStr ''0'', None),
      (peer_network_key ''Qm1'', MStr (into_str Mirana), None),
      (peer_network_quick_key ''Qm1'' (into_str Mirana), MStr ''0'', None),
      (reachable_peer_key ''Qm1'', MSet [''Qm2''], None)], mem_clock = 0, mem_published = []\<rparr>\<rparr>"

definition now_online :: "mem marci" where
  "now_online = sample_marci\<lparr>world := \<lparr>mem_db =
     [(peer_seen_key ''Qm1'', MStr ''0'', None), (peer_full_key ''Qm1'', MStr ''1'', None),
      (online_peer_key ''Qm1'', MStr ''0.111.0'', Some 5184000),
      (service_last_update_key, MStr ''0'', None), (peer_seen_key ''Qm1'', MStr ''0'', None),
      (peer_network_key ''Qm1'', MStr (into_str Mirana), None),
      (peer_network_quick_key ''Qm1'' (into_str Mirana), MStr ''0'', None),
      (reachable_peer_key ''Qm1'', MSet [''Qm2''], None)], mem_clock = 0, mem_published = []\<rparr>\<rparr>"

definition witnessed :: "mem marci" where
  "witnessed = sample_marci\<lparr>world := \<lparr>mem_db =
     [(reachable_peer_key ''Qm1'', MSet [''Qm2'', ''Qm3'', ''Qm4''], None)], mem_clock = 0, mem_published = []\<rparr>\<rparr>"

definition now_unknown :: "mem marci" where
  "now_unknown = sample_marci\<lparr>world := \<lparr>mem_db =
     [(peer_seen_key ''Qm1'', MStr ''0'', None), (unknown_peer_key ''Qm1'', MStr ''unknown'', Some 1209600)],
     mem_clock = 0, mem_published = []\<rparr>\<rparr>"

section \<open>The runs\<close>

lemma arg_samples: "arg_u64 mem_redis 0 = ''0''" "arg_bool mem_redis True = ''1''" "arg_i32 mem_redis 0 = ''0''"
  by (simp_all add: mem_redis_def show_nat_def show_radix.simps digit_char_def char_of_def bit_0)

lemma ref_calls:
  "r_get_string mem_redis k s =
     (case mem_string k s of Inr (Some v) \<Rightarrow> Inr v | Inr None \<Rightarrow> Inl ''nil'' | Inl e \<Rightarrow> Inl e, s)"
  "r_set mem_redis k v s = (Inr (), mem_put k (MStr v, None) s)"
  "r_set_ex mem_redis k v n s =
     (if n = 0 \<or> redis_max_expiry < unat n then (Inl ''invalid expire time'', s) else (Inr (), mem_put k (MStr v, Some (unat n)) s))"
  "r_del mem_redis k s = (Inr (), mem_remove k s)"
  "r_sadd mem_redis k v s = mem_sadd k v s"
  "r_scard mem_redis k s = (mem_scard k s, s)"
  "sys_now ref_env s = (mem_clock s, s)"
  by (simp_all add: mem_redis_def ref_env_def)

lemmas run_defs = Let_def io_bind_def io_return_def io_await_def io_question_def redis_q_def redis_r_def on_world_def
  now_secs_def store_last_seen_def store_last_update_def ref_calls arg_samples mem_string_def mem_get_def mem_put_def
  mem_remove_def mem_sadd_def mem_scard_def mem_members_def refresh_or_else_def sample_marci_def default_config_def
  redis_max_expiry_def

lemma heard_of_run: "handle_reachable ref_env bare_reachable sample_marci = (Inr (), heard_of)"
  by (simp add: handle_reachable_def update_ip_info_def query_by_reachable_def run_defs bare_reachable_def
        bare_node_def mem_empty_def heard_of_def del: into_str.simps)

lemma now_online_run: "handle_online ref_env default_config bare_peer heard_of = (Inr (), now_online)"
  by (simp add: handle_online_def record_address_def run_defs bare_peer_def bare_node_def heard_of_def
        now_online_def del: into_str.simps)

lemma now_unknown_run: "handle_unknown ref_env default_config bare_node witnessed = (Inr (), now_unknown)"
  by (simp add: handle_unknown_def verify_witnesses_def run_defs bare_node_def witnessed_def now_unknown_def
        del: into_str.simps)

section \<open>The contents they leave\<close>

lemma elapse_zero: "(\<And>k v t. d k = Some (v, Some t) \<Longrightarrow> 0 < t) \<Longrightarrow> elapse 0 d = d"
  by (auto simp: elapse_def fun_eq_iff split: option.splits)

lemma now_online_view:
  "mview mem_view now_online = (\<lambda>k.
     if k = peer_seen_key ''Qm1'' then Some (RString ''0'', None)
     else if k = peer_full_key ''Qm1'' then Some (RString ''1'', None)
     else if k = online_peer_key ''Qm1'' then Some (RString ''0.111.0'', Some 5184000)
     else if k = service_last_update_key then Some (RString ''0'', None)
     else if k = peer_network_key ''Qm1'' then Some (RString (into_str Mirana), None)
     else if k = peer_network_quick_key ''Qm1'' (into_str Mirana) then Some (RString ''0'', None)
     else if k = reachable_peer_key ''Qm1'' then Some (RSet {''Qm2''}, None) else None)"
  by (auto simp: mview_def mem_view_def mem_get_def now_online_def fun_eq_iff)

lemma now_unknown_view:
  "mview mem_view now_unknown = (\<lambda>k.
     if k = peer_seen_key ''Qm1'' then Some (RString ''0'', None)
     else if k = unknown_peer_key ''Qm1'' then Some (RString ''unknown'', Some 1209600) else None)"
  by (auto simp: mview_def mem_view_def mem_get_def now_unknown_def fun_eq_iff)

lemma witnessed_view:
  "mview mem_view witnessed = (\<lambda>k.
     if k = reachable_peer_key ''Qm1'' then Some (RSet {''Qm2'', ''Qm3'', ''Qm4''}, None) else None)"
  by (auto simp: mview_def mem_view_def mem_get_def witnessed_def fun_eq_iff)

lemma seen_zero: "seen_time ref_exposed 0 = Inr 0"
  by (simp add: seen_time_def ref_exposed_def)

lemma runs_readable:
  "readable ref_exposed (mview mem_view now_online)" "readable ref_exposed (mview mem_view now_unknown)"
  unfolding readable_def now_online_view now_unknown_view
  by (auto simp: is_set_key_def text_at_def detail_keys_def seen_zero arg_samples(1) [symmetric]
        intro!: exI [of _ 0] split: if_splits)

lemma runs_elapse:
  "elapse 0 (mview mem_view now_online) = mview mem_view now_online"
  "elapse 0 (mview mem_view now_unknown) = mview mem_view now_unknown"
  by (rule elapse_zero; simp add: now_online_view now_unknown_view split: if_splits)+

lemma now_online_dotless: "dotless (mview mem_view now_online)"
  by (auto simp: dotless_def listed_def now_online_view simp del: into_str.simps split: if_splits)

text \<open>The same about the states of the world, as the query service finds them at once.\<close>

lemma online_world:
  "mem_view (world now_online) = elapse 0 (mview mem_view now_online)"
  "readable ref_exposed (mem_view (world now_online))" "dotless (mem_view (world now_online))"
  using runs_elapse(1) runs_readable(1) now_online_dotless by (simp_all add: mview_def)

lemma unknown_world:
  "mem_view (world now_unknown) = elapse 0 (mview mem_view now_unknown)"
  "readable ref_exposed (mem_view (world now_unknown))"
  using runs_elapse(2) runs_readable(2) by (simp_all add: mview_def)

lemma witnessed_well_typed: "well_typed ref_codec default_config UNIV (mview mem_view witnessed)"
  by (auto simp: well_typed_def witnessed_view entry_ok_def)

text \<open>A dialer over the same codec.\<close>

definition ref_dialer :: dialer_libs where
  "ref_dialer = sample_dialer\<lparr>net := sample_lib\<lparr>parse_multiaddr := (\<lambda>_. Inr [Ip4 0x01020304])\<rparr>, json := ref_codec\<rparr>"

end
