(* ===== verification/Spec2Isabelle.thy ===== *)
theory Spec2Isabelle
  imports Sample_Runs
begin

text \<open>
  \<^bold>\<open>A verification of ckb-discovery.\<close> The repository has three programs that watch the peers of the
  CKB networks, and a crate of shared types.

  \<^item> The \<^emph>\<open>dialer\<close> (\<open>src/\<close>) connects to peers, asks them for their neighbours and reports over MQTT:
    \<open>peer/online\<close> for a peer that identified itself, \<open>peer/reachable\<close> for a peer that it heard of,
    \<open>peer/unknown\<close> for a peer that could not be dialled. It dials the bootnodes and whatever marci
    asks for on \<open>peer/needs_dial\<close>.
  \<^item> \<^emph>\<open>Marci\<close> (\<open>marci/\<close>) receives the reports, keeps the status of every peer in Redis and
    periodically asks for all reachable peers to be dialled.
  \<^item> \<^emph>\<open>Exposed\<close> (\<open>exposed/\<close>) answers HTTP queries from what marci stored.

  \<^bold>\<open>Theories.\<close> \<open>Prelude\<close> has the machine integers, the failures, the result-and-state monad of the
  stateful code and the string functions of the standard library; its locale \<open>io_preorder\<close> carries
  every frame, invariant and growth argument about composed actions.

  \<^item> \<open>Discovery_Types\<close>: \<open>types/src/lib.rs\<close>. \<open>Utf8\<close>: \<open>String::from_utf8_lossy\<close>.
  \<^item> \<open>Network\<close>, \<open>Compress\<close>, \<open>Support_Protocols\<close>, \<open>Discovery_Message\<close>, \<open>Handler\<close>: the files of the
    same names under \<open>src/src/\<close>. A callback of the handler is an action over the list of the effects
    it asked for, so order and panics are visible.
  \<^item> \<open>Mqtt_Stream\<close>, \<open>Dialer\<close>: \<open>src/src/main.rs\<close>, the receive loop with its reconnects (a partial
    function: not returning is \<open>None\<close>) and the reaction to dial requests.
  \<^item> \<open>Redis\<close>: the interface to Redis. The commands are the fields of a record over an unknown state of
    the world, the contents are a map from keys to values with remaining life times, and the locales
    \<open>redis_service\<close> (what an answer says and what a command changes; any command may fail) and
    \<open>redis_up\<close> (commands on keys of the right type and with acceptable life times answer) state the
    documented behaviour.
    \<open>Redis_Reference\<close> interprets them on association lists.
  \<^item> \<open>Marci_Keys\<close>: the key formats. The locales \<open>key_family\<close> and \<open>status_family\<close> are what marci and
    exposed rely on to communicate through keys.
  \<^item> \<open>Marci\<close>: configuration, the cache of IP details and the four arms of the loop of
    \<open>marci/src/main.rs\<close>; \<open>Marci_Machine\<close>: the receiving task with its reconnects, the bounded channels and the
    loop as a step relation whose steps are interleaved in any order, with time passing in between,
    and the start of the loop from the configuration and the timer.
  \<^item> \<open>Exposed\<close>: \<open>exposed/src/model.rs\<close> and the handlers of \<open>exposed/src/main.rs\<close>.

  \<^bold>\<open>What is shown.\<close>

  \<^item> Dialer: frames round-trip, and decoding untrusted frames is safe and bounded (\<open>Compress\<close>);
    addresses round-trip (\<open>Network\<close>); what each callback asks for and exactly when it panics
    (\<open>Handler\<close>); the reconnect loop is live exactly if the broker comes back (\<open>Mqtt_Stream\<close>).
  \<^item> Marci: \<open>Marci_Spec\<close> gives each arm an abstract specification on contents and shows the arms
    refine them; every write is a \<open>peer_step\<close>, from which the discipline of the data base
    (\<open>Marci_Invariant\<close>) and the frames follow for every outcome, failures in the middle included.
    \<open>Marci_Total\<close>: the arms return while the services answer and the timeouts are ones that Redis
    accepts. \<open>Marci_Cache\<close>: the cache. \<open>Marci_Clock\<close>: which time stamps and IP details are recorded.
    \<open>Marci_Broadcast\<close>: what the timer arm publishes. \<open>Marci_Properties\<close> has the properties over all
    reachable states: the invariant, that entries expire, that marci never ends and can always
    drain its channels by handling each report once; and with which environments it starts.
  \<^item> Exposed: \<open>Exposed_Spec\<close> and \<open>Exposed_Run\<close> show that the routes answer exactly what the contents
    say and never write; \<open>Exposed_Properties\<close> has the properties, among them the requests on which
    the service panics or answers wrongly.
  \<^item> This theory, with \<open>System\<close> and the runs of \<open>Sample_Runs\<close>: a report of the dialer is understood by
    marci, leads to a dial and is shown by exposed for as long as its entry lives.

  \<^bold>\<open>Assumptions.\<close> Code outside the repository is a parameter: \<open>net_lib\<close> (multiaddresses, base 58),
  \<open>snappy\<close>, \<open>molecule\<close> (generated accessors), \<open>json_codec\<close> (serde), \<open>redis\<close>, the IP lookup, MQTT
  publication and the clock (\<open>marci_env\<close>), the regular expression and the range of the calendar
  (\<open>exposed_env\<close>). Hypotheses about them are named definitions or locales, each of which is
  instantiated by a concrete function for the witnesses. That Redis answers (\<open>redis_up\<close>) does not
  include life times of zero or beyond \<open>redis_max_expiry\<close>, which it refuses; properties that say an
  arm returns therefore assume \<open>accepted_timeouts\<close>, directly or within \<open>marci_up\<close>. The locale
  \<open>marci_clock\<close> says that the system clock is not set back during an arm. The HTTP server has one
  \<open>service_data\<close> record per worker, so what is said of the cache concerns one worker. An arm of marci and a request of exposed
  run without the expiry of a key in their middle. The statements on listings assume identities
  without dots and pattern characters, as base 58 texts are. No fuel is used: loops are structural
  recursions, and the one loop that may not end is a partial function.

  \<^bold>\<open>Not modelled.\<close> Building and connecting the MQTT, P2P, Redis, ipinfo and HTTP clients and servers,
  logging, and the container files. The rounding of decimal coordinates to doubles is left out: a
  coordinate is its exact decimal value.
\<close>

section \<open>From marci to the query service\<close>

text \<open>
  Property C18. A peer reported as online is in the map: after marci handled the report, and for as
  long as the timeout has not passed, the status route answers that the peer is in the map; if the
  peer had no online entry before, it shows the version that was reported.
\<close>

theorem online_report_in_map:
  assumes "marci_up E view glob cfg" and "exposed_service X view glob"
    and "handle_online E cfg p m = (Inr (), m')"
    and "n < unat (node_default_timeout cfg)" and "view s = elapse n (mview view m')"
    and "readable X (view s)" and "plain_id (peer_id (info p))"
  shows "\<exists>i s'. peer_in_map X (peer_id (info p)) s = (Inr (found_in_map (peer_id (info p)) i), s')
     \<and> (mview view m (online_peer_key (peer_id (info p))) = None \<longrightarrow> peer_version i = version p)"
proof -
  note shown = online_shown [OF assms(1,3,4)]
  from exposed_service.peer_in_map_run [OF assms(2,6,7)] shown(1) obtain i s' where
    "peer_in_map X (peer_id (info p)) s = (Inr (found_in_map (peer_id (info p)) i), s')"
    "shows_peer X (view s) 0 (peer_id (info p)) i"
    by (auto simp: status_answer_def assms(5))
  then show ?thesis using shown(2) by (auto simp: shows_peer_def assms(5))
qed

theorem online_report_in_map_witness:
  "\<exists>i s'. peer_in_map ref_exposed ''Qm1'' (world now_online) = (Inr (found_in_map ''Qm1'' i), s')
     \<and> peer_version i = ''0.111.0''"
proof -
  have "mview mem_view heard_of (online_peer_key ''Qm1'') = None"
    by (simp add: mview_def mem_view_def mem_get_def heard_of_def)
  moreover have "0 < unat (node_default_timeout default_config)" "plain_id (peer_id (info bare_peer))"
    by (simp_all add: default_config_def plain_id_def no_meta_def bare_peer_def bare_node_def)
  ultimately show ?thesis
    using online_report_in_map [OF ref_marci_locales(2) ref_service.exposed_service_axioms now_online_run _ online_world(1,2)]
    by (simp add: bare_peer_def bare_node_def)
qed

text \<open>
  Property C4. A peer that was heard of and then reported as online is on the list: after marci handled
  both reports, and until the timeout has passed, the list of the peer's public network contains an
  entry that shows this peer.
\<close>

theorem reported_peer_listed:
  assumes "marci_up E view glob cfg" and "exposed_service X view glob"
    and "handle_reachable E r m = (Inr (), m1)" and "handle_online E cfg p m1 = (Inr (), m2)"
    and "peer_id (info p) = peer_id (peer r)" and "network (peer r) \<noteq> Dev"
    and "n < unat (node_default_timeout cfg)" and "view s = elapse n (mview view m2)"
    and "readable X (view s)" and "dotless (view s)"
  shows "\<exists>ps s'. get_peers X (network (peer r)) a b s = (Inr ps, s')
     \<and> list_ex (\<lambda>i. shows_peer X (view s) (peer_index i) (peer_id (peer r)) i) ps"
proof -
  let ?pid = "peer_id (peer r)" and ?q = "peer_network_quick_key (peer_id (peer r)) (into_str (network (peer r)))"
  from reachable_returned [OF assms(1,3)] have "mview view m1 ?q = Some (RString (arg_i32 (redis E) 0), None)"
    by (auto simp: reachable_spec_quick)
  moreover from online_returned [OF assms(1,4)] have "mview view m2 ?q = mview view m1 ?q"
    by (auto simp: online_spec_quick)
  ultimately have q: "view s ?q \<noteq> None" by (simp add: assms(8) elapse_persistent)
  from online_shown(1) [OF assms(1,4,7)] have l: "listed (view s) ?pid" by (simp add: assms(5,8))
  from exposed_service.get_peers_run [OF assms(2,9,10,6), of a b] obtain ps s' pids where
    g: "get_peers X (network (peer r)) a b s = (Inr ps, s')"
    and pids: "set pids = {pid. view s (peer_network_quick_key pid (into_str (network (peer r)))) \<noteq> None}"
    and all: "list_all2 (\<lambda>(i, pid) p. shows_peer X (view s) (of_nat i) pid p)
         (filter (\<lambda>(i, pid). listed (view s) pid) (enumerate 0 pids)) ps" by blast
  from q pids have "?pid \<in> set pids" by simp
  from shown_entry [OF all this l] g show ?thesis by blast
qed

theorem reported_peer_listed_witness:
  "\<exists>ps s'. get_peers ref_exposed Mirana 0 0 (world now_online) = (Inr ps, s')
     \<and> list_ex (\<lambda>i. shows_peer ref_exposed (mem_view (world now_online)) (peer_index i) ''Qm1'' i) ps"
proof -
  have "0 < unat (node_default_timeout default_config)" "peer_id (info bare_peer) = peer_id (peer bare_reachable)"
    "network (peer bare_reachable) = Mirana" "peer_id (peer bare_reachable) = ''Qm1''"
    by (simp_all add: default_config_def bare_peer_def bare_reachable_def bare_node_def)
  then show ?thesis
    using reported_peer_listed [OF ref_marci_locales(2) ref_service.exposed_service_axioms heard_of_run now_online_run
        _ _ _ online_world, of 0 0] by simp
qed

text \<open>
  Property C19. A peer that enough witnesses have reported but that could not be dialled is shown as
  unknown and left alone: after marci handled the dial failure, and until the unknown timeout has
  passed without another report about any peer, the status route shows the peer without a version,
  and the next broadcast publishes no request that names it. This assumes that no identity with
  witnesses contains a dot. (A later report that the peer was heard of makes it dialled again.)
\<close>

theorem witnessed_peer_unknown:
  assumes "marci_broker E view glob cfg sent" and "exposed_service X view glob" and "json_roundtrip (codec E)"
    and "well_typed (codec E) cfg nets (mview view m)" and "dotless_reachable (mview view m)"
    and "handle_unknown E cfg p m = (Inr (), m')"
    and "card (db_members (mview view m) (reachable_peer_key (peer_id p))) < 2 ^ 64"
    and "unat (node_default_witnesses cfg) \<le> card (db_members (mview view m) (reachable_peer_key (peer_id p)))"
    and "mview view m (online_peer_key (peer_id p)) = None" and "mview view m (online2_peer_key (peer_id p)) = None"
    and "n < unat (node_unknown_default_timeout cfg)" and "mview view m'' = elapse n (mview view m')"
    and "readable X (view (world m''))" and "plain_id (peer_id p)"
  shows "\<exists>i s' m3 msgs. peer_in_map X (peer_id p) (world m'') = (Inr (found_in_map (peer_id p) i), s')
     \<and> peer_version i = [] \<and> version_short i = ''Unknown''
     \<and> handle_tick E m'' = (Inr (), m3) \<and> sent (world m3) = sent (world m'') @ msgs
     \<and> list_all (\<lambda>msg. \<not> asks_for (codec E) (peer_id p) msg) msgs"
proof -
  have up: "marci_up E view glob cfg" using assms(1) by (simp add: marci_broker_def)
  then have svc: "marci_service E view glob cfg" by (simp add: marci_up_def)
  note shown = unknown_shown [OF up assms(4,6,7,8,9,10,11), folded assms(12)]
  have "well_typed (codec E) cfg nets (mview view m')"
    using marci_service.wrote_well_typed [OF svc marci_service.handle_unknown_wrote [OF svc] assms(4), of p] assms(6)
    by simp
  then have "well_typed (codec E) cfg nets (mview view m'')"
    by (simp add: assms(12) well_typed_elapse)
  from not_requested [OF assms(1,3) this shown(4) [OF assms(5)] shown(3)] obtain m3 msgs where
    "handle_tick E m'' = (Inr (), m3)" "sent (world m3) = sent (world m'') @ msgs"
    "list_all (\<lambda>msg. \<not> asks_for (codec E) (peer_id p) msg) msgs" by blast
  moreover from exposed_service.peer_in_map_run [OF assms(2,13,14)] shown(1) obtain i s' where
    "peer_in_map X (peer_id p) (world m'') = (Inr (found_in_map (peer_id p) i), s')"
    "shows_peer X (view (world m'')) 0 (peer_id p) i"
    by (auto simp: status_answer_def mview_def)
  ultimately show ?thesis using shown(2) by (auto simp: shows_peer_def mview_def)
qed

theorem witnessed_peer_unknown_witness:
  "\<exists>i s' m3 msgs. peer_in_map ref_exposed ''Qm1'' (world now_unknown) = (Inr (found_in_map ''Qm1'' i), s')
     \<and> peer_version i = [] \<and> version_short i = ''Unknown''
     \<and> handle_tick ref_env now_unknown = (Inr (), m3) \<and> mem_published (world m3) = mem_published (world now_unknown) @ msgs
     \<and> list_all (\<lambda>msg. \<not> asks_for ref_codec ''Qm1'' msg) msgs"
proof -
  have "0 < unat (node_unknown_default_timeout default_config)" "plain_id (peer_id bare_node)"
    "unat (node_default_witnesses default_config) = 3" "peer_id bare_node = ''Qm1''"
    by (simp_all add: default_config_def plain_id_def no_meta_def bare_node_def)
  moreover have "card (db_members (mview mem_view witnessed) (reachable_peer_key ''Qm1'')) = 3"
    by (simp add: witnessed_view db_members_def)
  moreover have "well_typed (codec ref_env) default_config UNIV (mview mem_view witnessed)"
    by (simp add: witnessed_well_typed)
  moreover have "mview mem_view witnessed (online_peer_key ''Qm1'') = None"
    "mview mem_view witnessed (online2_peer_key ''Qm1'') = None" by (simp_all add: witnessed_view)
  moreover have "dotless_reachable (mview mem_view witnessed)"
    by (auto simp: dotless_reachable_def witnessed_view split: if_splits)
  moreover have "json_roundtrip (codec ref_env)" by (simp add: ref_codec_roundtrip)
  moreover have "mview mem_view now_unknown = elapse 0 (mview mem_view now_unknown)"
    using unknown_world(1) by (simp add: mview_def)
  ultimately show ?thesis
    using witnessed_peer_unknown [OF ref_marci_locales(1) ref_service.exposed_service_axioms _ _ _ now_unknown_run
        _ _ _ _ _ _ unknown_world(2), of UNIV 0] by fastforce
qed

text \<open>
  Property C32. The health route tells when marci last worked: after marci handled a reachable report or
  a broadcast, and however much time passes without another, the route answers the time stamp that
  this event left, and that is a reading of marci's system clock during the event, as long as the
  clock is not set back meanwhile.
\<close>

theorem health_after_event:
  assumes "marci_answers E view glob" and "marci_clock E clock"
    and "exposed_service X view glob" and "ex_redis X = redis E"
    and "handle_tick E m = (Inr (), m') \<or> handle_reachable E p m = (Inr (), m')"
    and "view s = elapse n (mview view m')"
  shows "\<exists>t s'. stamped clock m m' t
     \<and> mview view m' service_last_update_key = Some (RString (arg_u64 (redis E) t), None)
     \<and> last_update_handler X s = (Inr (OkService t), s')"
proof -
  from marci_watched.service_time_written [OF marci_watched.intro [OF assms(1,2)] assms(5)] obtain t where
    st: "stamped clock m m' t"
    and t: "mview view m' service_last_update_key = Some (RString (arg_u64 (redis E) t), None)" by blast
  then have k: "view s service_last_update_key = Some (RString (arg_u64 (ex_redis X) t), None)"
    by (simp add: assms(4,6) elapse_persistent)
  have up: "redis_up (ex_redis X) view glob" using assms(3) by (simp add: exposed_service_def)
  then have svc: "redis_service (ex_redis X) view glob" by (simp add: redis_up_def)
  obtain x s' where x: "r_get_u64 (ex_redis X) service_last_update_key s = (Inr x, s')"
    using redis_up.up_get_u64 [OF up k] by blast
  with readsD [OF redis_service.get_u64 [OF svc] x] k have "x = t" by auto
  with x st t show ?thesis by (auto simp: last_update_handler_def last_update_def get_q_def io_question_def)
qed

theorem health_after_event_witness:
  "\<exists>t s'. stamped mem_clock sample_marci heard_of t
     \<and> mview mem_view heard_of service_last_update_key = Some (RString (show_nat (unat (t :: u64))), None)
     \<and> last_update_handler ref_exposed (world heard_of) = (Inr (OkService t), s')"
proof -
  have "mem_view (world heard_of) = elapse 0 (mview mem_view heard_of)"
    by (subst elapse_zero) (auto simp: mview_def mem_view_def mem_get_def heard_of_def split: if_splits)
  moreover have "arg_u64 mem_redis t = show_nat (unat t)" for t by (simp add: mem_redis_def)
  ultimately show ?thesis
    using health_after_event [OF ref_marci_locales(4,5) ref_service.exposed_service_axioms, of sample_marci heard_of
        bare_reachable "world heard_of" 0] heard_of_run by simp
qed

section \<open>Between marci and the dialer\<close>

text \<open>
  Property C3. A peer that was heard of is dialled: after marci handled the report, its next broadcast
  publishes a request on which the dialer, without failing, dials every reported endpoint of the
  peer that is not a loopback address and can be written as a multiaddress, on the service of the
  peer's network.
\<close>

theorem reported_peer_dialled:
  assumes "marci_broker E view glob cfg sent" and "json_roundtrip (codec E)" and "json D = codec E"
    and "well_typed (codec E) cfg nets (mview view m)" and "network (peer p) \<in> nets" and "network (peer p) \<noteq> Dev"
    and "CHR ''.'' \<notin> set (peer_id (peer p))"
    and "handle_reachable E p m = (Inr (), m1)" and "handle_tick E m1 = (Inr (), m2)"
    and "e \<in> set (addresses (peer p))" and "\<not> is_loopback (address e)"
    and "parse_multiaddr (net D) (endpoint_multiaddr_string (peer_id (peer p)) e) = Inr a"
  shows "\<exists>msg es'. msg \<in> set (sent (world m2))
     \<and> handle_dialer_message D (as_message msg) es = (Inr (), es')
     \<and> Dial (network (peer p)) a \<in> set es'"
proof -
  from reported_peer_requested [OF assms(1,2,4,5,7,8,9)] obtain n where
    n: "dial_message (codec E) n \<in> set (sent (world m2))" "peer_id n = peer_id (peer p)"
      "set (addresses (peer p)) \<subseteq> set (addresses n)" "network n = network (peer p)" by blast
  have "json_roundtrip (json D)" "network n \<noteq> Dev" using assms(2,3,6) n(4) by simp_all
  from dial_message_handled [OF this, of es] obtain as where
    h: "handle_dialer_message D (as_message (dial_message (json D) n)) es = (Inr (), es @ map (Dial (network n)) as)"
    and all: "\<forall>e \<in> set (addresses n). \<forall>a. \<not> is_loopback (address e) \<longrightarrow>
        parse_multiaddr (net D) (endpoint_multiaddr_string (peer_id n) e) = Inr a \<longrightarrow> a \<in> set as" by blast
  from all n(2,3) assms(10-12) have "a \<in> set as" by auto
  with n(1,4) h assms(3) show ?thesis by (intro exI [of _ "dial_message (codec E) n"]) auto
qed

theorem reported_peer_dialled_witness:
  "\<exists>m1 m2 msg es'. handle_reachable ref_env sample_reachable sample_marci = (Inr (), m1)
     \<and> handle_tick ref_env m1 = (Inr (), m2) \<and> msg \<in> set (mem_published (world m2))
     \<and> handle_dialer_message ref_dialer (as_message msg) [] = (Inr (), es')
     \<and> Dial Mirana [Ip4 0x01020304] \<in> set es'"
proof -
  let ?e = "\<lparr>address = V4 0x08080808, port = 8115\<rparr> :: EndpointInfo"
  have wt: "well_typed (codec ref_env) default_config UNIV (mview mem_view sample_marci)"
    by (simp add: sample_marci_view well_typed_empty)
  obtain m1 where m1: "handle_reachable ref_env sample_reachable sample_marci = (Inr (), m1)"
    using ref_marci.handle_reachable_returns [OF wt] by blast
  obtain m2 where m2: "handle_tick ref_env m1 = (Inr (), m2)"
    using ref_marci.handle_tick_total by (fastforce simp: io_total_def)
  have p: "network (peer sample_reachable) = Mirana" "peer_id (peer sample_reachable) = ''Qm1''"
    "addresses (peer sample_reachable) = [?e]"
    by (simp_all add: sample_reachable_def sample_reported_def)
  have "json ref_dialer = codec ref_env" "parse_multiaddr (net ref_dialer) x = Inr [Ip4 0x01020304]" for x
    by (simp_all add: ref_dialer_def)
  moreover have "\<not> is_loopback (address ?e)" by simp
  ultimately show ?thesis
    using reported_peer_dialled [OF ref_marci_locales(1) _ _ wt _ _ _ m1 m2, of ref_dialer ?e "[Ip4 0x01020304]" "[]"]
      ref_codec_roundtrip m1 m2 by (fastforce simp: p)
qed

text \<open>
  Property C16. While only the two public networks are reported, nothing marci ever broadcasts can bring
  the dialer to \<open>unreachable!\<close>: in every state marci can reach, the dialer handles each message of
  the next broadcast without failing.
\<close>

theorem broadcast_never_panics_dialer:
  assumes "marci_broker E view glob cfg sent" and "json_roundtrip (codec E)" and "json D = codec E"
    and "well_typed (codec E) cfg {Mirana, Pudge} (view w)"
    and "(marci_step E view cfg {Mirana, Pudge})\<^sup>*\<^sup>* (initial_machine w) M"
    and "handle_tick E (core M) = (Inr (), m')"
  shows "\<exists>msgs. sent (world m') = sent (world (core M)) @ msgs
     \<and> list_all (\<lambda>msg. fst (handle_dialer_message D (as_message msg) es) = Inr ()) msgs"
proof -
  have up: "marci_up E view glob cfg" using assms(1) by (simp add: marci_broker_def)
  then have svc: "marci_service E view glob cfg" by (simp add: marci_up_def)
  have wt: "well_typed (codec E) cfg {Mirana, Pudge} (mview view (core M))"
    using marci_service.reachable_machine_ok [OF svc assms(4,5)] by (simp add: machine_ok_def)
  from marci_broker.handle_tick_publishes [OF assms(1,6) wt] obtain ks ns where
    r: "list_all2 (request_for (codec E) (mview view (core M))) (map last_part ks) ns"
    and pub: "sent (world m') = sent (world (core M)) @ map (dial_message (codec E)) ns" by blast
  have "network n \<in> {Mirana, Pudge}" if "n \<in> set ns" for n
  proof -
    from r that obtain pid where "request_for (codec E) (mview view (core M)) pid n"
      by (auto simp: list_all2_conv_all_nth in_set_conv_nth)
    with stored_network_nets [OF wt, of pid] show ?thesis by (simp add: request_for_def)
  qed
  then have "fst (handle_dialer_message D (as_message (dial_message (codec E) n)) es) = Inr ()" if "n \<in> set ns" for n
    using dial_message_handled [of D n es] that assms(2,3) by fastforce
  with pub show ?thesis by (auto simp: list_all_iff)
qed

theorem broadcast_never_panics_dialer_witness:
  "\<exists>m' msgs. handle_tick ref_env (core sample_machine) = (Inr (), m')
     \<and> mem_published (world m') = mem_published (world (core sample_machine)) @ msgs
     \<and> list_all (\<lambda>msg. fst (handle_dialer_message ref_dialer (as_message msg) []) = Inr ()) msgs"
proof -
  obtain m' where m': "handle_tick ref_env (core sample_machine) = (Inr (), m')"
    using ref_marci.handle_tick_total by (fastforce simp: io_total_def)
  have "json_roundtrip (codec ref_env)" "json ref_dialer = codec ref_env"
    "well_typed (codec ref_env) default_config {Mirana, Pudge} (mem_view mem_empty)"
    by (simp_all add: ref_codec_roundtrip ref_dialer_def sample_well_typed)
  from broadcast_never_panics_dialer [OF ref_marci_locales(1) this sample_run m', of "[]"] m' show ?thesis by blast
qed

text \<open>
  Property C17. Marci understands every report of the dialer: whatever the callbacks of a handler publish,
  also when they panic half-way, is routed by marci to one of its channels, and reachable reports
  name the handler's own network.
\<close>

theorem dialer_reports_understood:
  assumes "json_roundtrip (json D)" and "list_all (understood (json D) (network_type h)) es"
  shows "list_all (understood (json D) (network_type h)) (snd (received D h ctx data es))
     \<and> list_all (understood (json D) (network_type h)) (snd (handle_error D h err es))
     \<and> list_all (understood (json D) (network_type h)) (snd (init D h pid nr es))
     \<and> list_all (understood (json D) (network_type h)) (snd (connected D h ctx es))
     \<and> list_all (understood (json D) (network_type h)) (snd (notify D h token es))"
  by (intro conjI understood_run [OF _ assms(2)] received_understood callbacks_understood assms(1))

theorem dialer_reports_understood_witness:
  "list_all (understood ref_codec Pudge) (snd (handle_error ref_dialer (handler_new Pudge) (DialerError [Ip4 0x01020304]) []))"
proof -
  have j: "json ref_dialer = ref_codec" and n: "network_type (handler_new Pudge) = Pudge"
    by (simp_all add: ref_dialer_def handler_new_def)
  have "json_roundtrip (json ref_dialer)" "list_all (understood (json ref_dialer) (network_type (handler_new Pudge))) []"
    by (simp_all add: j ref_codec_roundtrip)
  from dialer_reports_understood [OF this, unfolded j n] show ?thesis by blast
qed

end
